(* ===== verification/RSP_Prelude.thy ===== *)
theory RSP_Prelude
  imports Complex_Main "HOL-Library.Word" "HOL-Library.Char_ord" "HOL-Library.List_Lexorder"
    "HOL-Library.Product_Lexorder" "HOL-Library.Sublist"
begin

unbundle bit_operations_syntax

text \<open>
  Shared vocabulary of the development: the types that stand for \<^verbatim>\<open>std::string\<close>,
  the fixed-width integers and the C++ exceptions, sequencing of fallible computations, the
  byte and big-endian word codecs that several components of the repository write out
  separately, and the list lemmas the component proofs share.

  A \<^verbatim>\<open>std::string\<close> is a \<^typ>\<open>string\<close>: a \<^typ>\<open>char\<close> of HOL has exactly 256 values, so the
  same type carries text and raw bytes, as it does in the source.
\<close>

section \<open>Types\<close>

type_synonym bytes = string
type_synonym u8 = "8 word"
type_synonym u16 = "16 word"
type_synonym u32 = "32 word"
type_synonym u64 = "64 word"

text \<open>
  The exception classes the sources throw, each with its \<^verbatim>\<open>what()\<close> text. Two more outcomes end
  a computation and are caught by no \<^verbatim>\<open>catch\<close> clause: \<^verbatim>\<open>Abort\<close>, a library check that terminates
  the process, and \<^verbatim>\<open>Undefined\<close>, a step the C++ standard gives no meaning.
\<close>

datatype exn =
    Runtime_error string
  | Invalid_argument string
  | Logic_error string
  | Out_of_range string
  | Abort string
  | Undefined string

type_synonym 'a result = "exn + 'a"

named_theorems codec_simps \<open>equations of the byte codecs\<close>
named_theorems result_simps \<open>equations for sequencing fallible computations\<close>

section \<open>Fallible computations\<close>

definition res_bind :: "'e + 'a \<Rightarrow> ('a \<Rightarrow> 'e + 'b) \<Rightarrow> 'e + 'b" where
  "res_bind m f = (case m of Inl e \<Rightarrow> Inl e | Inr x \<Rightarrow> f x)"

lemma res_bind_Inl [simp, result_simps]: "res_bind (Inl e) f = Inl e"
  by (simp add: res_bind_def)

lemma res_bind_Inr [simp, result_simps]: "res_bind (Inr x) f = f x"
  by (simp add: res_bind_def)

lemma res_bind_cong [fundef_cong]:
  "m = n \<Longrightarrow> (\<And>x. n = Inr x \<Longrightarrow> f x = g x) \<Longrightarrow> res_bind m f = res_bind n g"
  by (cases n) auto

lemma res_bind_eq_Inr:
  "res_bind m f = Inr y \<longleftrightarrow> (\<exists>x. m = Inr x \<and> f x = Inr y)"
  by (cases m) auto

lemma res_bind_eq_Inl:
  "res_bind m f = Inl e \<longleftrightarrow> m = Inl e \<or> (\<exists>x. m = Inr x \<and> f x = Inl e)"
  by (cases m) auto

lemma res_bind_assoc: "res_bind (res_bind m f) g = res_bind m (\<lambda>x. res_bind (f x) g)"
  by (cases m) auto

lemma res_bind_split:
  "P (res_bind m f) \<longleftrightarrow> (\<forall>e. m = Inl e \<longrightarrow> P (Inl e)) \<and> (\<forall>x. m = Inr x \<longrightarrow> P (f x))"
  by (cases m) auto

lemma res_bind_split_asm:
  "P (res_bind m f) \<longleftrightarrow> \<not> ((\<exists>e. m = Inl e \<and> \<not> P (Inl e)) \<or> (\<exists>x. m = Inr x \<and> \<not> P (f x)))"
  by (cases m) auto

lemmas res_bind_splits = res_bind_split res_bind_split_asm

definition require :: "bool \<Rightarrow> exn \<Rightarrow> unit result" where
  "require b e = (if b then Inr () else Inl e)"

lemma require_eq_Inr [simp]: "require b e = Inr u \<longleftrightarrow> b"
  by (simp add: require_def)

lemma require_True [simp]: "require True e = Inr ()"
  by (simp add: require_def)

lemma require_False [simp]: "require False e = Inl e"
  by (simp add: require_def)

text \<open>
  A \<^verbatim>\<open>catch (const std::runtime_error&)\<close> clause, and one for \<^verbatim>\<open>std::exception\<close>.
\<close>

definition catch_runtime_error :: "'a result \<Rightarrow> 'a result \<Rightarrow> 'a result" where
  "catch_runtime_error m h = (case m of Inl (Runtime_error s) \<Rightarrow> h | _ \<Rightarrow> m)"

definition uncatchable :: "exn \<Rightarrow> bool" where
  "uncatchable e = (case e of Abort s \<Rightarrow> True | Undefined s \<Rightarrow> True | _ \<Rightarrow> False)"

definition catch_exception :: "'a result \<Rightarrow> 'a result \<Rightarrow> 'a result" where
  "catch_exception m h = (case m of Inl e \<Rightarrow> if uncatchable e then m else h | Inr x \<Rightarrow> m)"

lemma catch_Inr [simp]:
  "catch_runtime_error (Inr x) h = Inr x" "catch_exception (Inr x) h = Inr x"
  by (simp_all add: catch_runtime_error_def catch_exception_def)

lemma catch_runtime_error_simps [simp]:
  "catch_runtime_error (Inl (Runtime_error s)) h = h"
  "catch_runtime_error (Inl (Abort s)) h = Inl (Abort s)"
  "catch_runtime_error (Inl (Undefined s)) h = Inl (Undefined s)"
  by (simp_all add: catch_runtime_error_def)

lemma catch_runtime_error_cases:
  "catch_runtime_error m h = Inr x \<Longrightarrow> (\<And>s. m = Inl (Runtime_error s) \<Longrightarrow> h = Inr x \<Longrightarrow> P) \<Longrightarrow>
   (m = Inr x \<Longrightarrow> P) \<Longrightarrow> P"
  by (auto simp: catch_runtime_error_def split: sum.splits exn.splits)

section \<open>Callbacks\<close>

definition what :: "exn \<Rightarrow> string" where
  "what e = (case e of
     Runtime_error s \<Rightarrow> s | Invalid_argument s \<Rightarrow> s | Logic_error s \<Rightarrow> s | Out_of_range s \<Rightarrow> s
   | Abort s \<Rightarrow> s | Undefined s \<Rightarrow> s)"

text \<open>
  A handler that reports through \<^verbatim>\<open>std::function\<close> members: the calls it makes, in order, and the
  exception that leaves it, if any. What a callback throws is given by a function of the call.
  \<^verbatim>\<open>catch_calls\<close> is a \<^verbatim>\<open>try\<close> block around such calls with a clause for \<^verbatim>\<open>std::exception\<close>; the clause
  is told whether a call was made, since that call has moved the handler's message out.
\<close>

type_synonym 'c calls = "'c list \<times> exn option"

definition call :: "('c \<Rightarrow> exn option) \<Rightarrow> 'c \<Rightarrow> 'c calls" where
  "call cb c = ([c], cb c)"

definition throw :: "exn \<Rightarrow> 'c calls" where
  "throw e = ([], Some e)"

definition catch_calls :: "'c calls \<Rightarrow> (bool \<Rightarrow> exn \<Rightarrow> 'c calls) \<Rightarrow> 'c calls" where
  "catch_calls m h =
     (case m of
        (cs, None) \<Rightarrow> (cs, None)
      | (cs, Some e) \<Rightarrow>
          if uncatchable e then (cs, Some e)
          else (case h (cs \<noteq> []) e of (ds, e') \<Rightarrow> (cs @ ds, e')))"

lemma catch_calls_simps [simp]:
  "catch_calls (cs, None) h = (cs, None)"
  "uncatchable e \<Longrightarrow> catch_calls (cs, Some e) h = (cs, Some e)"
  "\<not> uncatchable e \<Longrightarrow> catch_calls (cs, Some e) h = (cs @ fst (h (cs \<noteq> []) e), snd (h (cs \<noteq> []) e))"
  by (simp_all add: catch_calls_def split: prod.splits)

lemma catch_calls_no_throw: "snd m = None \<Longrightarrow> catch_calls m h = m"
  by (cases m) simp

section \<open>Decimal numerals\<close>

text \<open>\<^verbatim>\<open>std::to_string\<close> of an unsigned and of a signed number.\<close>

fun dec_of_nat :: "nat \<Rightarrow> string" where
  "dec_of_nat n = (if n < 10 then [char_of (48 + n)] else dec_of_nat (n div 10) @ [char_of (48 + n mod 10)])"

declare dec_of_nat.simps [simp del]

definition dec_of_int :: "int \<Rightarrow> string" where
  "dec_of_int i = (if i < 0 then CHR ''-'' # dec_of_nat (nat (- i)) else dec_of_nat (nat i))"

section \<open>Short-circuit connectives on fallible booleans\<close>

text \<open>
  \<^verbatim>\<open>a && b\<close>, \<^verbatim>\<open>a || b\<close> and \<^verbatim>\<open>a == b\<close> on operands that may throw, and the loops that return at the
  first false (true) element.
\<close>

definition res_and :: "bool result \<Rightarrow> bool result \<Rightarrow> bool result" where
  "res_and a b = res_bind a (\<lambda>x. if x then b else Inr False)"

definition res_or :: "bool result \<Rightarrow> bool result \<Rightarrow> bool result" where
  "res_or a b = res_bind a (\<lambda>x. if x then Inr True else b)"

definition res_eq :: "bool result \<Rightarrow> bool result \<Rightarrow> bool result" where
  "res_eq a b = res_bind a (\<lambda>x. res_bind b (\<lambda>y. Inr (x = y)))"

primrec res_all :: "('a \<Rightarrow> bool result) \<Rightarrow> 'a list \<Rightarrow> bool result" where
  "res_all f [] = Inr True"
| "res_all f (x # xs) = res_and (f x) (res_all f xs)"

primrec res_any :: "('a \<Rightarrow> bool result) \<Rightarrow> 'a list \<Rightarrow> bool result" where
  "res_any f [] = Inr False"
| "res_any f (x # xs) = res_or (f x) (res_any f xs)"

lemma res_all_cong [fundef_cong]:
  "xs = ys \<Longrightarrow> (\<And>x. x \<in> set ys \<Longrightarrow> f x = g x) \<Longrightarrow> res_all f xs = res_all g ys"
  by (induction ys arbitrary: xs) auto

lemma res_any_cong [fundef_cong]:
  "xs = ys \<Longrightarrow> (\<And>x. x \<in> set ys \<Longrightarrow> f x = g x) \<Longrightarrow> res_any f xs = res_any g ys"
  by (induction ys arbitrary: xs) auto

lemma res_conn_simps [simp, result_simps]:
  "res_and (Inr True) b = b" "res_and (Inr False) b = Inr False" "res_and (Inl e) b = Inl e"
  "res_or (Inr True) b = Inr True" "res_or (Inr False) b = b" "res_or (Inl e) b = Inl e"
  "res_eq (Inr x) (Inr y) = Inr (x = y)" "res_eq (Inl e) c = Inl e" "res_eq (Inr x) (Inl e) = Inl e"
  by (simp_all add: res_and_def res_or_def res_eq_def)

lemma res_and_eq_True: "res_and a b = Inr True \<longleftrightarrow> a = Inr True \<and> b = Inr True"
  by (auto simp: res_and_def res_bind_eq_Inr)

lemma res_or_eq_False: "res_or a b = Inr False \<longleftrightarrow> a = Inr False \<and> b = Inr False"
  by (auto simp: res_or_def res_bind_eq_Inr)

lemma res_all_eq_True: "res_all f xs = Inr True \<longleftrightarrow> (\<forall>x \<in> set xs. f x = Inr True)"
  by (induction xs) (auto simp: res_and_eq_True)

lemma res_all_map [simp]: "res_all f (map g xs) = res_all (\<lambda>x. f (g x)) xs"
  by (induction xs) simp_all

lemma res_any_map [simp]: "res_any f (map g xs) = res_any (\<lambda>x. f (g x)) xs"
  by (induction xs) simp_all

lemma res_any_eq_False: "res_any f xs = Inr False \<longleftrightarrow> (\<forall>x \<in> set xs. f x = Inr False)"
  by (induction xs) (auto simp: res_or_eq_False)

lemma res_and_Inr [simp]: "res_and (Inr x) (Inr y) = Inr (x \<and> y)"
  by (cases x) auto

lemma res_or_Inr [simp]: "res_or (Inr x) (Inr y) = Inr (x \<or> y)"
  by (cases x) auto

lemma res_all_Inr: "(\<And>x. x \<in> set xs \<Longrightarrow> f x = Inr (g x)) \<Longrightarrow> res_all f xs = Inr (list_all g xs)"
  by (induction xs) auto

lemma res_any_Inr: "(\<And>x. x \<in> set xs \<Longrightarrow> f x = Inr (g x)) \<Longrightarrow> res_any f xs = Inr (list_ex g xs)"
  by (induction xs) auto

section \<open>Bytes and big-endian words\<close>

lemma unat_bound: "unat (w :: 'a::len word) < 2 ^ LENGTH('a)"
  by (rule unsigned_less)

lemma unat_drop_bit: "unat (drop_bit n w) = unat (w :: 'a::len word) div 2 ^ n"
  unfolding unsigned_drop_bit_eq
  by (simp add: drop_bit_eq_div take_bit_nat_eq_self unat_bound)

text \<open>
  \<^verbatim>\<open>static_cast<char>(value & 0xFF)\<close> and the widening of an unsigned byte.
\<close>

definition byte_of :: "'a::len word \<Rightarrow> char" where
  "byte_of w = char_of (unat w)"

definition byte_val :: "char \<Rightarrow> 'a::len word" where
  "byte_val c = of_nat (of_char c)"

lemma byte_val_byte_of [codec_simps]: "byte_val (byte_of w) = take_bit 8 (w :: 'a::len word)"
proof -
  have "byte_val (byte_of w) = (of_nat (take_bit 8 (unat w)) :: 'a word)"
    by (simp add: byte_val_def byte_of_def take_bit_eq_mod)
  also have "\<dots> = take_bit 8 w"
    by (simp flip: unsigned_take_bit_eq)
  finally show ?thesis .
qed

lemma unat_byte_val:
  "8 \<le> LENGTH('a) \<Longrightarrow> unat (byte_val c :: 'a::len word) = of_char c"
proof -
  assume "8 \<le> LENGTH('a)"
  then have "(2::nat) ^ 8 \<le> 2 ^ LENGTH('a)"
    by (rule power_increasing) simp
  then have "(of_char c :: nat) < 2 ^ LENGTH('a)"
    using nat_of_char_less_256 [of c] by (simp del: nat_of_char_less_256)
  then show ?thesis
    by (simp add: byte_val_def unat_of_nat take_bit_nat_eq_self)
qed

lemma byte_of_byte_val [codec_simps]:
  "8 \<le> LENGTH('a) \<Longrightarrow> byte_of (byte_val c :: 'a::len word) = c"
  by (simp add: byte_of_def unat_byte_val)

lemma byte_of_eqI: "take_bit 8 w = take_bit 8 v \<Longrightarrow> byte_of w = byte_of (v :: 'a::len word)"
proof -
  assume "take_bit 8 w = take_bit 8 v"
  then have "take_bit 8 (unat w) = take_bit 8 (unat v)"
    by (metis unsigned_take_bit_eq)
  then show ?thesis
    by (simp add: byte_of_def char_of_eq_iff take_bit_eq_mod)
qed

lemma take_bit_8_byte_val [simp]: "take_bit 8 (byte_val c :: 'a::len word) = byte_val c"
proof -
  have "take_bit 8 (byte_val c :: 'a word) = of_nat (take_bit 8 (of_char c))"
    by (simp only: byte_val_def take_bit_of_nat)
  then show ?thesis
    by (simp add: byte_val_def take_bit_eq_mod)
qed

lemma bit_byte_val_ge8 [simp]: "8 \<le> n \<Longrightarrow> \<not> bit (byte_val c :: 'a::len word) n"
  by (metis bit_take_bit_iff linorder_not_less take_bit_8_byte_val)

text \<open>
  The network byte order used by every hand-written codec of the repository, most significant
  byte first, for any number of bytes and any word width.
\<close>

fun be_enc :: "nat \<Rightarrow> 'a::len word \<Rightarrow> bytes" where
  "be_enc 0 w = []"
| "be_enc (Suc k) w = be_enc k (drop_bit 8 w) @ [byte_of w]"

definition be_step :: "'a::len word \<Rightarrow> char \<Rightarrow> 'a word" where
  "be_step acc c = push_bit 8 acc OR byte_val c"

definition be_dec :: "bytes \<Rightarrow> 'a::len word" where
  "be_dec bs = foldl be_step 0 bs"

lemma length_be_enc [simp]: "length (be_enc k w) = k"
  by (induction k arbitrary: w) auto

lemma be_dec_Nil [simp]: "be_dec [] = 0"
  by (simp add: be_dec_def)

lemma be_dec_snoc [simp]: "be_dec (bs @ [c]) = be_step (be_dec bs) c"
  by (simp add: be_dec_def)

lemma be_step_byte_of:
  "be_step (take_bit (8 * k) (drop_bit 8 w)) (byte_of w) = take_bit (8 * Suc k) (w :: 'a::len word)"
  by (rule bit_word_eqI) (auto simp: be_step_def byte_val_byte_of bit_simps)

lemma be_dec_be_enc: "be_dec (be_enc k w) = take_bit (8 * k) (w :: 'a::len word)"
proof (induction k arbitrary: w)
  case 0
  then show ?case by simp
next
  case (Suc k)
  then show ?case
    by (simp only: be_enc.simps be_dec_snoc be_step_byte_of)
qed

lemma be_dec_bound:
  assumes "8 * length bs \<le> n"
  shows "take_bit n (be_dec bs :: 'a::len word) = be_dec bs"
  using assms
proof (induction bs arbitrary: n rule: rev_induct)
  case Nil
  then show ?case by simp
next
  case (snoc c bs)
  have IH: "take_bit (8 * length bs) (be_dec bs :: 'a word) = be_dec bs"
    by (rule snoc.IH) simp
  have "bit (be_dec bs :: 'a word) k \<Longrightarrow> k < 8 * length bs" for k
    by (metis IH bit_take_bit_iff)
  then show ?case
    using snoc.prems
    by (intro bit_word_eqI) (fastforce simp: be_step_def bit_simps not_less)
qed

lemma drop_be_step:
  assumes "take_bit (LENGTH('a) - 8) acc = acc"
  shows "drop_bit 8 (be_step acc c :: 'a::len word) = acc"
proof (rule bit_word_eqI)
  fix n
  assume n: "n < LENGTH('a)"
  have "bit acc n \<Longrightarrow> n < LENGTH('a) - 8"
    by (metis assms bit_take_bit_iff)
  then show "bit (drop_bit 8 (be_step acc c)) n = bit acc n"
    by (auto simp: be_step_def bit_simps)
qed

lemma byte_of_be_step: "8 \<le> LENGTH('a) \<Longrightarrow> byte_of (be_step acc c :: 'a::len word) = c"
proof -
  assume "8 \<le> LENGTH('a)"
  moreover have "take_bit 8 (be_step acc c :: 'a word) = take_bit 8 (byte_val c)"
    by (rule bit_word_eqI) (auto simp: be_step_def bit_simps)
  ultimately show ?thesis
    using byte_of_eqI byte_of_byte_val by metis
qed

lemma be_enc_be_dec:
  assumes "8 * length bs \<le> LENGTH('a::len)"
  shows "be_enc (length bs) (be_dec bs :: 'a word) = bs"
  using assms
proof (induction bs rule: rev_induct)
  case Nil
  then show ?case by simp
next
  case (snoc c bs)
  have d: "drop_bit 8 (be_step (be_dec bs) c :: 'a word) = be_dec bs"
    using snoc.prems by (intro drop_be_step be_dec_bound) simp
  have b: "byte_of (be_step (be_dec bs) c :: 'a word) = c"
    using snoc.prems by (intro byte_of_be_step) simp
  have "be_enc (length bs) (be_dec bs :: 'a word) = bs"
    using snoc.prems by (intro snoc.IH) simp
  with d b show ?case by simp
qed

text \<open>The four-byte form with its shifts written out, as the sources have it.\<close>

definition uint32_bytes :: "u32 \<Rightarrow> bytes" where
  "uint32_bytes value =
     [byte_of (drop_bit 24 value AND 0xFF), byte_of (drop_bit 16 value AND 0xFF),
      byte_of (drop_bit 8 value AND 0xFF), byte_of (value AND 0xFF)]"

definition uint64_bytes :: "u64 \<Rightarrow> bytes" where
  "uint64_bytes value = map (\<lambda>shift. byte_of (drop_bit shift value AND 0xFF)) [56, 48, 40, 32, 24, 16, 8, 0]"

lemma byte_of_and_FF [simp]: "byte_of (w AND 0xFF) = byte_of (w :: 'a::len word)"
proof (rule byte_of_eqI)
  have "(0xFF :: 'a word) = mask 8"
    by (simp add: mask_eq_exp_minus_1)
  then show "take_bit 8 (w AND 0xFF) = take_bit 8 w"
    by (simp add: take_bit_eq_mask ac_simps)
qed

lemma uint32_bytes_be_enc: "uint32_bytes w = be_enc 4 w"
  by (simp add: uint32_bytes_def numeral_eq_Suc)

lemma uint64_bytes_be_enc: "uint64_bytes w = be_enc 8 w"
  by (simp add: uint64_bytes_def numeral_eq_Suc)

section \<open>The fixed-width codec interface\<close>

text \<open>
  What the callers of a fixed-width binary codec rely on: every value takes the same number of
  bytes, and encoding and decoding are inverse to each other. Fields laid out back to back can
  then be split again without ambiguity.
\<close>

locale fixed_codec =
  fixes enc :: "'a \<Rightarrow> bytes"
    and dec :: "bytes \<Rightarrow> 'a"
    and width :: nat
  assumes enc_length: "length (enc x) = width"
    and dec_enc: "dec (enc x) = x"
    and enc_dec: "length bs = width \<Longrightarrow> enc (dec bs) = bs"
begin

lemma enc_inj: "enc x = enc y \<longleftrightarrow> x = y"
  by (metis dec_enc)

lemma enc_split: "enc x @ r = enc y @ s \<longleftrightarrow> x = y \<and> r = s"
  by (auto simp: enc_inj append_eq_append_conv enc_length)

lemma dec_take: "dec (take width (enc x @ r)) = x"
  by (simp add: enc_length dec_enc)

lemma drop_enc: "drop width (enc x @ r) = r"
  by (simp add: enc_length)

lemma dec_inj: "length bs = width \<Longrightarrow> length cs = width \<Longrightarrow> dec bs = dec cs \<Longrightarrow> bs = cs"
  by (metis enc_dec)

end

interpretation u32_codec: fixed_codec uint32_bytes "be_dec :: bytes \<Rightarrow> u32" 4
proof
  show "length (uint32_bytes x) = 4" for x
    by (simp add: uint32_bytes_be_enc)
  show "be_dec (uint32_bytes x) = x" for x
    by (simp add: uint32_bytes_be_enc be_dec_be_enc take_bit_word_eq_self)
  show "uint32_bytes (be_dec bs) = bs" if "length bs = 4" for bs
    using that be_enc_be_dec [where 'a = 32, of bs] by (simp add: uint32_bytes_be_enc)
qed

interpretation u64_codec: fixed_codec uint64_bytes "be_dec :: bytes \<Rightarrow> u64" 8
proof
  show "length (uint64_bytes x) = 8" for x
    by (simp add: uint64_bytes_be_enc)
  show "be_dec (uint64_bytes x) = x" for x
    by (simp add: uint64_bytes_be_enc be_dec_be_enc take_bit_word_eq_self)
  show "uint64_bytes (be_dec bs) = bs" if "length bs = 8" for bs
    using that be_enc_be_dec [where 'a = 64, of bs] by (simp add: uint64_bytes_be_enc)
qed

lemmas codec_lengths [simp] = u32_codec.enc_length u64_codec.enc_length

section \<open>Native byte order\<close>

text \<open>
  \<^verbatim>\<open>std::memcpy\<close> between a 64-bit integer and a byte buffer. The order of the bytes is the
  machine's; the development fixes the little-endian layout of the supported x86-64 and
  AArch64 targets.
\<close>

definition native_u64_bytes :: "u64 \<Rightarrow> bytes" where
  "native_u64_bytes w = rev (be_enc 8 w)"

definition native_u64_of :: "bytes \<Rightarrow> u64" where
  "native_u64_of bs = be_dec (rev bs)"

interpretation native_u64: fixed_codec native_u64_bytes native_u64_of 8
proof
  show "length (native_u64_bytes x) = 8" for x
    by (simp add: native_u64_bytes_def)
  show "native_u64_of (native_u64_bytes x) = x" for x
    by (simp add: native_u64_bytes_def native_u64_of_def be_dec_be_enc take_bit_word_eq_self)
  show "native_u64_bytes (native_u64_of bs) = bs" if "length bs = 8" for bs
    using that be_enc_be_dec [where 'a = 64, of "rev bs"]
    by (simp add: native_u64_bytes_def native_u64_of_def)
qed

lemmas native_length [simp] = native_u64.enc_length

end
