(* ===== verification/Std_Map.thy ===== *)
theory Std_Map
  imports RSP_Prelude
begin

text \<open>
  \<^verbatim>\<open>std::map\<close> as the components use it. A range-for over a \<^verbatim>\<open>std::map\<close> visits the keys in
  ascending order, and several components depend on that order (query replies, log delivery,
  expiry sweeps), so a map is the list of its entries in strictly ascending key order.
  The locale \<open>map_interface\<close> states what the clients rely on; the operations below
  interpret it.
\<close>

section \<open>The interface\<close>

locale map_interface =
  fixes lookup :: "'m \<Rightarrow> 'k \<Rightarrow> 'v option"
    and update :: "'k \<Rightarrow> 'v \<Rightarrow> 'm \<Rightarrow> 'm"
    and delete :: "'k \<Rightarrow> 'm \<Rightarrow> 'm"
    and count :: "'m \<Rightarrow> nat"
    and invar :: "'m \<Rightarrow> bool"
  assumes lookup_update: "invar m \<Longrightarrow> lookup (update k v m) = (lookup m)(k \<mapsto> v)"
    and lookup_delete: "invar m \<Longrightarrow> lookup (delete k m) = (lookup m)(k := None)"
    and finite_dom: "finite (dom (lookup m))"
    and count_card: "invar m \<Longrightarrow> count m = card (dom (lookup m))"
    and invar_update: "invar m \<Longrightarrow> invar (update k v m)"
    and invar_delete: "invar m \<Longrightarrow> invar (delete k m)"
begin

lemma count_update:
  "invar m \<Longrightarrow> count (update k v m) = (if lookup m k = None then Suc (count m) else count m)"
  using finite_dom [of m]
  by (simp add: count_card invar_update lookup_update card_insert_if domIff)

lemma count_delete:
  "invar m \<Longrightarrow> count (delete k m) = (if lookup m k = None then count m else count m - 1)"
  using finite_dom [of m]
  by (simp add: count_card invar_delete lookup_delete card_Diff_singleton_if domIff)

lemma count_delete_le: "invar m \<Longrightarrow> count (delete k m) \<le> count m"
  by (simp add: count_delete)

lemma count_pos: "invar m \<Longrightarrow> lookup m k = Some v \<Longrightarrow> 0 < count m"
  using finite_dom [of m] by (auto simp: count_card card_gt_0_iff)

lemma update_within_limit:
  "invar m \<Longrightarrow> count m < n \<Longrightarrow> count (update k v m) \<le> n"
  by (simp add: count_update)

end

section \<open>Entries in key order\<close>

type_synonym ('k, 'v) std_map = "('k \<times> 'v) list"

definition smap_ok :: "('k::linorder, 'v) std_map \<Rightarrow> bool" where
  "smap_ok m \<longleftrightarrow> sorted_wrt (<) (map fst m)"

definition smap_find :: "('k, 'v) std_map \<Rightarrow> 'k \<Rightarrow> 'v option" where
  "smap_find m k = map_of m k"

fun smap_set :: "'k::linorder \<Rightarrow> 'v \<Rightarrow> ('k, 'v) std_map \<Rightarrow> ('k, 'v) std_map" where
  "smap_set k v [] = [(k, v)]"
| "smap_set k v ((k', v') # m) =
     (if k < k' then (k, v) # (k', v') # m
      else if k = k' then (k, v) # m
      else (k', v') # smap_set k v m)"

definition smap_erase :: "'k \<Rightarrow> ('k, 'v) std_map \<Rightarrow> ('k, 'v) std_map" where
  "smap_erase k m = filter (\<lambda>e. fst e \<noteq> k) m"

text \<open>The erase-while-iterating loops: keep the entries for which the test fails.\<close>

definition smap_erase_if :: "('k \<Rightarrow> 'v \<Rightarrow> bool) \<Rightarrow> ('k, 'v) std_map \<Rightarrow> ('k, 'v) std_map" where
  "smap_erase_if P m = filter (\<lambda>e. \<not> P (fst e) (snd e)) m"

definition smap_size :: "('k, 'v) std_map \<Rightarrow> nat" where
  "smap_size m = length m"

lemma smap_ok_Nil [simp]: "smap_ok []"
  by (simp add: smap_ok_def)

lemma smap_ok_distinct: "smap_ok m \<Longrightarrow> distinct (map fst m)"
  by (simp add: smap_ok_def strict_sorted_iff)

lemma smap_find_Nil [simp]: "smap_find [] = (\<lambda>_. None)"
  by (simp add: smap_find_def fun_eq_iff)

lemma smap_find_set: "smap_find (smap_set k v m) = (smap_find m)(k \<mapsto> v)"
  by (induction m) (auto simp: smap_find_def fun_eq_iff)

lemma smap_find_set_same [simp]: "smap_find (smap_set k v m) k = Some v"
  by (simp add: smap_find_set)

lemma smap_find_set_other [simp]: "k' \<noteq> k \<Longrightarrow> smap_find (smap_set k v m) k' = smap_find m k'"
  by (simp add: smap_find_set)

lemma smap_find_erase: "smap_find (smap_erase k m) = (smap_find m)(k := None)"
  by (induction m) (auto simp: smap_find_def smap_erase_def fun_eq_iff)

lemma smap_find_erase_if:
  assumes "smap_ok m"
  shows "smap_find (smap_erase_if P m) k =
    (case smap_find m k of None \<Rightarrow> None | Some v \<Rightarrow> if P k v then None else Some v)"
  using smap_ok_distinct [OF assms]
proof (induction m)
  case Nil
  then show ?case by (simp add: smap_find_def smap_erase_if_def)
next
  case (Cons e m)
  obtain k' v' where e: "e = (k', v')" by (cases e)
  have "map_of (filter (\<lambda>e. \<not> P (fst e) (snd e)) m) k' = None"
    using Cons.prems e by (auto simp: map_of_eq_None_iff)
  with Cons e show ?case
    by (auto simp: smap_find_def smap_erase_if_def split: option.splits)
qed

lemma smap_keys: "fst ` set m = dom (smap_find m)"
  by (simp add: smap_find_def [abs_def] dom_map_of_conv_image_fst)

lemma set_keys_smap_set: "fst ` set (smap_set k v m) = insert k (fst ` set m)"
  by (simp add: smap_keys smap_find_set)

lemma set_smap_set_subset: "set (smap_set k v m) \<subseteq> insert (k, v) (set m)"
proof (induction m)
  case (Cons e m)
  then show ?case by (cases e) auto
qed simp

lemma smap_ok_set [simp]: "smap_ok m \<Longrightarrow> smap_ok (smap_set k v m)"
proof (induction m)
  case Nil
  then show ?case by (simp add: smap_ok_def)
next
  case (Cons e m)
  obtain k' v' where e: "e = (k', v')" by (cases e)
  have IH: "sorted_wrt (<) (map fst (smap_set k v m))"
    using Cons by (simp add: smap_ok_def)
  have low: "\<forall>x\<in>fst ` set m. k' < x"
    using Cons.prems e by (auto simp: smap_ok_def)
  show ?case
    using Cons.prems e IH low
    by (auto simp: smap_ok_def set_keys_smap_set [of k v m] dest: less_trans)
qed

lemma smap_ok_erase [simp]: "smap_ok m \<Longrightarrow> smap_ok (smap_erase k m)"
  by (induction m) (auto simp: smap_ok_def smap_erase_def)

lemma smap_ok_erase_if [simp]: "smap_ok m \<Longrightarrow> smap_ok (smap_erase_if P m)"
  by (induction m) (auto simp: smap_ok_def smap_erase_if_def)

lemma smap_find_in_set: "smap_find m k = Some v \<Longrightarrow> (k, v) \<in> set m"
  by (simp add: smap_find_def map_of_SomeD)

lemma smap_in_set_find: "smap_ok m \<Longrightarrow> (k, v) \<in> set m \<Longrightarrow> smap_find m k = Some v"
  by (simp add: smap_find_def smap_ok_distinct)

lemma smap_set_iff: "smap_ok m \<Longrightarrow> (k, v) \<in> set m \<longleftrightarrow> smap_find m k = Some v"
  by (auto intro: smap_find_in_set smap_in_set_find)

lemma smap_erase_absent: "k \<notin> fst ` set p \<Longrightarrow> smap_erase k p = p"
  by (force simp: smap_erase_def intro: filter_True)

lemma smap_set_same: "smap_ok p \<Longrightarrow> smap_find p k = Some v \<Longrightarrow> smap_set k v p = p"
  by (induction p) (auto simp: smap_find_def smap_ok_def dest!: map_of_SomeD split: if_splits)

lemma smap_erase_set: "smap_erase k (smap_set k v p) = smap_erase k p"
  by (induction p) (auto simp: smap_erase_def)

lemma smap_find_None_iff: "smap_find m k = None \<longleftrightarrow> k \<notin> fst ` set m"
  by (simp add: smap_find_def map_of_eq_None_iff)

lemma smap_size_erase_if: "smap_size (smap_erase_if P m) \<le> smap_size m"
  by (simp add: smap_size_def smap_erase_if_def)

interpretation smap: map_interface smap_find smap_set smap_erase smap_size smap_ok
proof
  show "finite (dom (smap_find m))" for m :: "('a \<times> 'b) list"
    by (simp add: smap_find_def [abs_def] finite_dom_map_of)
  show "smap_size m = card (dom (smap_find m))" if "smap_ok m" for m :: "('a \<times> 'b) list"
  proof -
    have "dom (smap_find m) = set (map fst m)"
      by (simp add: smap_keys)
    then show ?thesis
      using distinct_card [OF smap_ok_distinct [OF that]] by (simp add: smap_size_def)
  qed
qed (simp_all add: smap_find_set smap_find_erase)

end
