(* ===== verification/Base_Types.thy ===== *)
theory Base_Types
  imports Std_Map
begin

text \<open>
  \<^verbatim>\<open>src/common/base_types.cpp\<close>: the byte buffer, the 128-bit identifiers and their text form,
  and points in time.
\<close>

section \<open>Buffer\<close>

text \<open>
  A \<^verbatim>\<open>std::unique_ptr<uint8_t[]>\<close> that may be null, and the recorded size. Pointers passed
  to the constructor are \<^const>\<open>None\<close> for \<^verbatim>\<open>nullptr\<close>.
\<close>

record Buffer =
  buf_bytes :: "bytes option"
  buf_size :: u32

definition Buffer_default :: Buffer where
  "Buffer_default = \<lparr>buf_bytes = None, buf_size = 0\<rparr>"

definition Buffer_sized :: "u32 \<Rightarrow> Buffer" where
  "Buffer_sized n =
     \<lparr>buf_bytes = (if n = 0 then None else Some (replicate (unat n) (CHR 0x00))), buf_size = n\<rparr>"

definition Buffer_from :: "bytes option \<Rightarrow> u32 \<Rightarrow> Buffer" where
  "Buffer_from data n =
     (case data of
        None \<Rightarrow> Buffer_sized n
      | Some d \<Rightarrow>
          if buf_size (Buffer_sized n) \<noteq> 0
          then (Buffer_sized n)\<lparr>buf_bytes := Some (take (unat n) d)\<rparr>
          else Buffer_sized n)"

definition Buffer_copy :: "Buffer \<Rightarrow> Buffer" where
  "Buffer_copy other = Buffer_from (buf_bytes other) (buf_size other)"

text \<open>
  The defaulted move constructor and move assignment move each member: the pointer of the
  source becomes null and its size, a plain integer, keeps its value. The result is the new
  buffer and what is left in the source.
\<close>

definition Buffer_move :: "Buffer \<Rightarrow> Buffer \<times> Buffer" where
  "Buffer_move other = (other, other\<lparr>buf_bytes := None\<rparr>)"

definition Buffer_assign :: "Buffer \<Rightarrow> Buffer" where
  "Buffer_assign other = fst (Buffer_move (Buffer_copy other))"

definition Buffer_data :: "Buffer \<Rightarrow> bytes option" where
  "Buffer_data b = buf_bytes b"

definition Buffer_size :: "Buffer \<Rightarrow> u32" where
  "Buffer_size b = buf_size b"

definition Buffer_empty :: "Buffer \<Rightarrow> bool" where
  "Buffer_empty b \<longleftrightarrow> buf_size b = 0"

definition Buffer_resize :: "u32 \<Rightarrow> Buffer \<Rightarrow> Buffer" where
  "Buffer_resize n b =
     (if n = buf_size b then b
      else
        let resized = (if n = 0 then None else Some (replicate (unat n) (CHR 0x00)));
            bytesToCopy = (if n < buf_size b then n else buf_size b);
            filled = (case (resized, buf_bytes b) of
                        (Some r, Some old) \<Rightarrow>
                          if bytesToCopy \<noteq> 0
                          then Some (take (unat bytesToCopy) old @ drop (unat bytesToCopy) r)
                          else Some r
                      | _ \<Rightarrow> resized)
        in \<lparr>buf_bytes = filled, buf_size = n\<rparr>)"

text \<open>The class invariant: the pointer is null exactly for size 0 and owns that many bytes.\<close>

definition Buffer_wf :: "Buffer \<Rightarrow> bool" where
  "Buffer_wf b \<longleftrightarrow>
     (case buf_bytes b of None \<Rightarrow> buf_size b = 0 | Some d \<Rightarrow> buf_size b \<noteq> 0 \<and> length d = unat (buf_size b))"

definition Buffer_contents :: "Buffer \<Rightarrow> bytes" where
  "Buffer_contents b = (case buf_bytes b of None \<Rightarrow> [] | Some d \<Rightarrow> d)"

lemmas Buffer_defs = Buffer_default_def Buffer_sized_def Buffer_from_def Buffer_copy_def
  Buffer_move_def Buffer_assign_def Buffer_resize_def

lemma Buffer_wf_default: "Buffer_wf Buffer_default"
  by (simp add: Buffer_wf_def Buffer_defs)

lemma Buffer_wf_sized: "Buffer_wf (Buffer_sized n)"
  by (simp add: Buffer_wf_def Buffer_defs)

lemma Buffer_wf_from:
  "(case data of None \<Rightarrow> True | Some d \<Rightarrow> unat n \<le> length d) \<Longrightarrow> Buffer_wf (Buffer_from data n)"
  by (auto simp: Buffer_wf_def Buffer_defs split: option.splits)

lemma Buffer_wf_length: "Buffer_wf b \<Longrightarrow> length (Buffer_contents b) = unat (buf_size b)"
  by (auto simp: Buffer_wf_def Buffer_contents_def split: option.splits)

lemma Buffer_copy_id: "Buffer_wf b \<Longrightarrow> Buffer_copy b = b"
  by (cases b) (auto simp: Buffer_wf_def Buffer_defs split: option.splits)

lemma Buffer_wf_resize: "Buffer_wf b \<Longrightarrow> Buffer_wf (Buffer_resize n b)"
  by (auto simp: Buffer_wf_def Buffer_defs Let_def word_less_nat_alt min_def split: option.splits)

lemma Buffer_size_resize: "buf_size (Buffer_resize n b) = n"
  by (simp add: Buffer_defs Let_def)

lemma Buffer_contents_resize:
  "Buffer_wf b \<Longrightarrow>
     Buffer_contents (Buffer_resize n b) =
       take (unat n) (Buffer_contents b @ replicate (unat n - unat (buf_size b)) (CHR 0x00))"
  by (auto simp: Buffer_wf_def Buffer_defs Buffer_contents_def Let_def word_less_nat_alt
      not_less unat_eq_zero split: option.splits)

section \<open>GUID and NodeID\<close>

text \<open>
  \<^verbatim>\<open>NodeID\<close> derives from \<^verbatim>\<open>GUID\<close> without adding members; both are this type. The default
  constructor draws 16 random bytes, which are an argument here.
\<close>

datatype guid = GUID (high: u64) (low: u64)

type_synonym nodeid = guid

definition GUID_random :: "bytes \<Rightarrow> guid" where
  "GUID_random randomBytes =
     GUID (native_u64_of (take 8 randomBytes)) (native_u64_of (take 8 (drop 8 randomBytes)))"

definition isHexCharacter :: "char \<Rightarrow> bool" where
  "isHexCharacter value \<longleftrightarrow>
     (CHR ''0'' \<le> value \<and> value \<le> CHR ''9'') \<or>
     (CHR ''a'' \<le> value \<and> value \<le> CHR ''f'') \<or>
     (CHR ''A'' \<le> value \<and> value \<le> CHR ''F'')"

text \<open>The digit value shared by every hexadecimal reader of the repository.\<close>

definition hexDigitValue :: "char \<Rightarrow> nat option" where
  "hexDigitValue c =
     (if CHR ''0'' \<le> c \<and> c \<le> CHR ''9'' then Some (of_char c - of_char (CHR ''0''))
      else if CHR ''a'' \<le> c \<and> c \<le> CHR ''f'' then Some (of_char c - of_char (CHR ''a'') + 10)
      else if CHR ''A'' \<le> c \<and> c \<le> CHR ''F'' then Some (of_char c - of_char (CHR ''A'') + 10)
      else None)"

fun parseHex64_loop :: "u64 \<Rightarrow> string \<Rightarrow> u64 result" where
  "parseHex64_loop val [] = Inr val"
| "parseHex64_loop val (current # rest) =
     (case hexDigitValue current of
        Some d \<Rightarrow> parseHex64_loop (push_bit 4 val OR of_nat d) rest
      | None \<Rightarrow> Inl (Invalid_argument ''GUID contains a non-hex character''))"

definition parseHex64 :: "string \<Rightarrow> u64 result" where
  "parseHex64 txt = parseHex64_loop 0 txt"

fun GUID_normalize_loop :: "string \<Rightarrow> string \<Rightarrow> string result" where
  "GUID_normalize_loop acc [] = Inr acc"
| "GUID_normalize_loop acc (current # rest) =
     (if current = CHR ''{'' \<or> current = CHR ''}'' \<or> current = CHR ''-'' then GUID_normalize_loop acc rest
      else if \<not> isHexCharacter current
        then Inl (Invalid_argument ''GUID contains an invalid character'')
      else GUID_normalize_loop (acc @ [current]) rest)"

definition GUID_normalize :: "string \<Rightarrow> string result" where
  "GUID_normalize guidString =
     res_bind (GUID_normalize_loop [] guidString) (\<lambda>acc.
       if length acc \<noteq> 32
       then Inl (Invalid_argument ''GUID must contain exactly 32 hex digits'')
       else Inr acc)"

definition GUID_parse :: "string \<Rightarrow> guid result" where
  "GUID_parse guidString =
     res_bind (GUID_normalize guidString) (\<lambda>normalized.
     res_bind (parseHex64 (take 16 normalized)) (\<lambda>h.
     res_bind (parseHex64 (take 16 (drop 16 normalized))) (\<lambda>l.
     Inr (GUID h l))))"

text \<open>\<^verbatim>\<open>std::hex\<close> output, then \<^verbatim>\<open>std::setw\<close> with fill character \<^verbatim>\<open>'0'\<close>.\<close>

definition hexDigit :: "nat \<Rightarrow> char" where
  "hexDigit n = ''0123456789abcdef'' ! n"

fun hex_min :: "nat \<Rightarrow> string" where
  "hex_min n = (if n < 16 then [hexDigit n] else hex_min (n div 16) @ [hexDigit (n mod 16)])"

definition setw_zero :: "nat \<Rightarrow> string \<Rightarrow> string" where
  "setw_zero w s = replicate (w - length s) (CHR ''0'') @ s"

definition GUID_toString :: "guid \<Rightarrow> string" where
  "GUID_toString g =
     setw_zero 8 (hex_min (unat (ucast (drop_bit 32 (high g)) :: u32))) @ ''-'' @
     setw_zero 4 (hex_min (unat (ucast (drop_bit 16 (high g) AND 0xffff) :: u16))) @ ''-'' @
     setw_zero 4 (hex_min (unat (ucast (high g AND 0xffff) :: u16))) @ ''-'' @
     setw_zero 4 (hex_min (unat (ucast (drop_bit 48 (low g)) :: u16))) @ ''-'' @
     setw_zero 12 (hex_min (unat (low g AND 0x0000FFFFFFFFFFFF)))"

definition GUID_less :: "guid \<Rightarrow> guid \<Rightarrow> bool" where
  "GUID_less a b = (if high a \<noteq> high b then high a < high b else low a < low b)"

definition GUID_eq :: "guid \<Rightarrow> guid \<Rightarrow> bool" where
  "GUID_eq a b \<longleftrightarrow> high a = high b \<and> low a = low b"

definition GUID_neq :: "guid \<Rightarrow> guid \<Rightarrow> bool" where
  "GUID_neq a b \<longleftrightarrow> \<not> GUID_eq a b"

lemma GUID_eq_iff [simp]: "GUID_eq a b \<longleftrightarrow> a = b"
  by (cases a; cases b) (simp add: GUID_eq_def)

text \<open>
  The C++ ordering makes identifiers usable as \<^verbatim>\<open>std::map\<close> keys: it is a strict total order,
  which is what the instantiation below discharges.
\<close>

instantiation guid :: linorder
begin

definition less_guid :: "guid \<Rightarrow> guid \<Rightarrow> bool" where
  "less_guid a b \<longleftrightarrow> GUID_less a b"

definition less_eq_guid :: "guid \<Rightarrow> guid \<Rightarrow> bool" where
  "less_eq_guid a b \<longleftrightarrow> GUID_less a b \<or> a = b"

instance
proof
  fix x y z :: guid
  show "(x < y) = (x \<le> y \<and> \<not> y \<le> x)"
    by (cases x; cases y) (auto simp: less_guid_def less_eq_guid_def GUID_less_def)
  show "x \<le> x"
    by (simp add: less_eq_guid_def)
  show "x \<le> y \<Longrightarrow> y \<le> z \<Longrightarrow> x \<le> z"
    by (cases x; cases y; cases z) (auto simp: less_eq_guid_def GUID_less_def split: if_splits)
  show "x \<le> y \<Longrightarrow> y \<le> x \<Longrightarrow> x = y"
    by (cases x; cases y) (auto simp: less_eq_guid_def GUID_less_def split: if_splits)
  show "x \<le> y \<or> y \<le> x"
    by (cases x; cases y) (auto simp: less_eq_guid_def GUID_less_def)
qed

end

subsection \<open>Hexadecimal digits\<close>

fun hex_fix :: "nat \<Rightarrow> nat \<Rightarrow> string" where
  "hex_fix 0 n = []"
| "hex_fix (Suc k) n = hex_fix k (n div 16) @ [hexDigit (n mod 16)]"

declare hex_min.simps [simp del]

lemma less_16_cases:
  "(d::nat) < 16 \<Longrightarrow> d \<in> {0, 1, 2, 3, 4, 5, 6, 7, 8, 9, 10, 11, 12, 13, 14, 15}"
  by (simp, presburger)

lemma hexDigitValue_hexDigit: "d < 16 \<Longrightarrow> hexDigitValue (hexDigit d) = Some d"
  by (drule less_16_cases, elim insertE) (simp_all add: hexDigit_def hexDigitValue_def)

lemma hexDigit_hex: "d < 16 \<Longrightarrow> isHexCharacter (hexDigit d)"
  by (drule less_16_cases, elim insertE) (simp_all add: hexDigit_def isHexCharacter_def)

lemma isHexCharacter_value: "isHexCharacter c \<longleftrightarrow> hexDigitValue c \<noteq> None"
  by (simp add: isHexCharacter_def hexDigitValue_def)

lemma length_hex_fix [simp]: "length (hex_fix k n) = k"
  by (induction k arbitrary: n) auto

lemma hex_fix_hex: "c \<in> set (hex_fix k n) \<Longrightarrow> isHexCharacter c"
  by (induction k arbitrary: n) (auto simp: hexDigit_hex)

lemma hex_fix_add: "hex_fix (a + b) n = hex_fix a (n div 16 ^ b) @ hex_fix b (n mod 16 ^ b)"
proof (induction b arbitrary: n)
  case 0
  then show ?case by simp
next
  case (Suc b)
  have "n div 16 div 16 ^ b = n div 16 ^ Suc b"
    by (simp add: div_mult2_eq)
  moreover have "n mod 16 ^ Suc b div 16 = n div 16 mod 16 ^ b"
    by (simp add: mod_mult2_eq)
  moreover have "n mod 16 ^ Suc b mod 16 = n mod 16"
    by (simp add: mod_mod_cancel)
  ultimately show ?case
    using Suc [of "n div 16"] by simp
qed

lemma hex_fix_zero: "hex_fix k 0 = replicate k (CHR ''0'')"
proof (induction k)
  case (Suc k)
  then show ?case
    by (simp add: hexDigit_def replicate_append_same)
qed simp

lemma length_hex_min: "n < 16 ^ k \<Longrightarrow> 0 < k \<Longrightarrow> length (hex_min n) \<le> k"
proof (induction k arbitrary: n)
  case (Suc k)
  show ?case
  proof (cases "n < 16")
    case True
    then show ?thesis by (simp add: hex_min.simps [of n])
  next
    case False
    then have "0 < k" using Suc.prems by (cases k) auto
    moreover have "n div 16 < 16 ^ k"
      using Suc.prems by (simp add: less_mult_imp_div_less mult.commute)
    ultimately have "length (hex_min (n div 16)) \<le> k"
      by (intro Suc.IH) auto
    with False show ?thesis by (simp add: hex_min.simps [of n])
  qed
qed simp

lemma setw_hex_min: "n < 16 ^ k \<Longrightarrow> 0 < k \<Longrightarrow> setw_zero k (hex_min n) = hex_fix k n"
proof (induction k arbitrary: n)
  case (Suc k)
  show ?case
  proof (cases "n < 16")
    case True
    then show ?thesis
      by (simp add: hex_min.simps [of n] setw_zero_def hex_fix_zero)
  next
    case False
    then have k: "0 < k" using Suc.prems by (cases k) auto
    have lt: "n div 16 < 16 ^ k"
      using Suc.prems by (simp add: less_mult_imp_div_less mult.commute)
    have "setw_zero k (hex_min (n div 16)) = hex_fix k (n div 16)"
      using lt k by (rule Suc.IH)
    with False show ?thesis
      by (simp add: hex_min.simps [of n] setw_zero_def)
  qed
qed simp

lemma push_or_digit: "d < 16 \<Longrightarrow> push_bit 4 acc OR (of_nat d :: u64) = acc * 16 + of_nat d"
proof -
  assume d: "d < 16"
  have "take_bit 4 (of_nat d :: u64) = of_nat d"
    using d by (simp add: take_bit_of_nat take_bit_nat_eq_self)
  then have "\<not> bit (of_nat d :: u64) n" if "4 \<le> n" for n
    using that by (metis bit_take_bit_iff not_less)
  then have "push_bit 4 acc AND (of_nat d :: u64) = 0"
    by (intro bit_word_eqI) (auto simp: bit_simps)
  then have "push_bit 4 acc + (of_nat d :: u64) = push_bit 4 acc OR of_nat d"
    by (rule disjunctive_add_eq_or)
  then show ?thesis
    by (simp add: push_bit_eq_mult)
qed

lemma parseHex64_loop_hex_fix:
  "n < 16 ^ k \<Longrightarrow>
     parseHex64_loop acc (hex_fix k n @ rest) = parseHex64_loop (acc * 16 ^ k + of_nat n) rest"
proof (induction k arbitrary: n rest)
  case (Suc k)
  have lt: "n div 16 < 16 ^ k"
    using Suc.prems by (simp add: less_mult_imp_div_less mult.commute)
  let ?a = "acc * 16 ^ k + of_nat (n div 16) :: u64"
  have "(of_nat n :: u64) = of_nat (n div 16 * 16 + n mod 16)"
    by simp
  then have split: "(of_nat n :: u64) = of_nat (n div 16) * 16 + of_nat (n mod 16)"
    by (simp only: of_nat_add of_nat_mult of_nat_numeral)
  have "parseHex64_loop acc (hex_fix (Suc k) n @ rest) =
      parseHex64_loop ?a (hexDigit (n mod 16) # rest)"
    using Suc.IH [OF lt, of "hexDigit (n mod 16) # rest"] by simp
  also have "\<dots> = parseHex64_loop (?a * 16 + of_nat (n mod 16)) rest"
    by (simp add: hexDigitValue_hexDigit push_or_digit)
  also have "?a * 16 + of_nat (n mod 16) = acc * 16 ^ Suc k + of_nat n"
    by (simp add: split algebra_simps)
  finally show ?case .
qed simp

lemma parseHex64_hex_fix: "parseHex64 (hex_fix 16 (unat w)) = Inr w"
proof -
  have "unat w < 16 ^ 16"
    using unat_bound [of w] by simp
  from parseHex64_loop_hex_fix [OF this, of 0 "[]"] show ?thesis
    by (simp add: parseHex64_def)
qed

lemma parseHex64_total:
  "list_all isHexCharacter s \<Longrightarrow> \<exists>v. parseHex64_loop acc s = Inr v"
  by (induction s arbitrary: acc) (auto simp: isHexCharacter_value)

subsection \<open>Normalisation\<close>

definition guid_separator :: "char \<Rightarrow> bool" where
  "guid_separator c \<longleftrightarrow> c = CHR ''{'' \<or> c = CHR ''}'' \<or> c = CHR ''-''"

lemma GUID_normalize_loop_eq:
  "GUID_normalize_loop acc s =
     (if list_all (\<lambda>c. guid_separator c \<or> isHexCharacter c) s
      then Inr (acc @ filter (\<lambda>c. \<not> guid_separator c) s)
      else Inl (Invalid_argument ''GUID contains an invalid character''))"
  by (induction s arbitrary: acc) (auto simp: guid_separator_def)

lemma guid_separator_dash [simp]: "guid_separator (CHR ''-'')"
  by (simp add: guid_separator_def)

lemma separator_not_hex: "isHexCharacter c \<Longrightarrow> \<not> guid_separator c"
  by (auto simp: guid_separator_def isHexCharacter_def)

lemma filter_hex_fix: "filter (\<lambda>c. \<not> guid_separator c) (hex_fix k n) = hex_fix k n"
  by (simp add: filter_id_conv separator_not_hex hex_fix_hex)

lemma list_all_hex_fix: "list_all isHexCharacter (hex_fix k n)"
  by (simp add: list_all_iff hex_fix_hex)

lemma list_all_sep_hex_fix: "list_all (\<lambda>c. guid_separator c \<or> isHexCharacter c) (hex_fix k n)"
  by (simp add: list_all_iff hex_fix_hex)

subsection \<open>The printed groups\<close>

lemma unat_ucast_drop32: "unat (ucast (drop_bit 32 (w::u64)) :: u32) = unat w div 2 ^ 32"
proof -
  have "unat w div 2 ^ 32 < 2 ^ 32"
    using unat_bound [of w] by (simp add: less_mult_imp_div_less)
  then show ?thesis
    by (simp add: unsigned_ucast_eq unat_drop_bit take_bit_nat_eq_self)
qed

lemma unat_ucast_drop48: "unat (ucast (drop_bit 48 (w::u64)) :: u16) = unat w div 2 ^ 48"
proof -
  have "unat w div 2 ^ 48 < 2 ^ 16"
    using unat_bound [of w] by (simp add: less_mult_imp_div_less)
  then show ?thesis
    by (simp add: unsigned_ucast_eq unat_drop_bit take_bit_nat_eq_self)
qed

lemma and_mask16: "w AND 0xffff = take_bit 16 (w::u64)"
  by (simp add: take_bit_eq_mask mask_eq_exp_minus_1)

lemma and_mask48: "w AND 0x0000FFFFFFFFFFFF = take_bit 48 (w::u64)"
  by (simp add: take_bit_eq_mask mask_eq_exp_minus_1)

lemma unat_ucast_mask16: "unat (ucast (w AND 0xffff) :: u16) = unat (w::u64) mod 2 ^ 16"
  unfolding and_mask16 unsigned_ucast_eq unsigned_take_bit_eq by (simp add: take_bit_eq_mod)

lemma unat_mask48: "unat (w AND 0x0000FFFFFFFFFFFF) = unat (w::u64) mod 2 ^ 48"
  unfolding and_mask48 unsigned_take_bit_eq by (simp add: take_bit_eq_mod)

lemma GUID_toString_groups:
  "GUID_toString (GUID h l) =
     hex_fix 8 (unat h div 2 ^ 32) @ ''-'' @ hex_fix 4 (unat h div 2 ^ 16 mod 2 ^ 16) @ ''-'' @
     hex_fix 4 (unat h mod 2 ^ 16) @ ''-'' @ hex_fix 4 (unat l div 2 ^ 48) @ ''-'' @
     hex_fix 12 (unat l mod 2 ^ 48)"
proof -
  have "unat h div 2 ^ 32 < 16 ^ 8" "unat l div 2 ^ 48 < 16 ^ 4"
    using unat_bound [of h] unat_bound [of l] by (simp_all add: less_mult_imp_div_less)
  moreover have "unat (drop_bit 16 h) = unat h div 2 ^ 16"
    by (rule unat_drop_bit)
  ultimately show ?thesis
    unfolding GUID_toString_def guid.sel unat_ucast_drop32 unat_ucast_drop48 unat_ucast_mask16
      unat_mask48
    by (simp add: setw_hex_min)
qed

lemma hex_fix_high: "hex_fix 8 (n div 2 ^ 32) @ hex_fix 4 (n div 2 ^ 16 mod 2 ^ 16) @
    hex_fix 4 (n mod 2 ^ 16) = hex_fix 16 n"
proof -
  have "hex_fix 16 n = hex_fix 12 (n div 16 ^ 4) @ hex_fix 4 (n mod 16 ^ 4)"
    using hex_fix_add [of 12 4 n] by simp
  also have "hex_fix 12 (n div 16 ^ 4) =
      hex_fix 8 (n div 16 ^ 4 div 16 ^ 4) @ hex_fix 4 (n div 16 ^ 4 mod 16 ^ 4)"
    using hex_fix_add [of 8 4 "n div 16 ^ 4"] by simp
  finally show ?thesis
    by (simp add: div_mult2_eq [symmetric])
qed

lemma hex_fix_low: "hex_fix 4 (n div 2 ^ 48) @ hex_fix 12 (n mod 2 ^ 48) = hex_fix 16 n"
  using hex_fix_add [of 4 12 n] by simp

lemma GUID_normalize_toString:
  "GUID_normalize (GUID_toString (GUID h l)) = Inr (hex_fix 16 (unat h) @ hex_fix 16 (unat l))"
proof -
  have "filter (\<lambda>c. \<not> guid_separator c) (GUID_toString (GUID h l)) =
      hex_fix 16 (unat h) @ hex_fix 16 (unat l)"
    unfolding GUID_toString_groups hex_fix_high [of "unat h", symmetric]
      hex_fix_low [of "unat l", symmetric]
    by (simp add: filter_hex_fix)
  moreover have "list_all (\<lambda>c. guid_separator c \<or> isHexCharacter c) (GUID_toString (GUID h l))"
    unfolding GUID_toString_groups by (simp add: list_all_sep_hex_fix)
  ultimately show ?thesis
    by (simp add: GUID_normalize_def GUID_normalize_loop_eq)
qed

text \<open>
  The text form of an identifier parses back to the identifier: \<^const>\<open>GUID_parse\<close> inverts
  \<^const>\<open>GUID_toString\<close> on all \<open>2^128\<close> identifiers, and the text has the 36 characters of the
  8-4-4-4-12 form.
\<close>

theorem GUID_parse_toString:
  "GUID_parse (GUID_toString g) = Inr g \<and> length (GUID_toString g) = 36"
proof (cases g)
  case (GUID h l)
  have "length (GUID_toString g) = 36"
    unfolding GUID GUID_toString_groups by simp
  moreover have "GUID_parse (GUID_toString g) = Inr g"
    unfolding GUID GUID_parse_def GUID_normalize_toString by (simp add: parseHex64_hex_fix)
  ultimately show ?thesis by simp
qed

text \<open>
  \<^const>\<open>GUID_parse\<close> accepts exactly the texts that consist of hexadecimal digits and the
  separators \<^verbatim>\<open>{\<close>, \<^verbatim>\<open>}\<close> and \<^verbatim>\<open>-\<close> and have 32 hexadecimal digits; in particular the non-hex branch
  of \<^const>\<open>parseHex64\<close> is never taken, and every rejection is an \<^const>\<open>Invalid_argument\<close>.
\<close>

theorem GUID_parse_accepts:
  "(\<exists>g. GUID_parse s = Inr g) \<longleftrightarrow>
     list_all (\<lambda>c. guid_separator c \<or> isHexCharacter c) s \<and>
     length (filter (\<lambda>c. \<not> guid_separator c) s) = 32"
proof -
  let ?d = "filter (\<lambda>c. \<not> guid_separator c) s"
  have parts: "\<exists>v. parseHex64 (take 16 (drop n ?d)) = Inr v"
    if "list_all (\<lambda>c. guid_separator c \<or> isHexCharacter c) s" for n
    unfolding parseHex64_def
    by (rule parseHex64_total)
      (use that in \<open>auto simp: list_all_iff dest!: in_set_takeD in_set_dropD\<close>)
  show ?thesis
    using parts [of 0] parts [of 16]
    by (auto simp: GUID_parse_def GUID_normalize_def GUID_normalize_loop_eq res_bind_eq_Inr
        split: if_splits)
qed

section \<open>DateTime\<close>

text \<open>
  Seconds since the epoch are a \<^verbatim>\<open>double\<close> in the source. They are modelled as real numbers:
  the rounding of binary floating point is outside the model. The current time, which the
  default constructor reads from the system clock, is an argument of the operations that use it.
\<close>

type_synonym datetime = real

definition llround :: "real \<Rightarrow> int" where
  "llround x = (if 0 \<le> x then \<lfloor>x + 1 / 2\<rfloor> else - \<lfloor>- x + 1 / 2\<rfloor>)"

definition fromMillisecondsSinceEpoch :: "u64 \<Rightarrow> datetime" where
  "fromMillisecondsSinceEpoch ms = real (unat ms) / 1000"

definition millisecondsSinceEpoch :: "datetime \<Rightarrow> u64" where
  "millisecondsSinceEpoch t = of_int (llround (t * 1000))"

definition addSeconds :: "datetime \<Rightarrow> real \<Rightarrow> datetime" where
  "addSeconds t seconds = t + seconds"

lemma llround_of_nat: "llround (real n) = int n"
  by (simp add: llround_def floor_eq_iff)

lemma millisecondsSinceEpoch_from: "millisecondsSinceEpoch (fromMillisecondsSinceEpoch ms) = ms"
proof -
  have "millisecondsSinceEpoch (fromMillisecondsSinceEpoch ms) = of_int (llround (real (unat ms)))"
    by (simp add: millisecondsSinceEpoch_def fromMillisecondsSinceEpoch_def)
  also have "\<dots> = of_int (int (unat ms))"
    by (simp only: llround_of_nat)
  finally show ?thesis by simp
qed

end
