(* ===== verification/Proto_Messages.thy ===== *)
theory Proto_Messages
  imports Base_Types
begin

text \<open>
  The messages of \<^verbatim>\<open>src/messages.proto\<close>. A field with presence (a sub-message, or a scalar
  marked \<^verbatim>\<open>optional\<close>) is an \<^typ>\<open>'a option\<close>; a plain proto3 scalar has no presence and is its
  value; a repeated field is a list; a \<^verbatim>\<open>oneof\<close> is a datatype with a constructor for each
  alternative and one for the unset case. A message with a single plain field (\<^verbatim>\<open>Uuid\<close>, \<^verbatim>\<open>NodeId\<close>,
  \<^verbatim>\<open>StreamID\<close>, \<^verbatim>\<open>DateTime\<close>, \<^verbatim>\<open>OptionalBool\<close>) is that field's value. Enumerations are open in
  proto3: a field holds any 32-bit number, and the declared names are abbreviations.
\<close>

section \<open>Identifiers, keys and signatures\<close>

type_synonym Uuid = bytes
type_synonym NodeId = bytes
type_synonym EndorsementType = bytes
type_synonym DateTimeMsg = u64

abbreviation (input) P256 :: u32 where "P256 \<equiv> 100"
abbreviation (input) RSA2048 :: u32 where "RSA2048 \<equiv> 200"
abbreviation (input) RSA4096 :: u32 where "RSA4096 \<equiv> 201"

record SignatureBlock =
  signer :: "NodeId option"
  sig_algorithm :: u32
  sig_bytes :: bytes

record PublicKey =
  key_algorithm :: u32
  public_key_bytes :: bytes

record EndorsementMsg =
  subject :: "NodeId option"
  endorsement_service :: "NodeId option"
  endorsement_type :: "Uuid option"
  endorsement_value :: bytes
  valid_until :: "DateTimeMsg option"
  end_signature :: bytes

record Identity =
  id_nonce :: "Uuid option"
  public_key :: "PublicKey option"
  boot_id :: "Uuid option"

record ChallengeRequest =
  challenge_nonce :: "Uuid option"

section \<open>Routing, resources and schemas\<close>

record RouteEntry =
  route_node_id :: "NodeId option"
  hops_away :: u32
  last_seen :: "DateTimeMsg option"

record RouteUpdate =
  entries :: "RouteEntry list"

record Address =
  ipv4 :: u32
  ipv6 :: bytes

record PortRange =
  start_port :: u32
  end_port :: u32

record ResourceTCPConnect =
  connect_node_id :: "NodeId option"
  source_addresses :: "Address list"

record ResourceTCPListen =
  listen_node_id :: "NodeId option"
  listen_address :: "Address list"
  allowed_range :: "PortRange option"

record ResourceSSHD =
  sshd_node_id :: "NodeId option"
  server_name :: "string option"

datatype ResourceRecord =
    RR_tcp_connect ResourceTCPConnect
  | RR_tcp_listen ResourceTCPListen
  | RR_sshd ResourceSSHD
  | RR_not_set

record ServiceSchema =
  proto_file_name :: string
  proto_file_descriptor_set :: bytes
  accepted_type_urls :: "string list"
  schema_hash :: bytes
  schema_version :: u32

record SchemaRequest =
  req_proto_file_name :: "string option"
  req_schema_hash :: "bytes option"

record SchemaReply =
  reply_schemas :: "ServiceSchema list"

record ResourceAdvertisement =
  records :: "ResourceRecord list"
  schemas :: "ServiceSchema list"

record ResourceQuery =
  query :: string
  max_records :: u32

record DiscoveredService =
  discovered_node_id :: "NodeId option"
  discovered_schema :: "ServiceSchema option"

record ResourceQueryReply =
  services :: "DiscoveredService list"

abbreviation (input) UNKNOWN_ERROR :: u32 where "UNKNOWN_ERROR \<equiv> 0"
abbreviation (input) UNKNOWN_MESSAGE_TYPE :: u32 where "UNKNOWN_MESSAGE_TYPE \<equiv> 1"
abbreviation (input) SIGNATURE_FAILED :: u32 where "SIGNATURE_FAILED \<equiv> 2"
abbreviation (input) UNIMPLEMENTED :: u32 where "UNIMPLEMENTED \<equiv> 3"

record ErrorMsg =
  error_code :: u32
  error_message :: string

section \<open>Key negotiation and ping\<close>

abbreviation (input) KEY_NEGOTIATION_ALGORITHM_P256_SHA256_AES256 :: u32 where
  "KEY_NEGOTIATION_ALGORITHM_P256_SHA256_AES256 \<equiv> 1"

abbreviation (input) KEY_NEGOTIATION_ERROR_INVALID_REQUEST :: u32 where
  "KEY_NEGOTIATION_ERROR_INVALID_REQUEST \<equiv> 1"
abbreviation (input) KEY_NEGOTIATION_ERROR_UNSUPPORTED_ALGORITHM :: u32 where
  "KEY_NEGOTIATION_ERROR_UNSUPPORTED_ALGORITHM \<equiv> 2"
abbreviation (input) KEY_NEGOTIATION_ERROR_PAIR_NEGOTIATION_EXISTS :: u32 where
  "KEY_NEGOTIATION_ERROR_PAIR_NEGOTIATION_EXISTS \<equiv> 3"
abbreviation (input) KEY_NEGOTIATION_ERROR_PAIR_KEY_EXISTS :: u32 where
  "KEY_NEGOTIATION_ERROR_PAIR_KEY_EXISTS \<equiv> 4"
abbreviation (input) KEY_NEGOTIATION_ERROR_KEY_LIMIT_REACHED :: u32 where
  "KEY_NEGOTIATION_ERROR_KEY_LIMIT_REACHED \<equiv> 5"
abbreviation (input) KEY_NEGOTIATION_ERROR_UNKNOWN_KEY :: u32 where
  "KEY_NEGOTIATION_ERROR_UNKNOWN_KEY \<equiv> 6"
abbreviation (input) KEY_NEGOTIATION_ERROR_KEY_INCORRECT :: u32 where
  "KEY_NEGOTIATION_ERROR_KEY_INCORRECT \<equiv> 7"
abbreviation (input) KEY_NEGOTIATION_ERROR_EXPIRED :: u32 where
  "KEY_NEGOTIATION_ERROR_EXPIRED \<equiv> 8"

record AesKeyNegotiationRequest =
  req_key_id :: "Uuid option"
  req_ephemeral_public_key :: "PublicKey option"
  requested_lifetime_ms :: u64
  req_algorithm :: u32

record AesKeyNegotiationReply =
  rep_key_id :: "Uuid option"
  rep_ephemeral_public_key :: "PublicKey option"
  accepted_lifetime_ms :: u64
  rep_algorithm :: u32

record AesKeyDropNotification =
  drop_key_id :: "Uuid option"
  drop_reason :: string

record AesKeyNegotiationError =
  neg_error_code :: u32
  err_key_id :: "Uuid option"
  neg_error_message :: string

record PingRequest =
  ping_nonce :: "Uuid option"
  ping_sequence :: u32
  ping_time_sent :: "DateTimeMsg option"

record PingReply =
  pong_nonce :: "Uuid option"
  pong_sequence :: u32
  pong_time_sent :: "DateTimeMsg option"
  pong_time_replied :: "DateTimeMsg option"

record AnyMsg =
  type_url :: string
  any_value :: bytes

section \<open>Requirement trees\<close>

type_synonym FieldPath = "string list"

datatype FieldValue =
    FV_bytes bytes
  | FV_string string
  | FV_int u64
  | FV_uint u64
  | FV_bool bool
  | FV_enum u32
  | FV_not_set

datatype EndTree =
    ET_equals "EndTree option" "EndTree option"
  | ET_and "EndTree option" "EndTree option"
  | ET_or "EndTree option" "EndTree option"
  | ET_true
  | ET_false
  | ET_all_of "EndTree list"
  | ET_any_of "EndTree list"
  | ET_type_equals "EndorsementType option"
  | ET_value_equals bytes
  | ET_signer_equals "NodeId option"
  | ET_not_set

datatype MesTree =
    MT_equals "MesTree option" "MesTree option"
  | MT_and "MesTree option" "MesTree option"
  | MT_or "MesTree option" "MesTree option"
  | MT_true
  | MT_false
  | MT_all_of "MesTree list"
  | MT_any_of "MesTree list"
  | MT_field_equals "FieldPath option" "FieldValue option"
  | MT_field_exists "FieldPath option"
  | MT_field_contains "FieldPath option" "FieldPath option" "FieldValue option"
  | MT_not_set

datatype AST =
    AST_equals "AST option" "AST option"
  | AST_and "AST option" "AST option"
  | AST_or "AST option" "AST option"
  | AST_true
  | AST_false
  | AST_all_of "AST list"
  | AST_any_of "AST list"
  | AST_endorsement "EndTree option"
  | AST_message "MesTree option"
  | AST_not_set

datatype LogFieldValue =
    LFV_bytes bytes
  | LFV_string string
  | LFV_int u64
  | LFV_uint u64
  | LFV_bool bool
  | LFV_enum u32
  | LFV_not_set

datatype LogTree =
    LT_equals "LogTree option" "LogTree option"
  | LT_and "LogTree option" "LogTree option"
  | LT_or "LogTree option" "LogTree option"
  | LT_true
  | LT_false
  | LT_all_of "LogTree list"
  | LT_any_of "LogTree list"
  | LT_field_equals "FieldPath option" "LogFieldValue option"
  | LT_field_exists "FieldPath option"
  | LT_field_contains "FieldPath option" "FieldPath option" "LogFieldValue option"
  | LT_not_set

record EndorsementNeeded =
  message_nonce :: "Uuid option"
  needed_tree :: "AST option"

record EncryptedField =
  enc_path :: "FieldPath option"
  enc_iv :: bytes
  enc_ciphertext :: bytes
  enc_tag :: bytes
  enc_algorithm :: u32

section \<open>Log subscriptions\<close>

abbreviation (input) LOG_SUBSCRIPTION_STATUS_ACCEPTED :: u32 where "LOG_SUBSCRIPTION_STATUS_ACCEPTED \<equiv> 1"
abbreviation (input) LOG_SUBSCRIPTION_STATUS_REMOVED :: u32 where "LOG_SUBSCRIPTION_STATUS_REMOVED \<equiv> 2"
abbreviation (input) LOG_SUBSCRIPTION_STATUS_INVALID :: u32 where "LOG_SUBSCRIPTION_STATUS_INVALID \<equiv> 3"
abbreviation (input) LOG_SUBSCRIPTION_STATUS_NOT_FOUND :: u32 where "LOG_SUBSCRIPTION_STATUS_NOT_FOUND \<equiv> 4"

record LogSubscribeRequest =
  payload_type_url :: string
  log_filter :: "LogTree option"
  duration_ms :: u64

record LogSubscribeReply =
  sub_status :: u32
  sub_id :: "Uuid option"
  expires_at :: "DateTimeMsg option"
  sub_message :: string

record LogUnsubscribeRequest =
  unsub_req_id :: "Uuid option"

record LogUnsubscribeReply =
  unsub_status :: u32
  unsub_id :: "Uuid option"
  unsub_message :: string

record LogRecord =
  rec_subscription_id :: "Uuid option"
  producer_node_id :: "NodeId option"
  time_created :: "DateTimeMsg option"
  payload :: "AnyMsg option"

section \<open>RSPMessage\<close>

datatype core_message =
    challenge_request ChallengeRequest
  | identity Identity
  | route RouteUpdate
  | error_msg ErrorMsg
  | ping_request PingRequest
  | ping_reply PingReply
  | resource_advertisement ResourceAdvertisement
  | resource_query ResourceQuery
  | endorsement_needed EndorsementNeeded
  | schema_request SchemaRequest
  | schema_reply SchemaReply
  | resource_query_reply ResourceQueryReply
  | log_subscribe_request LogSubscribeRequest
  | log_subscribe_reply LogSubscribeReply
  | log_unsubscribe_request LogUnsubscribeRequest
  | log_unsubscribe_reply LogUnsubscribeReply
  | log_record LogRecord
  | aes_key_negotiation_request AesKeyNegotiationRequest
  | aes_key_negotiation_reply AesKeyNegotiationReply
  | aes_key_drop_notification AesKeyDropNotification
  | aes_key_negotiation_error AesKeyNegotiationError
  | core_not_set

record RSPMessage =
  destination :: "NodeId option"
  source :: "NodeId option"
  trace :: "bool option"
  core :: core_message
  service_message :: "AnyMsg option"
  nonce :: "Uuid option"
  signature :: "SignatureBlock option"
  endorsements :: "EndorsementMsg list"
  identities :: "Identity list"
  encrypted_fields :: "EncryptedField list"

text \<open>A default-constructed message.\<close>

definition RSPMessage_default :: RSPMessage where
  "RSPMessage_default =
     \<lparr>destination = None, source = None, trace = None, core = core_not_set,
      service_message = None, nonce = None, signature = None, endorsements = [],
      identities = [], encrypted_fields = []\<rparr>"

text \<open>Reading an absent sub-message yields its default instance.\<close>

definition bytes_or_default :: "bytes option \<Rightarrow> bytes" where
  "bytes_or_default b = (case b of None \<Rightarrow> [] | Some v \<Rightarrow> v)"

definition PublicKey_default :: PublicKey where
  "PublicKey_default = \<lparr>key_algorithm = 0, public_key_bytes = []\<rparr>"

definition public_key_or_default :: "Identity \<Rightarrow> PublicKey" where
  "public_key_or_default i = (case public_key i of None \<Rightarrow> PublicKey_default | Some k \<Rightarrow> k)"

lemma bytes_or_default_simps [simp]:
  "bytes_or_default None = []" "bytes_or_default (Some b) = b"
  by (simp_all add: bytes_or_default_def)

end
