(* ===== verification/Key_Pair.thy ===== *)
theory Key_Pair
  imports Proto_Messages
begin

text \<open>
  \<^verbatim>\<open>src/common/keypair.cpp\<close>: P-256 key pairs, the node identifier derived from a public key, and
  signature blocks. The functions of the cryptography library are the fields of a record the
  definitions take as an argument; a key handle is a value of the type parameter. What the
  development relies on is \<^verbatim>\<open>openssl_ok\<close>: a digest has 32 bytes, a signature made with a key verifies
  under that key, and writing a public key and reading it back gives a key with the same public part.
\<close>

section \<open>The cryptography library\<close>

record 'k openssl =
  EVP_PKEY_is_EC :: "'k \<Rightarrow> bool"
  curve_is_prime256v1 :: "'k \<Rightarrow> bool"
  private_key_present :: "'k \<Rightarrow> bool"
  i2d_PUBKEY :: "'k \<Rightarrow> bytes option"
  SHA256 :: "bytes \<Rightarrow> bytes"
  DigestSign :: "'k \<Rightarrow> bytes \<Rightarrow> bytes option"
  DigestVerify :: "'k \<Rightarrow> bytes \<Rightarrow> bytes \<Rightarrow> int"
  PEM_read_PUBKEY :: "bytes \<Rightarrow> 'k option"
  PEM_write_PUBKEY :: "'k \<Rightarrow> bytes option"

definition openssl_ok :: "'k openssl \<Rightarrow> bool" where
  "openssl_ok lib \<longleftrightarrow>
     (\<forall>m. length (SHA256 lib m) = 32) \<and>
     (\<forall>k m s. DigestSign lib k m = Some s \<longrightarrow> DigestVerify lib k m s = 1) \<and>
     (\<forall>k b. PEM_write_PUBKEY lib k = Some b \<longrightarrow> b \<noteq> [] \<and>
        (\<exists>k'. PEM_read_PUBKEY lib b = Some k' \<and> i2d_PUBKEY lib k' = i2d_PUBKEY lib k \<and>
              EVP_PKEY_is_EC lib k' = EVP_PKEY_is_EC lib k \<and>
              curve_is_prime256v1 lib k' = curve_is_prime256v1 lib k \<and>
              DigestVerify lib k' = DigestVerify lib k))"

section \<open>Node identifiers as bytes\<close>

definition serializeNodeIdBytes :: "nodeid \<Rightarrow> bytes" where
  "serializeNodeIdBytes nodeId = uint64_bytes (high nodeId) @ uint64_bytes (low nodeId)"

definition deserializeNodeIdBytes :: "bytes \<Rightarrow> nodeid result" where
  "deserializeNodeIdBytes bs =
     (if length bs \<noteq> 16
      then Inl (Runtime_error ''signature block signer has an invalid NodeID length'')
      else Inr (GUID (be_dec (take 8 bs)) (be_dec (drop 8 bs))))"

section \<open>Key pairs\<close>

text \<open>A key pair holds a handle, or null for a default-constructed or moved-from one.\<close>

type_synonym 'k KeyPair = "'k option"

definition isValid :: "'k KeyPair \<Rightarrow> bool" where
  "isValid kp \<longleftrightarrow> kp \<noteq> None"

definition hasPrivateKey :: "'k openssl \<Rightarrow> 'k KeyPair \<Rightarrow> bool" where
  "hasPrivateKey lib kp =
     (case kp of None \<Rightarrow> False | Some k \<Rightarrow> EVP_PKEY_is_EC lib k \<and> private_key_present lib k)"

definition verifyP256 :: "'k openssl \<Rightarrow> 'k KeyPair \<Rightarrow> unit result" where
  "verifyP256 lib kp =
     (case kp of
        None \<Rightarrow> Inl (Runtime_error ''key is null'')
      | Some k \<Rightarrow>
          if \<not> EVP_PKEY_is_EC lib k then Inl (Runtime_error ''key is not an EC key'')
          else if \<not> curve_is_prime256v1 lib k
            then Inl (Runtime_error ''key is not on the P-256 curve'')
          else Inr ())"

definition algorithmForKey :: "'k openssl \<Rightarrow> 'k KeyPair \<Rightarrow> u32 result" where
  "algorithmForKey lib kp = res_bind (verifyP256 lib kp) (\<lambda>_. Inr P256)"

definition KeyPair_new :: "'k openssl \<Rightarrow> 'k \<Rightarrow> 'k KeyPair result" where
  "KeyPair_new lib k = res_bind (verifyP256 lib (Some k)) (\<lambda>_. Inr (Some k))"

definition readPublicKeyBuffer :: "'k openssl \<Rightarrow> bytes \<Rightarrow> 'k result" where
  "readPublicKeyBuffer lib publicKeyBytes =
     (case PEM_read_PUBKEY lib publicKeyBytes of
        None \<Rightarrow> Inl (Runtime_error ''failed to parse public key bytes'')
      | Some k \<Rightarrow> Inr k)"

definition writePublicKeyBytes :: "'k openssl \<Rightarrow> 'k \<Rightarrow> bytes result" where
  "writePublicKeyBytes lib k =
     (case PEM_write_PUBKEY lib k of
        None \<Rightarrow> Inl (Runtime_error ''failed to serialize public key'')
      | Some b \<Rightarrow> Inr b)"

text \<open>\<^verbatim>\<open>generateP256\<close>: the key the generator returned, when it returned one.\<close>

definition generateP256 :: "'k openssl \<Rightarrow> 'k option \<Rightarrow> 'k KeyPair result" where
  "generateP256 lib generated =
     (case generated of
        None \<Rightarrow> Inl (Runtime_error ''failed to generate P-256 keypair'')
      | Some k \<Rightarrow> KeyPair_new lib k)"

definition fromPublicKey :: "'k openssl \<Rightarrow> PublicKey \<Rightarrow> 'k KeyPair result" where
  "fromPublicKey lib publicKey =
     (if key_algorithm publicKey \<noteq> P256
      then Inl (Runtime_error ''unsupported public key algorithm'')
      else if public_key_bytes publicKey = []
      then Inl (Runtime_error ''public key bytes are empty'')
      else res_bind (readPublicKeyBuffer lib (public_key_bytes publicKey)) (\<lambda>k.
           res_bind (verifyP256 lib (Some k)) (\<lambda>_. KeyPair_new lib k)))"

definition KeyPair_duplicate :: "'k openssl \<Rightarrow> 'k KeyPair \<Rightarrow> 'k KeyPair result" where
  "KeyPair_duplicate lib kp =
     (case kp of
        None \<Rightarrow> Inl (Runtime_error ''cannot duplicate an empty keypair'')
      | Some k \<Rightarrow> KeyPair_new lib k)"

definition nodeID :: "'k openssl \<Rightarrow> 'k KeyPair \<Rightarrow> nodeid result" where
  "nodeID lib kp =
     (case kp of
        None \<Rightarrow> Inl (Runtime_error ''cannot derive a NodeID from an empty keypair'')
      | Some k \<Rightarrow>
          (case i2d_PUBKEY lib k of
             None \<Rightarrow> Inl (Runtime_error ''failed to serialize public key for NodeID hashing'')
           | Some der \<Rightarrow>
               let digest = SHA256 lib der
               in Inr (GUID (be_dec (take 8 digest)) (be_dec (take 8 (drop 8 digest))))))"

definition KeyPair_publicKey :: "'k openssl \<Rightarrow> 'k KeyPair \<Rightarrow> PublicKey result" where
  "KeyPair_publicKey lib kp =
     (case kp of
        None \<Rightarrow> Inl (Runtime_error ''cannot export a public key from an empty keypair'')
      | Some k \<Rightarrow>
          res_bind (algorithmForKey lib kp) (\<lambda>alg.
          res_bind (writePublicKeyBytes lib k) (\<lambda>b.
            Inr \<lparr>key_algorithm = alg, public_key_bytes = b\<rparr>)))"

definition KeyPair_sign :: "'k openssl \<Rightarrow> 'k KeyPair \<Rightarrow> Buffer \<Rightarrow> Buffer result" where
  "KeyPair_sign lib kp message =
     (case kp of
        None \<Rightarrow> Inl (Runtime_error ''cannot sign with an empty keypair'')
      | Some k \<Rightarrow>
          if \<not> hasPrivateKey lib kp
          then Inl (Runtime_error ''cannot sign with a public-only keypair'')
          else (case DigestSign lib k (Buffer_contents message) of
                  None \<Rightarrow> Inl (Runtime_error ''failed to finalize signature generation'')
                | Some s \<Rightarrow> Inr (Buffer_from (Some s) (of_nat (length s)))))"

definition signBlock :: "'k openssl \<Rightarrow> 'k KeyPair \<Rightarrow> Buffer \<Rightarrow> SignatureBlock result" where
  "signBlock lib kp message =
     res_bind (KeyPair_sign lib kp message) (\<lambda>sig.
     res_bind (nodeID lib kp) (\<lambda>signerId.
     res_bind (algorithmForKey lib kp) (\<lambda>alg.
       Inr \<lparr>signer = Some (serializeNodeIdBytes signerId), sig_algorithm = alg,
            sig_bytes = Buffer_contents sig\<rparr>)))"

definition KeyPair_verify :: "'k openssl \<Rightarrow> 'k KeyPair \<Rightarrow> Buffer \<Rightarrow> Buffer \<Rightarrow> bool result" where
  "KeyPair_verify lib kp message sig =
     (case kp of
        None \<Rightarrow> Inl (Runtime_error ''cannot verify with an empty keypair'')
      | Some k \<Rightarrow>
          let verifyResult = DigestVerify lib k (Buffer_contents message) (Buffer_contents sig)
          in if verifyResult = 1 then Inr True
             else if verifyResult = 0 then Inr False
             else Inl (Runtime_error ''failed to finalize signature verification''))"

definition verifyBlock :: "'k openssl \<Rightarrow> 'k KeyPair \<Rightarrow> Buffer \<Rightarrow> SignatureBlock \<Rightarrow> bool result" where
  "verifyBlock lib kp message block =
     (if \<not> isValid kp then Inl (Runtime_error ''cannot verify with an empty keypair'')
      else
        res_bind (algorithmForKey lib kp) (\<lambda>alg.
          if sig_algorithm block \<noteq> alg then Inr False
          else
            res_bind (deserializeNodeIdBytes (bytes_or_default (signer block))) (\<lambda>signerId.
            res_bind (nodeID lib kp) (\<lambda>own.
              if signerId \<noteq> own then Inr False
              else KeyPair_verify lib kp message
                     (Buffer_from (Some (sig_bytes block)) (of_nat (length (sig_bytes block))))))))"

section \<open>Lemmas\<close>

interpretation node_codec: fixed_codec serializeNodeIdBytes
  "\<lambda>bs. GUID (be_dec (take 8 bs)) (be_dec (drop 8 bs))" 16
proof
  show "length (serializeNodeIdBytes x) = 16" for x
    by (simp add: serializeNodeIdBytes_def)
  show "GUID (be_dec (take 8 (serializeNodeIdBytes x))) (be_dec (drop 8 (serializeNodeIdBytes x))) = x" for x
    by (cases x) (simp add: serializeNodeIdBytes_def u64_codec.dec_enc)
  show "serializeNodeIdBytes (GUID (be_dec (take 8 bs)) (be_dec (drop 8 bs))) = bs"
    if "length bs = 16" for bs
    using that by (simp add: serializeNodeIdBytes_def u64_codec.enc_dec)
qed

lemmas node_length [simp] = node_codec.enc_length

lemma deserialize_serialize [simp]: "deserializeNodeIdBytes (serializeNodeIdBytes n) = Inr n"
  by (simp add: deserializeNodeIdBytes_def node_codec.dec_enc)

lemma deserialize_Inr: "deserializeNodeIdBytes b = Inr n \<longleftrightarrow> b = serializeNodeIdBytes n"
proof
  assume a: "deserializeNodeIdBytes b = Inr n"
  then have "length b = 16" "n = GUID (be_dec (take 8 b)) (be_dec (drop 8 b))"
    by (auto simp: deserializeNodeIdBytes_def split: if_splits)
  then show "b = serializeNodeIdBytes n"
    using node_codec.enc_dec by simp
qed simp

lemma Buffer_contents_from:
  "length d < 2 ^ 32 \<Longrightarrow> Buffer_contents (Buffer_from (Some d) (of_nat (length d))) = d"
proof -
  assume d: "length d < 2 ^ 32"
  then have n: "unat (of_nat (length d) :: u32) = length d"
    by (simp add: unat_of_nat take_bit_nat_eq_self)
  then have "(of_nat (length d) :: u32) = 0 \<longleftrightarrow> d = []"
    by (metis length_0_conv unat_0 unat_eq_zero)
  with n show ?thesis
    by (auto simp: Buffer_contents_def Buffer_from_def Buffer_sized_def)
qed

lemma fromPublicKey_KeyPair_publicKey:
  assumes "openssl_ok lib" "KeyPair_publicKey lib kp = Inr pk"
  shows "\<exists>k k'. kp = Some k \<and> fromPublicKey lib pk = Inr (Some k') \<and>
    nodeID lib (Some k') = nodeID lib kp \<and> DigestVerify lib k' = DigestVerify lib k"
  using assms
  by (fastforce simp: KeyPair_publicKey_def fromPublicKey_def algorithmForKey_def verifyP256_def
      writePublicKeyBytes_def readPublicKeyBuffer_def KeyPair_new_def openssl_ok_def nodeID_def
      res_bind_eq_Inr split: option.splits if_splits)

text \<open>A block made by a key verifies under any key with the same public part.\<close>

lemma verifyBlock_signBlock:
  assumes "openssl_ok lib" "signBlock lib (Some k) message = Inr block"
    and "nodeID lib (Some k') = nodeID lib (Some k)" "DigestVerify lib k' = DigestVerify lib k"
    and "verifyP256 lib (Some k') = Inr ()" "length (sig_bytes block) < 2 ^ 32"
    and "\<And>s. DigestSign lib k (Buffer_contents message) = Some s \<Longrightarrow> length s < 2 ^ 32"
  shows "verifyBlock lib (Some k') message block = Inr True"
proof -
  obtain s n where s: "DigestSign lib k (Buffer_contents message) = Some s"
    and n: "nodeID lib (Some k) = Inr n"
    and b: "block = \<lparr>signer = Some (serializeNodeIdBytes n), sig_algorithm = P256, sig_bytes = s\<rparr>"
    using assms(2,7)
    by (auto simp: signBlock_def KeyPair_sign_def algorithmForKey_def res_bind_eq_Inr
        Buffer_contents_from split: option.splits if_splits)
  have "DigestVerify lib k (Buffer_contents message) s = 1"
    using assms(1) s by (simp add: openssl_ok_def)
  then show ?thesis
    using assms n b
    by (simp add: verifyBlock_def isValid_def algorithmForKey_def KeyPair_verify_def Buffer_contents_from)
qed

section \<open>A concrete library\<close>

text \<open>
  A small instance of the library record that satisfies \<^const>\<open>openssl_ok\<close>: keys are numbers, a
  signature is the key byte followed by the first bytes of the message. It shows that the hypotheses
  on the library can hold together, and the witnesses evaluate it.
\<close>

definition toy_signature :: "nat \<Rightarrow> bytes \<Rightarrow> bytes" where
  "toy_signature k m = char_of k # take 8 m"

definition toy_openssl :: "nat openssl" where
  "toy_openssl =
     \<lparr>EVP_PKEY_is_EC = (\<lambda>k. True), curve_is_prime256v1 = (\<lambda>k. True), private_key_present = (\<lambda>k. True),
      i2d_PUBKEY = (\<lambda>k. Some [char_of k]), SHA256 = (\<lambda>m. take 32 (m @ replicate 32 (CHR 0x00))),
      DigestSign = (\<lambda>k m. Some (toy_signature k m)),
      DigestVerify = (\<lambda>k m s. if s = toy_signature k m then 1 else 0),
      PEM_read_PUBKEY = (\<lambda>b. case b of [c] \<Rightarrow> Some (of_char c) | _ \<Rightarrow> None),
      PEM_write_PUBKEY = (\<lambda>k. Some [char_of k])\<rparr>"

lemma toy_openssl_ok: "openssl_ok toy_openssl"
  by (auto simp: openssl_ok_def toy_openssl_def toy_signature_def fun_eq_iff)

lemma toy_sign:
  "DigestSign toy_openssl k m = Some s \<Longrightarrow> s \<noteq> [] \<and> length s < 2 ^ 32"
  by (auto simp: toy_openssl_def toy_signature_def)

end
