(* ===== verification/Endorsement.thy ===== *)
theory Endorsement
  imports Key_Pair
begin

text \<open>
  The first half of \<^verbatim>\<open>src/common/endorsement/endorsement.cpp\<close>: the \<^verbatim>\<open>Endorsement\<close> class, its binary
  file format and its signature. The deterministic protobuf serialisation of an endorsement, which
  is what gets signed, is an argument.
\<close>

section \<open>Reading and writing bytes\<close>

definition makeError :: "string \<Rightarrow> exn" where
  "makeError message = Runtime_error message"

definition kSerializedEndorsementMagic :: bytes where
  "kSerializedEndorsementMagic = ''RSE1''"

definition appendUint32 :: "bytes \<Rightarrow> u32 \<Rightarrow> bytes" where
  "appendUint32 bs v =
     bs @ [byte_of (drop_bit 24 v AND 0xFF), byte_of (drop_bit 16 v AND 0xFF),
           byte_of (drop_bit 8 v AND 0xFF), byte_of (v AND 0xFF)]"

definition appendUint64 :: "bytes \<Rightarrow> u64 \<Rightarrow> bytes" where
  "appendUint64 bs v =
     bs @ map (\<lambda>shift. byte_of (drop_bit shift v AND 0xFF)) [56, 48, 40, 32, 24, 16, 8, 0]"

definition serializeGuidBytes :: "guid \<Rightarrow> bytes" where
  "serializeGuidBytes g = appendUint64 (appendUint64 [] (high g)) (low g)"

definition deserializeGuidBytes :: "bytes \<Rightarrow> string \<Rightarrow> guid result" where
  "deserializeGuidBytes bs fieldName =
     (if length bs \<noteq> 16 then Inl (makeError fieldName)
      else Inr (GUID (foldl (\<lambda>h i. push_bit 8 h OR byte_val (bs ! i)) 0 [0..<8])
                     (foldl (\<lambda>l i. push_bit 8 l OR byte_val (bs ! (i + 8))) 0 [0..<8])))"

definition stringToBuffer :: "bytes \<Rightarrow> Buffer" where
  "stringToBuffer bs = Buffer_from (Some bs) (of_nat (length bs))"

definition bufferToString :: "Buffer \<Rightarrow> bytes" where
  "bufferToString b =
     (if Buffer_empty b then [] else take (unat (buf_size b)) (Buffer_contents b))"

record BufferReader =
  rd_data :: bytes
  rd_size :: nat
  rd_offset :: nat

definition BufferReader_new :: "Buffer \<Rightarrow> BufferReader" where
  "BufferReader_new b =
     \<lparr>rd_data = Buffer_contents b, rd_size = unat (buf_size b), rd_offset = 0\<rparr>"

definition readBytes :: "BufferReader \<Rightarrow> nat \<Rightarrow> string \<Rightarrow> (bytes \<times> BufferReader) result" where
  "readBytes rd count fieldName =
     (if rd_offset rd + count > rd_size rd then Inl (makeError fieldName)
      else Inr (take count (drop (rd_offset rd) (rd_data rd)),
                rd\<lparr>rd_offset := rd_offset rd + count\<rparr>))"

definition expectMagic :: "BufferReader \<Rightarrow> bytes \<Rightarrow> BufferReader result" where
  "expectMagic rd magic =
     res_bind (readBytes rd (length magic) ''serialized endorsement missing magic'') (\<lambda>(bs, rd').
       if bs \<noteq> magic then Inl (makeError ''serialized endorsement has invalid magic'') else Inr rd')"

definition readUint32 :: "BufferReader \<Rightarrow> string \<Rightarrow> (u32 \<times> BufferReader) result" where
  "readUint32 rd fieldName =
     res_bind (readBytes rd 4 fieldName) (\<lambda>(bs, rd').
       Inr (push_bit 24 (byte_val (bs ! 0)) OR push_bit 16 (byte_val (bs ! 1)) OR
            push_bit 8 (byte_val (bs ! 2)) OR byte_val (bs ! 3), rd'))"

definition readUint64 :: "BufferReader \<Rightarrow> string \<Rightarrow> (u64 \<times> BufferReader) result" where
  "readUint64 rd fieldName =
     res_bind (readBytes rd 8 fieldName) (\<lambda>(bs, rd').
       Inr (foldl (\<lambda>v c. push_bit 8 v OR byte_val c) 0 bs, rd'))"

definition expectDone :: "BufferReader \<Rightarrow> unit result" where
  "expectDone rd =
     (if rd_offset rd \<noteq> rd_size rd then Inl (makeError ''serialized endorsement has trailing bytes'')
      else Inr ())"

section \<open>The binary format\<close>

definition serializeBinary :: "EndorsementMsg \<Rightarrow> Buffer" where
  "serializeBinary m =
     (let s = kSerializedEndorsementMagic @ bytes_or_default (subject m) @
              bytes_or_default (endorsement_service m) @ bytes_or_default (endorsement_type m);
          s = appendUint64 s (case valid_until m of None \<Rightarrow> 0 | Some t \<Rightarrow> t);
          s = appendUint32 s (of_nat (length (endorsement_value m)));
          s = appendUint32 s (of_nat (length (end_signature m)))
      in stringToBuffer (s @ endorsement_value m @ end_signature m))"

definition deserializeBinary :: "Buffer \<Rightarrow> EndorsementMsg result" where
  "deserializeBinary serialized =
     res_bind (expectMagic (BufferReader_new serialized) kSerializedEndorsementMagic) (\<lambda>rd.
     res_bind (readBytes rd 16 ''serialized endorsement missing subject'') (\<lambda>(sub, rd).
     res_bind (readBytes rd 16 ''serialized endorsement missing endorsement service'') (\<lambda>(svc, rd).
     res_bind (readBytes rd 16 ''serialized endorsement missing endorsement type'') (\<lambda>(ty, rd).
     res_bind (readUint64 rd ''serialized endorsement missing valid-until time'') (\<lambda>(until, rd).
     res_bind (readUint32 rd ''serialized endorsement missing value size'') (\<lambda>(vsize, rd).
     res_bind (readUint32 rd ''serialized endorsement missing signature size'') (\<lambda>(ssize, rd).
     res_bind (readBytes rd (unat vsize) ''serialized endorsement value truncated'') (\<lambda>(val, rd).
     res_bind (readBytes rd (unat ssize) ''serialized endorsement signature truncated'') (\<lambda>(sig, rd).
     res_bind (expectDone rd) (\<lambda>_.
       Inr \<lparr>subject = Some sub, endorsement_service = Some svc, endorsement_type = Some ty,
            endorsement_value = val, valid_until = Some until, end_signature = sig\<rparr>))))))))))"

section \<open>The class\<close>

definition validateUuidLike :: "bytes \<Rightarrow> string \<Rightarrow> unit result" where
  "validateUuidLike bs fieldName = require (length bs = 16) (makeError fieldName)"

definition validateMessage :: "EndorsementMsg \<Rightarrow> bool \<Rightarrow> unit result" where
  "validateMessage m requireSignature =
     res_bind (require (subject m \<noteq> None) (makeError ''endorsement missing subject'')) (\<lambda>_.
     res_bind (require (endorsement_service m \<noteq> None)
                 (makeError ''endorsement missing endorsement service'')) (\<lambda>_.
     res_bind (require (endorsement_type m \<noteq> None)
                 (makeError ''endorsement missing endorsement type'')) (\<lambda>_.
     res_bind (require (valid_until m \<noteq> None)
                 (makeError ''endorsement missing valid-until time'')) (\<lambda>_.
     res_bind (validateUuidLike (bytes_or_default (subject m)) ''invalid endorsement subject length'') (\<lambda>_.
     res_bind (validateUuidLike (bytes_or_default (endorsement_service m))
                 ''invalid endorsement service length'') (\<lambda>_.
     res_bind (validateUuidLike (bytes_or_default (endorsement_type m))
                 ''invalid endorsement type length'') (\<lambda>_.
       require (\<not> (requireSignature \<and> end_signature m = []))
         (makeError ''endorsement missing signature''))))))))"

text \<open>\<^verbatim>\<open>Endorsement\<close> wraps the message; the object is its message.\<close>

definition parseNodeId :: "bytes \<Rightarrow> string \<Rightarrow> nodeid result" where
  "parseNodeId nodeId fieldName = deserializeGuidBytes nodeId fieldName"

definition parseUuid :: "bytes \<Rightarrow> string \<Rightarrow> guid result" where
  "parseUuid uuid fieldName = deserializeGuidBytes uuid fieldName"

definition parseEndorsementType :: "bytes \<Rightarrow> string \<Rightarrow> guid result" where
  "parseEndorsementType ty fieldName = deserializeGuidBytes ty fieldName"

definition setMessageFields :: "nodeid \<Rightarrow> nodeid \<Rightarrow> guid \<Rightarrow> Buffer \<Rightarrow> datetime \<Rightarrow> Buffer \<Rightarrow>
    EndorsementMsg" where
  "setMessageFields sub svc ty val until sig =
     \<lparr>subject = Some (serializeGuidBytes sub), endorsement_service = Some (serializeGuidBytes svc),
      endorsement_type = Some (serializeGuidBytes ty), endorsement_value = bufferToString val,
      valid_until = Some (millisecondsSinceEpoch until), end_signature = bufferToString sig\<rparr>"

definition fromProto :: "EndorsementMsg \<Rightarrow> EndorsementMsg result" where
  "fromProto m = res_bind (validateMessage m True) (\<lambda>_. Inr m)"

definition Endorsement_deserialize :: "Buffer \<Rightarrow> EndorsementMsg result" where
  "Endorsement_deserialize serialized =
     res_bind (deserializeBinary serialized) (\<lambda>m.
     res_bind (validateMessage m True) (\<lambda>_. Inr m))"

definition Endorsement_serialize :: "EndorsementMsg \<Rightarrow> Buffer result" where
  "Endorsement_serialize m = res_bind (validateMessage m True) (\<lambda>_. Inr (serializeBinary m))"

definition toProto :: "EndorsementMsg \<Rightarrow> EndorsementMsg result" where
  "toProto m = res_bind (validateMessage m True) (\<lambda>_. Inr m)"

definition Endorsement_subject :: "EndorsementMsg \<Rightarrow> nodeid result" where
  "Endorsement_subject m = res_bind (validateMessage m True) (\<lambda>_.
     parseNodeId (bytes_or_default (subject m)) ''invalid endorsement subject length'')"

definition endorsementService :: "EndorsementMsg \<Rightarrow> nodeid result" where
  "endorsementService m = res_bind (validateMessage m True) (\<lambda>_.
     parseNodeId (bytes_or_default (endorsement_service m)) ''invalid endorsement service length'')"

definition endorsementType :: "EndorsementMsg \<Rightarrow> guid result" where
  "endorsementType m = res_bind (validateMessage m True) (\<lambda>_.
     parseUuid (bytes_or_default (endorsement_type m)) ''invalid endorsement type length'')"

definition endorsementValue :: "EndorsementMsg \<Rightarrow> Buffer result" where
  "endorsementValue m = res_bind (validateMessage m True) (\<lambda>_. Inr (stringToBuffer (endorsement_value m)))"

definition validUntil :: "EndorsementMsg \<Rightarrow> datetime result" where
  "validUntil m = res_bind (validateMessage m True) (\<lambda>_.
     Inr (fromMillisecondsSinceEpoch (case valid_until m of None \<Rightarrow> 0 | Some t \<Rightarrow> t)))"

definition Endorsement_signature :: "EndorsementMsg \<Rightarrow> Buffer result" where
  "Endorsement_signature m = res_bind (validateMessage m True) (\<lambda>_. Inr (stringToBuffer (end_signature m)))"

text \<open>\<^verbatim>\<open>ser\<close> is the deterministic protobuf serialisation, \<^const>\<open>None\<close> when it reports an error.\<close>

definition serializeDeterministic :: "(EndorsementMsg \<Rightarrow> bytes option) \<Rightarrow> EndorsementMsg \<Rightarrow> Buffer result" where
  "serializeDeterministic ser m =
     (case ser m of
        None \<Rightarrow> Inl (makeError ''failed to serialize endorsement protobuf'')
      | Some s \<Rightarrow> Inr (stringToBuffer s))"

definition serializeUnsigned :: "(EndorsementMsg \<Rightarrow> bytes option) \<Rightarrow> EndorsementMsg \<Rightarrow> Buffer result" where
  "serializeUnsigned ser m =
     (let unsigned = m\<lparr>end_signature := []\<rparr>
      in res_bind (validateMessage unsigned False) (\<lambda>_. serializeDeterministic ser unsigned))"

definition createSigned :: "'k openssl \<Rightarrow> (EndorsementMsg \<Rightarrow> bytes option) \<Rightarrow> 'k KeyPair \<Rightarrow> nodeid \<Rightarrow>
    guid \<Rightarrow> Buffer \<Rightarrow> datetime \<Rightarrow> EndorsementMsg result" where
  "createSigned lib ser kp sub ty val until =
     res_bind (nodeID lib kp) (\<lambda>svc.
       let e = setMessageFields sub svc ty val until Buffer_default
       in res_bind (serializeUnsigned ser e) (\<lambda>u.
          res_bind (KeyPair_sign lib kp u) (\<lambda>sig.
            Inr (e\<lparr>end_signature := bufferToString sig\<rparr>))))"

definition verifySignature :: "'k openssl \<Rightarrow> (EndorsementMsg \<Rightarrow> bytes option) \<Rightarrow> EndorsementMsg \<Rightarrow>
    'k KeyPair \<Rightarrow> bool result" where
  "verifySignature lib ser m kp =
     res_bind (validateMessage m True) (\<lambda>_.
     res_bind (nodeID lib kp) (\<lambda>own.
     res_bind (endorsementService m) (\<lambda>svc.
       if own \<noteq> svc then Inr False
       else res_bind (serializeUnsigned ser m) (\<lambda>u.
            res_bind (Endorsement_signature m) (\<lambda>sig.
              KeyPair_verify lib kp u sig)))))"

section \<open>Lemmas\<close>

subsection \<open>Integers and identifiers\<close>

lemma appendUint32_eq: "appendUint32 bs v = bs @ uint32_bytes v"
  by (simp add: appendUint32_def uint32_bytes_def)

lemma appendUint64_eq: "appendUint64 bs v = bs @ uint64_bytes v"
  by (simp add: appendUint64_def uint64_bytes_def)

lemma serializeGuidBytes_eq [simp]: "serializeGuidBytes g = serializeNodeIdBytes g"
  by (simp add: serializeGuidBytes_def serializeNodeIdBytes_def appendUint64_eq)

lemma foldl_index: "foldl (\<lambda>h i. f h (bs ! (i + k))) a [0..<n] = foldl f a (take n (drop k bs))"
  if "n + k \<le> length bs"
  using that
  by (induction n) (simp_all add: take_Suc_conv_app_nth add.commute)

lemma foldl_be_dec: "foldl (\<lambda>v c. push_bit 8 v OR byte_val c) 0 bs = be_dec bs"
  by (simp add: be_dec_def be_step_def [abs_def])

lemma be_dec_4:
  "length bs = 4 \<Longrightarrow>
   push_bit 24 (byte_val (bs ! 0)) OR push_bit 16 (byte_val (bs ! 1)) OR
   push_bit 8 (byte_val (bs ! 2)) OR byte_val (bs ! 3) = (be_dec bs :: u32)"
  by (auto simp: numeral_eq_Suc length_Suc_conv be_dec_def be_step_def push_bit_or or.assoc)

lemma deserializeGuidBytes_eq:
  "deserializeGuidBytes bs f =
   (if length bs \<noteq> 16 then Inl (makeError f) else Inr (GUID (be_dec (take 8 bs)) (be_dec (drop 8 bs))))"
  using foldl_index [of 8 0 bs "\<lambda>(h :: u64) c. push_bit 8 h OR byte_val c" 0]
    foldl_index [of 8 8 bs "\<lambda>(h :: u64) c. push_bit 8 h OR byte_val c" 0]
  by (simp add: deserializeGuidBytes_def foldl_be_dec)

lemma deserializeGuidBytes_serialize [simp]:
  "deserializeGuidBytes (serializeNodeIdBytes g) f = Inr g"
  by (simp add: deserializeGuidBytes_eq node_codec.dec_enc)

lemma deserializeGuidBytes_Inr:
  "deserializeGuidBytes b f = Inr g \<longleftrightarrow> b = serializeNodeIdBytes g"
  using deserialize_Inr [of b g]
  by (auto simp: deserializeGuidBytes_eq deserializeNodeIdBytes_def split: if_splits)

subsection \<open>Buffers\<close>

lemma stringToBuffer_contents [simp]:
  "length s < 2 ^ 32 \<Longrightarrow> Buffer_contents (stringToBuffer s) = s"
  by (simp add: stringToBuffer_def Buffer_contents_from)

lemma stringToBuffer_size [simp]:
  "length s < 2 ^ 32 \<Longrightarrow> unat (buf_size (stringToBuffer s)) = length s"
proof -
  have "buf_size (stringToBuffer s) = of_nat (length s)"
    by (simp add: stringToBuffer_def Buffer_from_def Buffer_sized_def)
  then show "length s < 2 ^ 32 \<Longrightarrow> ?thesis"
    by (simp add: unat_of_nat take_bit_nat_eq_self)
qed

lemma stringToBuffer_wf: "length s < 2 ^ 32 \<Longrightarrow> Buffer_wf (stringToBuffer s)"
  unfolding stringToBuffer_def
  by (rule Buffer_wf_from) (simp add: unat_of_nat take_bit_nat_eq_self)

lemma bufferToString_contents [simp]: "Buffer_wf b \<Longrightarrow> bufferToString b = Buffer_contents b"
  by (auto simp: bufferToString_def Buffer_empty_def Buffer_wf_def Buffer_contents_def split: option.splits)

lemma bufferToString_default [simp]: "bufferToString Buffer_default = []"
  by (simp add: bufferToString_def Buffer_empty_def Buffer_default_def)

lemma stringToBuffer_contents_id: "Buffer_wf b \<Longrightarrow> stringToBuffer (Buffer_contents b) = b"
  using Buffer_wf_length [of b]
  by (cases b) (auto simp: stringToBuffer_def Buffer_from_def Buffer_sized_def Buffer_wf_def
      Buffer_contents_def split: option.splits)

lemma Buffer_contents_bound: "Buffer_wf b \<Longrightarrow> length (Buffer_contents b) < 2 ^ 32"
  using Buffer_wf_length [of b] unat_bound [of "buf_size b"] by simp

subsection \<open>The reader\<close>

text \<open>
  A reader over data of the recorded size: what is left to read, and every read in terms of it.
\<close>

definition rd_ok :: "BufferReader \<Rightarrow> bool" where
  "rd_ok rd \<longleftrightarrow> rd_size rd = length (rd_data rd) \<and> rd_offset rd \<le> rd_size rd"

definition remaining :: "BufferReader \<Rightarrow> bytes" where
  "remaining rd = drop (rd_offset rd) (rd_data rd)"

lemma rd_ok_new [simp]: "Buffer_wf b \<Longrightarrow> rd_ok (BufferReader_new b)"
  by (simp add: rd_ok_def BufferReader_new_def Buffer_wf_length)

lemma remaining_new [simp]: "remaining (BufferReader_new b) = Buffer_contents b"
  by (simp add: remaining_def BufferReader_new_def)

lemma readBytes_Inr:
  "rd_ok rd \<Longrightarrow> readBytes rd n f = Inr (bs, rd') \<longleftrightarrow>
   length bs = n \<and> remaining rd = bs @ remaining rd' \<and> rd_ok rd' \<and>
   rd' = rd\<lparr>rd_offset := rd_offset rd + n\<rparr>"
proof -
  assume ok: "rd_ok rd"
  have split: "take n (drop k xs) @ drop (k + n) xs = drop k xs" for k and xs :: bytes
    by (metis append_take_drop_id drop_drop add.commute)
  show ?thesis
  proof
    assume "readBytes rd n f = Inr (bs, rd')"
    with ok split show "length bs = n \<and> remaining rd = bs @ remaining rd' \<and> rd_ok rd' \<and>
        rd' = rd\<lparr>rd_offset := rd_offset rd + n\<rparr>"
      by (auto simp: readBytes_def rd_ok_def remaining_def split: if_splits)
  next
    assume a: "length bs = n \<and> remaining rd = bs @ remaining rd' \<and> rd_ok rd' \<and>
        rd' = rd\<lparr>rd_offset := rd_offset rd + n\<rparr>"
    then have "take n (drop (rd_offset rd) (rd_data rd)) = bs"
      by (auto simp: remaining_def)
    with a show "readBytes rd n f = Inr (bs, rd')"
      by (auto simp: readBytes_def rd_ok_def)
  qed
qed

text \<open>A reader that has consumed one string and has another in front of it.\<close>

definition reader :: "bytes \<Rightarrow> bytes \<Rightarrow> BufferReader" where
  "reader pre rest = \<lparr>rd_data = pre @ rest, rd_size = length pre + length rest, rd_offset = length pre\<rparr>"

lemma readBytes_reader:
  "length bs = n \<Longrightarrow> readBytes (reader pre (bs @ r)) n f = Inr (bs, reader (pre @ bs) r)"
  by (auto simp: readBytes_def reader_def)

lemmas readBytes_reader_end = readBytes_reader [where r = "[]", simplified]

lemma reader_new: "Buffer_wf b \<Longrightarrow> BufferReader_new b = reader [] (Buffer_contents b)"
  by (simp add: BufferReader_new_def reader_def Buffer_wf_length)

lemma rd_ok_reader [simp]: "rd_ok (reader pre rest)"
  by (simp add: rd_ok_def reader_def)

lemma expectDone_reader [simp]: "expectDone (reader pre []) = Inr ()"
  by (simp add: expectDone_def reader_def)

lemma expectDone_iff: "rd_ok rd \<Longrightarrow> expectDone rd = Inr () \<longleftrightarrow> remaining rd = []"
  by (auto simp: expectDone_def rd_ok_def remaining_def)

lemma readUint32_eq:
  "rd_ok rd \<Longrightarrow> readUint32 rd f = res_bind (readBytes rd 4 f) (\<lambda>(bs, rd'). Inr (be_dec bs, rd'))"
  unfolding readUint32_def
  by (rule res_bind_cong) (auto simp: readBytes_Inr be_dec_4 [simplified])

lemma readUint64_eq:
  "readUint64 rd f = res_bind (readBytes rd 8 f) (\<lambda>(bs, rd'). Inr (be_dec bs, rd'))"
  by (simp add: readUint64_def foldl_be_dec)

subsection \<open>The binary layout\<close>

definition layout :: "EndorsementMsg \<Rightarrow> bytes" where
  "layout m =
     kSerializedEndorsementMagic @ bytes_or_default (subject m) @
     bytes_or_default (endorsement_service m) @ bytes_or_default (endorsement_type m) @
     uint64_bytes (case valid_until m of None \<Rightarrow> 0 | Some t \<Rightarrow> t) @
     uint32_bytes (of_nat (length (endorsement_value m))) @
     uint32_bytes (of_nat (length (end_signature m))) @ endorsement_value m @ end_signature m"

definition layout_ok :: "EndorsementMsg \<Rightarrow> bool" where
  "layout_ok m \<longleftrightarrow>
     (\<exists>sub svc ty until. subject m = Some sub \<and> endorsement_service m = Some svc \<and>
        endorsement_type m = Some ty \<and> valid_until m = Some until \<and>
        length sub = 16 \<and> length svc = 16 \<and> length ty = 16) \<and>
     length (endorsement_value m) < 2 ^ 32 \<and> length (end_signature m) < 2 ^ 32"

lemma serializeBinary_layout: "serializeBinary m = stringToBuffer (layout m)"
  by (simp add: serializeBinary_def layout_def Let_def appendUint64_eq appendUint32_eq)

lemma validateMessage_Inr:
  "validateMessage m r = Inr () \<longleftrightarrow>
   (\<exists>sub svc ty until. subject m = Some sub \<and> endorsement_service m = Some svc \<and>
        endorsement_type m = Some ty \<and> valid_until m = Some until \<and>
        length sub = 16 \<and> length svc = 16 \<and> length ty = 16) \<and>
   (r \<longrightarrow> end_signature m \<noteq> [])"
  by (auto simp: validateMessage_def validateUuidLike_def res_bind_eq_Inr)

lemma magic_length [simp]: "length kSerializedEndorsementMagic = 4"
  by (simp add: kSerializedEndorsementMagic_def)

lemma unat_of_nat_32: "n < 2 ^ 32 \<Longrightarrow> unat (of_nat n :: u32) = n"
  by (simp add: unat_of_nat take_bit_nat_eq_self)

lemma deserializeBinary_layout:
  assumes "Buffer_wf b" "Buffer_contents b = layout m" "layout_ok m"
  shows "deserializeBinary b = Inr m"
proof -
  from assms(3) obtain sub svc ty until where f: "subject m = Some sub" "endorsement_service m = Some svc"
    "endorsement_type m = Some ty" "valid_until m = Some until"
    and l: "length sub = 16" "length svc = 16" "length ty = 16"
    and v: "length (endorsement_value m) < 2 ^ 32" "length (end_signature m) < 2 ^ 32"
    by (auto simp: layout_ok_def)
  have magic: "expectMagic (reader [] (kSerializedEndorsementMagic @ r)) kSerializedEndorsementMagic =
      Inr (reader kSerializedEndorsementMagic r)" for r
    by (simp add: expectMagic_def readBytes_reader)
  show ?thesis
    using f l v
    by (cases m) (simp add: deserializeBinary_def reader_new assms(1,2) layout_def magic readBytes_reader
        readBytes_reader_end readUint32_eq readUint64_eq u64_codec.dec_enc u32_codec.dec_enc unat_of_nat_32)
qed

lemma expectMagic_Inr:
  "rd_ok rd \<Longrightarrow> expectMagic rd magic = Inr rd' \<Longrightarrow> remaining rd = magic @ remaining rd' \<and> rd_ok rd'"
  by (auto simp: expectMagic_def res_bind_eq_Inr readBytes_Inr split: if_splits)

lemma readBytes_InrD:
  "readBytes rd n f = Inr (bs, rd') \<Longrightarrow> rd_ok rd \<Longrightarrow>
   length bs = n \<and> remaining rd = bs @ remaining rd' \<and> rd_ok rd'"
  by (metis readBytes_Inr)

lemma readUint32_InrD:
  "readUint32 rd f = Inr (v, rd') \<Longrightarrow> rd_ok rd \<Longrightarrow> remaining rd = uint32_bytes v @ remaining rd' \<and> rd_ok rd'"
  by (auto simp: readUint32_eq res_bind_eq_Inr readBytes_Inr u32_codec.enc_dec)

lemma readUint64_InrD:
  "readUint64 rd f = Inr (v, rd') \<Longrightarrow> rd_ok rd \<Longrightarrow> remaining rd = uint64_bytes v @ remaining rd' \<and> rd_ok rd'"
  by (auto simp: readUint64_eq res_bind_eq_Inr readBytes_Inr u64_codec.enc_dec)

lemma deserializeBinary_Inr:
  assumes "Buffer_wf b" "deserializeBinary b = Inr m"
  shows "Buffer_contents b = layout m \<and> layout_ok m"
proof -
  obtain r0 r1 r2 r3 r4 r5 r6 r7 r8 sub svc ty until vsize ssize val sig
    where r: "expectMagic (BufferReader_new b) kSerializedEndorsementMagic = Inr r0"
      "readBytes r0 16 ''serialized endorsement missing subject'' = Inr (sub, r1)"
      "readBytes r1 16 ''serialized endorsement missing endorsement service'' = Inr (svc, r2)"
      "readBytes r2 16 ''serialized endorsement missing endorsement type'' = Inr (ty, r3)"
      "readUint64 r3 ''serialized endorsement missing valid-until time'' = Inr (until, r4)"
      "readUint32 r4 ''serialized endorsement missing value size'' = Inr (vsize, r5)"
      "readUint32 r5 ''serialized endorsement missing signature size'' = Inr (ssize, r6)"
      "readBytes r6 (unat vsize) ''serialized endorsement value truncated'' = Inr (val, r7)"
      "readBytes r7 (unat ssize) ''serialized endorsement signature truncated'' = Inr (sig, r8)"
      "expectDone r8 = Inr ()"
      and m: "m = \<lparr>subject = Some sub, endorsement_service = Some svc, endorsement_type = Some ty,
            endorsement_value = val, valid_until = Some until, end_signature = sig\<rparr>"
    using assms(2) by (auto simp: deserializeBinary_def res_bind_eq_Inr split_beta)
  note r0 = expectMagic_Inr [OF rd_ok_new [OF assms(1)] r(1)]
  note r1 = readBytes_InrD [OF r(2) r0 [THEN conjunct2]]
  note r2 = readBytes_InrD [OF r(3) r1 [THEN conjunct2, THEN conjunct2]]
  note r3 = readBytes_InrD [OF r(4) r2 [THEN conjunct2, THEN conjunct2]]
  note r4 = readUint64_InrD [OF r(5) r3 [THEN conjunct2, THEN conjunct2]]
  note r5 = readUint32_InrD [OF r(6) r4 [THEN conjunct2]]
  note r6 = readUint32_InrD [OF r(7) r5 [THEN conjunct2]]
  note r7 = readBytes_InrD [OF r(8) r6 [THEN conjunct2]]
  note r8 = readBytes_InrD [OF r(9) r7 [THEN conjunct2, THEN conjunct2]]
  have "remaining r8 = []"
    using r8 r(10) by (simp add: expectDone_iff)
  moreover have "of_nat (length val) = vsize" "of_nat (length sig) = ssize"
    using r7 r8 by auto
  moreover have "length val < 2 ^ 32" "length sig < 2 ^ 32"
    using r7 r8 unat_bound [of vsize] unat_bound [of ssize] by auto
  ultimately show ?thesis
    using r0 r1 r2 r3 r4 r5 r6 r7 r8 m by (auto simp: layout_def layout_ok_def)
qed

section \<open>Properties\<close>

text \<open>
  C8. Serialising an endorsement and reading the bytes back gives the same endorsement, and every
  buffer the reader accepts is the serialisation of the endorsement it returns: the format has
  exactly one encoding for each endorsement. The reader accepts exactly the encodings of the
  endorsements that pass validation.
\<close>

theorem Endorsement_binary_roundtrip:
  assumes "Buffer_wf b" "length (layout m) < 2 ^ 32"
  shows "Endorsement_deserialize b = Inr m \<longleftrightarrow> Endorsement_serialize m = Inr b"
proof
  assume "Endorsement_deserialize b = Inr m"
  then have d: "deserializeBinary b = Inr m" and v: "validateMessage m True = Inr ()"
    by (auto simp: Endorsement_deserialize_def res_bind_eq_Inr)
  have "stringToBuffer (layout m) = b"
    using deserializeBinary_Inr [OF assms(1) d] stringToBuffer_contents_id [OF assms(1)] by simp
  with v show "Endorsement_serialize m = Inr b"
    by (simp add: Endorsement_serialize_def serializeBinary_layout)
next
  assume "Endorsement_serialize m = Inr b"
  then have v: "validateMessage m True = Inr ()" and b: "b = stringToBuffer (layout m)"
    by (auto simp: Endorsement_serialize_def res_bind_eq_Inr serializeBinary_layout)
  have "layout_ok m"
    using v assms(2) by (auto simp: validateMessage_Inr layout_ok_def layout_def)
  then have "deserializeBinary b = Inr m"
    using b assms by (intro deserializeBinary_layout) simp_all
  with v show "Endorsement_deserialize b = Inr m"
    by (simp add: Endorsement_deserialize_def)
qed

definition sample_endorsement :: EndorsementMsg where
  "sample_endorsement =
     \<lparr>subject = Some (replicate 16 CHR ''a''), endorsement_service = Some (replicate 16 CHR ''b''),
      endorsement_type = Some (replicate 16 CHR ''c''), endorsement_value = ''v'',
      valid_until = Some 1, end_signature = ''sig''\<rparr>"

lemma sample_endorsement_valid: "validateMessage sample_endorsement True = Inr ()"
  by (simp add: validateMessage_Inr sample_endorsement_def)

theorem Endorsement_binary_roundtrip_witness:
  "Endorsement_deserialize (stringToBuffer (layout sample_endorsement)) = Inr sample_endorsement"
proof -
  have l: "length (layout sample_endorsement) < 2 ^ 32"
    by (simp add: layout_def sample_endorsement_def)
  have "Endorsement_serialize sample_endorsement = Inr (stringToBuffer (layout sample_endorsement))"
    by (simp add: Endorsement_serialize_def sample_endorsement_valid serializeBinary_layout)
  then show ?thesis
    using Endorsement_binary_roundtrip [OF stringToBuffer_wf [OF l] l] by simp
qed

lemma createSigned_facts:
  assumes "openssl_ok lib" "createSigned lib ser kp sub ty val until = Inr e"
    and "Buffer_wf val" "\<And>k d s. DigestSign lib k d = Some s \<Longrightarrow> s \<noteq> [] \<and> length s < 2 ^ 32"
  shows "verifySignature lib ser e kp = Inr True \<and>
    Endorsement_subject e = Inr sub \<and> endorsementType e = Inr ty \<and>
    endorsementValue e = Inr val \<and> endorsementService e = nodeID lib kp \<and>
    (\<forall>kp' n. nodeID lib kp' = Inr n \<longrightarrow> nodeID lib kp \<noteq> Inr n \<longrightarrow> verifySignature lib ser e kp' = Inr False)"
proof -
  obtain svc where svc: "nodeID lib kp = Inr svc"
    using assms(2) by (auto simp: createSigned_def res_bind_eq_Inr)
  let ?m = "setMessageFields sub svc ty val until Buffer_default"
  obtain u sg where u: "serializeUnsigned ser ?m = Inr u" and sg: "KeyPair_sign lib kp u = Inr sg"
    and e: "e = ?m\<lparr>end_signature := bufferToString sg\<rparr>"
    using assms(2) svc by (auto simp: createSigned_def res_bind_eq_Inr Let_def)
  obtain k s where k: "kp = Some k" and s: "DigestSign lib k (Buffer_contents u) = Some s"
    and sgs: "sg = stringToBuffer s"
    using sg by (auto simp: KeyPair_sign_def stringToBuffer_def split: option.splits if_splits)
  have sb: "s \<noteq> []" "length s < 2 ^ 32"
    using assms(4) [OF s] by auto
  have e': "e = ?m\<lparr>end_signature := s\<rparr>"
    using e sgs sb by (simp add: stringToBuffer_wf)
  have valid: "validateMessage e True = Inr ()"
    using sb e' by (simp add: validateMessage_Inr setMessageFields_def)
  have u': "serializeUnsigned ser e = Inr u"
    using u e' by (simp add: serializeUnsigned_def setMessageFields_def)
  have "DigestVerify lib k (Buffer_contents u) s = 1"
    using assms(1) s by (simp add: openssl_ok_def)
  moreover have fields: "Endorsement_subject e = Inr sub" "endorsementType e = Inr ty"
      "endorsementService e = Inr svc"
    using e' valid by (simp_all add: Endorsement_subject_def endorsementType_def
        endorsementService_def parseNodeId_def parseUuid_def setMessageFields_def)
  moreover have "endorsementValue e = Inr val"
    using e' valid assms(3)
    by (simp add: endorsementValue_def setMessageFields_def stringToBuffer_contents_id)
  ultimately show ?thesis
    using svc valid u' k sb e'
    by (auto simp: verifySignature_def Endorsement_signature_def KeyPair_verify_def)
qed

text \<open>
  C9. An endorsement created with a key verifies under that key, names the subject and the type it
  was created for, carries the value, and is issued by the node identifier of the key; it fails to
  verify, without an exception, under a key with another node identifier. The signature must not be
  empty, which is what the library returns.
\<close>

theorem createSigned_verifies:
  assumes "openssl_ok lib" "createSigned lib ser kp sub ty val until = Inr e"
    and "Buffer_wf val" "\<And>k d s. DigestSign lib k d = Some s \<Longrightarrow> s \<noteq> [] \<and> length s < 2 ^ 32"
  shows "verifySignature lib ser e kp = Inr True \<and>
    Endorsement_subject e = Inr sub \<and> endorsementType e = Inr ty \<and>
    endorsementValue e = Inr val \<and> endorsementService e = nodeID lib kp \<and>
    (\<forall>kp' n. nodeID lib kp' = Inr n \<longrightarrow> nodeID lib kp \<noteq> Inr n \<longrightarrow> verifySignature lib ser e kp' = Inr False)"
  using createSigned_facts [OF assms] .

theorem createSigned_verifies_witness:
  "\<exists>e. createSigned toy_openssl (\<lambda>m. Some ''data'') (Some 7) (GUID 1 2) (GUID 3 4)
        (stringToBuffer ''value'') 0 = Inr e \<and>
       verifySignature toy_openssl (\<lambda>m. Some ''data'') e (Some 7) = Inr True"
proof -
  obtain e where e: "createSigned toy_openssl (\<lambda>m. Some ''data'') (Some 7) (GUID 1 2) (GUID 3 4)
      (stringToBuffer ''value'') 0 = Inr e"
    by (simp add: createSigned_def nodeID_def toy_openssl_def Let_def serializeUnsigned_def
        validateMessage_def validateUuidLike_def setMessageFields_def serializeDeterministic_def
        KeyPair_sign_def hasPrivateKey_def)
  have "Buffer_wf (stringToBuffer ''value'')"
    by (simp add: stringToBuffer_wf)
  then have "verifySignature toy_openssl (\<lambda>m. Some ''data'') e (Some 7) = Inr True"
    using createSigned_verifies [OF toy_openssl_ok e] toy_sign by blast
  with e show ?thesis by blast
qed

end
