(* ===== verification/Reflection.thy ===== *)
theory Reflection
  imports Proto_Messages
begin

text \<open>
  The reflection view of the messages. \<^verbatim>\<open>field_resolver.cpp\<close> reaches a message through its
  \<^verbatim>\<open>Descriptor\<close> and \<^verbatim>\<open>Reflection\<close> only: a descriptor is a list of field descriptions taken from
  \<^verbatim>\<open>src/messages.proto\<close>, a message seen through reflection is a type name with, for each field
  number, the values present. The \<^verbatim>\<open>reflect_\<close> functions give that view of the records of
  \<^verbatim>\<open>Proto_Messages\<close>. The accessors follow the documented protobuf behaviour: a field that is not
  set reads as its default, an unset sub-message as the default instance of its type, and the
  singular accessors applied to a repeated field are a usage error that ends the process.
\<close>

section \<open>Descriptors\<close>

datatype cpp_type =
    CPP_STRING
  | CPP_INT32
  | CPP_INT64
  | CPP_UINT32
  | CPP_UINT64
  | CPP_BOOL
  | CPP_ENUM
  | CPP_FLOAT
  | CPP_DOUBLE
  | CPP_MESSAGE string

record field_desc =
  fd_number :: nat
  fd_name :: string
  fd_type :: cpp_type
  fd_repeated :: bool
  fd_presence :: bool

definition plain_field :: "nat \<Rightarrow> string \<Rightarrow> cpp_type \<Rightarrow> field_desc" where
  "plain_field n name t =
     \<lparr>fd_number = n, fd_name = name, fd_type = t, fd_repeated = False, fd_presence = False\<rparr>"

definition optional_field :: "nat \<Rightarrow> string \<Rightarrow> cpp_type \<Rightarrow> field_desc" where
  "optional_field n name t =
     \<lparr>fd_number = n, fd_name = name, fd_type = t, fd_repeated = False, fd_presence = True\<rparr>"

definition repeated_field :: "nat \<Rightarrow> string \<Rightarrow> cpp_type \<Rightarrow> field_desc" where
  "repeated_field n name t =
     \<lparr>fd_number = n, fd_name = name, fd_type = t, fd_repeated = True, fd_presence = False\<rparr>"

lemma field_sel [simp]:
  "fd_number (plain_field n name t) = n" "fd_name (plain_field n name t) = name"
  "fd_type (plain_field n name t) = t" "\<not> fd_repeated (plain_field n name t)"
  "fd_number (optional_field n name t) = n" "fd_name (optional_field n name t) = name"
  "fd_type (optional_field n name t) = t" "\<not> fd_repeated (optional_field n name t)"
  "fd_number (repeated_field n name t) = n" "fd_name (repeated_field n name t) = name"
  "fd_type (repeated_field n name t) = t" "fd_repeated (repeated_field n name t)"
  by (simp_all add: plain_field_def optional_field_def repeated_field_def)

text \<open>A descriptor pool gives the descriptor of a message type by its full name.\<close>

type_synonym desc_pool = "string \<Rightarrow> field_desc list option"

definition messages_descriptors :: "(string \<times> field_desc list) list" where
  "messages_descriptors =
    [(''rsp.proto.RSPMessage'',
      [optional_field 1 ''destination'' (CPP_MESSAGE ''rsp.proto.NodeId''),
       optional_field 2 ''source'' (CPP_MESSAGE ''rsp.proto.NodeId''),
       optional_field 24 ''trace'' (CPP_MESSAGE ''rsp.proto.OptionalBool''),
       optional_field 3 ''challenge_request'' (CPP_MESSAGE ''rsp.proto.ChallengeRequest''),
       optional_field 4 ''identity'' (CPP_MESSAGE ''rsp.proto.Identity''),
       optional_field 5 ''route'' (CPP_MESSAGE ''rsp.proto.RouteUpdate''),
       optional_field 6 ''error'' (CPP_MESSAGE ''rsp.proto.Error''),
       optional_field 7 ''ping_request'' (CPP_MESSAGE ''rsp.proto.PingRequest''),
       optional_field 8 ''ping_reply'' (CPP_MESSAGE ''rsp.proto.PingReply''),
       optional_field 16 ''resource_advertisement'' (CPP_MESSAGE ''rsp.proto.ResourceAdvertisement''),
       optional_field 17 ''resource_query'' (CPP_MESSAGE ''rsp.proto.ResourceQuery''),
       optional_field 23 ''endorsement_needed'' (CPP_MESSAGE ''rsp.proto.EndorsementNeeded''),
       optional_field 25 ''schema_request'' (CPP_MESSAGE ''rsp.proto.SchemaRequest''),
       optional_field 26 ''schema_reply'' (CPP_MESSAGE ''rsp.proto.SchemaReply''),
       optional_field 27 ''resource_query_reply'' (CPP_MESSAGE ''rsp.proto.ResourceQueryReply''),
       optional_field 28 ''log_subscribe_request'' (CPP_MESSAGE ''rsp.proto.LogSubscribeRequest''),
       optional_field 29 ''log_subscribe_reply'' (CPP_MESSAGE ''rsp.proto.LogSubscribeReply''),
       optional_field 30 ''log_unsubscribe_request'' (CPP_MESSAGE ''rsp.proto.LogUnsubscribeRequest''),
       optional_field 31 ''log_unsubscribe_reply'' (CPP_MESSAGE ''rsp.proto.LogUnsubscribeReply''),
       optional_field 32 ''log_record'' (CPP_MESSAGE ''rsp.proto.LogRecord''),
       optional_field 33 ''aes_key_negotiation_request'' (CPP_MESSAGE ''rsp.proto.AesKeyNegotiationRequest''),
       optional_field 34 ''aes_key_negotiation_reply'' (CPP_MESSAGE ''rsp.proto.AesKeyNegotiationReply''),
       optional_field 35 ''aes_key_drop_notification'' (CPP_MESSAGE ''rsp.proto.AesKeyDropNotification''),
       optional_field 36 ''aes_key_negotiation_error'' (CPP_MESSAGE ''rsp.proto.AesKeyNegotiationError''),
       optional_field 200 ''service_message'' (CPP_MESSAGE ''google.protobuf.Any''),
       optional_field 22 ''nonce'' (CPP_MESSAGE ''rsp.proto.Uuid''),
       optional_field 99 ''signature'' (CPP_MESSAGE ''rsp.proto.SignatureBlock''),
       repeated_field 100 ''endorsements'' (CPP_MESSAGE ''rsp.proto.Endorsement''),
       repeated_field 101 ''identities'' (CPP_MESSAGE ''rsp.proto.Identity''),
       repeated_field 102 ''encrypted_fields'' (CPP_MESSAGE ''rsp.proto.EncryptedField'')]),
     (''rsp.proto.Uuid'',
      [plain_field 1 ''value'' CPP_STRING]),
     (''rsp.proto.NodeId'',
      [plain_field 1 ''value'' CPP_STRING]),
     (''rsp.proto.EndorsementType'',
      [plain_field 1 ''value'' CPP_STRING]),
     (''rsp.proto.DateTime'',
      [plain_field 1 ''milliseconds_since_epoch'' CPP_UINT64]),
     (''rsp.proto.OptionalBool'',
      [plain_field 1 ''value'' CPP_BOOL]),
     (''rsp.proto.SignatureBlock'',
      [optional_field 1 ''signer'' (CPP_MESSAGE ''rsp.proto.NodeId''),
       plain_field 2 ''algorithm'' CPP_ENUM,
       plain_field 3 ''signature'' CPP_STRING]),
     (''rsp.proto.PublicKey'',
      [plain_field 1 ''algorithm'' CPP_ENUM,
       plain_field 2 ''public_key'' CPP_STRING]),
     (''rsp.proto.Endorsement'',
      [optional_field 1 ''subject'' (CPP_MESSAGE ''rsp.proto.NodeId''),
       optional_field 2 ''endorsement_service'' (CPP_MESSAGE ''rsp.proto.NodeId''),
       optional_field 3 ''endorsement_type'' (CPP_MESSAGE ''rsp.proto.Uuid''),
       plain_field 4 ''endorsement_value'' CPP_STRING,
       optional_field 5 ''valid_until'' (CPP_MESSAGE ''rsp.proto.DateTime''),
       plain_field 99 ''signature'' CPP_STRING]),
     (''rsp.proto.Identity'',
      [optional_field 1 ''nonce'' (CPP_MESSAGE ''rsp.proto.Uuid''),
       optional_field 2 ''public_key'' (CPP_MESSAGE ''rsp.proto.PublicKey''),
       optional_field 3 ''boot_id'' (CPP_MESSAGE ''rsp.proto.Uuid'')]),
     (''rsp.proto.ChallengeRequest'',
      [optional_field 1 ''nonce'' (CPP_MESSAGE ''rsp.proto.Uuid'')]),
     (''rsp.proto.RouteEntry'',
      [optional_field 1 ''node_id'' (CPP_MESSAGE ''rsp.proto.NodeId''),
       plain_field 2 ''hops_away'' CPP_UINT32,
       optional_field 3 ''last_seen'' (CPP_MESSAGE ''rsp.proto.DateTime'')]),
     (''rsp.proto.RouteUpdate'',
      [repeated_field 2 ''entries'' (CPP_MESSAGE ''rsp.proto.RouteEntry'')]),
     (''rsp.proto.Address'',
      [plain_field 1 ''ipv4'' CPP_UINT32,
       plain_field 2 ''ipv6'' CPP_STRING]),
     (''rsp.proto.PortRange'',
      [plain_field 1 ''start_port'' CPP_UINT32,
       plain_field 2 ''end_port'' CPP_UINT32]),
     (''rsp.proto.ResourceTCPConnect'',
      [optional_field 1 ''node_id'' (CPP_MESSAGE ''rsp.proto.NodeId''),
       repeated_field 2 ''source_addresses'' (CPP_MESSAGE ''rsp.proto.Address'')]),
     (''rsp.proto.ResourceTCPListen'',
      [optional_field 1 ''node_id'' (CPP_MESSAGE ''rsp.proto.NodeId''),
       repeated_field 2 ''listen_address'' (CPP_MESSAGE ''rsp.proto.Address''),
       optional_field 3 ''allowed_range'' (CPP_MESSAGE ''rsp.proto.PortRange'')]),
     (''rsp.proto.ResourceSSHD'',
      [optional_field 1 ''node_id'' (CPP_MESSAGE ''rsp.proto.NodeId''),
       optional_field 2 ''server_name'' CPP_STRING]),
     (''rsp.proto.ResourceRecord'',
      [optional_field 1 ''tcp_connect'' (CPP_MESSAGE ''rsp.proto.ResourceTCPConnect''),
       optional_field 2 ''tcp_listen'' (CPP_MESSAGE ''rsp.proto.ResourceTCPListen''),
       optional_field 3 ''sshd'' (CPP_MESSAGE ''rsp.proto.ResourceSSHD'')]),
     (''rsp.proto.ServiceSchema'',
      [plain_field 1 ''proto_file_name'' CPP_STRING,
       plain_field 2 ''proto_file_descriptor_set'' CPP_STRING,
       repeated_field 3 ''accepted_type_urls'' CPP_STRING,
       plain_field 4 ''schema_hash'' CPP_STRING,
       plain_field 5 ''schema_version'' CPP_UINT32]),
     (''rsp.proto.SchemaRequest'',
      [optional_field 1 ''proto_file_name'' CPP_STRING,
       optional_field 2 ''schema_hash'' CPP_STRING]),
     (''rsp.proto.SchemaReply'',
      [repeated_field 1 ''schemas'' (CPP_MESSAGE ''rsp.proto.ServiceSchema'')]),
     (''rsp.proto.ResourceAdvertisement'',
      [repeated_field 1 ''records'' (CPP_MESSAGE ''rsp.proto.ResourceRecord''),
       repeated_field 2 ''schemas'' (CPP_MESSAGE ''rsp.proto.ServiceSchema'')]),
     (''rsp.proto.ResourceQuery'',
      [plain_field 1 ''query'' CPP_STRING,
       plain_field 2 ''max_records'' CPP_UINT32]),
     (''rsp.proto.DiscoveredService'',
      [optional_field 1 ''node_id'' (CPP_MESSAGE ''rsp.proto.NodeId''),
       optional_field 2 ''schema'' (CPP_MESSAGE ''rsp.proto.ServiceSchema'')]),
     (''rsp.proto.ResourceQueryReply'',
      [repeated_field 1 ''services'' (CPP_MESSAGE ''rsp.proto.DiscoveredService'')]),
     (''rsp.proto.Error'',
      [plain_field 1 ''error_code'' CPP_ENUM,
       plain_field 2 ''message'' CPP_STRING]),
     (''rsp.proto.AesKeyNegotiationRequest'',
      [optional_field 1 ''key_id'' (CPP_MESSAGE ''rsp.proto.Uuid''),
       optional_field 2 ''ephemeral_public_key'' (CPP_MESSAGE ''rsp.proto.PublicKey''),
       plain_field 3 ''requested_lifetime_ms'' CPP_UINT64,
       plain_field 4 ''algorithm'' CPP_ENUM]),
     (''rsp.proto.AesKeyNegotiationReply'',
      [optional_field 1 ''key_id'' (CPP_MESSAGE ''rsp.proto.Uuid''),
       optional_field 2 ''ephemeral_public_key'' (CPP_MESSAGE ''rsp.proto.PublicKey''),
       plain_field 3 ''accepted_lifetime_ms'' CPP_UINT64,
       plain_field 4 ''algorithm'' CPP_ENUM]),
     (''rsp.proto.AesKeyDropNotification'',
      [optional_field 1 ''key_id'' (CPP_MESSAGE ''rsp.proto.Uuid''),
       plain_field 2 ''reason'' CPP_STRING]),
     (''rsp.proto.AesKeyNegotiationError'',
      [plain_field 1 ''error_code'' CPP_ENUM,
       optional_field 2 ''key_id'' (CPP_MESSAGE ''rsp.proto.Uuid''),
       plain_field 3 ''message'' CPP_STRING]),
     (''rsp.proto.PingRequest'',
      [optional_field 1 ''nonce'' (CPP_MESSAGE ''rsp.proto.Uuid''),
       plain_field 2 ''sequence'' CPP_UINT32,
       optional_field 3 ''time_sent'' (CPP_MESSAGE ''rsp.proto.DateTime'')]),
     (''rsp.proto.PingReply'',
      [optional_field 1 ''nonce'' (CPP_MESSAGE ''rsp.proto.Uuid''),
       plain_field 2 ''sequence'' CPP_UINT32,
       optional_field 3 ''time_sent'' (CPP_MESSAGE ''rsp.proto.DateTime''),
       optional_field 4 ''time_replied'' (CPP_MESSAGE ''rsp.proto.DateTime'')]),
     (''rsp.proto.LogSubscribeRequest'',
      [plain_field 1 ''payload_type_url'' CPP_STRING,
       optional_field 2 ''filter'' (CPP_MESSAGE ''rsp.proto.LogASTMessageTree''),
       plain_field 3 ''duration_ms'' CPP_UINT64]),
     (''rsp.proto.LogSubscribeReply'',
      [plain_field 1 ''status'' CPP_ENUM,
       optional_field 2 ''subscription_id'' (CPP_MESSAGE ''rsp.proto.Uuid''),
       optional_field 3 ''expires_at'' (CPP_MESSAGE ''rsp.proto.DateTime''),
       plain_field 4 ''message'' CPP_STRING]),
     (''rsp.proto.LogUnsubscribeRequest'',
      [optional_field 1 ''subscription_id'' (CPP_MESSAGE ''rsp.proto.Uuid'')]),
     (''rsp.proto.LogUnsubscribeReply'',
      [plain_field 1 ''status'' CPP_ENUM,
       optional_field 2 ''subscription_id'' (CPP_MESSAGE ''rsp.proto.Uuid''),
       plain_field 3 ''message'' CPP_STRING]),
     (''rsp.proto.LogRecord'',
      [optional_field 1 ''subscription_id'' (CPP_MESSAGE ''rsp.proto.Uuid''),
       optional_field 2 ''producer_node_id'' (CPP_MESSAGE ''rsp.proto.NodeId''),
       optional_field 3 ''time_created'' (CPP_MESSAGE ''rsp.proto.DateTime''),
       optional_field 4 ''payload'' (CPP_MESSAGE ''google.protobuf.Any'')]),
     (''rsp.proto.ERDASTEquals'',
      [optional_field 1 ''lhs'' (CPP_MESSAGE ''rsp.proto.ERDAbstractSyntaxTree''),
       optional_field 2 ''rhs'' (CPP_MESSAGE ''rsp.proto.ERDAbstractSyntaxTree'')]),
     (''rsp.proto.ERDASTAnd'',
      [optional_field 1 ''lhs'' (CPP_MESSAGE ''rsp.proto.ERDAbstractSyntaxTree''),
       optional_field 2 ''rhs'' (CPP_MESSAGE ''rsp.proto.ERDAbstractSyntaxTree'')]),
     (''rsp.proto.ERDASTOr'',
      [optional_field 1 ''lhs'' (CPP_MESSAGE ''rsp.proto.ERDAbstractSyntaxTree''),
       optional_field 2 ''rhs'' (CPP_MESSAGE ''rsp.proto.ERDAbstractSyntaxTree'')]),
     (''rsp.proto.ERDASTAllOf'',
      [repeated_field 1 ''terms'' (CPP_MESSAGE ''rsp.proto.ERDAbstractSyntaxTree'')]),
     (''rsp.proto.ERDASTAnyOf'',
      [repeated_field 1 ''terms'' (CPP_MESSAGE ''rsp.proto.ERDAbstractSyntaxTree'')]),
     (''rsp.proto.ERDASTTrue'',
      []),
     (''rsp.proto.ERDASTFalse'',
      []),
     (''rsp.proto.ERDASTEndEquals'',
      [optional_field 1 ''lhs'' (CPP_MESSAGE ''rsp.proto.ERDASTEndTree''),
       optional_field 2 ''rhs'' (CPP_MESSAGE ''rsp.proto.ERDASTEndTree'')]),
     (''rsp.proto.ERDASTEndAnd'',
      [optional_field 1 ''lhs'' (CPP_MESSAGE ''rsp.proto.ERDASTEndTree''),
       optional_field 2 ''rhs'' (CPP_MESSAGE ''rsp.proto.ERDASTEndTree'')]),
     (''rsp.proto.ERDASTEndOr'',
      [optional_field 1 ''lhs'' (CPP_MESSAGE ''rsp.proto.ERDASTEndTree''),
       optional_field 2 ''rhs'' (CPP_MESSAGE ''rsp.proto.ERDASTEndTree'')]),
     (''rsp.proto.ERDASTEndAllOf'',
      [repeated_field 1 ''terms'' (CPP_MESSAGE ''rsp.proto.ERDASTEndTree'')]),
     (''rsp.proto.ERDASTEndAnyOf'',
      [repeated_field 1 ''terms'' (CPP_MESSAGE ''rsp.proto.ERDASTEndTree'')]),
     (''rsp.proto.ERDASTEndTypeEquals'',
      [optional_field 1 ''type'' (CPP_MESSAGE ''rsp.proto.EndorsementType'')]),
     (''rsp.proto.ERDASTEndValueEquals'',
      [plain_field 1 ''value'' CPP_STRING]),
     (''rsp.proto.ERDASTEndSignerEquals'',
      [optional_field 1 ''signer'' (CPP_MESSAGE ''rsp.proto.NodeId'')]),
     (''rsp.proto.ERDASTEndTree'',
      [optional_field 1 ''equals'' (CPP_MESSAGE ''rsp.proto.ERDASTEndEquals''),
       optional_field 2 ''and'' (CPP_MESSAGE ''rsp.proto.ERDASTEndAnd''),
       optional_field 3 ''or'' (CPP_MESSAGE ''rsp.proto.ERDASTEndOr''),
       optional_field 9 ''true_value'' (CPP_MESSAGE ''rsp.proto.ERDASTTrue''),
       optional_field 10 ''false_value'' (CPP_MESSAGE ''rsp.proto.ERDASTFalse''),
       optional_field 11 ''all_of'' (CPP_MESSAGE ''rsp.proto.ERDASTEndAllOf''),
       optional_field 12 ''any_of'' (CPP_MESSAGE ''rsp.proto.ERDASTEndAnyOf''),
       optional_field 100 ''type_equals'' (CPP_MESSAGE ''rsp.proto.ERDASTEndTypeEquals''),
       optional_field 101 ''value_equals'' (CPP_MESSAGE ''rsp.proto.ERDASTEndValueEquals''),
       optional_field 102 ''signer_equals'' (CPP_MESSAGE ''rsp.proto.ERDASTEndSignerEquals'')]),
     (''rsp.proto.ERDASTEndorsement'',
      [optional_field 1 ''tree'' (CPP_MESSAGE ''rsp.proto.ERDASTEndTree'')]),
     (''rsp.proto.ERDASTMesEquals'',
      [optional_field 1 ''lhs'' (CPP_MESSAGE ''rsp.proto.ERDASTMessageTree''),
       optional_field 2 ''rhs'' (CPP_MESSAGE ''rsp.proto.ERDASTMessageTree'')]),
     (''rsp.proto.ERDASTMesAnd'',
      [optional_field 1 ''lhs'' (CPP_MESSAGE ''rsp.proto.ERDASTMessageTree''),
       optional_field 2 ''rhs'' (CPP_MESSAGE ''rsp.proto.ERDASTMessageTree'')]),
     (''rsp.proto.ERDASTMesOr'',
      [optional_field 1 ''lhs'' (CPP_MESSAGE ''rsp.proto.ERDASTMessageTree''),
       optional_field 2 ''rhs'' (CPP_MESSAGE ''rsp.proto.ERDASTMessageTree'')]),
     (''rsp.proto.ERDASTMesAllOf'',
      [repeated_field 1 ''terms'' (CPP_MESSAGE ''rsp.proto.ERDASTMessageTree'')]),
     (''rsp.proto.ERDASTMesAnyOf'',
      [repeated_field 1 ''terms'' (CPP_MESSAGE ''rsp.proto.ERDASTMessageTree'')]),
     (''rsp.proto.ERDASTFieldPath'',
      [repeated_field 1 ''segments'' CPP_STRING]),
     (''rsp.proto.EncryptedField'',
      [optional_field 1 ''path'' (CPP_MESSAGE ''rsp.proto.ERDASTFieldPath''),
       plain_field 2 ''iv'' CPP_STRING,
       plain_field 3 ''ciphertext'' CPP_STRING,
       plain_field 4 ''tag'' CPP_STRING,
       plain_field 5 ''algorithm'' CPP_UINT32]),
     (''rsp.proto.ERDASTFieldValue'',
      [optional_field 1 ''bytes_value'' CPP_STRING,
       optional_field 2 ''string_value'' CPP_STRING,
       optional_field 3 ''int_value'' CPP_INT64,
       optional_field 4 ''uint_value'' CPP_UINT64,
       optional_field 5 ''bool_value'' CPP_BOOL,
       optional_field 6 ''enum_value'' CPP_INT32]),
     (''rsp.proto.ERDASTFieldEquals'',
      [optional_field 1 ''path'' (CPP_MESSAGE ''rsp.proto.ERDASTFieldPath''),
       optional_field 2 ''value'' (CPP_MESSAGE ''rsp.proto.ERDASTFieldValue'')]),
     (''rsp.proto.ERDASTFieldExists'',
      [optional_field 1 ''path'' (CPP_MESSAGE ''rsp.proto.ERDASTFieldPath'')]),
     (''rsp.proto.ERDASTFieldContains'',
      [optional_field 1 ''path'' (CPP_MESSAGE ''rsp.proto.ERDASTFieldPath''),
       optional_field 2 ''sub_path'' (CPP_MESSAGE ''rsp.proto.ERDASTFieldPath''),
       optional_field 3 ''value'' (CPP_MESSAGE ''rsp.proto.ERDASTFieldValue'')]),
     (''rsp.proto.LogASTFieldPath'',
      [repeated_field 1 ''segments'' CPP_STRING]),
     (''rsp.proto.LogASTFieldValue'',
      [optional_field 1 ''bytes_value'' CPP_STRING,
       optional_field 2 ''string_value'' CPP_STRING,
       optional_field 3 ''int_value'' CPP_INT64,
       optional_field 4 ''uint_value'' CPP_UINT64,
       optional_field 5 ''bool_value'' CPP_BOOL,
       optional_field 6 ''enum_value'' CPP_INT32]),
     (''rsp.proto.LogASTFieldEquals'',
      [optional_field 1 ''path'' (CPP_MESSAGE ''rsp.proto.LogASTFieldPath''),
       optional_field 2 ''value'' (CPP_MESSAGE ''rsp.proto.LogASTFieldValue'')]),
     (''rsp.proto.LogASTFieldExists'',
      [optional_field 1 ''path'' (CPP_MESSAGE ''rsp.proto.LogASTFieldPath'')]),
     (''rsp.proto.LogASTFieldContains'',
      [optional_field 1 ''path'' (CPP_MESSAGE ''rsp.proto.LogASTFieldPath''),
       optional_field 2 ''sub_path'' (CPP_MESSAGE ''rsp.proto.LogASTFieldPath''),
       optional_field 3 ''value'' (CPP_MESSAGE ''rsp.proto.LogASTFieldValue'')]),
     (''rsp.proto.LogASTMesEquals'',
      [optional_field 1 ''lhs'' (CPP_MESSAGE ''rsp.proto.LogASTMessageTree''),
       optional_field 2 ''rhs'' (CPP_MESSAGE ''rsp.proto.LogASTMessageTree'')]),
     (''rsp.proto.LogASTMesAnd'',
      [optional_field 1 ''lhs'' (CPP_MESSAGE ''rsp.proto.LogASTMessageTree''),
       optional_field 2 ''rhs'' (CPP_MESSAGE ''rsp.proto.LogASTMessageTree'')]),
     (''rsp.proto.LogASTMesOr'',
      [optional_field 1 ''lhs'' (CPP_MESSAGE ''rsp.proto.LogASTMessageTree''),
       optional_field 2 ''rhs'' (CPP_MESSAGE ''rsp.proto.LogASTMessageTree'')]),
     (''rsp.proto.LogASTMesAllOf'',
      [repeated_field 1 ''terms'' (CPP_MESSAGE ''rsp.proto.LogASTMessageTree'')]),
     (''rsp.proto.LogASTMesAnyOf'',
      [repeated_field 1 ''terms'' (CPP_MESSAGE ''rsp.proto.LogASTMessageTree'')]),
     (''rsp.proto.LogASTMessageTree'',
      [optional_field 1 ''equals'' (CPP_MESSAGE ''rsp.proto.LogASTMesEquals''),
       optional_field 2 ''and'' (CPP_MESSAGE ''rsp.proto.LogASTMesAnd''),
       optional_field 3 ''or'' (CPP_MESSAGE ''rsp.proto.LogASTMesOr''),
       optional_field 9 ''true_value'' (CPP_MESSAGE ''rsp.proto.ERDASTTrue''),
       optional_field 10 ''false_value'' (CPP_MESSAGE ''rsp.proto.ERDASTFalse''),
       optional_field 11 ''all_of'' (CPP_MESSAGE ''rsp.proto.LogASTMesAllOf''),
       optional_field 12 ''any_of'' (CPP_MESSAGE ''rsp.proto.LogASTMesAnyOf''),
       optional_field 200 ''field_equals'' (CPP_MESSAGE ''rsp.proto.LogASTFieldEquals''),
       optional_field 201 ''field_exists'' (CPP_MESSAGE ''rsp.proto.LogASTFieldExists''),
       optional_field 202 ''field_contains'' (CPP_MESSAGE ''rsp.proto.LogASTFieldContains'')]),
     (''rsp.proto.ERDASTMessageTree'',
      [optional_field 1 ''equals'' (CPP_MESSAGE ''rsp.proto.ERDASTMesEquals''),
       optional_field 2 ''and'' (CPP_MESSAGE ''rsp.proto.ERDASTMesAnd''),
       optional_field 3 ''or'' (CPP_MESSAGE ''rsp.proto.ERDASTMesOr''),
       optional_field 9 ''true_value'' (CPP_MESSAGE ''rsp.proto.ERDASTTrue''),
       optional_field 10 ''false_value'' (CPP_MESSAGE ''rsp.proto.ERDASTFalse''),
       optional_field 11 ''all_of'' (CPP_MESSAGE ''rsp.proto.ERDASTMesAllOf''),
       optional_field 12 ''any_of'' (CPP_MESSAGE ''rsp.proto.ERDASTMesAnyOf''),
       optional_field 200 ''field_equals'' (CPP_MESSAGE ''rsp.proto.ERDASTFieldEquals''),
       optional_field 201 ''field_exists'' (CPP_MESSAGE ''rsp.proto.ERDASTFieldExists''),
       optional_field 202 ''field_contains'' (CPP_MESSAGE ''rsp.proto.ERDASTFieldContains'')]),
     (''rsp.proto.ERDASTMessage'',
      [optional_field 1 ''tree'' (CPP_MESSAGE ''rsp.proto.ERDASTMessageTree'')]),
     (''rsp.proto.ERDAbstractSyntaxTree'',
      [optional_field 1 ''equals'' (CPP_MESSAGE ''rsp.proto.ERDASTEquals''),
       optional_field 2 ''and'' (CPP_MESSAGE ''rsp.proto.ERDASTAnd''),
       optional_field 3 ''or'' (CPP_MESSAGE ''rsp.proto.ERDASTOr''),
       optional_field 9 ''true_value'' (CPP_MESSAGE ''rsp.proto.ERDASTTrue''),
       optional_field 10 ''false_value'' (CPP_MESSAGE ''rsp.proto.ERDASTFalse''),
       optional_field 11 ''all_of'' (CPP_MESSAGE ''rsp.proto.ERDASTAllOf''),
       optional_field 12 ''any_of'' (CPP_MESSAGE ''rsp.proto.ERDASTAnyOf''),
       optional_field 100 ''endorsement'' (CPP_MESSAGE ''rsp.proto.ERDASTEndorsement''),
       optional_field 101 ''message'' (CPP_MESSAGE ''rsp.proto.ERDASTMessage'')]),
     (''rsp.proto.EndorsementNeeded'',
      [optional_field 1 ''message_nonce'' (CPP_MESSAGE ''rsp.proto.Uuid''),
       optional_field 2 ''tree'' (CPP_MESSAGE ''rsp.proto.ERDAbstractSyntaxTree'')]),
     (''google.protobuf.Any'',
      [plain_field 1 ''type_url'' CPP_STRING,
       plain_field 2 ''value'' CPP_STRING])]"

definition messages_pool :: desc_pool where
  "messages_pool = map_of messages_descriptors"

section \<open>Messages through reflection\<close>

datatype pval =
    PV_string bytes
  | PV_int32 u32
  | PV_int64 u64
  | PV_uint32 u32
  | PV_uint64 u64
  | PV_bool bool
  | PV_enum u32
  | PV_float real
  | PV_double real
  | PV_message dmsg
and dmsg = DMsg (dm_type: string) (dm_fields: "(nat \<times> pval list) list")

definition field_values :: "dmsg \<Rightarrow> field_desc \<Rightarrow> pval list" where
  "field_values m f = (case map_of (dm_fields m) (fd_number f) of None \<Rightarrow> [] | Some vs \<Rightarrow> vs)"

definition HasField :: "dmsg \<Rightarrow> field_desc \<Rightarrow> bool" where
  "HasField m f = (field_values m f \<noteq> [])"

definition usage_error :: exn where
  "usage_error = Abort ''Protocol Buffer reflection usage error''"

fun GetMessage :: "dmsg \<Rightarrow> field_desc \<Rightarrow> dmsg result" where
  "GetMessage m f =
     (if fd_repeated f then Inl usage_error
      else case fd_type f of
             CPP_MESSAGE tn \<Rightarrow>
               (case field_values m f of
                  PV_message x # vs \<Rightarrow> Inr x
                | _ \<Rightarrow> Inr (DMsg tn []))
           | _ \<Rightarrow> Inl usage_error)"

definition GetString :: "dmsg \<Rightarrow> field_desc \<Rightarrow> bytes" where
  "GetString m f = (case field_values m f of PV_string s # vs \<Rightarrow> s | _ \<Rightarrow> [])"

definition repeated_messages :: "dmsg \<Rightarrow> field_desc \<Rightarrow> dmsg list" where
  "repeated_messages m f =
     List.map_filter (\<lambda>v. case v of PV_message x \<Rightarrow> Some x | _ \<Rightarrow> None) (field_values m f)"

section \<open>The reflection view of the message records\<close>

definition opt_f :: "nat \<Rightarrow> ('a \<Rightarrow> dmsg) \<Rightarrow> 'a option \<Rightarrow> (nat \<times> pval list) list" where
  "opt_f n r v = (case v of None \<Rightarrow> [] | Some x \<Rightarrow> [(n, [PV_message (r x)])])"

definition opt_s :: "nat \<Rightarrow> bytes option \<Rightarrow> (nat \<times> pval list) list" where
  "opt_s n v = (case v of None \<Rightarrow> [] | Some x \<Rightarrow> [(n, [PV_string x])])"

definition rep_f :: "nat \<Rightarrow> ('a \<Rightarrow> dmsg) \<Rightarrow> 'a list \<Rightarrow> (nat \<times> pval list) list" where
  "rep_f n r xs = [(n, map (\<lambda>x. PV_message (r x)) xs)]"

lemma opt_f_cong [fundef_cong]:
  "n = n' \<Longrightarrow> v = v' \<Longrightarrow> (\<And>x. x \<in> set_option v' \<Longrightarrow> r x = r' x) \<Longrightarrow> opt_f n r v = opt_f n' r' v'"
  by (auto simp: opt_f_def split: option.split)

lemma rep_f_cong [fundef_cong]:
  "n = n' \<Longrightarrow> xs = ys \<Longrightarrow> (\<And>x. x \<in> set ys \<Longrightarrow> r x = r' x) \<Longrightarrow> rep_f n r xs = rep_f n' r' ys"
  by (auto simp: rep_f_def)

definition reflect_Uuid :: "Uuid \<Rightarrow> dmsg" where
  "reflect_Uuid m = DMsg ''rsp.proto.Uuid''
     ([(1, [PV_string (m)])])"

definition reflect_NodeId :: "NodeId \<Rightarrow> dmsg" where
  "reflect_NodeId m = DMsg ''rsp.proto.NodeId''
     ([(1, [PV_string (m)])])"

definition reflect_EndorsementType :: "EndorsementType \<Rightarrow> dmsg" where
  "reflect_EndorsementType m = DMsg ''rsp.proto.EndorsementType''
     ([(1, [PV_string (m)])])"

definition reflect_DateTime :: "DateTimeMsg \<Rightarrow> dmsg" where
  "reflect_DateTime m = DMsg ''rsp.proto.DateTime''
     ([(1, [PV_uint64 (m)])])"

definition reflect_OptionalBool :: "bool \<Rightarrow> dmsg" where
  "reflect_OptionalBool m = DMsg ''rsp.proto.OptionalBool''
     ([(1, [PV_bool (m)])])"

definition reflect_SignatureBlock :: "SignatureBlock \<Rightarrow> dmsg" where
  "reflect_SignatureBlock m = DMsg ''rsp.proto.SignatureBlock''
     (opt_f 1 reflect_NodeId (signer m) @
      [(2, [PV_enum (sig_algorithm m)])] @
      [(3, [PV_string (sig_bytes m)])])"

definition reflect_PublicKey :: "PublicKey \<Rightarrow> dmsg" where
  "reflect_PublicKey m = DMsg ''rsp.proto.PublicKey''
     ([(1, [PV_enum (key_algorithm m)])] @
      [(2, [PV_string (public_key_bytes m)])])"

definition reflect_Endorsement :: "EndorsementMsg \<Rightarrow> dmsg" where
  "reflect_Endorsement m = DMsg ''rsp.proto.Endorsement''
     (opt_f 1 reflect_NodeId (subject m) @
      opt_f 2 reflect_NodeId (endorsement_service m) @
      opt_f 3 reflect_Uuid (endorsement_type m) @
      [(4, [PV_string (endorsement_value m)])] @
      opt_f 5 reflect_DateTime (valid_until m) @
      [(99, [PV_string (end_signature m)])])"

definition reflect_Identity :: "Identity \<Rightarrow> dmsg" where
  "reflect_Identity m = DMsg ''rsp.proto.Identity''
     (opt_f 1 reflect_Uuid (id_nonce m) @
      opt_f 2 reflect_PublicKey (public_key m) @
      opt_f 3 reflect_Uuid (boot_id m))"

definition reflect_ChallengeRequest :: "ChallengeRequest \<Rightarrow> dmsg" where
  "reflect_ChallengeRequest m = DMsg ''rsp.proto.ChallengeRequest''
     (opt_f 1 reflect_Uuid (challenge_nonce m))"

definition reflect_RouteEntry :: "RouteEntry \<Rightarrow> dmsg" where
  "reflect_RouteEntry m = DMsg ''rsp.proto.RouteEntry''
     (opt_f 1 reflect_NodeId (route_node_id m) @
      [(2, [PV_uint32 (hops_away m)])] @
      opt_f 3 reflect_DateTime (last_seen m))"

definition reflect_RouteUpdate :: "RouteUpdate \<Rightarrow> dmsg" where
  "reflect_RouteUpdate m = DMsg ''rsp.proto.RouteUpdate''
     (rep_f 2 reflect_RouteEntry (entries m))"

definition reflect_Address :: "Address \<Rightarrow> dmsg" where
  "reflect_Address m = DMsg ''rsp.proto.Address''
     ([(1, [PV_uint32 (ipv4 m)])] @
      [(2, [PV_string (ipv6 m)])])"

definition reflect_PortRange :: "PortRange \<Rightarrow> dmsg" where
  "reflect_PortRange m = DMsg ''rsp.proto.PortRange''
     ([(1, [PV_uint32 (start_port m)])] @
      [(2, [PV_uint32 (end_port m)])])"

definition reflect_ResourceTCPConnect :: "ResourceTCPConnect \<Rightarrow> dmsg" where
  "reflect_ResourceTCPConnect m = DMsg ''rsp.proto.ResourceTCPConnect''
     (opt_f 1 reflect_NodeId (connect_node_id m) @
      rep_f 2 reflect_Address (source_addresses m))"

definition reflect_ResourceTCPListen :: "ResourceTCPListen \<Rightarrow> dmsg" where
  "reflect_ResourceTCPListen m = DMsg ''rsp.proto.ResourceTCPListen''
     (opt_f 1 reflect_NodeId (listen_node_id m) @
      rep_f 2 reflect_Address (listen_address m) @
      opt_f 3 reflect_PortRange (allowed_range m))"

definition reflect_ResourceSSHD :: "ResourceSSHD \<Rightarrow> dmsg" where
  "reflect_ResourceSSHD m = DMsg ''rsp.proto.ResourceSSHD''
     (opt_f 1 reflect_NodeId (sshd_node_id m) @
      opt_s 2 (server_name m))"

definition reflect_ResourceRecord :: "ResourceRecord \<Rightarrow> dmsg" where
  "reflect_ResourceRecord m = DMsg ''rsp.proto.ResourceRecord''
     (case m of
        RR_tcp_connect r \<Rightarrow> [(1, [PV_message (reflect_ResourceTCPConnect r)])]
      | RR_tcp_listen r \<Rightarrow> [(2, [PV_message (reflect_ResourceTCPListen r)])]
      | RR_sshd r \<Rightarrow> [(3, [PV_message (reflect_ResourceSSHD r)])]
      | RR_not_set \<Rightarrow> [])"

definition reflect_ServiceSchema :: "ServiceSchema \<Rightarrow> dmsg" where
  "reflect_ServiceSchema m = DMsg ''rsp.proto.ServiceSchema''
     ([(1, [PV_string (proto_file_name m)])] @
      [(2, [PV_string (proto_file_descriptor_set m)])] @
      [(3, map PV_string (accepted_type_urls m))] @
      [(4, [PV_string (schema_hash m)])] @
      [(5, [PV_uint32 (schema_version m)])])"

definition reflect_SchemaRequest :: "SchemaRequest \<Rightarrow> dmsg" where
  "reflect_SchemaRequest m = DMsg ''rsp.proto.SchemaRequest''
     (opt_s 1 (req_proto_file_name m) @
      opt_s 2 (req_schema_hash m))"

definition reflect_SchemaReply :: "SchemaReply \<Rightarrow> dmsg" where
  "reflect_SchemaReply m = DMsg ''rsp.proto.SchemaReply''
     (rep_f 1 reflect_ServiceSchema (reply_schemas m))"

definition reflect_ResourceAdvertisement :: "ResourceAdvertisement \<Rightarrow> dmsg" where
  "reflect_ResourceAdvertisement m = DMsg ''rsp.proto.ResourceAdvertisement''
     (rep_f 1 reflect_ResourceRecord (records m) @
      rep_f 2 reflect_ServiceSchema (schemas m))"

definition reflect_ResourceQuery :: "ResourceQuery \<Rightarrow> dmsg" where
  "reflect_ResourceQuery m = DMsg ''rsp.proto.ResourceQuery''
     ([(1, [PV_string (query m)])] @
      [(2, [PV_uint32 (max_records m)])])"

definition reflect_DiscoveredService :: "DiscoveredService \<Rightarrow> dmsg" where
  "reflect_DiscoveredService m = DMsg ''rsp.proto.DiscoveredService''
     (opt_f 1 reflect_NodeId (discovered_node_id m) @
      opt_f 2 reflect_ServiceSchema (discovered_schema m))"

definition reflect_ResourceQueryReply :: "ResourceQueryReply \<Rightarrow> dmsg" where
  "reflect_ResourceQueryReply m = DMsg ''rsp.proto.ResourceQueryReply''
     (rep_f 1 reflect_DiscoveredService (services m))"

definition reflect_Error :: "ErrorMsg \<Rightarrow> dmsg" where
  "reflect_Error m = DMsg ''rsp.proto.Error''
     ([(1, [PV_enum (error_code m)])] @
      [(2, [PV_string (error_message m)])])"

definition reflect_AesKeyNegotiationRequest :: "AesKeyNegotiationRequest \<Rightarrow> dmsg" where
  "reflect_AesKeyNegotiationRequest m = DMsg ''rsp.proto.AesKeyNegotiationRequest''
     (opt_f 1 reflect_Uuid (req_key_id m) @
      opt_f 2 reflect_PublicKey (req_ephemeral_public_key m) @
      [(3, [PV_uint64 (requested_lifetime_ms m)])] @
      [(4, [PV_enum (req_algorithm m)])])"

definition reflect_AesKeyNegotiationReply :: "AesKeyNegotiationReply \<Rightarrow> dmsg" where
  "reflect_AesKeyNegotiationReply m = DMsg ''rsp.proto.AesKeyNegotiationReply''
     (opt_f 1 reflect_Uuid (rep_key_id m) @
      opt_f 2 reflect_PublicKey (rep_ephemeral_public_key m) @
      [(3, [PV_uint64 (accepted_lifetime_ms m)])] @
      [(4, [PV_enum (rep_algorithm m)])])"

definition reflect_AesKeyDropNotification :: "AesKeyDropNotification \<Rightarrow> dmsg" where
  "reflect_AesKeyDropNotification m = DMsg ''rsp.proto.AesKeyDropNotification''
     (opt_f 1 reflect_Uuid (drop_key_id m) @
      [(2, [PV_string (drop_reason m)])])"

definition reflect_AesKeyNegotiationError :: "AesKeyNegotiationError \<Rightarrow> dmsg" where
  "reflect_AesKeyNegotiationError m = DMsg ''rsp.proto.AesKeyNegotiationError''
     ([(1, [PV_enum (neg_error_code m)])] @
      opt_f 2 reflect_Uuid (err_key_id m) @
      [(3, [PV_string (neg_error_message m)])])"

definition reflect_PingRequest :: "PingRequest \<Rightarrow> dmsg" where
  "reflect_PingRequest m = DMsg ''rsp.proto.PingRequest''
     (opt_f 1 reflect_Uuid (ping_nonce m) @
      [(2, [PV_uint32 (ping_sequence m)])] @
      opt_f 3 reflect_DateTime (ping_time_sent m))"

definition reflect_PingReply :: "PingReply \<Rightarrow> dmsg" where
  "reflect_PingReply m = DMsg ''rsp.proto.PingReply''
     (opt_f 1 reflect_Uuid (pong_nonce m) @
      [(2, [PV_uint32 (pong_sequence m)])] @
      opt_f 3 reflect_DateTime (pong_time_sent m) @
      opt_f 4 reflect_DateTime (pong_time_replied m))"

definition reflect_Any :: "AnyMsg \<Rightarrow> dmsg" where
  "reflect_Any m = DMsg ''google.protobuf.Any''
     ([(1, [PV_string (type_url m)])] @
      [(2, [PV_string (any_value m)])])"

definition reflect_ERDASTFieldPath :: "FieldPath \<Rightarrow> dmsg" where
  "reflect_ERDASTFieldPath p = DMsg ''rsp.proto.ERDASTFieldPath'' [(1, map PV_string p)]"

definition reflect_LogASTFieldPath :: "FieldPath \<Rightarrow> dmsg" where
  "reflect_LogASTFieldPath p = DMsg ''rsp.proto.LogASTFieldPath'' [(1, map PV_string p)]"

definition reflect_ERDASTFieldValue :: "FieldValue \<Rightarrow> dmsg" where
  "reflect_ERDASTFieldValue v = DMsg ''rsp.proto.ERDASTFieldValue''
     (case v of
        FV_bytes b \<Rightarrow> [(1, [PV_string b])]
      | FV_string b \<Rightarrow> [(2, [PV_string b])]
      | FV_int n \<Rightarrow> [(3, [PV_int64 n])]
      | FV_uint n \<Rightarrow> [(4, [PV_uint64 n])]
      | FV_bool b \<Rightarrow> [(5, [PV_bool b])]
      | FV_enum n \<Rightarrow> [(6, [PV_int32 n])]
      | FV_not_set \<Rightarrow> [])"

definition reflect_LogASTFieldValue :: "LogFieldValue \<Rightarrow> dmsg" where
  "reflect_LogASTFieldValue v = DMsg ''rsp.proto.LogASTFieldValue''
     (case v of
        LFV_bytes b \<Rightarrow> [(1, [PV_string b])]
      | LFV_string b \<Rightarrow> [(2, [PV_string b])]
      | LFV_int n \<Rightarrow> [(3, [PV_int64 n])]
      | LFV_uint n \<Rightarrow> [(4, [PV_uint64 n])]
      | LFV_bool b \<Rightarrow> [(5, [PV_bool b])]
      | LFV_enum n \<Rightarrow> [(6, [PV_int32 n])]
      | LFV_not_set \<Rightarrow> [])"

definition reflect_EncryptedField :: "EncryptedField \<Rightarrow> dmsg" where
  "reflect_EncryptedField m = DMsg ''rsp.proto.EncryptedField''
     (opt_f 1 reflect_ERDASTFieldPath (enc_path m) @
      [(2, [PV_string (enc_iv m)])] @
      [(3, [PV_string (enc_ciphertext m)])] @
      [(4, [PV_string (enc_tag m)])] @
      [(5, [PV_uint32 (enc_algorithm m)])])"

text \<open>
  A node of a requirement tree is a message whose set alternative is itself a message; the operands
  are its fields 1 and 2, the terms of a list node its repeated field 1.
\<close>

definition tree_node :: "string \<Rightarrow> nat \<Rightarrow> string \<Rightarrow> (nat \<times> pval list) list \<Rightarrow> dmsg" where
  "tree_node full n kind fs =
     DMsg (''rsp.proto.'' @ full) [(n, [PV_message (DMsg (''rsp.proto.'' @ kind) fs)])]"

fun reflect_EndTree :: "EndTree \<Rightarrow> dmsg" where
  "reflect_EndTree (ET_equals a b) = tree_node ''ERDASTEndTree'' 1 ''ERDASTEndEquals'' (opt_f 1 reflect_EndTree a @ opt_f 2 reflect_EndTree b)"
| "reflect_EndTree (ET_and a b) = tree_node ''ERDASTEndTree'' 2 ''ERDASTEndAnd'' (opt_f 1 reflect_EndTree a @ opt_f 2 reflect_EndTree b)"
| "reflect_EndTree (ET_or a b) = tree_node ''ERDASTEndTree'' 3 ''ERDASTEndOr'' (opt_f 1 reflect_EndTree a @ opt_f 2 reflect_EndTree b)"
| "reflect_EndTree ET_true = tree_node ''ERDASTEndTree'' 9 ''ERDASTTrue'' []"
| "reflect_EndTree ET_false = tree_node ''ERDASTEndTree'' 10 ''ERDASTFalse'' []"
| "reflect_EndTree (ET_all_of ts) = tree_node ''ERDASTEndTree'' 11 ''ERDASTEndAllOf'' (rep_f 1 reflect_EndTree ts)"
| "reflect_EndTree (ET_any_of ts) = tree_node ''ERDASTEndTree'' 12 ''ERDASTEndAnyOf'' (rep_f 1 reflect_EndTree ts)"
| "reflect_EndTree (ET_type_equals t) = tree_node ''ERDASTEndTree'' 100 ''ERDASTEndTypeEquals''
     (opt_f 1 reflect_EndorsementType t)"
| "reflect_EndTree (ET_value_equals v) = tree_node ''ERDASTEndTree'' 101 ''ERDASTEndValueEquals''
     ([(1, [PV_string v])])"
| "reflect_EndTree (ET_signer_equals s) = tree_node ''ERDASTEndTree'' 102 ''ERDASTEndSignerEquals''
     (opt_f 1 reflect_NodeId s)"
| "reflect_EndTree ET_not_set = DMsg ''rsp.proto.ERDASTEndTree'' []"

fun reflect_MesTree :: "MesTree \<Rightarrow> dmsg" where
  "reflect_MesTree (MT_equals a b) = tree_node ''ERDASTMessageTree'' 1 ''ERDASTMesEquals'' (opt_f 1 reflect_MesTree a @ opt_f 2 reflect_MesTree b)"
| "reflect_MesTree (MT_and a b) = tree_node ''ERDASTMessageTree'' 2 ''ERDASTMesAnd'' (opt_f 1 reflect_MesTree a @ opt_f 2 reflect_MesTree b)"
| "reflect_MesTree (MT_or a b) = tree_node ''ERDASTMessageTree'' 3 ''ERDASTMesOr'' (opt_f 1 reflect_MesTree a @ opt_f 2 reflect_MesTree b)"
| "reflect_MesTree MT_true = tree_node ''ERDASTMessageTree'' 9 ''ERDASTTrue'' []"
| "reflect_MesTree MT_false = tree_node ''ERDASTMessageTree'' 10 ''ERDASTFalse'' []"
| "reflect_MesTree (MT_all_of ts) = tree_node ''ERDASTMessageTree'' 11 ''ERDASTMesAllOf'' (rep_f 1 reflect_MesTree ts)"
| "reflect_MesTree (MT_any_of ts) = tree_node ''ERDASTMessageTree'' 12 ''ERDASTMesAnyOf'' (rep_f 1 reflect_MesTree ts)"
| "reflect_MesTree (MT_field_equals p v) = tree_node ''ERDASTMessageTree'' 200 ''ERDASTFieldEquals''
     (opt_f 1 reflect_ERDASTFieldPath p @ opt_f 2 reflect_ERDASTFieldValue v)"
| "reflect_MesTree (MT_field_exists p) = tree_node ''ERDASTMessageTree'' 201 ''ERDASTFieldExists''
     (opt_f 1 reflect_ERDASTFieldPath p)"
| "reflect_MesTree (MT_field_contains p q v) = tree_node ''ERDASTMessageTree'' 202 ''ERDASTFieldContains''
     (opt_f 1 reflect_ERDASTFieldPath p @ opt_f 2 reflect_ERDASTFieldPath q @
      opt_f 3 reflect_ERDASTFieldValue v)"
| "reflect_MesTree MT_not_set = DMsg ''rsp.proto.ERDASTMessageTree'' []"

fun reflect_LogTree :: "LogTree \<Rightarrow> dmsg" where
  "reflect_LogTree (LT_equals a b) = tree_node ''LogASTMessageTree'' 1 ''LogASTMesEquals'' (opt_f 1 reflect_LogTree a @ opt_f 2 reflect_LogTree b)"
| "reflect_LogTree (LT_and a b) = tree_node ''LogASTMessageTree'' 2 ''LogASTMesAnd'' (opt_f 1 reflect_LogTree a @ opt_f 2 reflect_LogTree b)"
| "reflect_LogTree (LT_or a b) = tree_node ''LogASTMessageTree'' 3 ''LogASTMesOr'' (opt_f 1 reflect_LogTree a @ opt_f 2 reflect_LogTree b)"
| "reflect_LogTree LT_true = tree_node ''LogASTMessageTree'' 9 ''ERDASTTrue'' []"
| "reflect_LogTree LT_false = tree_node ''LogASTMessageTree'' 10 ''ERDASTFalse'' []"
| "reflect_LogTree (LT_all_of ts) = tree_node ''LogASTMessageTree'' 11 ''LogASTMesAllOf'' (rep_f 1 reflect_LogTree ts)"
| "reflect_LogTree (LT_any_of ts) = tree_node ''LogASTMessageTree'' 12 ''LogASTMesAnyOf'' (rep_f 1 reflect_LogTree ts)"
| "reflect_LogTree (LT_field_equals p v) = tree_node ''LogASTMessageTree'' 200 ''LogASTFieldEquals''
     (opt_f 1 reflect_LogASTFieldPath p @ opt_f 2 reflect_LogASTFieldValue v)"
| "reflect_LogTree (LT_field_exists p) = tree_node ''LogASTMessageTree'' 201 ''LogASTFieldExists''
     (opt_f 1 reflect_LogASTFieldPath p)"
| "reflect_LogTree (LT_field_contains p q v) = tree_node ''LogASTMessageTree'' 202 ''LogASTFieldContains''
     (opt_f 1 reflect_LogASTFieldPath p @ opt_f 2 reflect_LogASTFieldPath q @
      opt_f 3 reflect_LogASTFieldValue v)"
| "reflect_LogTree LT_not_set = DMsg ''rsp.proto.LogASTMessageTree'' []"

fun reflect_AST :: "AST \<Rightarrow> dmsg" where
  "reflect_AST (AST_equals a b) = tree_node ''ERDAbstractSyntaxTree'' 1 ''ERDASTEquals'' (opt_f 1 reflect_AST a @ opt_f 2 reflect_AST b)"
| "reflect_AST (AST_and a b) = tree_node ''ERDAbstractSyntaxTree'' 2 ''ERDASTAnd'' (opt_f 1 reflect_AST a @ opt_f 2 reflect_AST b)"
| "reflect_AST (AST_or a b) = tree_node ''ERDAbstractSyntaxTree'' 3 ''ERDASTOr'' (opt_f 1 reflect_AST a @ opt_f 2 reflect_AST b)"
| "reflect_AST AST_true = tree_node ''ERDAbstractSyntaxTree'' 9 ''ERDASTTrue'' []"
| "reflect_AST AST_false = tree_node ''ERDAbstractSyntaxTree'' 10 ''ERDASTFalse'' []"
| "reflect_AST (AST_all_of ts) = tree_node ''ERDAbstractSyntaxTree'' 11 ''ERDASTAllOf'' (rep_f 1 reflect_AST ts)"
| "reflect_AST (AST_any_of ts) = tree_node ''ERDAbstractSyntaxTree'' 12 ''ERDASTAnyOf'' (rep_f 1 reflect_AST ts)"
| "reflect_AST (AST_endorsement t) = tree_node ''ERDAbstractSyntaxTree'' 100 ''ERDASTEndorsement''
     (opt_f 1 reflect_EndTree t)"
| "reflect_AST (AST_message t) = tree_node ''ERDAbstractSyntaxTree'' 101 ''ERDASTMessage''
     (opt_f 1 reflect_MesTree t)"
| "reflect_AST AST_not_set = DMsg ''rsp.proto.ERDAbstractSyntaxTree'' []"

definition reflect_EndorsementNeeded :: "EndorsementNeeded \<Rightarrow> dmsg" where
  "reflect_EndorsementNeeded m = DMsg ''rsp.proto.EndorsementNeeded''
     (opt_f 1 reflect_Uuid (message_nonce m) @
      opt_f 2 reflect_AST (needed_tree m))"

definition reflect_LogSubscribeRequest :: "LogSubscribeRequest \<Rightarrow> dmsg" where
  "reflect_LogSubscribeRequest m = DMsg ''rsp.proto.LogSubscribeRequest''
     ([(1, [PV_string (payload_type_url m)])] @
      opt_f 2 reflect_LogTree (log_filter m) @
      [(3, [PV_uint64 (duration_ms m)])])"

definition reflect_LogSubscribeReply :: "LogSubscribeReply \<Rightarrow> dmsg" where
  "reflect_LogSubscribeReply m = DMsg ''rsp.proto.LogSubscribeReply''
     ([(1, [PV_enum (sub_status m)])] @
      opt_f 2 reflect_Uuid (sub_id m) @
      opt_f 3 reflect_DateTime (expires_at m) @
      [(4, [PV_string (sub_message m)])])"

definition reflect_LogUnsubscribeRequest :: "LogUnsubscribeRequest \<Rightarrow> dmsg" where
  "reflect_LogUnsubscribeRequest m = DMsg ''rsp.proto.LogUnsubscribeRequest''
     (opt_f 1 reflect_Uuid (unsub_req_id m))"

definition reflect_LogUnsubscribeReply :: "LogUnsubscribeReply \<Rightarrow> dmsg" where
  "reflect_LogUnsubscribeReply m = DMsg ''rsp.proto.LogUnsubscribeReply''
     ([(1, [PV_enum (unsub_status m)])] @
      opt_f 2 reflect_Uuid (unsub_id m) @
      [(3, [PV_string (unsub_message m)])])"

definition reflect_LogRecord :: "LogRecord \<Rightarrow> dmsg" where
  "reflect_LogRecord m = DMsg ''rsp.proto.LogRecord''
     (opt_f 1 reflect_Uuid (rec_subscription_id m) @
      opt_f 2 reflect_NodeId (producer_node_id m) @
      opt_f 3 reflect_DateTime (time_created m) @
      opt_f 4 reflect_Any (payload m))"

definition reflect_core :: "core_message \<Rightarrow> (nat \<times> pval list) list" where
  "reflect_core c =
     (case c of
        challenge_request x \<Rightarrow> [(3, [PV_message (reflect_ChallengeRequest x)])]
      | identity x \<Rightarrow> [(4, [PV_message (reflect_Identity x)])]
      | route x \<Rightarrow> [(5, [PV_message (reflect_RouteUpdate x)])]
      | error_msg x \<Rightarrow> [(6, [PV_message (reflect_Error x)])]
      | ping_request x \<Rightarrow> [(7, [PV_message (reflect_PingRequest x)])]
      | ping_reply x \<Rightarrow> [(8, [PV_message (reflect_PingReply x)])]
      | resource_advertisement x \<Rightarrow> [(16, [PV_message (reflect_ResourceAdvertisement x)])]
      | resource_query x \<Rightarrow> [(17, [PV_message (reflect_ResourceQuery x)])]
      | endorsement_needed x \<Rightarrow> [(23, [PV_message (reflect_EndorsementNeeded x)])]
      | schema_request x \<Rightarrow> [(25, [PV_message (reflect_SchemaRequest x)])]
      | schema_reply x \<Rightarrow> [(26, [PV_message (reflect_SchemaReply x)])]
      | resource_query_reply x \<Rightarrow> [(27, [PV_message (reflect_ResourceQueryReply x)])]
      | log_subscribe_request x \<Rightarrow> [(28, [PV_message (reflect_LogSubscribeRequest x)])]
      | log_subscribe_reply x \<Rightarrow> [(29, [PV_message (reflect_LogSubscribeReply x)])]
      | log_unsubscribe_request x \<Rightarrow> [(30, [PV_message (reflect_LogUnsubscribeRequest x)])]
      | log_unsubscribe_reply x \<Rightarrow> [(31, [PV_message (reflect_LogUnsubscribeReply x)])]
      | log_record x \<Rightarrow> [(32, [PV_message (reflect_LogRecord x)])]
      | aes_key_negotiation_request x \<Rightarrow> [(33, [PV_message (reflect_AesKeyNegotiationRequest x)])]
      | aes_key_negotiation_reply x \<Rightarrow> [(34, [PV_message (reflect_AesKeyNegotiationReply x)])]
      | aes_key_drop_notification x \<Rightarrow> [(35, [PV_message (reflect_AesKeyDropNotification x)])]
      | aes_key_negotiation_error x \<Rightarrow> [(36, [PV_message (reflect_AesKeyNegotiationError x)])]
      | core_not_set \<Rightarrow> [])"

definition reflect_RSPMessage :: "RSPMessage \<Rightarrow> dmsg" where
  "reflect_RSPMessage m = DMsg ''rsp.proto.RSPMessage''
     (opt_f 1 reflect_NodeId (destination m) @
      opt_f 2 reflect_NodeId (source m) @
      opt_f 24 reflect_OptionalBool (trace m) @
      reflect_core (core m) @
      opt_f 200 reflect_Any (service_message m) @
      opt_f 22 reflect_Uuid (nonce m) @
      opt_f 99 reflect_SignatureBlock (signature m) @
      rep_f 100 reflect_Endorsement (endorsements m) @
      rep_f 101 reflect_Identity (identities m) @
      rep_f 102 reflect_EncryptedField (encrypted_fields m))"

end
