(* ===== verification/Field_Resolver.thy ===== *)
theory Field_Resolver
  imports Reflection
begin

text \<open>
  \<^verbatim>\<open>src/common/endorsement/field_resolver.cpp\<close>: following a field path through a message by
  reflection, unpacking a \<^verbatim>\<open>google.protobuf.Any\<close> with a schema snapshot on the way, and comparing
  the value found with a literal. The snapshot is given by the descriptor pool built from its schemas
  and by the parser of the pool's dynamic messages, both code of the protobuf library.
\<close>

datatype ResolvedValue =
    RV_monostate
  | RV_string bytes
  | RV_int64 u64
  | RV_uint64 u64
  | RV_bool bool
  | RV_int32 u32

record snapshot_view =
  snap_pool :: desc_pool
  snap_parse :: "string \<Rightarrow> bytes \<Rightarrow> dmsg option"

definition typeNameFromUrl :: "string \<Rightarrow> string" where
  "typeNameFromUrl url = rev (takeWhile (\<lambda>c. c \<noteq> CHR ''/'') (rev url))"

text \<open>\<^verbatim>\<open>static_cast<int64_t>\<close> of a floating-point value truncates; out of range it has no meaning.\<close>

definition truncate_int64 :: "real \<Rightarrow> u64 result" where
  "truncate_int64 x =
     (let n = (if 0 \<le> x then \<lfloor>x\<rfloor> else \<lceil>x\<rceil>)
      in if - (2 ^ 63) \<le> n \<and> n < 2 ^ 63 then Inr (word_of_int n)
         else Inl (Undefined ''floating-point value out of the range of int64_t''))"

definition readScalar :: "dmsg \<Rightarrow> field_desc \<Rightarrow> ResolvedValue result" where
  "readScalar m f =
     (case fd_type f of
        CPP_STRING \<Rightarrow> Inr (RV_string (GetString m f))
      | CPP_INT32 \<Rightarrow> Inr (RV_int64 (case field_values m f of PV_int32 n # vs \<Rightarrow> scast n | _ \<Rightarrow> 0))
      | CPP_INT64 \<Rightarrow> Inr (RV_int64 (case field_values m f of PV_int64 n # vs \<Rightarrow> n | _ \<Rightarrow> 0))
      | CPP_UINT32 \<Rightarrow> Inr (RV_uint64 (case field_values m f of PV_uint32 n # vs \<Rightarrow> ucast n | _ \<Rightarrow> 0))
      | CPP_UINT64 \<Rightarrow> Inr (RV_uint64 (case field_values m f of PV_uint64 n # vs \<Rightarrow> n | _ \<Rightarrow> 0))
      | CPP_BOOL \<Rightarrow> Inr (RV_bool (case field_values m f of PV_bool b # vs \<Rightarrow> b | _ \<Rightarrow> False))
      | CPP_ENUM \<Rightarrow> Inr (RV_int32 (case field_values m f of PV_enum n # vs \<Rightarrow> n | _ \<Rightarrow> 0))
      | CPP_FLOAT \<Rightarrow>
          (case field_values m f of
             PV_float x # vs \<Rightarrow> res_bind (truncate_int64 x) (\<lambda>n. Inr (RV_int64 n))
           | _ \<Rightarrow> Inr (RV_int64 0))
      | CPP_DOUBLE \<Rightarrow>
          (case field_values m f of
             PV_double x # vs \<Rightarrow> res_bind (truncate_int64 x) (\<lambda>n. Inr (RV_int64 n))
           | _ \<Rightarrow> Inr (RV_int64 0))
      | CPP_MESSAGE tn \<Rightarrow> Inr RV_monostate)"

text \<open>
  The state of the walk: the message reached, the pool its descriptor belongs to, and whether it
  lives in \<^verbatim>\<open>dynamicHolder\<close>, which the caller of \<^verbatim>\<open>walkPath\<close> owns.
\<close>

record WalkResult =
  walk_message :: dmsg
  walk_pool :: desc_pool
  walk_dynamic :: bool
  walk_field :: field_desc

definition FindFieldByName :: "desc_pool \<Rightarrow> dmsg \<Rightarrow> string \<Rightarrow> field_desc option" where
  "FindFieldByName pool m seg =
     (case pool (dm_type m) of
        None \<Rightarrow> None
      | Some fs \<Rightarrow> find (\<lambda>f. fd_name f = seg) fs)"

definition any_type_url :: field_desc where
  "any_type_url = plain_field 1 ''type_url'' CPP_STRING"

definition any_value_field :: field_desc where
  "any_value_field = plain_field 2 ''value'' CPP_STRING"

text \<open>
  Unpacking an \<^verbatim>\<open>Any\<close>: the descriptor and factory come from the snapshot's pool, an unknown type or
  a value that does not parse ends the walk.
\<close>

definition unpackAny :: "snapshot_view \<Rightarrow> dmsg \<Rightarrow> dmsg option" where
  "unpackAny snap anyMsg =
     (let typeName = typeNameFromUrl (GetString anyMsg any_type_url)
      in case snap_pool snap typeName of
           None \<Rightarrow> None
         | Some d \<Rightarrow> snap_parse snap typeName (GetString anyMsg any_value_field))"

fun walkPath :: "snapshot_view option \<Rightarrow> desc_pool \<Rightarrow> bool \<Rightarrow> dmsg \<Rightarrow> string list \<Rightarrow>
    WalkResult option result" where
  "walkPath snap pool dyn current [] = Inr None"
| "walkPath snap pool dyn current (seg # rest) =
     (case FindFieldByName pool current seg of
        None \<Rightarrow> Inr None
      | Some f \<Rightarrow>
          if rest = [] then
            Inr (Some \<lparr>walk_message = current, walk_pool = pool, walk_dynamic = dyn, walk_field = f\<rparr>)
          else
            (case fd_type f of
               CPP_MESSAGE tn \<Rightarrow>
                 res_bind (GetMessage current f) (\<lambda>sub.
                   case snap of
                     Some sv \<Rightarrow>
                       if tn = ''google.protobuf.Any'' then
                         (case unpackAny sv sub of
                            None \<Rightarrow> Inr None
                          | Some d \<Rightarrow> walkPath snap (snap_pool sv) True d rest)
                       else walkPath snap pool dyn sub rest
                   | None \<Rightarrow> walkPath snap pool dyn sub rest)
             | _ \<Rightarrow> Inr None))"

definition resolveFieldPath :: "FieldPath \<Rightarrow> desc_pool \<Rightarrow> dmsg \<Rightarrow> snapshot_view option \<Rightarrow>
    ResolvedValue result" where
  "resolveFieldPath path pool m snap =
     res_bind (walkPath snap pool False m path) (\<lambda>r.
       case r of
         None \<Rightarrow> Inr RV_monostate
       | Some w \<Rightarrow>
           if fd_repeated (walk_field w) then Inr RV_monostate
           else (case fd_type (walk_field w) of
                   CPP_MESSAGE tn \<Rightarrow>
                     Inr (if HasField (walk_message w) (walk_field w) then RV_bool True
                          else RV_monostate)
                 | _ \<Rightarrow> readScalar (walk_message w) (walk_field w)))"

definition resolvedValueEquals :: "ResolvedValue \<Rightarrow> FieldValue \<Rightarrow> bool" where
  "resolvedValueEquals resolved expected =
     (case expected of
        FV_bytes b \<Rightarrow> (case resolved of RV_string s \<Rightarrow> s = b | _ \<Rightarrow> False)
      | FV_string b \<Rightarrow> (case resolved of RV_string s \<Rightarrow> s = b | _ \<Rightarrow> False)
      | FV_int n \<Rightarrow> (case resolved of RV_int64 v \<Rightarrow> v = n | _ \<Rightarrow> False)
      | FV_uint n \<Rightarrow> (case resolved of RV_uint64 v \<Rightarrow> v = n | _ \<Rightarrow> False)
      | FV_bool b \<Rightarrow> (case resolved of RV_bool v \<Rightarrow> v = b | _ \<Rightarrow> False)
      | FV_enum n \<Rightarrow> (case resolved of RV_int32 v \<Rightarrow> v = n | _ \<Rightarrow> False)
      | FV_not_set \<Rightarrow> False)"

definition resolvedValuePresent :: "ResolvedValue \<Rightarrow> bool" where
  "resolvedValuePresent resolved = (resolved \<noteq> RV_monostate)"

text \<open>
  The elements are pointers into the message walked. \<^verbatim>\<open>dynamicHolder\<close> is a local of this function, so
  elements that live in it are destroyed at the return: using one has no meaning.
\<close>

definition resolveRepeatedMessages :: "FieldPath \<Rightarrow> desc_pool \<Rightarrow> dmsg \<Rightarrow> snapshot_view option \<Rightarrow>
    (desc_pool \<times> dmsg result) list result" where
  "resolveRepeatedMessages path pool m snap =
     res_bind (walkPath snap pool False m path) (\<lambda>r.
       case r of
         None \<Rightarrow> Inr []
       | Some w \<Rightarrow>
           if \<not> fd_repeated (walk_field w) then Inr []
           else (case fd_type (walk_field w) of
                   CPP_MESSAGE tn \<Rightarrow>
                     Inr (map (\<lambda>e. (walk_pool w,
                                if walk_dynamic w then Inl (Undefined ''use of a destroyed message'')
                                else Inr e))
                            (repeated_messages (walk_message w) (walk_field w)))
                 | _ \<Rightarrow> Inr []))"

section \<open>What a path resolves to\<close>

lemma resolvedValueEquals_present:
  "resolvedValueEquals r v \<Longrightarrow> resolvedValuePresent r"
  by (auto simp: resolvedValueEquals_def resolvedValuePresent_def split: FieldValue.splits)

lemma takeWhile_no_char: "c \<notin> set xs \<Longrightarrow> takeWhile (\<lambda>d. d \<noteq> c) xs = xs"
  by (induction xs) auto

lemma typeNameFromUrl_slash:
  "CHR ''/'' \<notin> set name \<Longrightarrow> typeNameFromUrl (host @ CHR ''/'' # name) = name"
  by (simp add: typeNameFromUrl_def takeWhile_append takeWhile_no_char)

lemma typeNameFromUrl_no_slash [simp]:
  "CHR ''/'' \<notin> set name \<Longrightarrow> typeNameFromUrl name = name"
  by (simp add: typeNameFromUrl_def takeWhile_no_char)

lemma resolve_empty_path [simp]: "resolveFieldPath [] pool m snap = Inr RV_monostate"
  by (simp add: resolveFieldPath_def)

lemma resolve_unknown_field:
  "FindFieldByName pool m seg = None \<Longrightarrow> resolveFieldPath (seg # p) pool m snap = Inr RV_monostate"
  by (simp add: resolveFieldPath_def)

text \<open>
  A walk ends abnormally only where it enters a repeated field: with every field of the pools used on
  the way singular at the intermediate segments, the outcome is a value.
\<close>

definition singular_pool :: "desc_pool \<Rightarrow> bool" where
  "singular_pool pool \<longleftrightarrow> (\<forall>tn fs f. pool tn = Some fs \<longrightarrow> f \<in> set fs \<longrightarrow>
     fd_repeated f \<longrightarrow> (\<forall>t. fd_type f \<noteq> CPP_MESSAGE t))"

lemma FindFieldByName_in:
  "FindFieldByName pool m seg = Some f \<Longrightarrow>
   \<exists>fs. pool (dm_type m) = Some fs \<and> f \<in> set fs \<and> fd_name f = seg"
  by (auto simp: FindFieldByName_def find_Some_iff split: option.splits)

lemma GetMessage_total:
  "fd_type f = CPP_MESSAGE tn \<Longrightarrow> \<not> fd_repeated f \<Longrightarrow> \<exists>x. GetMessage m f = Inr x"
  by (cases "field_values m f"; cases "hd (field_values m f)") auto

lemma walkPath_singular:
  "singular_pool pool \<Longrightarrow> (\<And>sv. snap = Some sv \<Longrightarrow> singular_pool (snap_pool sv)) \<Longrightarrow>
   \<exists>r. walkPath snap pool dyn m path = Inr r"
proof (induction snap pool dyn m path rule: walkPath.induct)
  case (2 snap pool dyn current seg rest)
  show ?case
  proof (cases "FindFieldByName pool current seg")
    case (Some f)
    show ?thesis
    proof (cases "\<exists>tn. fd_type f = CPP_MESSAGE tn")
      case True
      then obtain tn where tn: "fd_type f = CPP_MESSAGE tn" by blast
      then have "\<not> fd_repeated f"
        using FindFieldByName_in [OF Some] 2(4) unfolding singular_pool_def by blast
      then obtain sub where "GetMessage current f = Inr sub"
        using tn GetMessage_total by blast
      then show ?thesis
        using 2 Some tn by (auto split: option.splits simp del: GetMessage.simps)
    qed (use Some in \<open>auto split: cpp_type.splits\<close>)
  qed simp
qed simp

text \<open>The descriptors the lemmas below evaluate.\<close>

lemma messages_pool_RSPMessage:
  "FindFieldByName messages_pool (DMsg ''rsp.proto.RSPMessage'' fs) seg =
   find (\<lambda>f. fd_name f = seg) (snd (hd messages_descriptors))"
  by (simp add: FindFieldByName_def messages_pool_def messages_descriptors_def)

lemma Find_endorsements:
  "FindFieldByName messages_pool (reflect_RSPMessage m) ''endorsements'' =
   Some (repeated_field 100 ''endorsements'' (CPP_MESSAGE ''rsp.proto.Endorsement''))"
  by (simp add: reflect_RSPMessage_def messages_pool_RSPMessage messages_descriptors_def)

lemma Find_destination:
  "FindFieldByName messages_pool (reflect_RSPMessage m) ''destination'' =
   Some (optional_field 1 ''destination'' (CPP_MESSAGE ''rsp.proto.NodeId''))"
  by (simp add: reflect_RSPMessage_def messages_pool_RSPMessage messages_descriptors_def)

lemma Find_NodeId_value:
  "FindFieldByName messages_pool (DMsg ''rsp.proto.NodeId'' fs) ''value'' =
   Some (plain_field 1 ''value'' CPP_STRING)"
  by (simp add: FindFieldByName_def messages_pool_def messages_descriptors_def)

lemma GetMessage_destination:
  "GetMessage (reflect_RSPMessage m)
     (optional_field 1 ''destination'' (CPP_MESSAGE ''rsp.proto.NodeId'')) =
   Inr (case destination m of None \<Rightarrow> DMsg ''rsp.proto.NodeId'' [] | Some d \<Rightarrow> reflect_NodeId d)"
proof -
  have "map_of (reflect_core c) (Suc 0) = None" for c
    by (cases c) (simp_all add: reflect_core_def)
  then show ?thesis
    by (auto simp: field_values_def reflect_RSPMessage_def opt_f_def rep_f_def map_add_def
        split: option.splits)
qed

lemma resolve_destination_value:
  "resolveFieldPath [''destination'', ''value''] messages_pool (reflect_RSPMessage m) snap =
   Inr (RV_string (bytes_or_default (destination m)))"
  by (cases "destination m"; cases snap)
    (simp_all add: resolveFieldPath_def Find_destination GetMessage_destination Find_NodeId_value
      reflect_NodeId_def readScalar_def GetString_def field_values_def
      del: GetMessage.simps One_nat_def)

end
