(* ===== verification/Requirement.thy ===== *)
theory Requirement
  imports Endorsement Field_Resolver
begin

text \<open>
  The second half of \<^verbatim>\<open>src/common/endorsement/endorsement.cpp\<close>: evaluation of requirement trees
  against one endorsement and against a message, constant folding, and the reduction of a requirement
  by the endorsements a node presents, whose empty result means that access is granted.

  Evaluation may throw: an endorsement accessor validates its message, and an identifier in the tree
  may have the wrong length. C++ leaves the order of the operands of \<^verbatim>\<open>==\<close> open; the model takes the
  left one first, which only selects the text of the exception.
\<close>

section \<open>Evaluation against an endorsement\<close>

fun evaluateEndorsementTree :: "EndTree \<Rightarrow> EndorsementMsg \<Rightarrow> bool result" where
  "evaluateEndorsementTree (ET_equals (Some l) (Some r)) e =
     res_eq (evaluateEndorsementTree l e) (evaluateEndorsementTree r e)"
| "evaluateEndorsementTree (ET_equals None r) e = Inr False"
| "evaluateEndorsementTree (ET_equals (Some l) None) e = Inr False"
| "evaluateEndorsementTree (ET_and (Some l) (Some r)) e =
     res_and (evaluateEndorsementTree l e) (evaluateEndorsementTree r e)"
| "evaluateEndorsementTree (ET_and None r) e = Inr False"
| "evaluateEndorsementTree (ET_and (Some l) None) e = Inr False"
| "evaluateEndorsementTree (ET_or (Some l) (Some r)) e =
     res_or (evaluateEndorsementTree l e) (evaluateEndorsementTree r e)"
| "evaluateEndorsementTree (ET_or None r) e = Inr False"
| "evaluateEndorsementTree (ET_or (Some l) None) e = Inr False"
| "evaluateEndorsementTree (ET_all_of ts) e =
     (if ts = [] then Inr False else res_all (\<lambda>t. evaluateEndorsementTree t e) ts)"
| "evaluateEndorsementTree (ET_any_of ts) e = res_any (\<lambda>t. evaluateEndorsementTree t e) ts"
| "evaluateEndorsementTree (ET_type_equals ty) e =
     (case ty of
        None \<Rightarrow> Inr False
      | Some t \<Rightarrow>
          res_bind (endorsementType e) (\<lambda>own.
          res_bind (parseEndorsementType t ''invalid requirement endorsement type length'') (\<lambda>wanted.
            Inr (own = wanted))))"
| "evaluateEndorsementTree (ET_value_equals v) e =
     res_bind (endorsementValue e) (\<lambda>b. Inr (bufferToString b = v))"
| "evaluateEndorsementTree (ET_signer_equals s) e =
     (case s of
        None \<Rightarrow> Inr False
      | Some n \<Rightarrow>
          res_bind (endorsementService e) (\<lambda>own.
          res_bind (parseNodeId n ''invalid requirement signer length'') (\<lambda>wanted.
            Inr (own = wanted))))"
| "evaluateEndorsementTree ET_true e = Inr True"
| "evaluateEndorsementTree ET_false e = Inr False"
| "evaluateEndorsementTree ET_not_set e = Inr False"

fun evaluateRequirementTree :: "AST \<Rightarrow> EndorsementMsg \<Rightarrow> bool result" where
  "evaluateRequirementTree (AST_equals (Some l) (Some r)) e =
     res_eq (evaluateRequirementTree l e) (evaluateRequirementTree r e)"
| "evaluateRequirementTree (AST_equals None r) e = Inr False"
| "evaluateRequirementTree (AST_equals (Some l) None) e = Inr False"
| "evaluateRequirementTree (AST_and (Some l) (Some r)) e =
     res_and (evaluateRequirementTree l e) (evaluateRequirementTree r e)"
| "evaluateRequirementTree (AST_and None r) e = Inr False"
| "evaluateRequirementTree (AST_and (Some l) None) e = Inr False"
| "evaluateRequirementTree (AST_or (Some l) (Some r)) e =
     res_or (evaluateRequirementTree l e) (evaluateRequirementTree r e)"
| "evaluateRequirementTree (AST_or None r) e = Inr False"
| "evaluateRequirementTree (AST_or (Some l) None) e = Inr False"
| "evaluateRequirementTree (AST_all_of ts) e =
     (if ts = [] then Inr False else res_all (\<lambda>t. evaluateRequirementTree t e) ts)"
| "evaluateRequirementTree (AST_any_of ts) e = res_any (\<lambda>t. evaluateRequirementTree t e) ts"
| "evaluateRequirementTree (AST_endorsement t) e =
     (case t of None \<Rightarrow> Inr False | Some t' \<Rightarrow> evaluateEndorsementTree t' e)"
| "evaluateRequirementTree (AST_message t) e = Inr False"
| "evaluateRequirementTree AST_true e = Inr True"
| "evaluateRequirementTree AST_false e = Inr False"
| "evaluateRequirementTree AST_not_set e = Inr False"

section \<open>Evaluation against a message\<close>

definition field_equals_message :: "FieldPath option \<Rightarrow> FieldValue option \<Rightarrow> desc_pool \<Rightarrow> dmsg \<Rightarrow>
    snapshot_view option \<Rightarrow> bool result" where
  "field_equals_message path val pool m snap =
     (case (path, val) of
        (Some p, Some v) \<Rightarrow>
          res_bind (resolveFieldPath p pool m snap) (\<lambda>resolved. Inr (resolvedValueEquals resolved v))
      | _ \<Rightarrow> Inr False)"

definition field_exists_message :: "FieldPath option \<Rightarrow> desc_pool \<Rightarrow> dmsg \<Rightarrow> snapshot_view option \<Rightarrow>
    bool result" where
  "field_exists_message path pool m snap =
     (case path of
        None \<Rightarrow> Inr False
      | Some p \<Rightarrow>
          res_bind (resolveFieldPath p pool m snap) (\<lambda>resolved. Inr (resolvedValuePresent resolved)))"

definition field_contains_message :: "FieldPath option \<Rightarrow> FieldPath option \<Rightarrow> FieldValue option \<Rightarrow>
    desc_pool \<Rightarrow> dmsg \<Rightarrow> snapshot_view option \<Rightarrow> bool result" where
  "field_contains_message path sub_path val pool m snap =
     (case (path, sub_path, val) of
        (Some p, Some q, Some v) \<Rightarrow>
          res_bind (resolveRepeatedMessages p pool m snap) (\<lambda>elements.
            res_any (\<lambda>(epool, elem).
              res_bind elem (\<lambda>x.
              res_bind (resolveFieldPath q epool x snap) (\<lambda>resolved.
                Inr (resolvedValueEquals resolved v)))) elements)
      | _ \<Rightarrow> Inr False)"

fun evaluateMessageTree :: "MesTree \<Rightarrow> RSPMessage \<Rightarrow> snapshot_view option \<Rightarrow> bool result" where
  "evaluateMessageTree (MT_equals (Some l) (Some r)) m snap =
     res_eq (evaluateMessageTree l m snap) (evaluateMessageTree r m snap)"
| "evaluateMessageTree (MT_equals None r) m snap = Inr False"
| "evaluateMessageTree (MT_equals (Some l) None) m snap = Inr False"
| "evaluateMessageTree (MT_and (Some l) (Some r)) m snap =
     res_and (evaluateMessageTree l m snap) (evaluateMessageTree r m snap)"
| "evaluateMessageTree (MT_and None r) m snap = Inr False"
| "evaluateMessageTree (MT_and (Some l) None) m snap = Inr False"
| "evaluateMessageTree (MT_or (Some l) (Some r)) m snap =
     res_or (evaluateMessageTree l m snap) (evaluateMessageTree r m snap)"
| "evaluateMessageTree (MT_or None r) m snap = Inr False"
| "evaluateMessageTree (MT_or (Some l) None) m snap = Inr False"
| "evaluateMessageTree (MT_all_of ts) m snap =
     (if ts = [] then Inr False else res_all (\<lambda>t. evaluateMessageTree t m snap) ts)"
| "evaluateMessageTree (MT_any_of ts) m snap = res_any (\<lambda>t. evaluateMessageTree t m snap) ts"
| "evaluateMessageTree (MT_field_equals p v) m snap =
     field_equals_message p v messages_pool (reflect_RSPMessage m) snap"
| "evaluateMessageTree (MT_field_exists p) m snap =
     field_exists_message p messages_pool (reflect_RSPMessage m) snap"
| "evaluateMessageTree (MT_field_contains p q v) m snap =
     field_contains_message p q v messages_pool (reflect_RSPMessage m) snap"
| "evaluateMessageTree MT_true m snap = Inr True"
| "evaluateMessageTree MT_false m snap = Inr False"
| "evaluateMessageTree MT_not_set m snap = Inr False"

fun evaluateMessageRequirementTree :: "AST \<Rightarrow> RSPMessage \<Rightarrow> snapshot_view option \<Rightarrow> bool result" where
  "evaluateMessageRequirementTree (AST_equals (Some l) (Some r)) m snap =
     res_eq (evaluateMessageRequirementTree l m snap) (evaluateMessageRequirementTree r m snap)"
| "evaluateMessageRequirementTree (AST_equals None r) m snap = Inr False"
| "evaluateMessageRequirementTree (AST_equals (Some l) None) m snap = Inr False"
| "evaluateMessageRequirementTree (AST_and (Some l) (Some r)) m snap =
     res_and (evaluateMessageRequirementTree l m snap) (evaluateMessageRequirementTree r m snap)"
| "evaluateMessageRequirementTree (AST_and None r) m snap = Inr False"
| "evaluateMessageRequirementTree (AST_and (Some l) None) m snap = Inr False"
| "evaluateMessageRequirementTree (AST_or (Some l) (Some r)) m snap =
     res_or (evaluateMessageRequirementTree l m snap) (evaluateMessageRequirementTree r m snap)"
| "evaluateMessageRequirementTree (AST_or None r) m snap = Inr False"
| "evaluateMessageRequirementTree (AST_or (Some l) None) m snap = Inr False"
| "evaluateMessageRequirementTree (AST_all_of ts) m snap =
     (if ts = [] then Inr False else res_all (\<lambda>t. evaluateMessageRequirementTree t m snap) ts)"
| "evaluateMessageRequirementTree (AST_any_of ts) m snap =
     res_any (\<lambda>t. evaluateMessageRequirementTree t m snap) ts"
| "evaluateMessageRequirementTree (AST_message t) m snap =
     (case t of None \<Rightarrow> Inr False | Some t' \<Rightarrow> evaluateMessageTree t' m snap)"
| "evaluateMessageRequirementTree (AST_endorsement t) m snap = Inr False"
| "evaluateMessageRequirementTree AST_true m snap = Inr True"
| "evaluateMessageRequirementTree AST_false m snap = Inr False"
| "evaluateMessageRequirementTree AST_not_set m snap = Inr False"

section \<open>Constant folding and reduction\<close>

definition isEmptyTree :: "AST \<Rightarrow> bool" where
  "isEmptyTree tree \<longleftrightarrow> tree = AST_not_set"

definition isFalseTree :: "AST \<Rightarrow> bool" where
  "isFalseTree tree \<longleftrightarrow> tree = AST_false"

definition makeFalseTree :: AST where
  "makeFalseTree = AST_false"

text \<open>Without a term \<^verbatim>\<open>mutable_all_of\<close> is never called and the tree stays unset.\<close>

definition makeAllOfTree :: "AST list \<Rightarrow> AST" where
  "makeAllOfTree terms = (if terms = [] then AST_not_set else AST_all_of terms)"

definition makeAnyOfTree :: "AST list \<Rightarrow> AST" where
  "makeAnyOfTree terms = (if terms = [] then AST_not_set else AST_any_of terms)"

definition makeAndTree :: "AST \<Rightarrow> AST \<Rightarrow> AST" where
  "makeAndTree l r = AST_and (Some l) (Some r)"

definition makeOrTree :: "AST \<Rightarrow> AST \<Rightarrow> AST" where
  "makeOrTree l r = AST_or (Some l) (Some r)"

definition makeEqualsTree :: "AST \<Rightarrow> AST \<Rightarrow> AST" where
  "makeEqualsTree l r = AST_equals (Some l) (Some r)"

datatype ConstantTreeValue = kUnknown | kTrue | kFalse

fun constant_all_of :: "bool \<Rightarrow> ConstantTreeValue list \<Rightarrow> ConstantTreeValue" where
  "constant_all_of allTrue [] = (if allTrue then kTrue else kUnknown)"
| "constant_all_of allTrue (v # vs) =
     (if v = kFalse then kFalse else constant_all_of (allTrue \<and> v = kTrue) vs)"

fun constant_any_of :: "bool \<Rightarrow> ConstantTreeValue list \<Rightarrow> ConstantTreeValue" where
  "constant_any_of allFalse [] = (if allFalse then kFalse else kUnknown)"
| "constant_any_of allFalse (v # vs) =
     (if v = kTrue then kTrue else constant_any_of (allFalse \<and> v = kFalse) vs)"

fun getConstantTreeValue :: "AST \<Rightarrow> ConstantTreeValue" where
  "getConstantTreeValue AST_true = kTrue"
| "getConstantTreeValue AST_false = kFalse"
| "getConstantTreeValue (AST_equals (Some l) (Some r)) =
     (let lhsValue = getConstantTreeValue l; rhsValue = getConstantTreeValue r
      in if lhsValue = kUnknown \<or> rhsValue = kUnknown then kUnknown
         else if lhsValue = rhsValue then kTrue else kFalse)"
| "getConstantTreeValue (AST_equals None r) = kUnknown"
| "getConstantTreeValue (AST_equals (Some l) None) = kUnknown"
| "getConstantTreeValue (AST_and (Some l) (Some r)) =
     (let lhsValue = getConstantTreeValue l; rhsValue = getConstantTreeValue r
      in if lhsValue = kFalse \<or> rhsValue = kFalse then kFalse
         else if lhsValue = kTrue \<and> rhsValue = kTrue then kTrue else kUnknown)"
| "getConstantTreeValue (AST_and None r) = kUnknown"
| "getConstantTreeValue (AST_and (Some l) None) = kUnknown"
| "getConstantTreeValue (AST_or (Some l) (Some r)) =
     (let lhsValue = getConstantTreeValue l; rhsValue = getConstantTreeValue r
      in if lhsValue = kTrue \<or> rhsValue = kTrue then kTrue
         else if lhsValue = kFalse \<and> rhsValue = kFalse then kFalse else kUnknown)"
| "getConstantTreeValue (AST_or None r) = kUnknown"
| "getConstantTreeValue (AST_or (Some l) None) = kUnknown"
| "getConstantTreeValue (AST_all_of ts) =
     (if ts = [] then kUnknown else constant_all_of True (map getConstantTreeValue ts))"
| "getConstantTreeValue (AST_any_of ts) =
     (if ts = [] then kUnknown else constant_any_of True (map getConstantTreeValue ts))"
| "getConstantTreeValue (AST_endorsement t) = kUnknown"
| "getConstantTreeValue (AST_message t) = kUnknown"
| "getConstantTreeValue AST_not_set = kUnknown"

definition isMessagePredicateNode :: "AST \<Rightarrow> bool" where
  "isMessagePredicateNode tree = (case tree of AST_message t \<Rightarrow> True | _ \<Rightarrow> False)"

definition anyEndorsementMatchesTree :: "AST \<Rightarrow> EndorsementMsg list \<Rightarrow> bool result" where
  "anyEndorsementMatchesTree tree es = res_any (evaluateRequirementTree tree) es"

text \<open>The loops over the terms of a list node; the first argument reduces one term.\<close>

fun reduce_all_of :: "(AST \<Rightarrow> AST result) \<Rightarrow> AST list \<Rightarrow> AST list \<Rightarrow> AST result" where
  "reduce_all_of reduce remainingTerms [] =
     Inr (case remainingTerms of
            [] \<Rightarrow> AST_not_set
          | [t] \<Rightarrow> t
          | _ \<Rightarrow> makeAllOfTree remainingTerms)"
| "reduce_all_of reduce remainingTerms (t # ts) =
     res_bind (reduce t) (\<lambda>reducedTerm.
       if isEmptyTree reducedTerm then reduce_all_of reduce remainingTerms ts
       else if isFalseTree reducedTerm then Inr makeFalseTree
       else reduce_all_of reduce (remainingTerms @ [reducedTerm]) ts)"

fun reduce_any_of :: "(AST \<Rightarrow> AST result) \<Rightarrow> AST list \<Rightarrow> AST list \<Rightarrow> AST result" where
  "reduce_any_of reduce remainingTerms [] =
     Inr (case remainingTerms of
            [] \<Rightarrow> makeFalseTree
          | [t] \<Rightarrow> t
          | _ \<Rightarrow> makeAnyOfTree remainingTerms)"
| "reduce_any_of reduce remainingTerms (t # ts) =
     res_bind (reduce t) (\<lambda>reducedTerm.
       if isEmptyTree reducedTerm then Inr AST_not_set
       else if isFalseTree reducedTerm then reduce_any_of reduce remainingTerms ts
       else reduce_any_of reduce (remainingTerms @ [reducedTerm]) ts)"

lemma reduce_all_of_cong [fundef_cong]:
  "rem = rem' \<Longrightarrow> ts = ts' \<Longrightarrow> (\<And>t. t \<in> set ts' \<Longrightarrow> f t = g t) \<Longrightarrow>
   reduce_all_of f rem ts = reduce_all_of g rem' ts'"
  by (induction ts' arbitrary: ts rem rem') (auto split: res_bind_splits)

lemma reduce_any_of_cong [fundef_cong]:
  "rem = rem' \<Longrightarrow> ts = ts' \<Longrightarrow> (\<And>t. t \<in> set ts' \<Longrightarrow> f t = g t) \<Longrightarrow>
   reduce_any_of f rem ts = reduce_any_of g rem' ts'"
  by (induction ts' arbitrary: ts rem rem') (auto split: res_bind_splits)

definition combine_equals :: "AST \<Rightarrow> AST \<Rightarrow> AST" where
  "combine_equals reducedLeft reducedRight =
     (if isEmptyTree reducedLeft \<and> isEmptyTree reducedRight then AST_not_set
      else if isEmptyTree reducedLeft then reducedRight
      else if isEmptyTree reducedRight then reducedLeft
      else if isFalseTree reducedLeft \<and> isFalseTree reducedRight then AST_not_set
      else makeEqualsTree reducedLeft reducedRight)"

definition combine_and :: "AST \<Rightarrow> AST \<Rightarrow> AST" where
  "combine_and reducedLeft reducedRight =
     (if isEmptyTree reducedLeft then reducedRight
      else if isEmptyTree reducedRight then reducedLeft
      else if isFalseTree reducedLeft \<or> isFalseTree reducedRight then makeFalseTree
      else makeAndTree reducedLeft reducedRight)"

definition combine_or :: "AST \<Rightarrow> AST \<Rightarrow> AST" where
  "combine_or reducedLeft reducedRight =
     (if isEmptyTree reducedLeft \<or> isEmptyTree reducedRight then AST_not_set
      else if isFalseTree reducedLeft then reducedRight
      else if isFalseTree reducedRight then reducedLeft
      else makeOrTree reducedLeft reducedRight)"

text \<open>
  The tests every node goes through before the \<^verbatim>\<open>switch\<close>: constants, an endorsement that matches
  the whole subtree, a message predicate. The result is the answer, or \<^const>\<open>None\<close> to go on.
\<close>

definition reduce_shortcuts :: "AST \<Rightarrow> EndorsementMsg list \<Rightarrow> RSPMessage option \<Rightarrow>
    snapshot_view option \<Rightarrow> AST option result" where
  "reduce_shortcuts tree es message snap =
     (if getConstantTreeValue tree = kTrue then Inr (Some AST_not_set)
      else if getConstantTreeValue tree = kFalse then Inr (Some makeFalseTree)
      else
        res_bind (anyEndorsementMatchesTree tree es) (\<lambda>matches.
          if matches then Inr (Some AST_not_set)
          else (case message of
                  Some m \<Rightarrow>
                    if isMessagePredicateNode tree then
                      res_bind (evaluateMessageRequirementTree tree m snap) (\<lambda>b.
                        Inr (Some (if b then AST_not_set else makeFalseTree)))
                    else Inr None
                | None \<Rightarrow> Inr None)))"

function reduceRequirementTreeImpl :: "AST \<Rightarrow> EndorsementMsg list \<Rightarrow> RSPMessage option \<Rightarrow>
    snapshot_view option \<Rightarrow> AST result" where
  "reduceRequirementTreeImpl tree es message snap =
     res_bind (reduce_shortcuts tree es message snap) (\<lambda>answer.
       case answer of
         Some r \<Rightarrow> Inr r
       | None \<Rightarrow>
           (case tree of
              AST_equals (Some l) (Some r) \<Rightarrow>
                res_bind (reduceRequirementTreeImpl l es message snap) (\<lambda>l'.
                res_bind (reduceRequirementTreeImpl r es message snap) (\<lambda>r'.
                  Inr (combine_equals l' r')))
            | AST_and (Some l) (Some r) \<Rightarrow>
                res_bind (reduceRequirementTreeImpl l es message snap) (\<lambda>l'.
                res_bind (reduceRequirementTreeImpl r es message snap) (\<lambda>r'.
                  Inr (combine_and l' r')))
            | AST_or (Some l) (Some r) \<Rightarrow>
                res_bind (reduceRequirementTreeImpl l es message snap) (\<lambda>l'.
                res_bind (reduceRequirementTreeImpl r es message snap) (\<lambda>r'.
                  Inr (combine_or l' r')))
            | AST_all_of ts \<Rightarrow>
                if ts = [] then Inr tree
                else reduce_all_of (\<lambda>t. reduceRequirementTreeImpl t es message snap) [] ts
            | AST_any_of ts \<Rightarrow>
                if ts = [] then Inr tree
                else reduce_any_of (\<lambda>t. reduceRequirementTreeImpl t es message snap) [] ts
            | _ \<Rightarrow> Inr tree))"
  by pat_completeness auto
termination
  by (relation "measure (\<lambda>(tree, es, message, snap). size tree)")
    (auto simp: less_Suc_eq_le dest: size_list_estimation' [OF _ order_refl])

declare reduceRequirementTreeImpl.simps [simp del]

definition reduceRequirementTree :: "AST \<Rightarrow> EndorsementMsg list \<Rightarrow> RSPMessage option \<Rightarrow>
    snapshot_view option \<Rightarrow> AST result" where
  "reduceRequirementTree tree es message snap =
     catch_runtime_error (reduceRequirementTreeImpl tree es message snap) (Inr tree)"

definition endorsementMatchesRequirement :: "EndorsementNeeded \<Rightarrow> EndorsementMsg \<Rightarrow> bool result" where
  "endorsementMatchesRequirement requirement e =
     (case needed_tree requirement of
        None \<Rightarrow> Inr False
      | Some tree \<Rightarrow> catch_runtime_error (evaluateRequirementTree tree e) (Inr False))"

definition messageMatchesRequirement :: "AST \<Rightarrow> RSPMessage \<Rightarrow> snapshot_view option \<Rightarrow> bool result" where
  "messageMatchesRequirement tree m snap =
     catch_runtime_error (evaluateMessageRequirementTree tree m snap) (Inr False)"

end
