(* ===== verification/Requirement_Soundness.thy ===== *)
theory Requirement_Soundness
  imports Requirement
begin

text \<open>
  What the reduction of requirement trees means. \<^verbatim>\<open>requirement_satisfied\<close> is the specification: a
  requirement built from conjunctions and disjunctions holds for a set of endorsements and a message
  when its leaves do, an endorsement leaf when one of the endorsements matches it. The reduction
  returns an equivalent requirement with the satisfied parts removed, and the empty tree exactly for
  a satisfied requirement.
\<close>

section \<open>The specification\<close>

fun requirement_satisfied :: "AST \<Rightarrow> EndorsementMsg list \<Rightarrow> RSPMessage \<Rightarrow> snapshot_view option \<Rightarrow> bool" where
  "requirement_satisfied (AST_and (Some l) (Some r)) es m snap =
     (requirement_satisfied l es m snap \<and> requirement_satisfied r es m snap)"
| "requirement_satisfied (AST_or (Some l) (Some r)) es m snap =
     (requirement_satisfied l es m snap \<or> requirement_satisfied r es m snap)"
| "requirement_satisfied (AST_all_of ts) es m snap =
     (ts \<noteq> [] \<and> list_all (\<lambda>t. requirement_satisfied t es m snap) ts)"
| "requirement_satisfied (AST_any_of ts) es m snap =
     list_ex (\<lambda>t. requirement_satisfied t es m snap) ts"
| "requirement_satisfied (AST_endorsement t) es m snap =
     list_ex (\<lambda>e. evaluateRequirementTree (AST_endorsement t) e = Inr True) es"
| "requirement_satisfied (AST_message t) es m snap =
     (evaluateMessageRequirementTree (AST_message t) m snap = Inr True)"
| "requirement_satisfied AST_true es m snap = True"
| "requirement_satisfied AST_not_set es m snap = True"
| "requirement_satisfied _ es m snap = False"

text \<open>
  Trees without an \<^verbatim>\<open>EQUALS\<close> node above the leaves. \<^verbatim>\<open>EQUALS\<close> can express a negation, and what holds
  for one endorsement need then not hold for all of them together.
\<close>

fun no_equals :: "AST \<Rightarrow> bool" where
  "no_equals (AST_equals l r) = False"
| "no_equals (AST_and (Some l) (Some r)) = (no_equals l \<and> no_equals r)"
| "no_equals (AST_or (Some l) (Some r)) = (no_equals l \<and> no_equals r)"
| "no_equals (AST_all_of ts) = list_all no_equals ts"
| "no_equals (AST_any_of ts) = list_all no_equals ts"
| "no_equals _ = True"

section \<open>The steps of the reduction\<close>

text \<open>
  The laws the steps rely on: how the meaning of a tree is composed from its parts. They are stated
  for any two predicates, the meaning of a tree and its being undecided.
\<close>

locale tree_meaning =
  fixes sat :: "AST \<Rightarrow> bool"
  assumes sat_not_set: "sat AST_not_set"
    and sat_false: "\<not> sat AST_false"
    and sat_and: "sat (AST_and (Some l) (Some r)) \<longleftrightarrow> sat l \<and> sat r"
    and sat_or: "sat (AST_or (Some l) (Some r)) \<longleftrightarrow> sat l \<or> sat r"
    and sat_all_of: "sat (AST_all_of ts) \<longleftrightarrow> ts \<noteq> [] \<and> list_all sat ts"
    and sat_any_of: "sat (AST_any_of ts) \<longleftrightarrow> list_ex sat ts"
begin

lemmas sat_simps = sat_not_set sat_false sat_and sat_or sat_all_of sat_any_of

lemmas shape_simps = isEmptyTree_def isFalseTree_def makeFalseTree_def makeAndTree_def makeOrTree_def
  makeAllOfTree_def makeAnyOfTree_def

lemma combine_and_sat: "sat (combine_and l r) \<longleftrightarrow> sat l \<and> sat r"
  by (auto simp: combine_and_def shape_simps sat_simps)

lemma combine_or_sat: "sat (combine_or l r) \<longleftrightarrow> sat l \<or> sat r"
  by (auto simp: combine_or_def shape_simps sat_simps)

lemma combine_and_decided:
  "l = AST_not_set \<or> \<not> sat l \<Longrightarrow> r = AST_not_set \<or> \<not> sat r \<Longrightarrow>
   combine_and l r = AST_not_set \<or> \<not> sat (combine_and l r)"
  by (auto simp: combine_and_def shape_simps sat_simps)

lemma combine_or_decided:
  "l = AST_not_set \<or> \<not> sat l \<Longrightarrow> r = AST_not_set \<or> \<not> sat r \<Longrightarrow>
   combine_or l r = AST_not_set \<or> \<not> sat (combine_or l r)"
  by (auto simp: combine_or_def shape_simps sat_simps)

lemma reduce_all_of_sat:
  assumes "\<And>t r. t \<in> set ts \<Longrightarrow> reduce t = Inr r \<Longrightarrow> sat r = sat t"
    and "reduce_all_of reduce rem ts = Inr r"
  shows "sat r \<longleftrightarrow> list_all sat rem \<and> list_all sat ts"
  using assms
proof (induction ts arbitrary: rem)
  case Nil
  then show ?case
    by (cases rem rule: remdups_adj.cases) (auto simp: shape_simps sat_simps)
next
  case (Cons t ts)
  from Cons.prems(2) obtain x where "reduce t = Inr x"
    by (auto simp: res_bind_eq_Inr)
  with Cons show ?case
    by (fastforce simp: shape_simps sat_simps split: if_splits)
qed

lemma reduce_any_of_sat:
  assumes "\<And>t r. t \<in> set ts \<Longrightarrow> reduce t = Inr r \<Longrightarrow> sat r = sat t"
    and "reduce_any_of reduce rem ts = Inr r"
  shows "sat r \<longleftrightarrow> list_ex sat rem \<or> list_ex sat ts"
  using assms
proof (induction ts arbitrary: rem)
  case Nil
  then show ?case
    by (cases rem rule: remdups_adj.cases) (auto simp: shape_simps sat_simps)
next
  case (Cons t ts)
  from Cons.prems(2) obtain x where "reduce t = Inr x"
    by (auto simp: res_bind_eq_Inr)
  with Cons show ?case
    by (fastforce simp: shape_simps sat_simps split: if_splits)
qed

lemma reduce_all_of_decided:
  assumes "\<And>t r. t \<in> set ts \<Longrightarrow> reduce t = Inr r \<Longrightarrow> r = AST_not_set \<or> \<not> sat r"
    and "list_all (\<lambda>t. \<not> sat t) rem" "reduce_all_of reduce rem ts = Inr r"
  shows "r = AST_not_set \<or> \<not> sat r"
  using assms
proof (induction ts arbitrary: rem)
  case Nil
  then show ?case
    by (cases rem rule: remdups_adj.cases) (auto simp: shape_simps sat_simps)
next
  case (Cons t ts)
  from Cons.prems(3) obtain x where x: "reduce t = Inr x"
    by (auto simp: res_bind_eq_Inr)
  then have "x = AST_not_set \<or> \<not> sat x"
    using Cons.prems(1) by auto
  with Cons.IH [of "rem @ [x]"] Cons.IH [of rem] Cons.prems x show ?case
    by (fastforce simp: shape_simps sat_simps split: if_splits)
qed

lemma reduce_any_of_decided:
  assumes "\<And>t r. t \<in> set ts \<Longrightarrow> reduce t = Inr r \<Longrightarrow> r = AST_not_set \<or> \<not> sat r"
    and "list_all (\<lambda>t. \<not> sat t) rem" "reduce_any_of reduce rem ts = Inr r"
  shows "r = AST_not_set \<or> \<not> sat r"
  using assms
proof (induction ts arbitrary: rem)
  case Nil
  then show ?case
    by (cases rem rule: remdups_adj.cases) (auto simp: shape_simps sat_simps list_all_iff list_ex_iff)
next
  case (Cons t ts)
  from Cons.prems(3) obtain x where x: "reduce t = Inr x"
    by (auto simp: res_bind_eq_Inr)
  then have "x = AST_not_set \<or> \<not> sat x"
    using Cons.prems(1) by auto
  with Cons.IH [of "rem @ [x]"] Cons.IH [of rem] Cons.prems x show ?case
    by (fastforce simp: shape_simps sat_simps split: if_splits)
qed

end

interpretation satisfied: tree_meaning "\<lambda>t. requirement_satisfied t es m snap"
  by unfold_locales auto

section \<open>The shortcuts\<close>

lemma missing_operand [simp]:
  "evaluateRequirementTree (AST_and v None) e = Inr False"
  "evaluateRequirementTree (AST_or v None) e = Inr False"
  "getConstantTreeValue (AST_and v None) = kUnknown"
  "getConstantTreeValue (AST_or v None) = kUnknown"
  by (cases v; simp)+

lemma constant_all_of_value:
  "constant_all_of b vs =
   (if kFalse \<in> set vs then kFalse else if b \<and> set vs \<subseteq> {kTrue} then kTrue else kUnknown)"
  by (induction b vs rule: constant_all_of.induct) auto

lemma constant_any_of_value:
  "constant_any_of b vs =
   (if kTrue \<in> set vs then kTrue else if b \<and> set vs \<subseteq> {kFalse} then kFalse else kUnknown)"
  by (induction b vs rule: constant_any_of.induct) auto

lemma constant_satisfied:
  "no_equals t \<Longrightarrow>
   (getConstantTreeValue t = kTrue \<longrightarrow> requirement_satisfied t es m snap) \<and>
   (getConstantTreeValue t = kFalse \<longrightarrow> \<not> requirement_satisfied t es m snap)"
proof (induction t es m snap rule: requirement_satisfied.induct)
  case (3 ts es m snap)
  then show ?case
    by (fastforce simp: constant_all_of_value list_all_iff split: if_splits)
next
  case (4 ts es m snap)
  then show ?case
    by (fastforce simp: constant_any_of_value list_all_iff list_ex_iff split: if_splits)
qed (auto simp: Let_def split: if_splits)

lemma res_or_eq_True: "res_or a b = Inr True \<Longrightarrow> a = Inr True \<or> b = Inr True"
  by (auto simp: res_or_def res_bind_eq_Inr split: if_splits)

lemma res_any_eq_True: "res_any f xs = Inr True \<Longrightarrow> \<exists>x \<in> set xs. f x = Inr True"
  by (induction xs) (auto dest: res_or_eq_True)

text \<open>A tree without \<^verbatim>\<open>EQUALS\<close> that one endorsement satisfies is satisfied by any set with that one.\<close>

lemma endorsement_satisfies:
  "no_equals t \<Longrightarrow> evaluateRequirementTree t e = Inr True \<Longrightarrow> e \<in> set es \<Longrightarrow>
   requirement_satisfied t es m snap"
proof (induction t es m snap rule: requirement_satisfied.induct)
  case (4 ts es m snap)
  then show ?case
    by (fastforce simp: list_ex_iff list_all_iff dest: res_any_eq_True)
qed (auto simp: list_ex_iff list_all_iff res_and_eq_True res_all_eq_True dest: res_or_eq_True
    split: if_splits)

lemma anyEndorsement_satisfies:
  "no_equals t \<Longrightarrow> anyEndorsementMatchesTree t es = Inr True \<Longrightarrow> set es \<subseteq> set es' \<Longrightarrow>
   requirement_satisfied t es' m snap"
  by (auto simp: anyEndorsementMatchesTree_def dest!: res_any_eq_True intro: endorsement_satisfies)

lemma shortcuts_satisfied:
  assumes "no_equals t" "reduce_shortcuts t es message snap = Inr (Some r)"
    and "set es \<subseteq> set es'" "message = None \<or> message = Some m"
  shows "requirement_satisfied r es' m snap = requirement_satisfied t es' m snap \<and>
    (r = AST_not_set \<or> r = AST_false)"
proof -
  have msg: "isMessagePredicateNode t \<Longrightarrow> evaluateMessageRequirementTree t m snap = Inr b \<Longrightarrow>
      requirement_satisfied t es' m snap = b" for b
    by (cases t) (auto simp: isMessagePredicateNode_def)
  show ?thesis
    using assms constant_satisfied [OF assms(1), of es' m snap] msg
      anyEndorsement_satisfies [OF assms(1) _ assms(3)]
    by (auto simp: reduce_shortcuts_def makeFalseTree_def res_bind_eq_Inr
        split: if_splits option.splits)
qed

lemma shortcuts_None:
  "reduce_shortcuts t es message snap = Inr None \<Longrightarrow>
   anyEndorsementMatchesTree t es = Inr False \<and> getConstantTreeValue t = kUnknown \<and>
   (message \<noteq> None \<longrightarrow> \<not> isMessagePredicateNode t)"
  by (cases "getConstantTreeValue t")
    (auto simp: reduce_shortcuts_def res_bind_eq_Inr split: if_splits option.splits)

section \<open>The reduction\<close>

lemma reduce_cases:
  assumes "reduceRequirementTreeImpl t es message snap = Inr r"
  obtains (shortcut) "reduce_shortcuts t es message snap = Inr (Some r)"
  | (leaf) "reduce_shortcuts t es message snap = Inr None" "r = t"
      "\<And>a b. t \<noteq> AST_and (Some a) (Some b)" "\<And>a b. t \<noteq> AST_or (Some a) (Some b)"
      "\<And>ts. t = AST_all_of ts \<Longrightarrow> ts = []" "\<And>ts. t = AST_any_of ts \<Longrightarrow> ts = []"
  | (equals) a b where "t = AST_equals (Some a) (Some b)"
  | (conj) a b a' b' where "t = AST_and (Some a) (Some b)"
      "reduceRequirementTreeImpl a es message snap = Inr a'"
      "reduceRequirementTreeImpl b es message snap = Inr b'" "r = combine_and a' b'"
  | (disj) a b a' b' where "t = AST_or (Some a) (Some b)"
      "reduceRequirementTreeImpl a es message snap = Inr a'"
      "reduceRequirementTreeImpl b es message snap = Inr b'" "r = combine_or a' b'"
  | (all_of) ts where "t = AST_all_of ts" "ts \<noteq> []"
      "reduce_all_of (\<lambda>t. reduceRequirementTreeImpl t es message snap) [] ts = Inr r"
  | (any_of) ts where "t = AST_any_of ts" "ts \<noteq> []"
      "reduce_any_of (\<lambda>t. reduceRequirementTreeImpl t es message snap) [] ts = Inr r"
proof -
  obtain a where a: "reduce_shortcuts t es message snap = Inr a"
    using assms by (subst (asm) reduceRequirementTreeImpl.simps) (auto simp: res_bind_eq_Inr)
  note step = assms [unfolded reduceRequirementTreeImpl.simps [of t] a, simplified]
  show thesis
  proof (cases a)
    case (Some x)
    then show ?thesis using step a shortcut by simp
  next
    case None
    with step a that show ?thesis
      by (auto simp: res_bind_eq_Inr split: AST.splits option.splits if_splits)
  qed
qed

lemma size_term: "t \<in> set ts \<Longrightarrow> size t < size (AST_all_of ts) \<and> size t < size (AST_any_of ts)"
  by (auto dest: size_list_estimation' [OF _ order_refl] simp: less_Suc_eq_le)

lemma reduce_satisfied:
  assumes "no_equals t" "reduceRequirementTreeImpl t es message snap = Inr r"
    and "set es \<subseteq> set es'" "message = None \<or> message = Some m"
  shows "requirement_satisfied r es' m snap = requirement_satisfied t es' m snap"
  using assms(1,2)
proof (induction t arbitrary: r rule: measure_induct_rule [of size])
  case (less t)
  from less.prems(2) show ?case
  proof (cases rule: reduce_cases)
    case shortcut
    then show ?thesis using shortcuts_satisfied [OF less.prems(1) _ assms(3,4)] by simp
  next
    case (conj a b a' b')
    then show ?thesis using less.prems(1) less.IH [of a a'] less.IH [of b b']
      by (simp add: satisfied.combine_and_sat)
  next
    case (disj a b a' b')
    then show ?thesis using less.prems(1) less.IH [of a a'] less.IH [of b b']
      by (simp add: satisfied.combine_or_sat)
  next
    case (all_of ts)
    then show ?thesis
      using less satisfied.reduce_all_of_sat [OF _ all_of(3), of es' m snap] size_term
      by (auto simp: list_all_iff)
  next
    case (any_of ts)
    then show ?thesis
      using less satisfied.reduce_any_of_sat [OF _ any_of(3), of es' m snap] size_term
      by (auto simp: list_all_iff)
  qed (use less in auto)
qed

lemma reduce_decided:
  assumes "no_equals t" "reduceRequirementTreeImpl t es (Some m) snap = Inr r"
  shows "r = AST_not_set \<or> \<not> requirement_satisfied r es m snap"
  using assms
proof (induction t arbitrary: r rule: measure_induct_rule [of size])
  case (less t)
  from less.prems(2) show ?case
  proof (cases rule: reduce_cases)
    case shortcut
    then show ?thesis using shortcuts_satisfied [OF less.prems(1) shortcut, of es m] by auto
  next
    case leaf
    have "anyEndorsementMatchesTree t es = Inr False" "getConstantTreeValue t = kUnknown"
        "\<not> isMessagePredicateNode t"
      using shortcuts_None [OF leaf(1)] by simp_all
    then show ?thesis
      using leaf less.prems(1)
      by (cases t rule: no_equals.cases)
        (auto simp: isMessagePredicateNode_def anyEndorsementMatchesTree_def res_any_eq_False list_ex_iff)
  next
    case (conj a b a' b')
    then show ?thesis using less.prems(1) less.IH [of a a'] less.IH [of b b']
      by (simp add: satisfied.combine_and_decided)
  next
    case (disj a b a' b')
    then show ?thesis using less.prems(1) less.IH [of a a'] less.IH [of b b']
      by (simp add: satisfied.combine_or_decided)
  next
    case (all_of ts)
    have "x = AST_not_set \<or> \<not> requirement_satisfied x es m snap"
      if "u \<in> set ts" "reduceRequirementTreeImpl u es (Some m) snap = Inr x" for u x
      using less.IH [of u x] less.prems(1) size_term [OF that(1)] that all_of(1)
      by (simp add: list_all_iff)
    then show ?thesis
      by (rule satisfied.reduce_all_of_decided [OF _ _ all_of(3)]) simp_all
  next
    case (any_of ts)
    have "x = AST_not_set \<or> \<not> requirement_satisfied x es m snap"
      if "u \<in> set ts" "reduceRequirementTreeImpl u es (Some m) snap = Inr x" for u x
      using less.IH [of u x] less.prems(1) size_term [OF that(1)] that any_of(1)
      by (simp add: list_all_iff)
    then show ?thesis
      by (rule satisfied.reduce_any_of_decided [OF _ _ any_of(3)]) simp_all
  qed (use less in auto)
qed

section \<open>Properties\<close>

text \<open>
  C1. Reduction is sound and complete. For a requirement without \<^verbatim>\<open>EQUALS\<close>, whenever the reduction by
  a list of endorsements and a message returns, it returns the empty tree, which grants access,
  exactly when the requirement is satisfied; and what it returns is equivalent to the requirement for
  every list that extends the endorsements, so the tree sent back to the requester asks for exactly
  what is missing.
\<close>

theorem reduceRequirementTree_correct:
  assumes "no_equals tree" "reduceRequirementTreeImpl tree es (Some m) snap = Inr r"
  shows "(r = AST_not_set \<longleftrightarrow> requirement_satisfied tree es m snap) \<and>
    (\<forall>more. requirement_satisfied r (es @ more) m snap = requirement_satisfied tree (es @ more) m snap)"
proof
  have "requirement_satisfied r es m snap = requirement_satisfied tree es m snap"
    by (rule reduce_satisfied [OF assms]) auto
  then show "r = AST_not_set \<longleftrightarrow> requirement_satisfied tree es m snap"
    using reduce_decided [OF assms] by auto
  show "\<forall>more. requirement_satisfied r (es @ more) m snap = requirement_satisfied tree (es @ more) m snap"
    by (intro allI reduce_satisfied [OF assms]) auto
qed

definition sample_requirement :: AST where
  "sample_requirement = AST_all_of [AST_endorsement (Some (ET_value_equals ''v'')),
     AST_any_of [AST_false, AST_endorsement (Some (ET_value_equals ''w''))]]"

lemma sample_reduction:
  "reduceRequirementTreeImpl sample_requirement [sample_endorsement] (Some RSPMessage_default) None =
   Inr (AST_endorsement (Some (ET_value_equals ''w'')))"
proof -
  have "endorsementValue sample_endorsement = Inr (stringToBuffer ''v'')"
    by (simp add: endorsementValue_def sample_endorsement_valid) (simp add: sample_endorsement_def)
  moreover have "bufferToString (stringToBuffer ''v'') = ''v''"
    by (simp add: stringToBuffer_wf)
  ultimately show ?thesis
    by (simp add: sample_requirement_def reduceRequirementTreeImpl.simps reduce_shortcuts_def
        anyEndorsementMatchesTree_def isMessagePredicateNode_def isEmptyTree_def isFalseTree_def
        makeFalseTree_def)
qed

theorem reduceRequirementTree_correct_witness:
  "\<not> requirement_satisfied sample_requirement [sample_endorsement] RSPMessage_default None"
proof -
  have "no_equals sample_requirement"
    by (simp add: sample_requirement_def)
  from reduceRequirementTree_correct [OF this sample_reduction] show ?thesis by simp
qed

text \<open>
  \<^verbatim>\<open>EQUALS\<close> makes the reduction unsound for message predicates. Any one endorsement, whatever it
  says, satisfies the negation of a message predicate written as \<^verbatim>\<open>EQUALS(predicate, FALSE)\<close>: the
  shortcut evaluates the whole tree against the endorsement alone, where a message predicate counts as
  false. Without an endorsement the same requirement is refused when the predicate holds.
\<close>

theorem equals_message_bypass:
  "reduceRequirementTree (AST_equals (Some (AST_message t)) (Some AST_false)) (e # es) (Some m) snap =
     Inr AST_not_set \<and>
   (evaluateMessageRequirementTree (AST_message t) m snap = Inr True \<longrightarrow>
    reduceRequirementTree (AST_equals (Some (AST_message t)) (Some AST_false)) [] (Some m) snap =
      Inr AST_false)"
  by (simp add: reduceRequirementTree_def reduceRequirementTreeImpl.simps reduce_shortcuts_def
      anyEndorsementMatchesTree_def isMessagePredicateNode_def isEmptyTree_def isFalseTree_def
      makeFalseTree_def combine_equals_def)

theorem equals_message_bypass_witness:
  "reduceRequirementTree (AST_equals (Some (AST_message (Some MT_true))) (Some AST_false)) []
     (Some RSPMessage_default) None = Inr AST_false"
  using equals_message_bypass [of "Some MT_true" sample_endorsement "[]" RSPMessage_default None]
  by simp

end
