(* ===== verification/Endorsement_Text.thy ===== *)
theory Endorsement_Text
  imports Requirement
begin

text \<open>
  \<^verbatim>\<open>src/common/endorsement/endorsement_text.cpp\<close>: the text form of requirement trees, its printer and
  its recursive-descent parser. The parser's state is the text that is left; the position the parser
  appends to the text of an exception is left out. The mutually recursive parse functions take a
  number of steps they may nest; \<^verbatim>\<open>fromString\<close> gives them one more than the length of the text, and
  \<^verbatim>\<open>parser_never_stuck\<close> in \<^verbatim>\<open>Endorsement_Text_Fuel\<close> shows that it is never used up.
\<close>

section \<open>Printing\<close>

definition bytesToHex :: "bytes \<Rightarrow> string" where
  "bytesToHex bs = concat (map (\<lambda>c. [hexDigit (of_char c div 16), hexDigit (of_char c mod 16)]) bs)"

fun uuid_groups :: "nat list \<Rightarrow> bool \<Rightarrow> bytes \<Rightarrow> string" where
  "uuid_groups [] sep bs = []"
| "uuid_groups (g # gs) sep bs =
     (if sep then ''-'' else []) @ bytesToHex (take g bs) @ uuid_groups gs True (drop g bs)"

definition bytesToUUID :: "bytes \<Rightarrow> string result" where
  "bytesToUUID bs =
     (if length bs \<noteq> 16 then Inl (Runtime_error ''UUID field must be exactly 16 bytes'')
      else Inr (uuid_groups [4, 2, 2, 2, 6] False bs))"

fun append_list :: "('a \<Rightarrow> string result) \<Rightarrow> 'a list \<Rightarrow> string result" where
  "append_list f [] = Inr []"
| "append_list f [t] = f t"
| "append_list f (t # u # ts) =
     res_bind (f t) (\<lambda>s. res_bind (append_list f (u # ts)) (\<lambda>r. Inr (s @ '', '' @ r)))"

definition append_opt :: "('a \<Rightarrow> string result) \<Rightarrow> 'a option \<Rightarrow> string result" where
  "append_opt f v = (case v of None \<Rightarrow> Inr [] | Some t \<Rightarrow> f t)"

lemma append_list_cong [fundef_cong]:
  "ts = us \<Longrightarrow> (\<And>t. t \<in> set us \<Longrightarrow> f t = g t) \<Longrightarrow> append_list f ts = append_list g us"
  by (induction g us arbitrary: ts rule: append_list.induct) (auto intro!: res_bind_cong)

lemma append_opt_cong [fundef_cong]:
  "v = w \<Longrightarrow> (\<And>t. t \<in> set_option w \<Longrightarrow> f t = g t) \<Longrightarrow> append_opt f v = append_opt g w"
  by (auto simp: append_opt_def split: option.split)

definition appendBinary :: "string \<Rightarrow> string result \<Rightarrow> string result \<Rightarrow> string result" where
  "appendBinary opr l r =
     res_bind l (\<lambda>ls. res_bind r (\<lambda>rs. Inr (opr @ ''('' @ ls @ '', '' @ rs @ '')'')))"

definition appendNary :: "string \<Rightarrow> string result \<Rightarrow> string result" where
  "appendNary opr terms = res_bind terms (\<lambda>ts. Inr (opr @ ''('' @ ts @ '')''))"

fun appendEndTree :: "EndTree \<Rightarrow> string result" where
  "appendEndTree (ET_and l r) = appendBinary ''AND'' (append_opt appendEndTree l) (append_opt appendEndTree r)"
| "appendEndTree (ET_or l r) = appendBinary ''OR'' (append_opt appendEndTree l) (append_opt appendEndTree r)"
| "appendEndTree (ET_equals l r) = appendBinary ''EQ'' (append_opt appendEndTree l) (append_opt appendEndTree r)"
| "appendEndTree (ET_all_of ts) = appendNary ''ALLOF'' (append_list appendEndTree ts)"
| "appendEndTree (ET_any_of ts) = appendNary ''ANYOF'' (append_list appendEndTree ts)"
| "appendEndTree (ET_type_equals t) =
     res_bind (bytesToUUID (bytes_or_default t)) (\<lambda>u. Inr (''ENDORSEMENT_TYPE('' @ u @ '')''))"
| "appendEndTree (ET_value_equals v) = Inr (''ENDORSEMENT_VALUE('' @ bytesToHex v @ '')'')"
| "appendEndTree (ET_signer_equals s) =
     res_bind (bytesToUUID (bytes_or_default s)) (\<lambda>u. Inr (''ENDORSEMENT_SIGNER('' @ u @ '')''))"
| "appendEndTree ET_true = Inr ''TRUE''"
| "appendEndTree ET_false = Inr ''FALSE''"
| "appendEndTree ET_not_set = Inr []"

fun appendFieldPath :: "FieldPath \<Rightarrow> string" where
  "appendFieldPath [] = []"
| "appendFieldPath [s] = s"
| "appendFieldPath (s # t # ts) = s @ ''.'' @ appendFieldPath (t # ts)"

definition appendFieldValue :: "FieldValue \<Rightarrow> string" where
  "appendFieldValue val =
     (case val of
        FV_bytes b \<Rightarrow> ''0x'' @ bytesToHex b
      | FV_string s \<Rightarrow> CHR 0x22 # s @ [CHR 0x22]
      | FV_int n \<Rightarrow> dec_of_int (sint n)
      | FV_uint n \<Rightarrow> dec_of_nat (unat n) @ ''u''
      | FV_bool b \<Rightarrow> (if b then ''true'' else ''false'')
      | FV_enum n \<Rightarrow> ''enum('' @ dec_of_int (sint n) @ '')''
      | FV_not_set \<Rightarrow> [])"

definition path_or_default :: "FieldPath option \<Rightarrow> FieldPath" where
  "path_or_default p = (case p of None \<Rightarrow> [] | Some q \<Rightarrow> q)"

definition value_or_default :: "FieldValue option \<Rightarrow> FieldValue" where
  "value_or_default v = (case v of None \<Rightarrow> FV_not_set | Some x \<Rightarrow> x)"

fun appendMessageTree :: "MesTree \<Rightarrow> string result" where
  "appendMessageTree (MT_and l r) =
     appendBinary ''AND'' (append_opt appendMessageTree l) (append_opt appendMessageTree r)"
| "appendMessageTree (MT_or l r) =
     appendBinary ''OR'' (append_opt appendMessageTree l) (append_opt appendMessageTree r)"
| "appendMessageTree (MT_equals l r) =
     appendBinary ''EQ'' (append_opt appendMessageTree l) (append_opt appendMessageTree r)"
| "appendMessageTree (MT_all_of ts) = appendNary ''ALLOF'' (append_list appendMessageTree ts)"
| "appendMessageTree (MT_any_of ts) = appendNary ''ANYOF'' (append_list appendMessageTree ts)"
| "appendMessageTree (MT_field_equals p v) =
     Inr (''FIELD_EQ('' @ appendFieldPath (path_or_default p) @ '', '' @
          appendFieldValue (value_or_default v) @ '')'')"
| "appendMessageTree (MT_field_exists p) =
     Inr (''FIELD_EXISTS('' @ appendFieldPath (path_or_default p) @ '')'')"
| "appendMessageTree (MT_field_contains p q v) =
     Inr (''FIELD_CONTAINS('' @ appendFieldPath (path_or_default p) @ '', '' @
          appendFieldPath (path_or_default q) @ '', '' @ appendFieldValue (value_or_default v) @ '')'')"
| "appendMessageTree MT_true = Inr ''TRUE''"
| "appendMessageTree MT_false = Inr ''FALSE''"
| "appendMessageTree MT_not_set = Inr []"

fun appendTree :: "AST \<Rightarrow> string result" where
  "appendTree (AST_and l r) = appendBinary ''AND'' (append_opt appendTree l) (append_opt appendTree r)"
| "appendTree (AST_or l r) = appendBinary ''OR'' (append_opt appendTree l) (append_opt appendTree r)"
| "appendTree (AST_equals l r) = appendBinary ''EQ'' (append_opt appendTree l) (append_opt appendTree r)"
| "appendTree (AST_all_of ts) = appendNary ''ALLOF'' (append_list appendTree ts)"
| "appendTree (AST_any_of ts) = appendNary ''ANYOF'' (append_list appendTree ts)"
| "appendTree (AST_endorsement t) =
     res_bind (append_opt appendEndTree t) (\<lambda>s. Inr (''ENDORSEMENT('' @ s @ '')''))"
| "appendTree (AST_message t) =
     res_bind (append_opt appendMessageTree t) (\<lambda>s. Inr (''MESSAGE('' @ s @ '')''))"
| "appendTree AST_true = Inr ''TRUE''"
| "appendTree AST_false = Inr ''FALSE''"
| "appendTree AST_not_set = Inr []"

definition erd_toString :: "AST \<Rightarrow> string result" where
  "erd_toString tree = (if tree = AST_not_set then Inr [] else appendTree tree)"

section \<open>Parsing\<close>

definition isspace :: "char \<Rightarrow> bool" where
  "isspace c \<longleftrightarrow> c \<in> set [CHR '' '', CHR 0x09, CHR 0x0A, CHR 0x0B, CHR 0x0C, CHR 0x0D]"

definition isdigit :: "char \<Rightarrow> bool" where
  "isdigit c \<longleftrightarrow> CHR ''0'' \<le> c \<and> c \<le> CHR ''9''"

definition isalpha :: "char \<Rightarrow> bool" where
  "isalpha c \<longleftrightarrow> (CHR ''a'' \<le> c \<and> c \<le> CHR ''z'') \<or> (CHR ''A'' \<le> c \<and> c \<le> CHR ''Z'')"

definition isalnum :: "char \<Rightarrow> bool" where
  "isalnum c \<longleftrightarrow> isalpha c \<or> isdigit c"

definition toupper :: "char \<Rightarrow> char" where
  "toupper c = (if CHR ''a'' \<le> c \<and> c \<le> CHR ''z'' then char_of (of_char c - (32 :: nat)) else c)"

definition skipWhitespace :: "string \<Rightarrow> string" where
  "skipWhitespace s = dropWhile isspace s"

definition peek :: "string \<Rightarrow> char" where
  "peek s = (case s of [] \<Rightarrow> CHR 0x00 | c # r \<Rightarrow> c)"

definition expect :: "char \<Rightarrow> string \<Rightarrow> string result" where
  "expect c s =
     (let s' = skipWhitespace s
      in if peek s' \<noteq> c then Inl (Runtime_error (''expected '' @ [c] @ '' in ERD text''))
         else Inr (tl s'))"

definition startsWith :: "string \<Rightarrow> string \<Rightarrow> bool" where
  "startsWith p s \<longleftrightarrow> prefix p s"

fun startsWithCI :: "string \<Rightarrow> string \<Rightarrow> bool" where
  "startsWithCI [] s = True"
| "startsWithCI (c # p) [] = False"
| "startsWithCI (c # p) (d # s) = (toupper d = toupper c \<and> startsWithCI p s)"

fun all_hex :: "nat \<Rightarrow> string \<Rightarrow> string option" where
  "all_hex 0 s = Some s"
| "all_hex (Suc n) [] = None"
| "all_hex (Suc n) (c # s) = (if isHexCharacter c then all_hex n s else None)"

fun isUUID_groups :: "nat list \<Rightarrow> bool \<Rightarrow> string \<Rightarrow> bool" where
  "isUUID_groups [] sep s = True"
| "isUUID_groups (g # gs) sep s =
     (case (if sep then (case s of c # r \<Rightarrow> if c = CHR ''-'' then Some r else None | [] \<Rightarrow> None)
            else Some s) of
        None \<Rightarrow> False
      | Some s' \<Rightarrow> (case all_hex g s' of None \<Rightarrow> False | Some s'' \<Rightarrow> isUUID_groups gs True s''))"

definition isUUID :: "string \<Rightarrow> bool" where
  "isUUID s = isUUID_groups [8, 4, 4, 4, 12] False s"

definition hexVal :: "char \<Rightarrow> nat result" where
  "hexVal c =
     (case hexDigitValue c of
        Some d \<Rightarrow> Inr d
      | None \<Rightarrow> Inl (Runtime_error (''invalid hex char in UUID: '' @ [c])))"

fun hex_pairs :: "string \<Rightarrow> bytes result" where
  "hex_pairs (a # b # r) =
     res_bind (hexVal a) (\<lambda>h. res_bind (hexVal b) (\<lambda>l. res_bind (hex_pairs r) (\<lambda>bs.
       Inr (char_of (h * 16 + l) # bs))))"
| "hex_pairs _ = Inr []"

definition uuidToBytes :: "string \<Rightarrow> bytes result" where
  "uuidToBytes uuid =
     (let hex = filter (\<lambda>c. c \<noteq> CHR ''-'') uuid
      in if length hex \<noteq> 32 then Inl (Runtime_error ''invalid UUID: expected 32 hex chars'')
         else hex_pairs hex)"

definition parseUUIDBytes :: "string \<Rightarrow> (bytes \<times> string) result" where
  "parseUUIDBytes s =
     (if \<not> isUUID s then Inl (Runtime_error ''expected UUID'')
      else res_bind (uuidToBytes (take 36 s)) (\<lambda>bs. Inr (bs, drop 36 s)))"

fun parseHexBytes_loop :: "bytes \<Rightarrow> string \<Rightarrow> (bytes \<times> string) result" where
  "parseHexBytes_loop acc (c # d # s) =
     (if isHexCharacter c then
        if \<not> isHexCharacter d then Inl (Runtime_error ''odd number of hex characters'')
        else (case (hexDigitValue c, hexDigitValue d) of
                (Some hi, Some lo) \<Rightarrow> parseHexBytes_loop (acc @ [char_of (hi * 16 + lo)]) s
              | _ \<Rightarrow> Inl (Runtime_error ''invalid hex character''))
      else Inr (acc, c # d # s))"
| "parseHexBytes_loop acc [c] =
     (if isHexCharacter c then Inl (Runtime_error ''odd number of hex characters'') else Inr (acc, [c]))"
| "parseHexBytes_loop acc [] = Inr (acc, [])"

definition parseHexBytes :: "string \<Rightarrow> (bytes \<times> string) result" where
  "parseHexBytes s = parseHexBytes_loop [] s"

definition out_of_fuel :: exn where
  "out_of_fuel = Abort ''out of fuel''"

text \<open>
  The argument lists, for the parser of one operand; the three kinds of tree have a copy each.
\<close>

definition parseBinaryArgs :: "(string \<Rightarrow> ('a \<times> string) result) \<Rightarrow> string \<Rightarrow> (('a \<times> 'a) \<times> string) result" where
  "parseBinaryArgs p s =
     res_bind (expect (CHR ''('') s) (\<lambda>s.
     res_bind (p s) (\<lambda>(l, s).
     res_bind (expect (CHR '','') (skipWhitespace s)) (\<lambda>s.
     res_bind (p s) (\<lambda>(r, s).
     res_bind (expect (CHR '')'') (skipWhitespace s)) (\<lambda>s.
       Inr ((l, r), s))))))"

primrec parseNary_loop :: "nat \<Rightarrow> (string \<Rightarrow> ('a \<times> string) result) \<Rightarrow> string \<Rightarrow> ('a list \<times> string) result" where
  "parseNary_loop 0 p s = Inl out_of_fuel"
| "parseNary_loop (Suc n) p s =
     res_bind (p s) (\<lambda>(t, s).
       let s = skipWhitespace s
       in if peek s = CHR '','' then res_bind (parseNary_loop n p (tl s)) (\<lambda>(ts, s). Inr (t # ts, s))
          else res_bind (expect (CHR '')'') s) (\<lambda>s. Inr ([t], s)))"

definition parseNaryArgs :: "nat \<Rightarrow> (string \<Rightarrow> ('a \<times> string) result) \<Rightarrow> string \<Rightarrow> ('a list \<times> string) result" where
  "parseNaryArgs n p s =
     res_bind (expect (CHR ''('') s) (\<lambda>s.
       let s = skipWhitespace s
       in if peek s = CHR '')'' then Inr ([], tl s) else parseNary_loop n p s)"

definition close_paren :: "'a \<Rightarrow> string \<Rightarrow> ('a \<times> string) result" where
  "close_paren t s = res_bind (expect (CHR '')'') (skipWhitespace s)) (\<lambda>s. Inr (t, s))"

primrec parseEndTree :: "nat \<Rightarrow> string \<Rightarrow> (EndTree \<times> string) result" where
  "parseEndTree 0 = (\<lambda>s. Inl out_of_fuel)"
| "parseEndTree (Suc n) = (\<lambda>s0.
     let s = skipWhitespace s0
     in if startsWith ''AND('' s then
          res_bind (parseBinaryArgs (parseEndTree n) (drop 3 s)) (\<lambda>((l, r), s). Inr (ET_and (Some l) (Some r), s))
        else if startsWith ''OR('' s then
          res_bind (parseBinaryArgs (parseEndTree n) (drop 2 s)) (\<lambda>((l, r), s). Inr (ET_or (Some l) (Some r), s))
        else if startsWith ''EQ('' s then
          res_bind (parseBinaryArgs (parseEndTree n) (drop 2 s)) (\<lambda>((l, r), s). Inr (ET_equals (Some l) (Some r), s))
        else if startsWith ''ALLOF('' s then
          res_bind (parseNaryArgs n (parseEndTree n) (drop 5 s)) (\<lambda>(ts, s). Inr (ET_all_of ts, s))
        else if startsWith ''ANYOF('' s then
          res_bind (parseNaryArgs n (parseEndTree n) (drop 5 s)) (\<lambda>(ts, s). Inr (ET_any_of ts, s))
        else if startsWith ''ENDORSEMENT_TYPE('' s then
          res_bind (parseUUIDBytes (skipWhitespace (drop 17 s))) (\<lambda>(b, s). close_paren (ET_type_equals (Some b)) s)
        else if startsWith ''ENDORSEMENT_VALUE('' s then
          res_bind (parseHexBytes (skipWhitespace (drop 18 s))) (\<lambda>(b, s). close_paren (ET_value_equals b) s)
        else if startsWith ''ENDORSEMENT_SIGNER('' s then
          res_bind (parseUUIDBytes (skipWhitespace (drop 19 s))) (\<lambda>(b, s). close_paren (ET_signer_equals (Some b)) s)
        else if startsWithCI ''TRUE'' s then Inr (ET_true, drop 4 s)
        else if startsWithCI ''FALSE'' s then Inr (ET_false, drop 5 s)
        else Inl (Runtime_error ''unexpected token in endorsement sub-tree''))"

subsection \<open>Field paths and values\<close>

definition path_stop :: "char \<Rightarrow> bool" where
  "path_stop c \<longleftrightarrow> c \<in> set [CHR '','', CHR '')'', CHR '' '', CHR 0x09, CHR 0x0A, CHR 0x0D]"

fun parseFieldPath_loop :: "FieldPath \<Rightarrow> string \<Rightarrow> string \<Rightarrow> (FieldPath \<times> string \<times> string) result" where
  "parseFieldPath_loop path segment [] = Inr (path, segment, [])"
| "parseFieldPath_loop path segment (c # s) =
     (if c = CHR ''.'' then
        if segment = [] then Inl (Runtime_error ''empty path segment'')
        else parseFieldPath_loop (path @ [segment]) [] s
      else if path_stop c then Inr (path, segment, c # s)
      else parseFieldPath_loop path (segment @ [c]) s)"

definition parseFieldPath :: "string \<Rightarrow> (FieldPath \<times> string) result" where
  "parseFieldPath s =
     res_bind (parseFieldPath_loop [] [] (skipWhitespace s)) (\<lambda>(path, segment, s).
       let path = (if segment \<noteq> [] then path @ [segment] else path)
       in if path = [] then Inl (Runtime_error ''empty field path'') else Inr (path, s))"

definition digit_val :: "char \<Rightarrow> nat" where
  "digit_val c = of_char c - 48"

text \<open>
  The unsigned digits loop wraps at 64 bits. The signed one of \<^verbatim>\<open>enum(N)\<close> overflows, as does the
  negation of the smallest value: both have no meaning in C++.
\<close>

definition digits_u64 :: "string \<Rightarrow> u64" where
  "digits_u64 ds = foldl (\<lambda>n c. n * 10 + of_nat (digit_val c)) 0 ds"

fun digits_i64 :: "int \<Rightarrow> string \<Rightarrow> int result" where
  "digits_i64 n [] = Inr n"
| "digits_i64 n (c # ds) =
     (let n' = n * 10 + int (digit_val c)
      in if n' < 2 ^ 63 then digits_i64 n' ds else Inl (Undefined ''signed integer overflow''))"

definition parse_enum :: "string \<Rightarrow> (FieldValue \<times> string) result" where
  "parse_enum s0 =
     (let s = skipWhitespace s0;
          negative = (peek s = CHR ''-'');
          s = (if negative then tl s else s)
      in res_bind (digits_i64 0 (takeWhile isdigit s)) (\<lambda>n.
         let n = (if negative then - n else n)
         in close_paren (FV_enum (word_of_int n)) (dropWhile isdigit s)))"

definition parse_integer :: "string \<Rightarrow> (FieldValue \<times> string) result" where
  "parse_integer s0 =
     (let negative = (peek s0 = CHR ''-'');
          s = (if negative then tl s0 else s0)
      in if isdigit (peek s) then
           let n = digits_u64 (takeWhile isdigit s); s = dropWhile isdigit s
           in if \<not> negative \<and> (peek s = CHR ''u'' \<or> peek s = CHR ''U'') then Inr (FV_uint n, tl s)
              else if negative then
                if sint n = - (2 ^ 63) then Inl (Undefined ''signed integer overflow'')
                else Inr (FV_int (- n), s)
              else Inr (FV_int n, s)
         else Inl (Runtime_error ''unexpected field value''))"

definition parse_string_literal :: "string \<Rightarrow> (FieldValue \<times> string) result" where
  "parse_string_literal s =
     (let body = takeWhile (\<lambda>c. c \<noteq> CHR 0x22) s; r = dropWhile (\<lambda>c. c \<noteq> CHR 0x22) s
      in if r = [] then Inl (Runtime_error ''unterminated string literal'')
         else Inr (FV_string body, tl r))"

definition parseFieldValue :: "string \<Rightarrow> (FieldValue \<times> string) result" where
  "parseFieldValue s0 =
     (let s = skipWhitespace s0
      in if s = [] then Inl (Runtime_error ''expected field value at end of input'')
         else if hd s = CHR 0x22 then parse_string_literal (tl s)
         else if startsWith ''0x'' s \<or> startsWith ''0X'' s then
           res_bind (parseHexBytes (drop 2 s)) (\<lambda>(b, s). Inr (FV_bytes b, s))
         else if startsWithCI ''true'' s \<and> (length s \<le> 4 \<or> \<not> isalnum (s ! 4)) then Inr (FV_bool True, drop 4 s)
         else if startsWithCI ''false'' s \<and> (length s \<le> 5 \<or> \<not> isalnum (s ! 5)) then Inr (FV_bool False, drop 5 s)
         else if startsWith ''enum('' s then parse_enum (drop 5 s)
         else parse_integer s)"

definition field_eq_bytes :: "FieldPath \<Rightarrow> bytes \<Rightarrow> MesTree" where
  "field_eq_bytes p b = MT_field_equals (Some p) (Some (FV_bytes b))"

definition parse_field_eq :: "string \<Rightarrow> (MesTree \<times> string) result" where
  "parse_field_eq s =
     res_bind (parseFieldPath s) (\<lambda>(p, s).
     res_bind (expect (CHR '','') (skipWhitespace s)) (\<lambda>s.
     res_bind (parseFieldValue s) (\<lambda>(v, s).
       close_paren (MT_field_equals (Some p) (Some v)) s)))"

definition parse_field_contains :: "string \<Rightarrow> (MesTree \<times> string) result" where
  "parse_field_contains s =
     res_bind (parseFieldPath s) (\<lambda>(p, s).
     res_bind (expect (CHR '','') (skipWhitespace s)) (\<lambda>s.
     res_bind (parseFieldPath s) (\<lambda>(q, s).
     res_bind (expect (CHR '','') (skipWhitespace s)) (\<lambda>s.
     res_bind (parseFieldValue s) (\<lambda>(v, s).
       close_paren (MT_field_contains (Some p) (Some q) (Some v)) s)))))"

primrec parseMessageTree :: "nat \<Rightarrow> string \<Rightarrow> (MesTree \<times> string) result" where
  "parseMessageTree 0 = (\<lambda>s. Inl out_of_fuel)"
| "parseMessageTree (Suc n) = (\<lambda>s0.
     let s = skipWhitespace s0
     in if startsWith ''AND('' s then
          res_bind (parseBinaryArgs (parseMessageTree n) (drop 3 s)) (\<lambda>((l, r), s). Inr (MT_and (Some l) (Some r), s))
        else if startsWith ''OR('' s then
          res_bind (parseBinaryArgs (parseMessageTree n) (drop 2 s)) (\<lambda>((l, r), s). Inr (MT_or (Some l) (Some r), s))
        else if startsWith ''EQ('' s then
          res_bind (parseBinaryArgs (parseMessageTree n) (drop 2 s)) (\<lambda>((l, r), s). Inr (MT_equals (Some l) (Some r), s))
        else if startsWith ''ALLOF('' s then
          res_bind (parseNaryArgs n (parseMessageTree n) (drop 5 s)) (\<lambda>(ts, s). Inr (MT_all_of ts, s))
        else if startsWith ''ANYOF('' s then
          res_bind (parseNaryArgs n (parseMessageTree n) (drop 5 s)) (\<lambda>(ts, s). Inr (MT_any_of ts, s))
        else if startsWith ''DESTINATION('' s then
          res_bind (parseUUIDBytes (skipWhitespace (drop 12 s))) (\<lambda>(b, s).
            close_paren (field_eq_bytes [''destination'', ''value''] b) s)
        else if startsWith ''SOURCE('' s then
          res_bind (parseUUIDBytes (skipWhitespace (drop 7 s))) (\<lambda>(b, s).
            close_paren (field_eq_bytes [''signature'', ''signer'', ''value''] b) s)
        else if startsWith ''FIELD_EQ('' s then parse_field_eq (drop 9 s)
        else if startsWith ''FIELD_EXISTS('' s then
          res_bind (parseFieldPath (drop 13 s)) (\<lambda>(p, s). close_paren (MT_field_exists (Some p)) s)
        else if startsWith ''FIELD_CONTAINS('' s then parse_field_contains (drop 15 s)
        else if startsWithCI ''TRUE'' s then Inr (MT_true, drop 4 s)
        else if startsWithCI ''FALSE'' s then Inr (MT_false, drop 5 s)
        else Inl (Runtime_error ''unexpected token in message sub-tree''))"

subsection \<open>Trees\<close>

type_synonym VariableResolver = "string \<Rightarrow> AST option"

fun isIdChar :: "char \<Rightarrow> bool \<Rightarrow> bool" where
  "isIdChar c first =
     (c = CHR ''_'' \<or> (CHR ''A'' \<le> c \<and> c \<le> CHR ''Z'') \<or> (CHR ''a'' \<le> c \<and> c \<le> CHR ''z'') \<or>
      (\<not> first \<and> CHR ''0'' \<le> c \<and> c \<le> CHR ''9''))"

definition valid_variable_name :: "string \<Rightarrow> bool" where
  "valid_variable_name name =
     (case name of [] \<Rightarrow> True | c # cs \<Rightarrow> isIdChar c True \<and> list_all (\<lambda>c. isIdChar c False) cs)"

definition parse_variable :: "VariableResolver option \<Rightarrow> string \<Rightarrow> (AST \<times> string) result" where
  "parse_variable resolver s =
     (let name = takeWhile (\<lambda>c. c \<noteq> CHR ''}'') s; r = dropWhile (\<lambda>c. c \<noteq> CHR ''}'') s
      in if r = [] then Inl (Runtime_error ''unterminated ${'')
         else if name = [] then Inl (Runtime_error ''empty variable name in ${}'')
         else if \<not> valid_variable_name name
           then Inl (Runtime_error (''invalid variable name '' @ name @ '' in ${}''))
         else (case resolver of
                 None \<Rightarrow> Inl (Runtime_error
                   (''${'' @ name @ ''}: variable references are not allowed in this context''))
               | Some f \<Rightarrow>
                   (case f name of
                      None \<Rightarrow> Inl (Runtime_error (''${'' @ name @ ''}: undeclared variable''))
                    | Some t \<Rightarrow> Inr (t, tl r))))"

primrec parseTree :: "nat \<Rightarrow> VariableResolver option \<Rightarrow> string \<Rightarrow> (AST \<times> string) result" where
  "parseTree 0 = (\<lambda>resolver s. Inl out_of_fuel)"
| "parseTree (Suc n) = (\<lambda>resolver s0.
     let s = skipWhitespace s0
     in if startsWith ''${'' s then parse_variable resolver (drop 2 s)
        else if startsWith ''AND('' s then
          res_bind (parseBinaryArgs (parseTree n resolver) (drop 3 s)) (\<lambda>((l, r), s). Inr (AST_and (Some l) (Some r), s))
        else if startsWith ''OR('' s then
          res_bind (parseBinaryArgs (parseTree n resolver) (drop 2 s)) (\<lambda>((l, r), s). Inr (AST_or (Some l) (Some r), s))
        else if startsWith ''EQ('' s then
          res_bind (parseBinaryArgs (parseTree n resolver) (drop 2 s)) (\<lambda>((l, r), s). Inr (AST_equals (Some l) (Some r), s))
        else if startsWith ''ALLOF('' s then
          res_bind (parseNaryArgs n (parseTree n resolver) (drop 5 s)) (\<lambda>(ts, s). Inr (AST_all_of ts, s))
        else if startsWith ''ANYOF('' s then
          res_bind (parseNaryArgs n (parseTree n resolver) (drop 5 s)) (\<lambda>(ts, s). Inr (AST_any_of ts, s))
        else if startsWith ''ENDORSEMENT('' s then
          res_bind (parseEndTree n (skipWhitespace (drop 12 s))) (\<lambda>(t, s). close_paren (AST_endorsement (Some t)) s)
        else if startsWith ''ENDORSEMENT_TYPE('' s then
          res_bind (parseUUIDBytes (skipWhitespace (drop 17 s))) (\<lambda>(b, s).
            close_paren (AST_endorsement (Some (ET_type_equals (Some b)))) s)
        else if startsWith ''ENDORSEMENT_VALUE('' s then
          res_bind (parseHexBytes (skipWhitespace (drop 18 s))) (\<lambda>(b, s).
            close_paren (AST_endorsement (Some (ET_value_equals b))) s)
        else if startsWith ''ENDORSEMENT_SIGNER('' s then
          res_bind (parseUUIDBytes (skipWhitespace (drop 19 s))) (\<lambda>(b, s).
            close_paren (AST_endorsement (Some (ET_signer_equals (Some b)))) s)
        else if startsWith ''MESSAGE('' s then
          res_bind (parseMessageTree n (skipWhitespace (drop 8 s))) (\<lambda>(t, s). close_paren (AST_message (Some t)) s)
        else if startsWith ''DESTINATION('' s then
          res_bind (parseUUIDBytes (skipWhitespace (drop 12 s))) (\<lambda>(b, s).
            close_paren (AST_message (Some (field_eq_bytes [''destination'', ''value''] b))) s)
        else if startsWith ''SOURCE('' s then
          res_bind (parseUUIDBytes (skipWhitespace (drop 7 s))) (\<lambda>(b, s).
            close_paren (AST_message (Some (field_eq_bytes [''signature'', ''signer'', ''value''] b))) s)
        else if startsWithCI ''TRUE'' s then Inr (AST_true, drop 4 s)
        else if startsWithCI ''FALSE'' s then Inr (AST_false, drop 5 s)
        else Inl (Runtime_error ''unexpected token in ERD text''))"

definition parse_all :: "VariableResolver option \<Rightarrow> string \<Rightarrow> AST result" where
  "parse_all resolver txt =
     (let s = skipWhitespace txt
      in if s = [] then Inr AST_not_set
         else res_bind (parseTree (Suc (length txt)) resolver s) (\<lambda>(tree, s).
                if skipWhitespace s \<noteq> [] then Inl (Runtime_error ''unexpected content after ERD expression'')
                else Inr tree))"

definition erd_fromString :: "string \<Rightarrow> AST result" where
  "erd_fromString txt = parse_all None txt"

definition erd_fromString_vars :: "string \<Rightarrow> VariableResolver \<Rightarrow> AST result" where
  "erd_fromString_vars txt resolver = parse_all (Some resolver) txt"

end
