(* ===== verification/Endorsement_Text_Roundtrip.thy ===== *)
theory Endorsement_Text_Roundtrip
  imports Endorsement_Text
begin

text \<open>
  The parser of the requirement text reads back what the printer writes, and never runs out of the
  steps \<^verbatim>\<open>fromString\<close> gives it.
\<close>

section \<open>Characters\<close>

lemma skip_nonspace [simp]: "\<not> isspace c \<Longrightarrow> skipWhitespace (c # s) = c # s"
  by (simp add: skipWhitespace_def)

lemma skip_space [simp]: "skipWhitespace (CHR '' '' # s) = skipWhitespace s"
  by (simp add: skipWhitespace_def isspace_def)

lemma skip_Nil [simp]: "skipWhitespace [] = []"
  by (simp add: skipWhitespace_def)

lemma skip_skip [simp]: "skipWhitespace (skipWhitespace s) = skipWhitespace s"
  by (simp add: skipWhitespace_def dropWhile_idem)

lemma peek_Cons [simp]: "peek (c # s) = c"
  by (simp add: peek_def)

lemma not_isspace_lits [simp]:
  "\<not> isspace CHR ''('' " "\<not> isspace CHR '')''" "\<not> isspace CHR '',''" "\<not> isspace CHR ''0''"
  "\<not> isspace CHR ''A''" "\<not> isspace CHR ''O''" "\<not> isspace CHR ''E''" "\<not> isspace CHR ''F''"
  "\<not> isspace CHR ''T''" "\<not> isspace CHR ''M''" "\<not> isspace CHR ''t''" "\<not> isspace CHR ''f''"
  "\<not> isspace CHR ''e''" "\<not> isspace CHR ''-''" "\<not> isspace CHR 0x22"
  by (simp_all add: isspace_def)

lemma expect_same [simp]: "\<not> isspace c \<Longrightarrow> expect c (c # s) = Inr s"
  by (simp add: expect_def)

lemma expect_skip [simp]: "expect c (skipWhitespace s) = expect c s"
  by (simp add: expect_def)

lemma close_paren_same [simp]: "close_paren t (CHR '')'' # s) = Inr (t, s)"
  by (simp add: close_paren_def)

section \<open>Hexadecimal digits\<close>

lemma of_char_div_mod: "(of_char c :: nat) div 16 < 16" "(of_char c :: nat) mod 16 < 16"
  using nat_of_char_less_256 [of c] by (simp_all del: nat_of_char_less_256 add: less_mult_imp_div_less)

lemma isHex_hexDigit [simp]:
  "isHexCharacter (hexDigit (of_char c div 16))" "isHexCharacter (hexDigit (of_char c mod 16))"
  by (simp_all add: hexDigit_hex of_char_div_mod)

lemma value_hexDigit [simp]:
  "hexDigitValue (hexDigit (of_char c div 16)) = Some (of_char c div 16)"
  "hexDigitValue (hexDigit (of_char c mod 16)) = Some (of_char c mod 16)"
  by (simp_all add: hexDigitValue_hexDigit of_char_div_mod)

lemma char_of_div_mod [simp]: "char_of ((of_char c :: nat) div 16 * 16 + of_char c mod 16) = c"
  by simp

lemma bytesToHex_simps [simp]:
  "bytesToHex [] = []"
  "bytesToHex (c # bs) = hexDigit (of_char c div 16) # hexDigit (of_char c mod 16) # bytesToHex bs"
  "bytesToHex (bs @ cs) = bytesToHex bs @ bytesToHex cs"
  by (simp_all add: bytesToHex_def)

lemma length_bytesToHex [simp]: "length (bytesToHex bs) = 2 * length bs"
  by (induction bs) auto

lemma hex_pairs_bytesToHex [simp]: "hex_pairs (bytesToHex bs) = Inr bs"
  by (induction bs) (simp_all add: hexVal_def)

lemma parseHexBytes_loop_bytesToHex:
  "r = [] \<or> \<not> isHexCharacter (hd r) \<Longrightarrow>
   parseHexBytes_loop acc (bytesToHex bs @ r) = Inr (acc @ bs, r)"
proof (induction bs arbitrary: acc)
  case Nil
  then show ?case
    by (cases r rule: hex_pairs.cases) auto
qed auto

lemma skip_bytesToHex: "skipWhitespace (bytesToHex bs @ CHR '')'' # r) = bytesToHex bs @ CHR '')'' # r"
proof (cases bs)
  case (Cons c cs)
  have "\<not> isspace (hexDigit (of_char c div 16))"
    using isHex_hexDigit(1) [of c] by (auto simp: isHexCharacter_def isspace_def)
  with Cons show ?thesis by simp
qed simp

lemma parseHexBytes_bytesToHex [simp]:
  "parseHexBytes (bytesToHex bs) = Inr (bs, [])"
  "parseHexBytes (bytesToHex bs @ CHR '')'' # r) = Inr (bs, CHR '')'' # r)"
  using parseHexBytes_loop_bytesToHex [of "[]" "[]" bs]
    parseHexBytes_loop_bytesToHex [of "CHR '')'' # r" "[]" bs]
  by (simp_all add: parseHexBytes_def isHexCharacter_def)

section \<open>Identifiers\<close>

lemma all_hex_bytesToHex [simp]: "all_hex (2 * length bs) (bytesToHex bs @ r) = Some r"
  by (induction bs) simp_all

lemma isUUID_groups_print:
  "length bs = sum_list gs \<Longrightarrow> isUUID_groups (map (\<lambda>g. 2 * g) gs) sep (uuid_groups gs sep bs @ r)"
proof (induction gs arbitrary: sep bs)
  case (Cons g gs)
  have "all_hex (2 * g) (bytesToHex (take g bs) @ x) = Some x" for x
    using all_hex_bytesToHex [of "take g bs" x] Cons.prems by simp
  then show ?case
    using Cons by simp
qed simp

lemma filter_uuid_groups:
  "sum_list gs = length bs \<Longrightarrow> filter (\<lambda>c. c \<noteq> CHR ''-'') (uuid_groups gs sep bs) = bytesToHex bs"
proof (induction gs arbitrary: sep bs)
  case (Cons g gs)
  have dash: "filter (\<lambda>c. c \<noteq> CHR ''-'') (bytesToHex xs) = bytesToHex xs" for xs
  proof (induction xs)
    case (Cons x xs)
    have "hexDigit (of_char x div 16) \<noteq> CHR ''-''" "hexDigit (of_char x mod 16) \<noteq> CHR ''-''"
      using isHex_hexDigit [of x] by (auto simp: isHexCharacter_def)
    with Cons show ?case by simp
  qed simp
  have "bytesToHex (take g bs) @ bytesToHex (drop g bs) = bytesToHex bs"
    by (simp flip: bytesToHex_simps(3))
  moreover have "filter (\<lambda>c. c \<noteq> CHR ''-'') (uuid_groups gs True (drop g bs)) = bytesToHex (drop g bs)"
    using Cons.prems by (intro Cons.IH) simp
  ultimately show ?case by (simp add: dash)
qed simp

lemma length_uuid_groups:
  "length bs = sum_list gs \<Longrightarrow> length (uuid_groups gs True bs) = 2 * length bs + length gs"
  by (induction gs arbitrary: bs) simp_all

lemma parseUUIDBytes_print:
  assumes "bytesToUUID bs = Inr u"
  shows "parseUUIDBytes (u @ r) = Inr (bs, r)"
proof -
  let ?gs = "[4, 2, 2, 2, 6] :: nat list"
  have l: "length bs = sum_list ?gs" and u: "u = uuid_groups ?gs False bs"
    using assms by (auto simp: bytesToUUID_def split: if_splits)
  have "length (CHR ''-'' # u) = 2 * length bs + length ?gs"
    using length_uuid_groups [OF l] u by simp
  then have len: "length u = 36"
    using l by simp
  have "isUUID (u @ r)"
    using isUUID_groups_print [OF l, of False r] u by (simp add: isUUID_def del: isUUID_groups.simps uuid_groups.simps)
  then show ?thesis
    using len l filter_uuid_groups [of ?gs bs False] u
    by (simp add: parseUUIDBytes_def uuidToBytes_def del: uuid_groups.simps)
qed

lemma bytesToUUID_ok: "length bs = 16 \<Longrightarrow> \<exists>u. bytesToUUID bs = Inr u"
  by (simp add: bytesToUUID_def)

lemma bytesToUUID_start:
  assumes "bytesToUUID bs = Inr u"
  shows "skipWhitespace (u @ r) = u @ r \<and> u \<noteq> []"
proof -
  obtain c cs where c: "bs = c # cs"
    using assms by (cases bs) (auto simp: bytesToUUID_def)
  have "\<not> isspace (hexDigit (of_char c div 16))"
    using isHex_hexDigit(1) [of c] by (auto simp: isHexCharacter_def isspace_def)
  then show ?thesis
    using assms c by (auto simp: bytesToUUID_def split: if_splits)
qed

section \<open>Numbers\<close>

lemma digit_char:
  "n < 10 \<Longrightarrow> isdigit (char_of (48 + n)) \<and> digit_val (char_of (48 + n)) = n"
  by (simp add: isdigit_def digit_val_def less_eq_char_def)

lemma dec_of_nat_digits: "list_all isdigit (dec_of_nat n) \<and> dec_of_nat n \<noteq> []"
proof (induction n rule: dec_of_nat.induct)
  case (1 n)
  show ?case
  proof (cases "n < 10")
    case True
    then show ?thesis by (simp add: dec_of_nat.simps [of n] digit_char)
  next
    case False
    then show ?thesis
      using 1 digit_char [of "n mod 10"] by (subst (1 2) dec_of_nat.simps) simp
  qed
qed

lemma digits_u64_snoc: "digits_u64 (ds @ [c]) = digits_u64 ds * 10 + of_nat (digit_val c)"
  by (simp add: digits_u64_def)

lemma digits_u64_dec: "digits_u64 (dec_of_nat n) = of_nat n"
proof (induction n rule: dec_of_nat.induct)
  case (1 n)
  show ?case
  proof (cases "n < 10")
    case True
    then show ?thesis by (simp add: dec_of_nat.simps [of n] digits_u64_def digit_char)
  next
    case False
    have "(of_nat (n div 10) * 10 + of_nat (n mod 10) :: u64) = of_nat (n div 10 * 10 + n mod 10)"
      by (simp only: of_nat_add of_nat_mult of_nat_numeral)
    with False show ?thesis
      using 1 digit_char [of "n mod 10"]
      by (subst dec_of_nat.simps) (simp add: digits_u64_snoc)
  qed
qed

lemma digits_i64_append:
  "digits_i64 a (xs @ ys) = res_bind (digits_i64 a xs) (\<lambda>b. digits_i64 b ys)"
  by (induction a xs rule: digits_i64.induct) (auto simp: Let_def)

lemma digits_i64_dec: "n < 2 ^ 63 \<Longrightarrow> digits_i64 0 (dec_of_nat n) = Inr (int n)"
proof (induction n rule: dec_of_nat.induct)
  case (1 n)
  show ?case
  proof (cases "n < 10")
    case True
    then show ?thesis by (simp add: dec_of_nat.simps [of n] digit_char)
  next
    case False
    have "int (n div 10) * 10 + int (n mod 10) = int (n div 10 * 10 + n mod 10)"
      by (simp only: of_nat_add of_nat_mult of_nat_numeral)
    then have e: "int (n div 10) * 10 + int (n mod 10) = int n" by simp
    have "digits_i64 0 (dec_of_nat (n div 10)) = Inr (int (n div 10))"
      using 1 False by simp
    then show ?thesis
      using False e 1(2) digit_char [of "n mod 10"]
      by (subst dec_of_nat.simps) (simp add: digits_i64_append Let_def)
  qed
qed

lemma takeWhile_dec:
  "\<not> isdigit c \<Longrightarrow> takeWhile isdigit (dec_of_nat n @ c # r) = dec_of_nat n"
  "\<not> isdigit c \<Longrightarrow> dropWhile isdigit (dec_of_nat n @ c # r) = c # r"
  using dec_of_nat_digits [of n]
  by (simp_all add: takeWhile_append2 list_all_iff dropWhile_append2)

lemma dec_of_nat_start:
  obtains c cs where "dec_of_nat n = c # cs" "isdigit c"
  using dec_of_nat_digits [of n] by (cases "dec_of_nat n") auto

lemma isdigit_not: "isdigit c \<Longrightarrow> c \<noteq> CHR ''-'' \<and> \<not> isspace c \<and> c \<noteq> CHR 0x22 \<and> toupper c = c \<and>
  c \<noteq> CHR ''T'' \<and> c \<noteq> CHR ''F'' \<and> c \<noteq> CHR ''e''"
  by (auto simp: isdigit_def isspace_def toupper_def less_eq_char_def)

lemma not_isdigit_lits [simp]: "\<not> isdigit CHR '')''" "\<not> isdigit CHR ''u''" "\<not> isdigit CHR ''x''" "\<not> isdigit CHR ''X''"
  by (simp_all add: isdigit_def)

lemma toupper_lits [simp]:
  "toupper CHR ''t'' = CHR ''T''" "toupper CHR ''r'' = CHR ''R''" "toupper CHR ''u'' = CHR ''U''"
  "toupper CHR ''e'' = CHR ''E''" "toupper CHR ''f'' = CHR ''F''" "toupper CHR ''a'' = CHR ''A''"
  "toupper CHR ''l'' = CHR ''L''" "toupper CHR ''s'' = CHR ''S''"
  "toupper CHR ''T'' = CHR ''T''" "toupper CHR ''R'' = CHR ''R''" "toupper CHR ''U'' = CHR ''U''"
  "toupper CHR ''E'' = CHR ''E''" "toupper CHR ''F'' = CHR ''F''" "toupper CHR ''A'' = CHR ''A''"
  "toupper CHR ''L'' = CHR ''L''" "toupper CHR ''S'' = CHR ''S''" "toupper CHR ''M'' = CHR ''M''"
  "toupper CHR ''O'' = CHR ''O''" "toupper CHR ''-'' = CHR ''-''"
  by (simp_all add: toupper_def char_of_eq_iff take_bit_eq_mod)

lemma dec_not_hex_prefix:
  "\<not> prefix ''0x'' (dec_of_nat n @ CHR '')'' # r)" "\<not> prefix ''0X'' (dec_of_nat n @ CHR '')'' # r)"
  "\<not> prefix ''0x'' (dec_of_nat n @ CHR ''u'' # r)" "\<not> prefix ''0X'' (dec_of_nat n @ CHR ''u'' # r)"
proof -
  have "\<not> prefix [a, b] (ds @ c # r)"
    if "list_all isdigit ds" "ds \<noteq> []" "\<not> isdigit b" "c \<noteq> b" for a b c ds
    using that by (cases ds rule: remdups_adj.cases) auto
  then show "\<not> prefix ''0x'' (dec_of_nat n @ CHR '')'' # r)" "\<not> prefix ''0X'' (dec_of_nat n @ CHR '')'' # r)"
    "\<not> prefix ''0x'' (dec_of_nat n @ CHR ''u'' # r)" "\<not> prefix ''0X'' (dec_of_nat n @ CHR ''u'' # r)"
    using dec_of_nat_digits [of n] by simp_all
qed

section \<open>Field paths and values\<close>

text \<open>The paths and values whose text can be read back.\<close>

definition segment_ok :: "string \<Rightarrow> bool" where
  "segment_ok seg \<longleftrightarrow> seg \<noteq> [] \<and> list_all (\<lambda>c. \<not> path_stop c \<and> c \<noteq> CHR ''.'') seg"

definition path_ok :: "FieldPath \<Rightarrow> bool" where
  "path_ok p \<longleftrightarrow> p \<noteq> [] \<and> list_all segment_ok p \<and> \<not> isspace (hd (hd p))"

definition value_ok :: "FieldValue \<Rightarrow> bool" where
  "value_ok v =
     (case v of
        FV_string s \<Rightarrow> CHR 0x22 \<notin> set s
      | FV_int n \<Rightarrow> sint n \<noteq> - (2 ^ 63)
      | FV_not_set \<Rightarrow> False
      | _ \<Rightarrow> True)"

lemma parse_segment:
  "list_all (\<lambda>c. \<not> path_stop c \<and> c \<noteq> CHR ''.'') seg \<Longrightarrow>
   parseFieldPath_loop path acc (seg @ r) = parseFieldPath_loop path (acc @ seg) r"
  by (induction seg arbitrary: acc) auto

lemma parse_path_loop:
  "list_all segment_ok p \<Longrightarrow> p \<noteq> [] \<Longrightarrow> path_stop c \<Longrightarrow>
   parseFieldPath_loop path [] (appendFieldPath p @ c # r) =
     Inr (path @ butlast p, last p, c # r)"
proof (induction p arbitrary: path rule: appendFieldPath.induct)
  case (2 s)
  then show ?case
    by (auto simp: segment_ok_def parse_segment path_stop_def)
next
  case (3 s t ts)
  then show ?case
    using parse_segment [of s path "[]"] by (simp add: segment_ok_def)
qed simp

lemma parseFieldPath_print:
  assumes "path_ok p" "path_stop c"
  shows "parseFieldPath (appendFieldPath p @ c # r) = Inr (p, c # r)"
    and "parseFieldPath (CHR '' '' # appendFieldPath p @ c # r) = Inr (p, c # r)"
proof -
  have p: "p \<noteq> []" "list_all segment_ok p" "\<not> isspace (hd (hd p))"
    using assms by (auto simp: path_ok_def)
  have start: "appendFieldPath p = hd (hd p) # tl (appendFieldPath p)"
    using p by (cases p rule: appendFieldPath.cases) (auto simp: segment_ok_def)
  have skip: "skipWhitespace (appendFieldPath p @ c # r) = appendFieldPath p @ c # r"
    using p(3) by (subst (1 2) start) simp
  have "last p \<noteq> []"
    using p by (auto simp: segment_ok_def list_all_iff dest: last_in_set)
  then show "parseFieldPath (appendFieldPath p @ c # r) = Inr (p, c # r)"
    and "parseFieldPath (CHR '' '' # appendFieldPath p @ c # r) = Inr (p, c # r)"
    using p parse_path_loop [OF p(2,1) assms(2), of "[]" r] skip
    by (simp_all add: parseFieldPath_def)
qed

lemma path_stop_lits [simp]: "path_stop CHR '',''" "path_stop CHR '')''"
  by (simp_all add: path_stop_def)

lemma parse_integer_uint:
  "parse_integer (dec_of_nat (unat n) @ CHR ''u'' # r) = Inr (FV_uint n, r)"
proof -
  obtain c cs where c: "dec_of_nat (unat n) = c # cs" "isdigit c"
    by (rule dec_of_nat_start)
  then show ?thesis
    using isdigit_not [OF c(2)] takeWhile_dec [of "CHR ''u''" "unat n" r] digits_u64_dec [of "unat n"]
    by (simp add: parse_integer_def)
qed

lemma parse_integer_pos:
  "parse_integer (dec_of_nat n @ CHR '')'' # r) = Inr (FV_int (of_nat n), CHR '')'' # r)"
proof -
  obtain c cs where c: "dec_of_nat n = c # cs" "isdigit c"
    by (rule dec_of_nat_start)
  then show ?thesis
    using isdigit_not [OF c(2)] takeWhile_dec [of "CHR '')''" n r] digits_u64_dec [of n]
    by (simp add: parse_integer_def)
qed

lemma parse_integer_neg:
  assumes "sint (of_nat n :: u64) \<noteq> - (2 ^ 63)"
  shows "parse_integer (CHR ''-'' # dec_of_nat n @ CHR '')'' # r) = Inr (FV_int (- of_nat n), CHR '')'' # r)"
proof -
  obtain c cs where c: "dec_of_nat n = c # cs" "isdigit c"
    by (rule dec_of_nat_start)
  then show ?thesis
    using assms isdigit_not [OF c(2)] takeWhile_dec [of "CHR '')''" n r] digits_u64_dec [of n]
    by (simp add: parse_integer_def)
qed

lemma word_of_nat_nat: "0 \<le> i \<Longrightarrow> (of_nat (nat i) :: 'a::len word) = word_of_int i"
  by (metis int_nat_eq of_int_of_nat_eq)

lemma sint_bounds: "- (2 ^ 63) \<le> sint (n :: u64) \<and> sint n < 2 ^ 63"
  using sint_ge [of n] sint_lt [of n] by simp

lemma sint_bounds_32: "- (2 ^ 31) \<le> sint (n :: u32) \<and> sint n < 2 ^ 31"
  using sint_ge [of n] sint_lt [of n] by simp

lemma parse_integer_int:
  assumes "sint n \<noteq> - (2 ^ 63)"
  shows "parse_integer (dec_of_int (sint n) @ CHR '')'' # r) = Inr (FV_int n, CHR '')'' # r)"
proof (cases "sint n < 0")
  case False
  then have "(of_nat (nat (sint n)) :: u64) = n"
    by (simp add: word_of_nat_nat)
  with False show ?thesis
    using parse_integer_pos [of "nat (sint n)" r] by (simp add: dec_of_int_def)
next
  case True
  let ?k = "nat (- sint n)"
  have k: "(of_nat ?k :: u64) = - n"
    using True by (simp add: word_of_nat_nat)
  have "sint (word_of_int (- sint n) :: u64) = - sint n"
    unfolding sint_sbintrunc'
    using True sint_bounds [of n] assms by (intro signed_take_bit_int_eq_self) auto
  then have "sint (of_nat ?k :: u64) \<noteq> - (2 ^ 63)"
    using True by (simp add: word_of_nat_nat)
  from parse_integer_neg [OF this, of r] True k show ?thesis
    by (simp add: dec_of_int_def)
qed

lemma parse_enum_print:
  "parse_enum (dec_of_int (sint n) @ CHR '')'' # r) = Inr (FV_enum n, r)"
proof (cases "sint n < 0")
  case False
  obtain c cs where c: "dec_of_nat (nat (sint n)) = c # cs" "isdigit c"
    by (rule dec_of_nat_start)
  have "digits_i64 0 (c # cs) = Inr (sint n)"
    using digits_i64_dec [of "nat (sint n)"] False sint_bounds_32 [of n] c by simp
  with False c show ?thesis
    using isdigit_not [OF c(2)] takeWhile_dec [of "CHR '')''" "nat (sint n)" r]
    by (simp add: parse_enum_def dec_of_int_def Let_def del: digits_i64.simps)
next
  case True
  obtain c cs where c: "dec_of_nat (nat (- sint n)) = c # cs" "isdigit c"
    by (rule dec_of_nat_start)
  have "digits_i64 0 (c # cs) = Inr (- sint n)"
    using digits_i64_dec [of "nat (- sint n)"] True sint_bounds_32 [of n] c by simp
  with True c show ?thesis
    using isdigit_not [OF c(2)] takeWhile_dec [of "CHR '')''" "nat (- sint n)" r]
    by (simp add: parse_enum_def dec_of_int_def Let_def del: digits_i64.simps)
qed

lemma string_literal_print:
  "CHR 0x22 \<notin> set s \<Longrightarrow> parse_string_literal (s @ CHR 0x22 # r) = Inr (FV_string s, r)"
proof -
  assume "CHR 0x22 \<notin> set s"
  then have "takeWhile (\<lambda>c. c \<noteq> CHR 0x22) (s @ CHR 0x22 # r) = s"
    "dropWhile (\<lambda>c. c \<noteq> CHR 0x22) (s @ CHR 0x22 # r) = CHR 0x22 # r"
    by (induction s) auto
  then show ?thesis by (simp add: parse_string_literal_def)
qed

text \<open>A number falls through to the last case of \<^const>\<open>parseFieldValue\<close>.\<close>

lemma parseFieldValue_number:
  assumes "isdigit c \<or> c = CHR ''-''" "\<not> prefix ''0x'' (c # s)" "\<not> prefix ''0X'' (c # s)"
  shows "parseFieldValue (c # s) = parse_integer (c # s)"
proof -
  have "\<not> isspace c" "c \<noteq> CHR 0x22" "toupper c \<noteq> CHR ''T''" "toupper c \<noteq> CHR ''F''" "c \<noteq> CHR ''e''"
    using assms(1) isdigit_not [of c] by auto
  then show ?thesis
    using assms(2,3) by (auto simp: parseFieldValue_def startsWith_def Let_def)
qed

lemma parseFieldValue_print:
  assumes "value_ok v"
  shows "parseFieldValue (appendFieldValue v @ CHR '')'' # r) = Inr (v, CHR '')'' # r)"
proof (cases v)
  case (FV_int n)
  have "sint n \<noteq> - (2 ^ 63)"
    using assms FV_int by (simp add: value_ok_def)
  moreover obtain c cs where "dec_of_nat (nat (sint n)) = c # cs" "isdigit c"
    by (rule dec_of_nat_start)
  moreover have "\<not> prefix ''0x'' (CHR ''-'' # t)" "\<not> prefix ''0X'' (CHR ''-'' # t)" for t
    by simp_all
  ultimately show ?thesis
    using FV_int parse_integer_int [of n r] dec_not_hex_prefix [of "nat (sint n)" r]
    by (auto simp: appendFieldValue_def dec_of_int_def parseFieldValue_number simp del: prefix_Cons
        split: if_splits)
next
  case (FV_uint n)
  obtain c cs where "dec_of_nat (unat n) = c # cs" "isdigit c"
    by (rule dec_of_nat_start)
  then show ?thesis
    using FV_uint parse_integer_uint [of n "CHR '')'' # r"] dec_not_hex_prefix(3,4) [of "unat n"]
    by (auto simp: appendFieldValue_def parseFieldValue_number)
qed (use assms in \<open>auto simp: value_ok_def appendFieldValue_def parseFieldValue_def startsWith_def
      isalnum_def isalpha_def isdigit_def parse_enum_print string_literal_print\<close>)

lemma parseFieldValue_space [simp]: "parseFieldValue (CHR '' '' # s) = parseFieldValue s"
  by (simp add: parseFieldValue_def)

section \<open>Argument lists\<close>

text \<open>
  The three kinds of tree share the syntax of argument lists. Their parsers promise to skip a leading
  blank; a printed operand starts with a letter.
\<close>

definition starts_ok :: "string \<Rightarrow> bool" where
  "starts_ok s \<longleftrightarrow> s \<noteq> [] \<and> hd s \<in> set ''AOEFTM''"

lemma starts_ok_skip: "starts_ok s \<Longrightarrow> skipWhitespace (s @ r) = s @ r \<and> peek (s @ r) \<noteq> CHR '')''"
  by (cases s) (auto simp: starts_ok_def)

lemma append_list_members:
  assumes "append_list f ts = Inr s" "t \<in> set ts"
  shows "\<exists>u. f t = Inr u \<and> length u \<le> length s"
  using assms by (induction f ts arbitrary: s rule: append_list.induct) (fastforce simp: res_bind_eq_Inr)+

lemma append_list_count:
  assumes "append_list f ts = Inr s" "\<And>t u. t \<in> set ts \<Longrightarrow> f t = Inr u \<Longrightarrow> u \<noteq> []"
  shows "length ts \<le> length s"
  using assms
proof (induction f ts arbitrary: s rule: append_list.induct)
  case (2 f t)
  then show ?case by (cases s) auto
next
  case (3 f t u ts)
  then show ?case by (fastforce simp: res_bind_eq_Inr)
qed simp

locale operand_text =
  fixes print :: "'a \<Rightarrow> string result"
    and parse :: "nat \<Rightarrow> string \<Rightarrow> ('a \<times> string) result"
  assumes parse_blank: "parse n (CHR '' '' # s) = parse n s"
begin

definition reads :: "nat \<Rightarrow> 'a \<Rightarrow> string \<Rightarrow> bool" where
  "reads n t s \<longleftrightarrow> starts_ok s \<and> (\<forall>r. parse n (s @ r) = Inr (t, r))"

lemma readsD: "reads n t s \<Longrightarrow> parse n (s @ r) = Inr (t, r)"
  by (simp add: reads_def)

lemma binary:
  assumes "reads n l ls" "reads n r rs"
  shows "parseBinaryArgs (parse n) (CHR ''('' # ls @ CHR '','' # CHR '' '' # rs @ CHR '')'' # x) = Inr ((l, r), x)"
  using readsD [OF assms(1), of "CHR '','' # CHR '' '' # rs @ CHR '')'' # x"]
    readsD [OF assms(2), of "CHR '')'' # x"] parse_blank
  by (simp add: parseBinaryArgs_def)

lemma nary_loop:
  assumes "append_list print ts = Inr s" "\<And>t u. t \<in> set ts \<Longrightarrow> print t = Inr u \<Longrightarrow> reads k t u"
    and "length ts \<le> n" "ts \<noteq> []"
  shows "parseNary_loop n (parse k) (s @ CHR '')'' # x) = Inr (ts, x)"
  using assms
proof (induction print ts arbitrary: s n rule: append_list.induct)
  case (2 f t)
  then obtain m where "n = Suc m" by (cases n) auto
  with 2 show ?case
    using readsD [of k t s "CHR '')'' # x"] by simp
next
  case (3 f t u ts)
  then obtain m where m: "n = Suc m" by (cases n) auto
  from 3(2) obtain s1 s2 where s: "f t = Inr s1" "append_list f (u # ts) = Inr s2" "s = s1 @ '', '' @ s2"
    by (auto simp: res_bind_eq_Inr)
  have blank: "parseNary_loop j (parse k) (CHR '' '' # y) = parseNary_loop j (parse k) y" for j y
    by (cases j) (simp_all add: parse_blank)
  have "parseNary_loop m (parse k) (s2 @ CHR '')'' # x) = Inr (u # ts, x)"
    using 3 s m by (intro 3(1) [of s1]) auto
  then show ?case
    using s m 3(3) [of t s1] readsD [of k t s1 "'', '' @ s2 @ CHR '')'' # x"] blank by simp
qed simp

lemma nary:
  assumes "append_list print ts = Inr s" "\<And>t u. t \<in> set ts \<Longrightarrow> print t = Inr u \<Longrightarrow> reads n t u"
    and "length s \<le> n"
  shows "parseNaryArgs n (parse n) (CHR ''('' # s @ CHR '')'' # x) = Inr (ts, x)"
proof (cases ts)
  case Nil
  with assms(1) show ?thesis by (simp add: parseNaryArgs_def)
next
  case (Cons t us)
  obtain u where u: "print t = Inr u" "\<exists>v. s = u @ v"
    using assms(1) Cons by (cases us) (auto simp: res_bind_eq_Inr)
  then have start: "starts_ok s"
    using assms(2) [of t u] Cons by (auto simp: reads_def starts_ok_def)
  have "length ts \<le> n"
    using append_list_count [OF assms(1)] assms(2,3) by (fastforce simp: reads_def starts_ok_def)
  then show ?thesis
    using nary_loop [OF assms(1,2)] Cons starts_ok_skip [OF start, of "CHR '')'' # x"]
    by (simp add: parseNaryArgs_def)
qed

text \<open>An operator application is read back when its operands are.\<close>

lemma reads_binary:
  assumes "appendBinary opr (append_opt print (Some l)) (append_opt print (Some r)) = Inr s" "length s \<le> n"
    and "starts_ok opr"
    and "\<And>m x. parse (Suc m) (opr @ CHR ''('' # x) =
           res_bind (parseBinaryArgs (parse m) (CHR ''('' # x)) (\<lambda>((l, r), s). Inr (C l r, s))"
    and "\<And>u m. print l = Inr u \<Longrightarrow> length u \<le> m \<Longrightarrow> reads m l u"
    and "\<And>u m. print r = Inr u \<Longrightarrow> length u \<le> m \<Longrightarrow> reads m r u"
  shows "reads n (C l r) s"
proof -
  obtain ls rs where p: "print l = Inr ls" "print r = Inr rs"
    and s: "s = opr @ ''('' @ ls @ '', '' @ rs @ '')''"
    using assms(1) by (auto simp: appendBinary_def append_opt_def res_bind_eq_Inr)
  then obtain m where m: "n = Suc m" "length ls \<le> m" "length rs \<le> m"
    using assms(2) by (cases n) auto
  show ?thesis
    using assms(3,4) s m(1) binary [OF assms(5) [OF p(1) m(2)] assms(6) [OF p(2) m(3)]]
    by (simp add: reads_def starts_ok_def)
qed

lemma reads_nary:
  assumes "appendNary opr (append_list print ts) = Inr s" "length s \<le> n"
    and "starts_ok opr"
    and "\<And>m x. parse (Suc m) (opr @ CHR ''('' # x) =
           res_bind (parseNaryArgs m (parse m) (CHR ''('' # x)) (\<lambda>(ts, s). Inr (C ts, s))"
    and "\<And>t u m. t \<in> set ts \<Longrightarrow> print t = Inr u \<Longrightarrow> length u \<le> m \<Longrightarrow> reads m t u"
  shows "reads n (C ts) s"
proof -
  obtain us where p: "append_list print ts = Inr us" and s: "s = opr @ ''('' @ us @ '')''"
    using assms(1) by (auto simp: appendNary_def res_bind_eq_Inr)
  then obtain m where m: "n = Suc m" "length us \<le> m"
    using assms(2) by (cases n) auto
  have "reads m t u" if "t \<in> set ts" "print t = Inr u" for t u
    using append_list_members [OF p that(1)] that m(2) by (intro assms(5)) auto
  then show ?thesis
    using assms(3,4) s m(1) nary [OF p _ m(2)] by (simp add: reads_def starts_ok_def)
qed

end

lemma parse_blank_trees:
  "parseEndTree n (CHR '' '' # s) = parseEndTree n s"
  "parseMessageTree n (CHR '' '' # s) = parseMessageTree n s"
  "parseTree n resolver (CHR '' '' # s) = parseTree n resolver s"
  by (cases n; simp)+

interpretation end_text: operand_text appendEndTree parseEndTree
  by unfold_locales (rule parse_blank_trees)

interpretation mes_text: operand_text appendMessageTree parseMessageTree
  by unfold_locales (rule parse_blank_trees)

interpretation ast_text: operand_text appendTree "\<lambda>n. parseTree n resolver" for resolver
  by unfold_locales (rule parse_blank_trees)

section \<open>Trees\<close>

fun end_ok :: "EndTree \<Rightarrow> bool" where
  "end_ok (ET_and (Some l) (Some r)) = (end_ok l \<and> end_ok r)"
| "end_ok (ET_or (Some l) (Some r)) = (end_ok l \<and> end_ok r)"
| "end_ok (ET_equals (Some l) (Some r)) = (end_ok l \<and> end_ok r)"
| "end_ok (ET_all_of ts) = list_all end_ok ts"
| "end_ok (ET_any_of ts) = list_all end_ok ts"
| "end_ok (ET_type_equals (Some b)) = (length b = 16)"
| "end_ok (ET_signer_equals (Some b)) = (length b = 16)"
| "end_ok (ET_value_equals v) = True"
| "end_ok ET_true = True"
| "end_ok ET_false = True"
| "end_ok _ = False"

lemma append_list_ok:
  "(\<And>t. t \<in> set ts \<Longrightarrow> \<exists>s. f t = Inr s) \<Longrightarrow> \<exists>s. append_list f ts = Inr s"
  by (induction f ts rule: append_list.induct) (fastforce simp: res_bind_eq_Inr)+

lemma end_print_ok: "end_ok t \<Longrightarrow> \<exists>s. appendEndTree t = Inr s"
proof (induction t rule: end_ok.induct)
  case (4 ts)
  then show ?case using append_list_ok [of ts appendEndTree] by (auto simp: appendNary_def list_all_iff)
next
  case (5 ts)
  then show ?case using append_list_ok [of ts appendEndTree] by (auto simp: appendNary_def list_all_iff)
qed (auto simp: append_opt_def appendBinary_def bytesToUUID_def)

lemma end_reads:
  "end_ok t \<Longrightarrow> appendEndTree t = Inr s \<Longrightarrow> length s \<le> n \<Longrightarrow> end_text.reads n t s"
proof (induction t arbitrary: s n rule: end_ok.induct)
  case (1 l r)
  show ?case
    by (rule end_text.reads_binary [where opr = "''AND''" and C = "\<lambda>l r. ET_and (Some l) (Some r)"])
      (use 1 in \<open>simp_all add: starts_ok_def startsWith_def\<close>)
next
  case (2 l r)
  show ?case
    by (rule end_text.reads_binary [where opr = "''OR''" and C = "\<lambda>l r. ET_or (Some l) (Some r)"])
      (use 2 in \<open>simp_all add: starts_ok_def startsWith_def\<close>)
next
  case (3 l r)
  show ?case
    by (rule end_text.reads_binary [where opr = "''EQ''" and C = "\<lambda>l r. ET_equals (Some l) (Some r)"])
      (use 3 in \<open>simp_all add: starts_ok_def startsWith_def\<close>)
next
  case (4 ts)
  show ?case
    by (rule end_text.reads_nary [where opr = "''ALLOF''" and C = ET_all_of])
      (use 4 in \<open>simp_all add: starts_ok_def startsWith_def list_all_iff\<close>)
next
  case (5 ts)
  show ?case
    by (rule end_text.reads_nary [where opr = "''ANYOF''" and C = ET_any_of])
      (use 5 in \<open>simp_all add: starts_ok_def startsWith_def list_all_iff\<close>)
next
  case (6 b)
  then obtain m u where "n = Suc m" "bytesToUUID b = Inr u" "s = ''ENDORSEMENT_TYPE('' @ u @ '')''"
    by (cases n) (auto simp: res_bind_eq_Inr)
  then show ?case
    using parseUUIDBytes_print [of b u] bytesToUUID_start [of b u]
    by (simp add: end_text.reads_def starts_ok_def startsWith_def)
next
  case (7 b)
  then obtain m u where "n = Suc m" "bytesToUUID b = Inr u" "s = ''ENDORSEMENT_SIGNER('' @ u @ '')''"
    by (cases n) (auto simp: res_bind_eq_Inr)
  then show ?case
    using parseUUIDBytes_print [of b u] bytesToUUID_start [of b u]
    by (simp add: end_text.reads_def starts_ok_def startsWith_def)
next
  case (8 v)
  then obtain m where "n = Suc m" "s = ''ENDORSEMENT_VALUE('' @ bytesToHex v @ '')''"
    by (cases n) auto
  then show ?case
    by (simp add: end_text.reads_def starts_ok_def startsWith_def skip_bytesToHex)
next
  case 9
  then show ?case by (cases n) (auto simp: end_text.reads_def starts_ok_def startsWith_def)
next
  case 10
  then show ?case by (cases n) (auto simp: end_text.reads_def starts_ok_def startsWith_def)
qed simp_all

fun mes_ok :: "MesTree \<Rightarrow> bool" where
  "mes_ok (MT_and (Some l) (Some r)) = (mes_ok l \<and> mes_ok r)"
| "mes_ok (MT_or (Some l) (Some r)) = (mes_ok l \<and> mes_ok r)"
| "mes_ok (MT_equals (Some l) (Some r)) = (mes_ok l \<and> mes_ok r)"
| "mes_ok (MT_all_of ts) = list_all mes_ok ts"
| "mes_ok (MT_any_of ts) = list_all mes_ok ts"
| "mes_ok (MT_field_equals (Some p) (Some v)) = (path_ok p \<and> value_ok v)"
| "mes_ok (MT_field_exists (Some p)) = path_ok p"
| "mes_ok (MT_field_contains (Some p) (Some q) (Some v)) = (path_ok p \<and> path_ok q \<and> value_ok v)"
| "mes_ok MT_true = True"
| "mes_ok MT_false = True"
| "mes_ok _ = False"

lemma mes_print_ok: "mes_ok t \<Longrightarrow> \<exists>s. appendMessageTree t = Inr s"
proof (induction t rule: mes_ok.induct)
  case (4 ts)
  then show ?case using append_list_ok [of ts appendMessageTree] by (auto simp: appendNary_def list_all_iff)
next
  case (5 ts)
  then show ?case using append_list_ok [of ts appendMessageTree] by (auto simp: appendNary_def list_all_iff)
qed (auto simp: append_opt_def appendBinary_def)

lemma mes_reads:
  "mes_ok t \<Longrightarrow> appendMessageTree t = Inr s \<Longrightarrow> length s \<le> n \<Longrightarrow> mes_text.reads n t s"
proof (induction t arbitrary: s n rule: mes_ok.induct)
  case (1 l r)
  show ?case
    by (rule mes_text.reads_binary [where opr = "''AND''" and C = "\<lambda>l r. MT_and (Some l) (Some r)"])
      (use 1 in \<open>simp_all add: starts_ok_def startsWith_def\<close>)
next
  case (2 l r)
  show ?case
    by (rule mes_text.reads_binary [where opr = "''OR''" and C = "\<lambda>l r. MT_or (Some l) (Some r)"])
      (use 2 in \<open>simp_all add: starts_ok_def startsWith_def\<close>)
next
  case (3 l r)
  show ?case
    by (rule mes_text.reads_binary [where opr = "''EQ''" and C = "\<lambda>l r. MT_equals (Some l) (Some r)"])
      (use 3 in \<open>simp_all add: starts_ok_def startsWith_def\<close>)
next
  case (4 ts)
  show ?case
    by (rule mes_text.reads_nary [where opr = "''ALLOF''" and C = MT_all_of])
      (use 4 in \<open>simp_all add: starts_ok_def startsWith_def list_all_iff\<close>)
next
  case (5 ts)
  show ?case
    by (rule mes_text.reads_nary [where opr = "''ANYOF''" and C = MT_any_of])
      (use 5 in \<open>simp_all add: starts_ok_def startsWith_def list_all_iff\<close>)
next
  case (6 p v)
  then obtain m where "n = Suc m" by (cases n) auto
  with 6 show ?case
    by (auto simp: mes_text.reads_def starts_ok_def startsWith_def path_or_default_def value_or_default_def
        parse_field_eq_def parseFieldPath_print parseFieldValue_print)
next
  case (7 p)
  then obtain m where "n = Suc m" by (cases n) auto
  with 7 show ?case
    by (auto simp: mes_text.reads_def starts_ok_def startsWith_def path_or_default_def parseFieldPath_print)
next
  case (8 p q v)
  then obtain m where "n = Suc m" by (cases n) auto
  with 8 show ?case
    by (auto simp: mes_text.reads_def starts_ok_def startsWith_def path_or_default_def value_or_default_def
        parse_field_contains_def parseFieldPath_print parseFieldValue_print)
next
  case 9
  then show ?case by (cases n) (auto simp: mes_text.reads_def starts_ok_def startsWith_def)
next
  case 10
  then show ?case by (cases n) (auto simp: mes_text.reads_def starts_ok_def startsWith_def)
qed simp_all

text \<open>
  The requirements whose text can be read back: every operand and identifier is there, identifiers
  have 16 bytes, path segments contain no character the path syntax uses, strings no quote, and
  a signed literal is not the smallest 64-bit value.
\<close>

fun erd_ok :: "AST \<Rightarrow> bool" where
  "erd_ok (AST_and (Some l) (Some r)) = (erd_ok l \<and> erd_ok r)"
| "erd_ok (AST_or (Some l) (Some r)) = (erd_ok l \<and> erd_ok r)"
| "erd_ok (AST_equals (Some l) (Some r)) = (erd_ok l \<and> erd_ok r)"
| "erd_ok (AST_all_of ts) = list_all erd_ok ts"
| "erd_ok (AST_any_of ts) = list_all erd_ok ts"
| "erd_ok (AST_endorsement (Some t)) = end_ok t"
| "erd_ok (AST_message (Some t)) = mes_ok t"
| "erd_ok AST_true = True"
| "erd_ok AST_false = True"
| "erd_ok _ = False"

lemma erd_print_ok: "erd_ok t \<Longrightarrow> \<exists>s. appendTree t = Inr s"
proof (induction t rule: erd_ok.induct)
  case (4 ts)
  then show ?case using append_list_ok [of ts appendTree] by (auto simp: appendNary_def list_all_iff)
next
  case (5 ts)
  then show ?case using append_list_ok [of ts appendTree] by (auto simp: appendNary_def list_all_iff)
qed (auto simp: append_opt_def appendBinary_def dest: end_print_ok mes_print_ok)

lemma erd_reads:
  "erd_ok t \<Longrightarrow> appendTree t = Inr s \<Longrightarrow> length s \<le> n \<Longrightarrow> ast_text.reads resolver n t s"
proof (induction t arbitrary: s n rule: erd_ok.induct)
  case (1 l r)
  show ?case
    by (rule ast_text.reads_binary [where opr = "''AND''" and C = "\<lambda>l r. AST_and (Some l) (Some r)"])
      (use 1 in \<open>simp_all add: starts_ok_def startsWith_def\<close>)
next
  case (2 l r)
  show ?case
    by (rule ast_text.reads_binary [where opr = "''OR''" and C = "\<lambda>l r. AST_or (Some l) (Some r)"])
      (use 2 in \<open>simp_all add: starts_ok_def startsWith_def\<close>)
next
  case (3 l r)
  show ?case
    by (rule ast_text.reads_binary [where opr = "''EQ''" and C = "\<lambda>l r. AST_equals (Some l) (Some r)"])
      (use 3 in \<open>simp_all add: starts_ok_def startsWith_def\<close>)
next
  case (4 ts)
  show ?case
    by (rule ast_text.reads_nary [where opr = "''ALLOF''" and C = AST_all_of])
      (use 4 in \<open>simp_all add: starts_ok_def startsWith_def list_all_iff\<close>)
next
  case (5 ts)
  show ?case
    by (rule ast_text.reads_nary [where opr = "''ANYOF''" and C = AST_any_of])
      (use 5 in \<open>simp_all add: starts_ok_def startsWith_def list_all_iff\<close>)
next
  case (6 t)
  then obtain m u where m: "n = Suc m" and u: "appendEndTree t = Inr u" "s = ''ENDORSEMENT('' @ u @ '')''"
    by (cases n) (auto simp: append_opt_def res_bind_eq_Inr)
  then have "end_text.reads m t u"
    using 6 by (intro end_reads) auto
  then show ?case
    using m u starts_ok_skip [of u]
    by (simp add: ast_text.reads_def end_text.reads_def starts_ok_def startsWith_def)
next
  case (7 t)
  then obtain m u where m: "n = Suc m" and u: "appendMessageTree t = Inr u" "s = ''MESSAGE('' @ u @ '')''"
    by (cases n) (auto simp: append_opt_def res_bind_eq_Inr)
  then have "mes_text.reads m t u"
    using 7 by (intro mes_reads) auto
  then show ?case
    using m u starts_ok_skip [of u]
    by (simp add: ast_text.reads_def mes_text.reads_def starts_ok_def startsWith_def)
next
  case 8
  then show ?case by (cases n) (auto simp: ast_text.reads_def starts_ok_def startsWith_def)
next
  case 9
  then show ?case by (cases n) (auto simp: ast_text.reads_def starts_ok_def startsWith_def)
qed simp_all

section \<open>Properties\<close>

text \<open>
  C10. The text form of a requirement is read back exactly: every requirement whose parts are all
  present and expressible in the syntax prints without an exception, and parsing the text gives the
  requirement again, with or without a variable resolver.
\<close>

theorem erd_text_roundtrip:
  assumes "erd_ok t"
  shows "\<exists>str. erd_toString t = Inr str \<and> erd_fromString str = Inr t \<and>
    (\<forall>resolver. erd_fromString_vars str resolver = Inr t)"
proof -
  obtain str where str: "appendTree t = Inr str"
    using erd_print_ok [OF assms] by blast
  have t: "t \<noteq> AST_not_set"
    using assms by auto
  have reads: "ast_text.reads resolver (Suc (length str)) t str" for resolver
    by (rule erd_reads [OF assms str]) simp
  then have start: "starts_ok str"
    by (simp add: ast_text.reads_def)
  have "parse_all resolver str = Inr t" for resolver
    using ast_text.readsD [OF reads, of resolver "[]"] starts_ok_skip [OF start, of "[]"] start
    by (simp add: parse_all_def starts_ok_def Let_def del: parseTree.simps)
  then show ?thesis
    using str t by (simp add: erd_toString_def erd_fromString_def erd_fromString_vars_def)
qed

definition sample_text_tree :: AST where
  "sample_text_tree =
     AST_or (Some (AST_endorsement (Some (ET_all_of [ET_value_equals ''ab'', ET_true]))))
       (Some (AST_message (Some (MT_field_equals (Some [''destination'', ''value'']) (Some (FV_int (- 7)))))))"

theorem erd_text_roundtrip_witness:
  "\<exists>str. erd_toString sample_text_tree = Inr str \<and> erd_fromString str = Inr sample_text_tree"
proof -
  have "erd_ok sample_text_tree"
    by (simp add: sample_text_tree_def path_ok_def segment_ok_def path_stop_def isspace_def value_ok_def)
  from erd_text_roundtrip [OF this] show ?thesis by blast
qed

end
