(* ===== verification/Endorsement_Text_Fuel.thy ===== *)
theory Endorsement_Text_Fuel
  imports Endorsement_Text_Roundtrip
begin

text \<open>
  The number of steps \<^verbatim>\<open>fromString\<close> allows its parse functions is always enough: the parser returns a
  tree or one of its exceptions for every text.
\<close>

section \<open>Parsers that consume their text\<close>

text \<open>
  \<^verbatim>\<open>shrinks\<close>: a parser that is not stuck on texts shorter than a bound and leaves less text than it
  was given. \<^verbatim>\<open>leaves\<close>: one that is never stuck and leaves no more than it was given.
\<close>

definition shrinks :: "nat \<Rightarrow> (string \<Rightarrow> ('a \<times> string) result) \<Rightarrow> bool" where
  "shrinks k p \<longleftrightarrow>
     (\<forall>s. length s < k \<longrightarrow> p s \<noteq> Inl out_of_fuel) \<and>
     (\<forall>s t r. p s = Inr (t, r) \<longrightarrow> length r < length s)"

definition leaves :: "(string \<Rightarrow> ('a \<times> string) result) \<Rightarrow> bool" where
  "leaves p \<longleftrightarrow>
     (\<forall>s. p s \<noteq> Inl out_of_fuel) \<and> (\<forall>s t r. p s = Inr (t, r) \<longrightarrow> length r \<le> length s)"

lemma out_of_fuel_neq [simp]: "Runtime_error e \<noteq> out_of_fuel" "Undefined e \<noteq> out_of_fuel"
  by (simp_all add: out_of_fuel_def)

lemma leavesD: "leaves p \<Longrightarrow> p s \<noteq> Inl out_of_fuel" "leaves p \<Longrightarrow> p s = Inr (t, r) \<Longrightarrow> length r \<le> length s"
  by (auto simp: leaves_def)

lemma length_skip: "length (skipWhitespace s) \<le> length s"
  by (simp add: skipWhitespace_def length_dropWhile_le)

lemma expect_not_stuck [simp]: "expect c s \<noteq> Inl out_of_fuel"
  by (simp add: expect_def out_of_fuel_def Let_def)

lemma expect_shorter: "expect c s = Inr r \<Longrightarrow> c \<noteq> CHR 0x00 \<Longrightarrow> length r < length s"
  using length_skip [of s] by (cases "skipWhitespace s") (auto simp: expect_def peek_def split: if_splits)

lemma close_paren_not_stuck [simp]: "close_paren t s \<noteq> Inl out_of_fuel"
  by (simp add: close_paren_def res_bind_eq_Inl)

lemma close_paren_shorter: "close_paren t s = Inr (u, r) \<Longrightarrow> length r < length s"
  by (auto simp: close_paren_def res_bind_eq_Inr dest: expect_shorter)

lemma hex_pairs_not_stuck [simp]: "hex_pairs s \<noteq> Inl out_of_fuel"
  by (induction s rule: hex_pairs.induct)
    (fastforce simp: res_bind_eq_Inl hexVal_def split: option.splits)+

lemma leaves_UUID: "leaves parseUUIDBytes"
  by (auto simp: leaves_def parseUUIDBytes_def uuidToBytes_def res_bind_eq_Inl res_bind_eq_Inr Let_def
      split: if_splits)

lemma hex_loop_leaves:
  "parseHexBytes_loop acc s \<noteq> Inl out_of_fuel \<and>
   (parseHexBytes_loop acc s = Inr (t, r) \<longrightarrow> length r \<le> length s)"
proof (induction acc s rule: parseHexBytes_loop.induct)
  case (1 acc c d s)
  show ?case
  proof (cases "isHexCharacter c \<and> isHexCharacter d")
    case True
    then obtain h l where hl: "hexDigitValue c = Some h" "hexDigitValue d = Some l"
      using isHexCharacter_value by auto
    then show ?thesis
      using 1 [OF _ _ refl hl] True by auto
  qed auto
qed auto

lemma leaves_hex: "leaves parseHexBytes"
  using hex_loop_leaves by (auto simp: leaves_def parseHexBytes_def)

lemma path_loop_leaves:
  "parseFieldPath_loop path seg s \<noteq> Inl out_of_fuel \<and>
   (parseFieldPath_loop path seg s = Inr (p, q, r) \<longrightarrow> length r \<le> length s)"
  by (induction path seg s rule: parseFieldPath_loop.induct) auto

lemma leaves_path: "leaves parseFieldPath"
proof -
  have "parseFieldPath s \<noteq> Inl out_of_fuel" for s
    using path_loop_leaves [of "[]" "[]" "skipWhitespace s"]
    by (auto simp: parseFieldPath_def res_bind_eq_Inl Let_def out_of_fuel_def split: if_splits)
  moreover have "length r \<le> length s" if "parseFieldPath s = Inr (t, r)" for s t r
    using that path_loop_leaves [of "[]" "[]" "skipWhitespace s"] length_skip [of s]
    by (fastforce simp: parseFieldPath_def res_bind_eq_Inr Let_def split: if_splits)
  ultimately show ?thesis by (auto simp: leaves_def)
qed

lemma digits_i64_not_stuck [simp]: "digits_i64 n ds \<noteq> Inl out_of_fuel"
  by (induction n ds rule: digits_i64.induct) (auto simp: out_of_fuel_def Let_def)

lemma leaves_value_parts:
  "parse_enum s \<noteq> Inl out_of_fuel" "parse_integer s \<noteq> Inl out_of_fuel" "parse_string_literal s \<noteq> Inl out_of_fuel"
  "parse_enum s = Inr (t, r) \<Longrightarrow> length r \<le> length s"
  "parse_integer s = Inr (t, r) \<Longrightarrow> length r \<le> length s"
  "parse_string_literal s = Inr (t, r) \<Longrightarrow> length r \<le> length s"
proof -
  show "parse_enum s \<noteq> Inl out_of_fuel"
    by (simp add: parse_enum_def Let_def res_bind_eq_Inl)
  show "parse_integer s \<noteq> Inl out_of_fuel" "parse_string_literal s \<noteq> Inl out_of_fuel"
    by (simp_all add: parse_integer_def parse_string_literal_def Let_def out_of_fuel_def)
  have d: "length (dropWhile P xs) \<le> length xs" for P and xs :: string
    by (rule length_dropWhile_le)
  show "length r \<le> length s" if "parse_enum s = Inr (t, r)"
    using that length_skip [of s] d [of isdigit "skipWhitespace s"] d [of isdigit "tl (skipWhitespace s)"]
    by (fastforce simp: parse_enum_def Let_def res_bind_eq_Inr dest: close_paren_shorter split: if_splits)
  show "length r \<le> length s" if "parse_integer s = Inr (t, r)"
    using that d [of isdigit s] d [of isdigit "tl s"]
    by (auto simp: parse_integer_def Let_def split: if_splits)
  show "length r \<le> length s" if "parse_string_literal s = Inr (t, r)"
    using that d [of "\<lambda>c. c \<noteq> CHR 0x22" s]
    by (auto simp: parse_string_literal_def Let_def split: if_splits)
qed

lemma leaves_value: "leaves parseFieldValue"
proof -
  note stuck = leavesD(1) [OF leaves_hex] leaves_value_parts(1-3)
  note len = leavesD(2) [OF leaves_hex] leaves_value_parts(4-6)
  have "parseFieldValue s \<noteq> Inl out_of_fuel" for s
    using stuck by (auto simp: parseFieldValue_def Let_def res_bind_eq_Inl)
  moreover have "length r \<le> length s" if "parseFieldValue s = Inr (t, r)" for s t r
    using that length_skip [of s]
    by (auto simp: parseFieldValue_def Let_def res_bind_eq_Inr dest!: len split: if_splits)
  ultimately show ?thesis by (auto simp: leaves_def)
qed

lemma shrinksD:
  assumes "shrinks k p"
  shows "p s = Inl out_of_fuel \<Longrightarrow> k \<le> length s" "p s = Inr (t, r) \<Longrightarrow> length r < length s"
  using assms by (auto simp: shrinks_def not_less)

lemma shrinks_binary:
  assumes "shrinks k p"
  shows "parseBinaryArgs p s = Inl out_of_fuel \<Longrightarrow> k < length s"
    and "parseBinaryArgs p s = Inr (t, r) \<Longrightarrow> length r < length s"
  by (auto simp: parseBinaryArgs_def res_bind_eq_Inl res_bind_eq_Inr
      dest!: shrinksD [OF assms] expect_shorter)

lemma tl_skip: "length (tl (skipWhitespace b)) \<le> length b"
  using length_skip [of b] by simp

lemma shrinks_nary_loop:
  assumes "shrinks k p"
  shows "(parseNary_loop n p s = Inl out_of_fuel \<longrightarrow> k \<le> length s \<or> n \<le> length s) \<and>
    (\<forall>t r. parseNary_loop n p s = Inr (t, r) \<longrightarrow> length r < length s)"
proof (induction n arbitrary: s)
  case (Suc n)
  have IH: "parseNary_loop n p (tl (skipWhitespace b)) = Inl out_of_fuel \<Longrightarrow> k \<le> length b \<or> n \<le> length b"
    "parseNary_loop n p (tl (skipWhitespace b)) = Inr (t, r) \<Longrightarrow> length r < length b" for b t r
    using Suc [of "tl (skipWhitespace b)"] tl_skip [of b] by (auto dest: le_trans less_le_trans)
  have "k \<le> length s \<or> Suc n \<le> length s" if "parseNary_loop (Suc n) p s = Inl out_of_fuel"
    using that by (auto simp: Let_def res_bind_eq_Inl dest!: shrinksD [OF assms] IH split: if_splits)
  moreover have "length r < length s" if "parseNary_loop (Suc n) p s = Inr (t, r)" for t r
    using that by (auto simp: Let_def res_bind_eq_Inr dest!: shrinksD [OF assms] expect_shorter IH split: if_splits)
  ultimately show ?case by blast
qed simp

lemma shrinks_nary:
  assumes "shrinks k p"
  shows "parseNaryArgs k p s = Inl out_of_fuel \<Longrightarrow> k < length s"
    and "parseNaryArgs k p s = Inr (t, r) \<Longrightarrow> length r < length s"
proof -
  have loop: "parseNary_loop k p (skipWhitespace b) = Inl out_of_fuel \<Longrightarrow> k \<le> length b"
    "parseNary_loop k p (skipWhitespace b) = Inr (t, r) \<Longrightarrow> length r < length b" for b
    using shrinks_nary_loop [OF assms, of k "skipWhitespace b"] length_skip [of b] by auto
  show "parseNaryArgs k p s = Inl out_of_fuel \<Longrightarrow> k < length s"
    by (auto simp: parseNaryArgs_def res_bind_eq_Inl Let_def dest!: loop expect_shorter split: if_splits)
  show "parseNaryArgs k p s = Inr (t, r) \<Longrightarrow> length r < length s"
    by (auto simp: parseNaryArgs_def res_bind_eq_Inr Let_def dest!: loop expect_shorter split: if_splits
        intro: le_less_trans [OF tl_skip [simplified]])
qed

lemma startsWith_length: "startsWith p s \<Longrightarrow> length p \<le> length s"
  by (simp add: startsWith_def prefix_length_le)

lemma startsWithCI_length: "startsWithCI p s \<Longrightarrow> length p \<le> length s"
  by (induction p s rule: startsWithCI.induct) auto

text \<open>
  \<^verbatim>\<open>good\<close>: an outcome of parsing a text that is not stuck when the text is short enough, and consumes
  something. It holds for each alternative of the parse functions, and so for the whole.
\<close>

definition good :: "nat \<Rightarrow> string \<Rightarrow> ('a \<times> string) result \<Rightarrow> bool" where
  "good k s m \<longleftrightarrow>
     (length s < k \<longrightarrow> m \<noteq> Inl out_of_fuel) \<and> (\<forall>t r. m = Inr (t, r) \<longrightarrow> length r < length s)"

lemma shrinks_good: "shrinks k p \<longleftrightarrow> (\<forall>s. good k s (p s))"
  by (auto simp: shrinks_def good_def)

lemma good_if: "(b \<Longrightarrow> good k s x) \<Longrightarrow> (\<not> b \<Longrightarrow> good k s y) \<Longrightarrow> good k s (if b then x else y)"
  by simp

lemma good_skip: "good k (skipWhitespace s) m \<Longrightarrow> good k s m"
  using length_skip [of s] unfolding good_def by fastforce

lemma good_error: "good k s (Inl (Runtime_error e))"
  by (simp add: good_def)

lemma good_const: "startsWithCI p s \<Longrightarrow> 0 < n \<Longrightarrow> n \<le> length p \<Longrightarrow> good k s (Inr (t, drop n s))"
  using startsWithCI_length [of p s] by (auto simp: good_def)

lemma good_drop: "startsWith p s \<Longrightarrow> n \<le> length p \<Longrightarrow> good k (drop n s) m \<Longrightarrow> good k s m"
  using startsWith_length [of p s] by (auto simp: good_def)

lemma good_binary:
  assumes "startsWith p s" "shrinks k q" "0 < n" "n \<le> length p"
  shows "good (Suc k) s (res_bind (parseBinaryArgs q (drop n s)) (\<lambda>((l, r), s). Inr (C l r, s)))"
  using startsWith_length [OF assms(1)] assms(3,4)
  by (auto simp: good_def res_bind_eq_Inl res_bind_eq_Inr dest!: shrinks_binary [OF assms(2)])

lemma good_nary:
  assumes "startsWith p s" "shrinks k q" "0 < n" "n \<le> length p"
  shows "good (Suc k) s (res_bind (parseNaryArgs k q (drop n s)) (\<lambda>(ts, s). Inr (C ts, s)))"
  using startsWith_length [OF assms(1)] assms(3,4)
  by (auto simp: good_def res_bind_eq_Inl res_bind_eq_Inr dest!: shrinks_nary [OF assms(2)])

lemma skip_drop_shorter:
  "startsWith p s \<Longrightarrow> 0 < n \<Longrightarrow> n \<le> length p \<Longrightarrow> length (skipWhitespace (drop n s)) < length s"
  using length_skip [of "drop n s"] startsWith_length [of p s] by auto

lemma good_closed:
  assumes "startsWith p s" "leaves q" "0 < n" "n \<le> length p"
  shows "good k s (res_bind (q (skipWhitespace (drop n s))) (\<lambda>(b, r). close_paren (C b) r))"
  using skip_drop_shorter [OF assms(1,3,4)] leavesD(1) [OF assms(2)]
  by (auto simp: good_def res_bind_eq_Inl res_bind_eq_Inr dest!: close_paren_shorter leavesD(2) [OF assms(2)])

lemma good_subtree:
  assumes "startsWith p s" "shrinks k q" "0 < n" "n \<le> length p"
  shows "good (Suc k) s (res_bind (q (skipWhitespace (drop n s))) (\<lambda>(b, r). close_paren (C b) r))"
  using skip_drop_shorter [OF assms(1,3,4)]
  by (auto simp: good_def res_bind_eq_Inl res_bind_eq_Inr dest!: close_paren_shorter shrinksD [OF assms(2)])

lemma good_field_eq: "good k s (parse_field_eq s)"
  using leavesD(1) [OF leaves_path] leavesD(1) [OF leaves_value]
  by (auto simp: good_def parse_field_eq_def res_bind_eq_Inl res_bind_eq_Inr
      dest!: close_paren_shorter expect_shorter leavesD(2) [OF leaves_path] leavesD(2) [OF leaves_value])

lemma good_field_contains: "good k s (parse_field_contains s)"
  using leavesD(1) [OF leaves_path] leavesD(1) [OF leaves_value]
  by (auto simp: good_def parse_field_contains_def res_bind_eq_Inl res_bind_eq_Inr
      dest!: close_paren_shorter expect_shorter leavesD(2) [OF leaves_path] leavesD(2) [OF leaves_value])

lemma good_variable: "good k s (parse_variable resolver s)"
proof -
  have "length (tl (dropWhile P s)) < length s" if "dropWhile P s \<noteq> []" for P
    using that length_dropWhile_le [of P s] by (cases "dropWhile P s") auto
  then show ?thesis
    by (auto simp: good_def parse_variable_def Let_def split: if_splits option.splits)
qed

lemma shrinks_End: "shrinks n (parseEndTree n)"
proof (induction n)
  case (Suc n)
  show ?case
    unfolding shrinks_good parseEndTree.simps Let_def
    by (rule allI, rule good_skip)
      (intro good_if good_error; (erule good_binary [OF _ Suc] | erule good_nary [OF _ Suc] |
        erule good_closed [OF _ leaves_UUID] | erule good_closed [OF _ leaves_hex] | erule good_const); simp)
qed (simp add: shrinks_def)

lemma shrinks_Mes: "shrinks n (parseMessageTree n)"
proof (induction n)
  case (Suc n)
  have field: "good k s (res_bind (parseFieldPath (drop m s)) (\<lambda>(p, r). close_paren (C p) r))"
    if "startsWith q s" "0 < m" "m \<le> length q" for k q s m and C :: "FieldPath \<Rightarrow> MesTree"
    using startsWith_length [OF that(1)] that(2,3) leavesD(1) [OF leaves_path]
    by (auto simp: good_def res_bind_eq_Inl res_bind_eq_Inr dest!: close_paren_shorter leavesD(2) [OF leaves_path])
  show ?case
    unfolding shrinks_good parseMessageTree.simps Let_def
    by (rule allI, rule good_skip)
      (intro good_if good_error; (erule good_binary [OF _ Suc] | erule good_nary [OF _ Suc] |
        erule good_closed [OF _ leaves_UUID] | erule field | erule good_drop [OF _ _ good_field_eq] |
        erule good_drop [OF _ _ good_field_contains] | erule good_const); simp)
qed (simp add: shrinks_def)

lemma shrinks_Tree: "shrinks n (parseTree n resolver)"
proof (induction n)
  case (Suc n)
  show ?case
    unfolding shrinks_good parseTree.simps Let_def
    by (rule allI, rule good_skip)
      (intro good_if good_error; (erule good_binary [OF _ Suc] | erule good_nary [OF _ Suc] |
        erule good_subtree [OF _ shrinks_End] | erule good_subtree [OF _ shrinks_Mes] |
        erule good_closed [OF _ leaves_UUID] | erule good_closed [OF _ leaves_hex] |
        erule good_drop [OF _ _ good_variable] | erule good_const); simp)
qed (simp add: shrinks_def)

section \<open>Properties\<close>

text \<open>
  C11. Parsing terminates within the length of the text: for every text and every resolver the parser
  returns a tree, throws one of its exceptions, or meets a signed overflow; the bound on nested calls
  is never reached.
\<close>

theorem parser_never_stuck:
  "parse_all resolver str \<noteq> Inl out_of_fuel"
proof
  assume "parse_all resolver str = Inl out_of_fuel"
  then have "parseTree (Suc (length str)) resolver (skipWhitespace str) = Inl out_of_fuel"
    by (auto simp: parse_all_def Let_def res_bind_eq_Inl simp del: parseTree.simps split: if_splits)
  then have "Suc (length str) \<le> length (skipWhitespace str)"
    using shrinksD(1) [OF shrinks_Tree] by blast
  then show False
    using length_skip [of str] by simp
qed

end
