(* ===== verification/Connection.thy ===== *)
theory Connection
  imports RSP_Prelude
begin

text \<open>
  \<^verbatim>\<open>src/common/transport/transport.cpp\<close>: reading and writing exact numbers of bytes over a connection
  whose \<^verbatim>\<open>recv\<close> and \<^verbatim>\<open>send\<close> may transfer fewer, and the encoding a connection has agreed on. The
  operating system's side of a connection is a schedule: the chunks that successive \<^verbatim>\<open>recv\<close> calls find,
  an empty chunk being a call that returns no byte, and the numbers of bytes that successive \<^verbatim>\<open>send\<close>
  calls accept.
\<close>

record connection =
  inbound :: "bytes list"
  outbound :: bytes
  accepts :: "nat list"
  negotiatedEncoding :: "string option"
  closed :: bool

definition conn_recv :: "nat \<Rightarrow> connection \<Rightarrow> bytes \<times> connection" where
  "conn_recv n c =
     (if closed c then ([], c)
      else case inbound c of
        [] \<Rightarrow> ([], c)
      | ch # cs \<Rightarrow> (take n ch, c\<lparr>inbound := (if length ch \<le> n then cs else drop n ch # cs)\<rparr>))"

definition conn_send :: "bytes \<Rightarrow> connection \<Rightarrow> nat \<times> connection" where
  "conn_send bs c =
     (if closed c then (0, c)
      else case accepts c of
        [] \<Rightarrow> (0, c)
      | k # ks \<Rightarrow> (min k (length bs), c\<lparr>outbound := outbound c @ take k bs, accepts := ks\<rparr>))"

definition conn_close :: "connection \<Rightarrow> connection" where
  "conn_close c = c\<lparr>closed := True\<rparr>"

lemma conn_recv_length: "length (fst (conn_recv n c)) \<le> n"
  by (simp add: conn_recv_def split: list.splits)

text \<open>\<^verbatim>\<open>readExact\<close>: the bytes read so far are lost when a \<^verbatim>\<open>recv\<close> returns none.\<close>

function readExact :: "nat \<Rightarrow> connection \<Rightarrow> bytes option \<times> connection" where
  "readExact n c =
     (if n = 0 then (Some [], c)
      else case conn_recv n c of (bs, c') \<Rightarrow>
        if bs = [] then (None, c')
        else case readExact (n - length bs) c' of (r, c'') \<Rightarrow> (map_option (\<lambda>rest. bs @ rest) r, c''))"
  by pat_completeness auto
termination
  by (relation "measure fst") auto

declare readExact.simps [simp del]

function sendAll :: "bytes \<Rightarrow> connection \<Rightarrow> bool \<times> connection" where
  "sendAll bs c =
     (if bs = [] then (True, c)
      else case conn_send bs c of (k, c') \<Rightarrow> if k = 0 then (False, c') else sendAll (drop k bs) c')"
  by pat_completeness auto
termination
  by (relation "measure (length \<circ> fst)") auto

declare sendAll.simps [simp del]

definition setNegotiatedEncoding :: "string \<Rightarrow> connection \<Rightarrow> connection result" where
  "setNegotiatedEncoding encodingName c =
     (case negotiatedEncoding c of
        Some e \<Rightarrow>
          if e \<noteq> encodingName then Inl (Logic_error ''connection encoding is already established'')
          else Inr (c\<lparr>negotiatedEncoding := Some encodingName\<rparr>)
      | None \<Rightarrow> Inr (c\<lparr>negotiatedEncoding := Some encodingName\<rparr>))"

section \<open>The byte streams of a connection\<close>

text \<open>
  The bytes a connection delivers before the first \<^verbatim>\<open>recv\<close> that returns none, and the contract of a
  reader over them: it depends on the bytes only, not on how they are cut into chunks.
\<close>

definition readable :: "connection \<Rightarrow> bytes" where
  "readable c = (if closed c then [] else concat (takeWhile (\<lambda>ch. ch \<noteq> []) (inbound c)))"

definition same_channel :: "connection \<Rightarrow> connection \<Rightarrow> bool" where
  "same_channel c c' \<longleftrightarrow> outbound c' = outbound c \<and> accepts c' = accepts c \<and>
     negotiatedEncoding c' = negotiatedEncoding c \<and> closed c' = closed c"

lemma same_channel_refl [simp]: "same_channel c c"
  by (simp add: same_channel_def)

lemma same_channel_trans: "same_channel c d \<Longrightarrow> same_channel d e \<Longrightarrow> same_channel c e"
  by (simp add: same_channel_def)

lemma conn_recv_same: "conn_recv n c = (bs, c') \<Longrightarrow> same_channel c c'"
  by (auto simp: conn_recv_def same_channel_def split: list.splits if_splits)

lemma conn_recv_readable:
  assumes "conn_recv n c = (bs, c')" "bs \<noteq> []" "0 < n"
  shows "readable c = bs @ readable c' \<and> length bs \<le> n"
  using assms by (auto simp: conn_recv_def readable_def split: list.splits if_splits)

lemma conn_recv_empty:
  assumes "conn_recv n c = ([], c')" "0 < n"
  shows "readable c = []"
  using assms by (auto simp: conn_recv_def readable_def split: list.splits if_splits)

lemma readExact_ok:
  "n \<le> length (readable c) \<Longrightarrow>
   \<exists>c'. readExact n c = (Some (take n (readable c)), c') \<and> readable c' = drop n (readable c) \<and> same_channel c c'"
proof (induction n c rule: readExact.induct)
  case (1 n c)
  show ?case
  proof (cases "n = 0")
    case False
    obtain bs c1 where r: "conn_recv n c = (bs, c1)" by fastforce
    have ne: "bs \<noteq> []"
      using conn_recv_empty [of n c c1] r 1(2) False by auto
    have s: "readable c = bs @ readable c1" "length bs \<le> n"
      using conn_recv_readable [OF r ne] False by auto
    then have "n - length bs \<le> length (readable c1)" using 1(2) by simp
    then obtain c' where c': "readExact (n - length bs) c1 = (Some (take (n - length bs) (readable c1)), c')"
      "readable c' = drop (n - length bs) (readable c1)" "same_channel c1 c'"
      using 1(1) [OF False r [symmetric] ne] by blast
    show ?thesis
      using False r ne s c' same_channel_trans [OF conn_recv_same [OF r]]
      by (subst readExact.simps) simp
  qed (simp add: readExact.simps)
qed

lemma readExact_short:
  "length (readable c) < n \<Longrightarrow> \<exists>c'. readExact n c = (None, c') \<and> same_channel c c'"
proof (induction n c rule: readExact.induct)
  case (1 n c)
  obtain bs c1 where r: "conn_recv n c = (bs, c1)" by fastforce
  show ?case
  proof (cases "bs = []")
    case True
    then show ?thesis
      using 1(2) r conn_recv_same [OF r] by (subst readExact.simps) simp
  next
    case False
    have s: "readable c = bs @ readable c1" "length bs \<le> n"
      using conn_recv_readable [OF r False] 1(2) by auto
    then have "length (readable c1) < n - length bs" using 1(2) by simp
    then obtain c' where "readExact (n - length bs) c1 = (None, c')" "same_channel c1 c'"
      using 1(1) [OF _ r [symmetric] False] 1(2) by auto
    then show ?thesis
      using False r 1(2) same_channel_trans [OF conn_recv_same [OF r]] by (subst readExact.simps) simp
  qed
qed

text \<open>A \<^verbatim>\<open>sendAll\<close> that succeeds has put exactly its bytes on the wire, and one that fails a proper part.\<close>

lemma sendAll_outbound:
  "\<exists>k \<le> length bs. outbound (snd (sendAll bs c)) = outbound c @ take k bs \<and>
     (fst (sendAll bs c) \<longleftrightarrow> k = length bs)"
proof (induction bs c rule: sendAll.induct)
  case (1 bs c)
  show ?case
  proof (cases "bs = []")
    case False
    obtain k c' where s: "conn_send bs c = (k, c')" by fastforce
    have o: "outbound c' = outbound c @ take k bs" and k: "k \<le> length bs"
      using s by (auto simp: conn_send_def min_def split: if_splits list.splits)
    show ?thesis
    proof (cases "k = 0")
      case True
      then show ?thesis
        using False s o by (subst (1 2) sendAll.simps) auto
    next
      case k0: False
      obtain j where j: "j \<le> length bs - k"
        "outbound (snd (sendAll (drop k bs) c')) = outbound c' @ take j (drop k bs)"
        "fst (sendAll (drop k bs) c') \<longleftrightarrow> j = length bs - k"
        using 1 [OF False s [symmetric] k0] by auto
      then show ?thesis
        using False s o k k0 by (subst (1 2) sendAll.simps) (auto simp: take_add intro!: exI [of _ "k + j"])
    qed
  qed (simp add: sendAll.simps)
qed

lemma sendAll_True: "sendAll bs c = (True, c') \<Longrightarrow> outbound c' = outbound c @ bs"
  using sendAll_outbound [of bs c] by auto

text \<open>A connection that accepts everything offered to it: a reliable stream.\<close>

definition writable :: "nat \<Rightarrow> connection \<Rightarrow> bool" where
  "writable n c \<longleftrightarrow> \<not> closed c \<and> n \<le> length (accepts c) \<and> list_all (\<lambda>k. 0 < k) (accepts c)"

lemma sendAll_ok:
  "writable (length bs + n) c \<Longrightarrow>
   \<exists>c'. sendAll bs c = (True, c') \<and> outbound c' = outbound c @ bs \<and> writable n c' \<and>
     inbound c' = inbound c \<and> negotiatedEncoding c' = negotiatedEncoding c"
proof (induction bs c rule: sendAll.induct)
  case (1 bs c)
  show ?case
  proof (cases "bs = []")
    case False
    obtain a as where a: "accepts c = a # as" "0 < a" "\<not> closed c"
      using 1(2) False by (cases "accepts c") (auto simp: writable_def)
    let ?k = "min a (length bs)" and ?c = "c\<lparr>outbound := outbound c @ take a bs, accepts := as\<rparr>"
    have s: "conn_send bs c = (?k, ?c)"
      using a by (simp add: conn_send_def)
    have k: "?k \<noteq> 0" using a False by simp
    have "writable (length (drop ?k bs) + n) ?c"
      using 1(2) a False by (cases bs) (auto simp: writable_def min_def)
    then obtain c' where "sendAll (drop ?k bs) ?c = (True, c')" "outbound c' = outbound ?c @ drop ?k bs" "writable n c'"
      "inbound c' = inbound c" "negotiatedEncoding c' = negotiatedEncoding c"
      using 1(1) [OF False s [symmetric] k] by auto
    then show ?thesis
      using False s k by (subst sendAll.simps) (auto simp: min_def)
  qed (use 1(2) in \<open>simp add: sendAll.simps writable_def\<close>)
qed

lemma sendAll_ready:
  assumes "writable (length bs + n) c"
  shows "\<exists>c'. sendAll bs c = (True, c') \<and> outbound c' = outbound c @ bs \<and> writable n c' \<and> readable c' = readable c \<and>
    negotiatedEncoding c' = negotiatedEncoding c"
proof -
  obtain c' where c': "sendAll bs c = (True, c')" "outbound c' = outbound c @ bs" "writable n c'" "inbound c' = inbound c"
    "negotiatedEncoding c' = negotiatedEncoding c"
    using sendAll_ok [OF assms] by blast
  have "readable c' = readable c"
    using assms c'(3,4) by (simp add: readable_def writable_def)
  with c' show ?thesis by blast
qed

lemma writable_same_channel: "same_channel c c' \<Longrightarrow> writable n c' \<longleftrightarrow> writable n c"
  by (simp add: writable_def same_channel_def)

end
