(* ===== verification/Message_Hash.thy ===== *)
theory Message_Hash
  imports Field_Resolver Key_Pair
begin

text \<open>
  The message hash of \<^verbatim>\<open>src/common/message_queue/mq_signing.cpp\<close>, which is what signatures are made
  over. The hasher's state is the sequence of bytes fed to SHA-256; each \<^verbatim>\<open>hash...\<close> function is the
  sequence it feeds. The library code the hash depends on is in \<^verbatim>\<open>hash_env\<close>: the descriptors compiled
  into the process, unpacking of an \<^verbatim>\<open>Any\<close> into a compiled message type, and the serialisation of a
  requirement tree.
\<close>

section \<open>Feeding values\<close>

definition feedUint8 :: "u8 \<Rightarrow> bytes" where
  "feedUint8 v = [byte_of v]"

definition feedUint32 :: "u32 \<Rightarrow> bytes" where
  "feedUint32 v = uint32_bytes v"

definition feedUint64 :: "u64 \<Rightarrow> bytes" where
  "feedUint64 v = uint64_bytes v"

definition feedBool :: "bool \<Rightarrow> bytes" where
  "feedBool b = feedUint8 (if b then 1 else 0)"

definition feedBytes :: "bytes \<Rightarrow> bytes" where
  "feedBytes v = feedUint32 (of_nat (length v)) @ v"

definition tag :: "u32 \<Rightarrow> bytes" where
  "tag fieldNumber = feedUint32 fieldNumber"

definition count_of :: "'a list \<Rightarrow> u32" where
  "count_of xs = of_nat (length xs)"

definition hash_opt :: "u32 \<Rightarrow> ('a \<Rightarrow> bytes) \<Rightarrow> 'a option \<Rightarrow> bytes" where
  "hash_opt n h v = (case v of None \<Rightarrow> [] | Some x \<Rightarrow> tag n @ h x)"

definition hash_list :: "u32 \<Rightarrow> ('a \<Rightarrow> bytes) \<Rightarrow> 'a list \<Rightarrow> bytes" where
  "hash_list n h xs = tag n @ feedUint32 (count_of xs) @ concat (map h xs)"

section \<open>Hashing by reflection\<close>

text \<open>
  One value of a scalar field; a floating-point field feeds nothing. A field that is not set and has
  no presence feeds its default.
\<close>

definition hash_scalar :: "pval \<Rightarrow> bytes" where
  "hash_scalar v =
     (case v of
        PV_string s \<Rightarrow> feedBytes s
      | PV_uint32 n \<Rightarrow> feedUint32 n
      | PV_int32 n \<Rightarrow> feedUint32 n
      | PV_uint64 n \<Rightarrow> feedUint64 n
      | PV_int64 n \<Rightarrow> feedUint64 n
      | PV_bool b \<Rightarrow> feedBool b
      | PV_enum n \<Rightarrow> feedUint32 n
      | _ \<Rightarrow> [])"

definition hash_default :: "cpp_type \<Rightarrow> bytes" where
  "hash_default t =
     (case t of
        CPP_STRING \<Rightarrow> feedBytes []
      | CPP_UINT32 \<Rightarrow> feedUint32 0
      | CPP_INT32 \<Rightarrow> feedUint32 0
      | CPP_UINT64 \<Rightarrow> feedUint64 0
      | CPP_INT64 \<Rightarrow> feedUint64 0
      | CPP_BOOL \<Rightarrow> feedBool False
      | CPP_ENUM \<Rightarrow> feedUint32 0
      | _ \<Rightarrow> [])"

lemma field_values_smaller:
  "PV_message d \<in> set (field_values m f) \<Longrightarrow> size d < size m"
proof -
  assume "PV_message d \<in> set (field_values m f)"
  then obtain vs where vs: "map_of (dm_fields m) (fd_number f) = Some vs" and d: "PV_message d \<in> set vs"
    by (cases "map_of (dm_fields m) (fd_number f)") (auto simp: field_values_def)
  from vs have "(fd_number f, vs) \<in> set (dm_fields m)"
    by (rule map_of_SomeD)
  then have "size_list size vs < size_list (size_prod (\<lambda>_. 0) (size_list size)) (dm_fields m)"
    by (induction "dm_fields m" arbitrary: m)
      (fastforce dest: size_list_estimation [where f = "size_prod (\<lambda>_. 0) (size_list size)"])+
  moreover have "size d < size_list size vs"
    using d size_list_estimation [of "PV_message d" vs _ size] by fastforce
  ultimately show ?thesis
    by (cases m) simp
qed

lemma field_values_smaller_hd: "field_values m f = PV_message d # vs \<Longrightarrow> size d < size m"
  by (rule field_values_smaller [of d m f]) simp

function hashMessageReflective :: "desc_pool \<Rightarrow> dmsg \<Rightarrow> bytes" where
  "hashMessageReflective pool m =
     (case pool (dm_type m) of
        None \<Rightarrow> []
      | Some fs \<Rightarrow>
          concat (map (\<lambda>f.
            if fd_repeated f then
              tag (of_nat (fd_number f)) @ feedUint32 (count_of (field_values m f)) @
              concat (map (\<lambda>v. case v of PV_message d \<Rightarrow> hashMessageReflective pool d | _ \<Rightarrow> hash_scalar v)
                        (field_values m f))
            else if fd_presence f \<and> \<not> HasField m f then []
            else tag (of_nat (fd_number f)) @
                 (case field_values m f of
                    [] \<Rightarrow> hash_default (fd_type f)
                  | v # vs \<Rightarrow> (case v of PV_message d \<Rightarrow> hashMessageReflective pool d | _ \<Rightarrow> hash_scalar v)))
            (sort_key fd_number fs)))"
  by pat_completeness auto
termination
  by (relation "measure (\<lambda>(pool, m). size m)")
    (auto intro: field_values_smaller field_values_smaller_hd)

declare hashMessageReflective.simps [simp del]

section \<open>Hashing the messages\<close>

record hash_env =
  generated_pool :: desc_pool
  generated_unpack :: "string \<Rightarrow> AnyMsg \<Rightarrow> dmsg option"
  serialize_tree :: "AST \<Rightarrow> bytes option"

definition hashNodeId :: "NodeId \<Rightarrow> bytes" where
  "hashNodeId m = tag 1 @ feedBytes m"

definition hashUuid :: "Uuid \<Rightarrow> bytes" where
  "hashUuid m = tag 1 @ feedBytes m"

definition hashDateTime :: "DateTimeMsg \<Rightarrow> bytes" where
  "hashDateTime m = tag 1 @ feedUint64 m"

definition hashPublicKey :: "PublicKey \<Rightarrow> bytes" where
  "hashPublicKey m = tag 1 @ feedUint32 (key_algorithm m) @ tag 2 @ feedBytes (public_key_bytes m)"

definition hashEndorsement :: "EndorsementMsg \<Rightarrow> bytes" where
  "hashEndorsement m =
     hash_opt 1 hashNodeId (subject m) @ hash_opt 2 hashNodeId (endorsement_service m) @
     hash_opt 3 hashUuid (endorsement_type m) @ tag 4 @ feedBytes (endorsement_value m) @
     hash_opt 5 hashDateTime (valid_until m) @ tag 99 @ feedBytes (end_signature m)"

definition hashChallengeRequest :: "ChallengeRequest \<Rightarrow> bytes" where
  "hashChallengeRequest m = hash_opt 1 hashUuid (challenge_nonce m)"

definition hashIdentity :: "Identity \<Rightarrow> bytes" where
  "hashIdentity m =
     hash_opt 1 hashUuid (id_nonce m) @ hash_opt 2 hashPublicKey (public_key m) @
     hash_opt 3 hashUuid (boot_id m)"

definition hashRouteEntry :: "RouteEntry \<Rightarrow> bytes" where
  "hashRouteEntry m =
     hash_opt 1 hashNodeId (route_node_id m) @ tag 2 @ feedUint32 (hops_away m) @
     hash_opt 3 hashDateTime (last_seen m)"

definition hashRouteUpdate :: "RouteUpdate \<Rightarrow> bytes" where
  "hashRouteUpdate m = hash_list 2 hashRouteEntry (entries m)"

definition hashError :: "ErrorMsg \<Rightarrow> bytes" where
  "hashError m = tag 1 @ feedUint32 (error_code m) @ tag 2 @ feedBytes (error_message m)"

definition hashPingRequest :: "PingRequest \<Rightarrow> bytes" where
  "hashPingRequest m =
     hash_opt 1 hashUuid (ping_nonce m) @ tag 2 @ feedUint32 (ping_sequence m) @
     hash_opt 3 hashDateTime (ping_time_sent m)"

definition hashPingReply :: "PingReply \<Rightarrow> bytes" where
  "hashPingReply m =
     hash_opt 1 hashUuid (pong_nonce m) @ tag 2 @ feedUint32 (pong_sequence m) @
     hash_opt 3 hashDateTime (pong_time_sent m) @ hash_opt 4 hashDateTime (pong_time_replied m)"

definition hashAddress :: "Address \<Rightarrow> bytes" where
  "hashAddress m = tag 1 @ feedUint32 (ipv4 m) @ tag 2 @ feedBytes (ipv6 m)"

definition hashPortRange :: "PortRange \<Rightarrow> bytes" where
  "hashPortRange m = tag 1 @ feedUint32 (start_port m) @ tag 2 @ feedUint32 (end_port m)"

definition hashResourceTcpConnect :: "ResourceTCPConnect \<Rightarrow> bytes" where
  "hashResourceTcpConnect m =
     hash_opt 1 hashNodeId (connect_node_id m) @ hash_list 2 hashAddress (source_addresses m)"

definition hashResourceTcpListen :: "ResourceTCPListen \<Rightarrow> bytes" where
  "hashResourceTcpListen m =
     hash_opt 1 hashNodeId (listen_node_id m) @ hash_list 2 hashAddress (listen_address m) @
     hash_opt 3 hashPortRange (allowed_range m)"

definition hashResourceRecord :: "ResourceRecord \<Rightarrow> bytes" where
  "hashResourceRecord m =
     (case m of
        RR_tcp_connect r \<Rightarrow> tag 1 @ hashResourceTcpConnect r
      | RR_tcp_listen r \<Rightarrow> tag 2 @ hashResourceTcpListen r
      | _ \<Rightarrow> [])"

definition hash_advertised_schema :: "ServiceSchema \<Rightarrow> bytes" where
  "hash_advertised_schema s =
     feedBytes (proto_file_name s) @ feedBytes (proto_file_descriptor_set s) @
     feedUint32 (count_of (accepted_type_urls s)) @ concat (map feedBytes (accepted_type_urls s))"

definition hashResourceAdvertisement :: "ResourceAdvertisement \<Rightarrow> bytes" where
  "hashResourceAdvertisement m =
     hash_list 1 hashResourceRecord (records m) @
     (if schemas m \<noteq> [] then hash_list 2 hash_advertised_schema (schemas m) else [])"

definition hashResourceQuery :: "ResourceQuery \<Rightarrow> bytes" where
  "hashResourceQuery m = tag 1 @ feedBytes (query m) @ tag 2 @ feedUint32 (max_records m)"

definition hashResourceQueryReply :: "ResourceQueryReply \<Rightarrow> bytes" where
  "hashResourceQueryReply m =
     hash_list 1 (\<lambda>d. hashMessageReflective messages_pool (reflect_DiscoveredService d)) (services m)"

definition hashEndorsementNeeded :: "hash_env \<Rightarrow> EndorsementNeeded \<Rightarrow> bytes result" where
  "hashEndorsementNeeded env m =
     (let start = hash_opt 1 hashUuid (message_nonce m)
      in case needed_tree m of
           None \<Rightarrow> Inr start
         | Some t \<Rightarrow>
             (case serialize_tree env t of
                None \<Rightarrow> Inl (Runtime_error ''failed to serialize endorsement requirement tree'')
              | Some b \<Rightarrow> Inr (start @ tag 2 @ feedBytes b)))"

definition hashServiceMessage :: "hash_env \<Rightarrow> AnyMsg \<Rightarrow> bytes" where
  "hashServiceMessage env m =
     (let fullName = typeNameFromUrl (type_url m)
      in feedBytes (type_url m) @
         (case generated_pool env fullName of
            None \<Rightarrow> []
          | Some d \<Rightarrow>
              (case generated_unpack env fullName m of
                 None \<Rightarrow> []
               | Some inner \<Rightarrow> hashMessageReflective (generated_pool env) inner)))"

text \<open>
  The set alternative of the \<^verbatim>\<open>core_message\<close>, in the three places its fields have in the order of field
  numbers.
\<close>

definition hash_core_3_17 :: "core_message \<Rightarrow> bytes" where
  "hash_core_3_17 c =
     (case c of
        challenge_request x \<Rightarrow> tag 3 @ hashChallengeRequest x
      | identity x \<Rightarrow> tag 4 @ hashIdentity x
      | route x \<Rightarrow> tag 5 @ hashRouteUpdate x
      | error_msg x \<Rightarrow> tag 6 @ hashError x
      | ping_request x \<Rightarrow> tag 7 @ hashPingRequest x
      | ping_reply x \<Rightarrow> tag 8 @ hashPingReply x
      | resource_advertisement x \<Rightarrow> tag 16 @ hashResourceAdvertisement x
      | resource_query x \<Rightarrow> tag 17 @ hashResourceQuery x
      | _ \<Rightarrow> [])"

definition hash_core_23 :: "hash_env \<Rightarrow> core_message \<Rightarrow> bytes result" where
  "hash_core_23 env c =
     (case c of
        endorsement_needed x \<Rightarrow> res_bind (hashEndorsementNeeded env x) (\<lambda>b. Inr (tag 23 @ b))
      | _ \<Rightarrow> Inr [])"

definition hash_core_25_36 :: "core_message \<Rightarrow> bytes" where
  "hash_core_25_36 c =
     (case c of
        schema_request x \<Rightarrow> tag 25 @ hashMessageReflective messages_pool (reflect_SchemaRequest x)
      | schema_reply x \<Rightarrow> tag 26 @ hashMessageReflective messages_pool (reflect_SchemaReply x)
      | resource_query_reply x \<Rightarrow> tag 27 @ hashResourceQueryReply x
      | log_subscribe_request x \<Rightarrow> tag 28 @ hashMessageReflective messages_pool (reflect_LogSubscribeRequest x)
      | log_subscribe_reply x \<Rightarrow> tag 29 @ hashMessageReflective messages_pool (reflect_LogSubscribeReply x)
      | log_unsubscribe_request x \<Rightarrow> tag 30 @ hashMessageReflective messages_pool (reflect_LogUnsubscribeRequest x)
      | log_unsubscribe_reply x \<Rightarrow> tag 31 @ hashMessageReflective messages_pool (reflect_LogUnsubscribeReply x)
      | log_record x \<Rightarrow> tag 32 @ hashMessageReflective messages_pool (reflect_LogRecord x)
      | aes_key_negotiation_request x \<Rightarrow>
          tag 33 @ hashMessageReflective messages_pool (reflect_AesKeyNegotiationRequest x)
      | aes_key_negotiation_reply x \<Rightarrow>
          tag 34 @ hashMessageReflective messages_pool (reflect_AesKeyNegotiationReply x)
      | aes_key_drop_notification x \<Rightarrow>
          tag 35 @ hashMessageReflective messages_pool (reflect_AesKeyDropNotification x)
      | aes_key_negotiation_error x \<Rightarrow>
          tag 36 @ hashMessageReflective messages_pool (reflect_AesKeyNegotiationError x)
      | _ \<Rightarrow> [])"

definition hashRSPMessage :: "hash_env \<Rightarrow> RSPMessage \<Rightarrow> bytes result" where
  "hashRSPMessage env m =
     res_bind (hash_core_23 env (core m)) (\<lambda>needed.
       Inr (hash_opt 1 hashNodeId (destination m) @ hash_opt 2 hashNodeId (source m) @
            hash_core_3_17 (core m) @ hash_opt 22 hashUuid (nonce m) @ needed @
            hash_opt 24 feedBool (trace m) @ hash_core_25_36 (core m) @
            hash_list 100 hashEndorsement (endorsements m) @ hash_list 101 hashIdentity (identities m) @
            hash_list 102 (\<lambda>e. hashMessageReflective messages_pool (reflect_EncryptedField e))
              (encrypted_fields m) @
            hash_opt 200 (hashServiceMessage env) (service_message m)))"

definition computeMessageHash :: "'k openssl \<Rightarrow> hash_env \<Rightarrow> RSPMessage \<Rightarrow> bytes result" where
  "computeMessageHash lib env m = res_bind (hashRSPMessage env m) (\<lambda>stream. Inr (SHA256 lib stream))"

definition messageSignatureInput :: "'k openssl \<Rightarrow> hash_env \<Rightarrow> RSPMessage \<Rightarrow> Buffer result" where
  "messageSignatureInput lib env m =
     res_bind (computeMessageHash lib env m) (\<lambda>hash. Inr (Buffer_from (Some hash) (of_nat (length hash))))"

definition signMessage :: "'k openssl \<Rightarrow> hash_env \<Rightarrow> 'k KeyPair \<Rightarrow> RSPMessage \<Rightarrow> SignatureBlock result" where
  "signMessage lib env kp m = res_bind (messageSignatureInput lib env m) (\<lambda>b. signBlock lib kp b)"

definition verifyMessageSignature :: "'k openssl \<Rightarrow> hash_env \<Rightarrow> 'k KeyPair \<Rightarrow> RSPMessage \<Rightarrow>
    SignatureBlock \<Rightarrow> bool result" where
  "verifyMessageSignature lib env kp m block =
     res_bind (messageSignatureInput lib env m) (\<lambda>b. verifyBlock lib kp b block)"

section \<open>Sender and trace\<close>

definition nodeIdFromSourceField :: "NodeId \<Rightarrow> nodeid option" where
  "nodeIdFromSourceField b =
     (if length b \<noteq> 16 then None
      else Some (GUID (native_u64_of (take 8 b)) (native_u64_of (take 8 (drop 8 b)))))"

definition nodeIdFromSignerField :: "NodeId \<Rightarrow> nodeid option" where
  "nodeIdFromSignerField b =
     (if length b \<noteq> 16 then None else Some (GUID (be_dec (take 8 b)) (be_dec (drop 8 b))))"

definition senderNodeIdFromMessage :: "RSPMessage \<Rightarrow> nodeid option" where
  "senderNodeIdFromMessage m =
     (case Option.bind (signature m) (\<lambda>s. Option.bind (signer s) nodeIdFromSignerField) of
        Some n \<Rightarrow> Some n
      | None \<Rightarrow> Option.bind (source m) nodeIdFromSourceField)"

definition messageTraceEnabled :: "RSPMessage \<Rightarrow> bool" where
  "messageTraceEnabled m = (trace m = Some True)"

definition copyMessageTrace :: "RSPMessage \<Rightarrow> RSPMessage \<Rightarrow> RSPMessage" where
  "copyMessageTrace src dest = (case trace src of None \<Rightarrow> dest | Some b \<Rightarrow> dest\<lparr>trace := Some b\<rparr>)"

section \<open>Lemmas\<close>

lemma hash_ignores_signature [simp]:
  "hashRSPMessage env (m\<lparr>signature := s\<rparr>) = hashRSPMessage env m"
  by (simp add: hashRSPMessage_def)

lemma messageSignatureInput_signature [simp]:
  "messageSignatureInput lib env (m\<lparr>signature := s\<rparr>) = messageSignatureInput lib env m"
  by (simp add: messageSignatureInput_def computeMessageHash_def)

text \<open>The fed sequence splits at its tags: a sequence that starts with some other tag.\<close>

definition other_tag :: "u32 \<Rightarrow> bytes \<Rightarrow> bool" where
  "other_tag n s \<longleftrightarrow> (\<exists>t x. s = tag t @ x \<and> t \<noteq> n)"

lemma other_tagI: "t \<noteq> n \<Longrightarrow> other_tag n (tag t @ x)"
  by (auto simp: other_tag_def)

lemma tag_split: "tag a @ x = tag b @ y \<longleftrightarrow> a = b \<and> x = y"
  by (simp add: tag_def feedUint32_def u32_codec.enc_split)

lemma other_tag_tag [simp]: "other_tag n (tag t @ x) \<longleftrightarrow> t \<noteq> n"
  by (auto simp: other_tag_def tag_split)

lemma other_tag_opt:
  "other_tag n x \<Longrightarrow> t \<noteq> n \<Longrightarrow> other_tag n (hash_opt t h v @ x)"
  by (cases v) (simp_all add: hash_opt_def)

lemma feedBytes_split:
  assumes "length a < 2 ^ 32" "length b < 2 ^ 32" "feedBytes a @ x = feedBytes b @ y"
  shows "a = b \<and> x = y"
proof -
  have "(of_nat (length a) :: u32) = of_nat (length b)" and eq: "a @ x = b @ y"
    using assms(3) by (simp_all add: feedBytes_def feedUint32_def u32_codec.enc_split)
  then have "unat (of_nat (length a) :: u32) = unat (of_nat (length b) :: u32)"
    by simp
  then have "length a = length b"
    using assms(1,2) by (simp add: unat_of_nat take_bit_nat_eq_self)
  with eq show ?thesis by simp
qed

lemma hash_opt_split:
  assumes "hash_opt n hashNodeId a @ x = hash_opt n hashNodeId b @ y"
    and "other_tag n x" "other_tag n y"
    and "length (bytes_or_default a) < 2 ^ 32" "length (bytes_or_default b) < 2 ^ 32"
  shows "a = b \<and> x = y"
proof (cases a; cases b)
  fix c d
  assume "a = Some c" "b = Some d"
  then show ?thesis
    using assms feedBytes_split [of c d x y] by (simp add: hash_opt_def hashNodeId_def tag_split)
qed (use assms in \<open>auto simp: hash_opt_def\<close>)

lemma other_tag_core:
  "other_tag n x \<Longrightarrow> n < 3 \<Longrightarrow> other_tag n (hash_core_3_17 c @ x)"
  "other_tag n x \<Longrightarrow> n < 3 \<Longrightarrow> other_tag n (hash_core_25_36 c @ x)"
  "other_tag n x \<Longrightarrow> n < 3 \<Longrightarrow> hash_core_23 env c = Inr s \<Longrightarrow> other_tag n (s @ x)"
  by (cases c; auto simp: hash_core_3_17_def hash_core_25_36_def hash_core_23_def res_bind_eq_Inr)+

lemma hash_tail:
  assumes "hash_core_23 env c = Inr needed" "n < 3"
  shows "other_tag n (hash_core_3_17 c @ hash_opt 22 hashUuid u @ needed @ hash_opt 24 feedBool b @
    hash_core_25_36 c @ hash_list 100 h xs @ y)"
proof -
  have l: "other_tag n (hash_list 100 h xs @ y)"
    using assms(2) by (auto simp: hash_list_def)
  show ?thesis
    using assms by (intro other_tag_core other_tag_opt l) auto
qed

text \<open>
  A signed message verifies: the block \<^const>\<open>signMessage\<close> returns is accepted by
  \<^const>\<open>verifyMessageSignature\<close> under the key rebuilt from the signer's public key message, after the
  block has been put into the message, and names the signer's node identifier.
\<close>

lemma sign_then_verify:
  assumes "openssl_ok lib" "\<And>k d s. DigestSign lib k d = Some s \<Longrightarrow> s \<noteq> [] \<and> length s < 2 ^ 32"
    and "signMessage lib env kp m = Inr block" "KeyPair_publicKey lib kp = Inr pk"
  shows "\<exists>vk. fromPublicKey lib pk = Inr vk \<and>
    verifyMessageSignature lib env vk (m\<lparr>signature := Some block\<rparr>) block = Inr True \<and>
    (\<exists>n. nodeID lib kp = Inr n \<and> nodeID lib vk = Inr n \<and>
       nodeIdFromSignerField (bytes_or_default (signer block)) = Some n)"
proof -
  obtain k k' where k: "kp = Some k" and vk: "fromPublicKey lib pk = Inr (Some k')"
    and n: "nodeID lib (Some k') = nodeID lib kp" and v: "DigestVerify lib k' = DigestVerify lib k"
    using fromPublicKey_KeyPair_publicKey [OF assms(1,4)] by blast
  obtain b where b: "messageSignatureInput lib env m = Inr b" and blk: "signBlock lib (Some k) b = Inr block"
    using assms(3) k by (auto simp: signMessage_def res_bind_eq_Inr)
  have p256: "verifyP256 lib (Some k') = Inr ()"
    using vk by (auto simp: fromPublicKey_def KeyPair_new_def res_bind_eq_Inr split: if_splits)
  obtain s own where s: "DigestSign lib k (Buffer_contents b) = Some s" and own: "nodeID lib kp = Inr own"
    and block: "block = \<lparr>signer = Some (serializeNodeIdBytes own), sig_algorithm = P256, sig_bytes = s\<rparr>"
    using blk assms(2) k
    by (auto simp: signBlock_def KeyPair_sign_def algorithmForKey_def res_bind_eq_Inr
        Buffer_contents_from split: option.splits if_splits)
  have "verifyBlock lib (Some k') b block = Inr True"
    using assms(1,2) blk n v p256 k s block by (intro verifyBlock_signBlock [OF assms(1) blk]) auto
  then show ?thesis
    using vk b own block n
    by (simp add: verifyMessageSignature_def nodeIdFromSignerField_def node_codec.dec_enc)
qed

section \<open>Properties\<close>

text \<open>
  C26. The signature binds the addressing of a message: two messages that feed the same bytes to the
  hash have the same destination and the same source, present or absent (identifiers shorter than
  4 GiB).
\<close>

theorem hash_binds_addresses:
  assumes "hashRSPMessage env m = Inr s" "hashRSPMessage env m' = Inr s"
    and "length (bytes_or_default (destination m)) < 2 ^ 32" "length (bytes_or_default (source m)) < 2 ^ 32"
    and "length (bytes_or_default (destination m')) < 2 ^ 32" "length (bytes_or_default (source m')) < 2 ^ 32"
  shows "destination m = destination m' \<and> source m = source m'"
proof -
  define rest where "rest needed m = hash_core_3_17 (core m) @ hash_opt 22 hashUuid (nonce m) @ needed @
      hash_opt 24 feedBool (trace m) @ hash_core_25_36 (core m) @
      hash_list 100 hashEndorsement (endorsements m) @ hash_list 101 hashIdentity (identities m) @
      hash_list 102 (\<lambda>e. hashMessageReflective messages_pool (reflect_EncryptedField e)) (encrypted_fields m) @
      hash_opt 200 (hashServiceMessage env) (service_message m)" for needed and m :: RSPMessage
  obtain a b where a: "hash_core_23 env (core m) = Inr a" and b: "hash_core_23 env (core m') = Inr b"
    and eq: "hash_opt 1 hashNodeId (destination m) @ hash_opt 2 hashNodeId (source m) @ rest a m =
      hash_opt 1 hashNodeId (destination m') @ hash_opt 2 hashNodeId (source m') @ rest b m'"
    using assms(1,2) by (auto simp: hashRSPMessage_def res_bind_eq_Inr rest_def)
  have o: "other_tag n (rest a m)" "other_tag n (rest b m')" if "n < 3" for n
    using that a b by (simp_all add: rest_def hash_tail)
  have "destination m = destination m' \<and> hash_opt 2 hashNodeId (source m) @ rest a m =
      hash_opt 2 hashNodeId (source m') @ rest b m'"
    by (rule hash_opt_split [OF eq]) (use assms in \<open>auto intro!: other_tag_opt o\<close>)
  moreover then have "source m = source m' \<and> rest a m = rest b m'"
    by (intro hash_opt_split [of 2]) (use assms in \<open>auto intro!: o\<close>)
  ultimately show ?thesis by simp
qed

text \<open>
  Two parts of a message are outside its signature. A resource record of type \<^verbatim>\<open>sshd\<close> feeds nothing
  to the hash, so an advertisement hashes the same whatever its \<^verbatim>\<open>sshd\<close> records say; and the payload of a
  service message whose type is not compiled into the process feeds only its type URL, so every payload
  of that type hashes the same.
\<close>

theorem hash_omits:
  "hashRSPMessage env (m\<lparr>core := resource_advertisement (a\<lparr>records := pre @ RR_sshd r # post\<rparr>)\<rparr>) =
     hashRSPMessage env (m\<lparr>core := resource_advertisement (a\<lparr>records := pre @ RR_sshd r' # post\<rparr>)\<rparr>) \<and>
   (generated_pool env (typeNameFromUrl url) = None \<longrightarrow>
    hashRSPMessage env (m\<lparr>service_message := Some \<lparr>type_url = url, any_value = v\<rparr>\<rparr>) =
    hashRSPMessage env (m\<lparr>service_message := Some \<lparr>type_url = url, any_value = v'\<rparr>\<rparr>))"
  by (simp add: hashRSPMessage_def hash_core_3_17_def hash_core_23_def hash_core_25_36_def
      hashResourceAdvertisement_def hash_list_def hashResourceRecord_def count_of_def
      hash_opt_def hashServiceMessage_def)

definition empty_env :: hash_env where
  "empty_env = \<lparr>generated_pool = (\<lambda>n. None), generated_unpack = (\<lambda>n m. None), serialize_tree = (\<lambda>t. Some [])\<rparr>"

theorem hash_omits_witness:
  "hashRSPMessage empty_env (RSPMessage_default\<lparr>service_message := Some \<lparr>type_url = ''u'', any_value = ''pay alice''\<rparr>\<rparr>) =
   hashRSPMessage empty_env (RSPMessage_default\<lparr>service_message := Some \<lparr>type_url = ''u'', any_value = ''pay mallory''\<rparr>\<rparr>)"
  using hash_omits [where env = empty_env and m = RSPMessage_default and url = "''u''"
      and v = "''pay alice''" and v' = "''pay mallory''"]
  by (simp add: empty_env_def)

definition sample_message :: RSPMessage where
  "sample_message = RSPMessage_default\<lparr>destination := Some (replicate 16 CHR ''d''),
     nonce := Some (replicate 16 CHR ''n''),
     core := ping_request \<lparr>ping_nonce = Some (replicate 16 CHR ''p''), ping_sequence = 1, ping_time_sent = None\<rparr>\<rparr>"

lemma sample_hash: "\<exists>s. hashRSPMessage empty_env sample_message = Inr s"
  by (simp add: hashRSPMessage_def sample_message_def hash_core_23_def)

lemma sample_signed: "\<exists>block. signMessage toy_openssl empty_env (Some 7) sample_message = Inr block"
proof -
  obtain s where "hashRSPMessage empty_env sample_message = Inr s"
    using sample_hash by blast
  then show ?thesis
    by (simp add: signMessage_def messageSignatureInput_def computeMessageHash_def signBlock_def
        KeyPair_sign_def hasPrivateKey_def nodeID_def algorithmForKey_def verifyP256_def toy_openssl_def Let_def)
qed

lemma toy_publicKey:
  "KeyPair_publicKey toy_openssl (Some 7) = Inr \<lparr>key_algorithm = P256, public_key_bytes = [char_of (7 :: nat)]\<rparr>"
  by (simp add: KeyPair_publicKey_def algorithmForKey_def verifyP256_def writePublicKeyBytes_def toy_openssl_def)

theorem hash_binds_addresses_witness:
  "hashRSPMessage empty_env sample_message \<noteq>
   hashRSPMessage empty_env (sample_message\<lparr>destination := Some (replicate 16 CHR ''e'')\<rparr>)"
proof
  let ?m = "sample_message\<lparr>destination := Some (replicate 16 CHR ''e'')\<rparr>"
  assume eq: "hashRSPMessage empty_env sample_message = hashRSPMessage empty_env ?m"
  obtain s where s: "hashRSPMessage empty_env sample_message = Inr s"
    using sample_hash by blast
  have "destination sample_message = destination ?m \<and> source sample_message = source ?m"
    by (rule hash_binds_addresses [OF s s [unfolded eq]]) (simp_all add: sample_message_def RSPMessage_default_def)
  then show False
    by (simp add: sample_message_def)
qed

end
