(* ===== verification/Message_Queue.thy ===== *)
theory Message_Queue
  imports RSP_Prelude
begin

text \<open>
  \<^verbatim>\<open>src/common/message_queue/mq.hpp\<close> and \<^verbatim>\<open>mq.cpp\<close>: the bounded queue with its worker threads and the
  state the handlers share. Each public operation runs under the queue's mutex, so an operation is a
  function of the queue's state; the worker threads are counted, and one turn of the worker loop is a
  function that says what the thread does next. A schedule is a sequence of such steps.
\<close>

section \<open>Shared state\<close>

text \<open>
  A \<^verbatim>\<open>std::any\<close> is a value with the name of its type; \<^verbatim>\<open>std::any_cast\<close> yields it when the name matches.
\<close>

type_synonym 'v shared_state = "(string \<times> (string \<times> 'v)) list"

definition shared_set :: "string \<Rightarrow> string \<Rightarrow> 'v \<Rightarrow> 'v shared_state \<Rightarrow> 'v shared_state" where
  "shared_set key ty v st = (key, (ty, v)) # filter (\<lambda>(k, _). k \<noteq> key) st"

definition shared_get :: "string \<Rightarrow> string \<Rightarrow> 'v shared_state \<Rightarrow> 'v option" where
  "shared_get key ty st =
     (case map_of st key of
        None \<Rightarrow> None
      | Some (ty', v) \<Rightarrow> if ty' = ty then Some v else None)"

definition shared_update :: "string \<Rightarrow> string \<Rightarrow> ('v \<Rightarrow> 'v) \<Rightarrow> 'v shared_state \<Rightarrow> bool \<times> 'v shared_state" where
  "shared_update key ty updater st =
     (case shared_get key ty st of
        None \<Rightarrow> (False, st)
      | Some v \<Rightarrow> (True, map (\<lambda>(k, e). if k = key then (k, (ty, updater v)) else (k, e)) st))"

definition shared_contains :: "string \<Rightarrow> 'v shared_state \<Rightarrow> bool" where
  "shared_contains key st \<longleftrightarrow> map_of st key \<noteq> None"

definition shared_erase :: "string \<Rightarrow> 'v shared_state \<Rightarrow> 'v shared_state" where
  "shared_erase key st = filter (\<lambda>(k, _). k \<noteq> key) st"

section \<open>The queue\<close>

record 'm MessageQueue =
  messages :: "'m list"
  queueLimit :: nat
  workerCount :: nat
  running :: bool
  paused :: bool
  stopRequested :: bool
  workers :: nat

definition MessageQueue_new :: "'m MessageQueue" where
  "MessageQueue_new =
     \<lparr>messages = [], queueLimit = 0, workerCount = 0, running = False, paused = False,
      stopRequested = False, workers = 0\<rparr>"

text \<open>
  \<^verbatim>\<open>push\<close> returns whether the message was queued and, when it was not, the arguments of the call of
  \<^verbatim>\<open>handleQueueFull\<close>.
\<close>

definition mq_push :: "'m \<Rightarrow> 'm MessageQueue \<Rightarrow> bool \<times> (nat \<times> nat \<times> 'm) option \<times> 'm MessageQueue" where
  "mq_push m q =
     (let currentSize = length (messages q); currentLimit = queueLimit q
      in if queueLimit q \<noteq> 0 \<and> currentSize \<ge> queueLimit q
         then (False, Some (currentSize, currentLimit, m), q)
         else (True, None, q\<lparr>messages := messages q @ [m]\<rparr>))"

definition mq_tryPop :: "'m MessageQueue \<Rightarrow> 'm option \<times> 'm MessageQueue" where
  "mq_tryPop q =
     (case messages q of
        [] \<Rightarrow> (None, q)
      | m # ms \<Rightarrow> (Some m, q\<lparr>messages := ms\<rparr>))"

text \<open>
  \<^verbatim>\<open>blockingPop\<close> waits until the queue is not empty or the timeout passes; the state is the one the
  wait ends in.
\<close>

definition mq_blockingPop :: "'m MessageQueue \<Rightarrow> 'm option \<times> 'm MessageQueue" where
  "mq_blockingPop q = (if messages q = [] then (None, q) else (Some (hd (messages q)), q\<lparr>messages := tl (messages q)\<rparr>))"

definition mq_size :: "'m MessageQueue \<Rightarrow> nat" where
  "mq_size q = length (messages q)"

definition mq_clear :: "'m MessageQueue \<Rightarrow> 'm MessageQueue" where
  "mq_clear q = q\<lparr>messages := []\<rparr>"

definition setQueueLimit :: "nat \<Rightarrow> 'm MessageQueue \<Rightarrow> 'm MessageQueue" where
  "setQueueLimit limit q = q\<lparr>queueLimit := limit\<rparr>"

definition startWorkersLocked :: "'m MessageQueue \<Rightarrow> 'm MessageQueue" where
  "startWorkersLocked q = (if workers q \<noteq> 0 then q else q\<lparr>workers := workerCount q\<rparr>)"

text \<open>The old threads are asked to stop and joined before the new ones start.\<close>

definition rebuildWorkers :: "nat \<Rightarrow> bool \<Rightarrow> bool \<Rightarrow> 'm MessageQueue \<Rightarrow> 'm MessageQueue" where
  "rebuildWorkers count wasRunning wasPaused q =
     (if \<not> wasRunning then q
      else
        let q = q\<lparr>stopRequested := True, workers := 0\<rparr>
        in startWorkersLocked
             (q\<lparr>stopRequested := False, running := True, paused := wasPaused, workerCount := count\<rparr>))"

definition setWorkerCount :: "nat \<Rightarrow> 'm MessageQueue \<Rightarrow> 'm MessageQueue" where
  "setWorkerCount count q =
     (if workerCount q = count then q
      else rebuildWorkers count (running q) (paused q) (q\<lparr>workerCount := count\<rparr>))"

definition mq_start :: "'m MessageQueue \<Rightarrow> 'm MessageQueue" where
  "mq_start q =
     (let shouldStartWorkers = \<not> running q;
          q = (if shouldStartWorkers then q\<lparr>running := True, stopRequested := False\<rparr> else q);
          q = q\<lparr>paused := False\<rparr>
      in if shouldStartWorkers then startWorkersLocked q else q)"

definition mq_pause :: "'m MessageQueue \<Rightarrow> 'm MessageQueue" where
  "mq_pause q = q\<lparr>paused := True\<rparr>"

definition mq_resume :: "'m MessageQueue \<Rightarrow> 'm MessageQueue" where
  "mq_resume q = q\<lparr>paused := False\<rparr>"

definition mq_stop :: "'m MessageQueue \<Rightarrow> 'm MessageQueue" where
  "mq_stop q =
     (if \<not> running q \<and> workers q = 0 then q\<lparr>paused := False, stopRequested := False\<rparr>
      else
        let q = q\<lparr>running := False, paused := False, stopRequested := True, workers := 0\<rparr>
        in q\<lparr>stopRequested := False\<rparr>)"

text \<open>
  One turn of a worker: it waits, returns, or takes the front message and handles it. The wait
  predicate makes the second test of the loop body redundant except for spurious states.
\<close>

datatype 'm worker_action = Worker_wait | Worker_exit | Worker_handle 'm

definition workerLoop_turn :: "'m MessageQueue \<Rightarrow> 'm worker_action \<times> 'm MessageQueue" where
  "workerLoop_turn q =
     (if \<not> (stopRequested q \<or> (running q \<and> \<not> paused q \<and> messages q \<noteq> [])) then (Worker_wait, q)
      else if stopRequested q then (Worker_exit, q)
      else if \<not> running q \<or> paused q \<or> messages q = [] then (Worker_wait, q)
      else (Worker_handle (hd (messages q)), q\<lparr>messages := tl (messages q)\<rparr>))"

section \<open>The interface of a bounded queue\<close>

text \<open>
  What the producers and consumers of a queue rely on. Inside the locale: whatever was accepted comes
  out in order and unchanged, and a full queue refuses and keeps its contents.
\<close>

locale bounded_fifo =
  fixes enq :: "'m \<Rightarrow> 'q \<Rightarrow> bool \<times> 'q"
    and deq :: "'q \<Rightarrow> 'm option \<times> 'q"
    and contents :: "'q \<Rightarrow> 'm list"
    and capacity :: "'q \<Rightarrow> nat option"
  assumes enq_ok: "enq m q = (True, q') \<Longrightarrow> contents q' = contents q @ [m] \<and> capacity q' = capacity q"
    and enq_full: "enq m q = (False, q') \<Longrightarrow> q' = q \<and> (\<exists>n. capacity q = Some n \<and> n \<le> length (contents q))"
    and enq_bound: "enq m q = (True, q') \<Longrightarrow> capacity q = Some n \<Longrightarrow> length (contents q) < n"
    and deq_some: "contents q = m # ms \<Longrightarrow> \<exists>q'. deq q = (Some m, q') \<and> contents q' = ms \<and> capacity q' = capacity q"
    and deq_none: "contents q = [] \<Longrightarrow> deq q = (None, q)"
begin

primrec enq_all :: "'m list \<Rightarrow> 'q \<Rightarrow> 'm list \<times> 'q" where
  "enq_all [] q = ([], q)"
| "enq_all (m # ms) q =
     (case enq m q of (ok, q') \<Rightarrow>
        (case enq_all ms q' of (acc, q'') \<Rightarrow> (if ok then m # acc else acc, q'')))"

primrec deq_all :: "nat \<Rightarrow> 'q \<Rightarrow> 'm list \<times> 'q" where
  "deq_all 0 q = ([], q)"
| "deq_all (Suc n) q =
     (case deq q of
        (None, q') \<Rightarrow> ([], q')
      | (Some m, q') \<Rightarrow> (case deq_all n q' of (ms, q'') \<Rightarrow> (m # ms, q'')))"

lemma enq_cases:
  obtains (ok) q' where "enq m q = (True, q')" "contents q' = contents q @ [m]" "capacity q' = capacity q"
  | (full) n where "enq m q = (False, q)" "capacity q = Some n" "n \<le> length (contents q)"
  by (cases "enq m q"; cases "fst (enq m q)") (auto dest: enq_ok enq_full)

lemma enq_all_contents: "enq_all ms q = (acc, q') \<Longrightarrow> contents q' = contents q @ acc \<and> capacity q' = capacity q"
proof (induction ms arbitrary: q acc)
  case (Cons m ms)
  show ?case
    using Cons by (cases m q rule: enq_cases) (fastforce split: prod.splits)+
qed simp

lemma deq_all_contents:
  "deq_all n q = (out, q') \<Longrightarrow> out = take n (contents q) \<and> contents q' = drop n (contents q)"
proof (induction n arbitrary: q out)
  case (Suc n)
  show ?case
  proof (cases "contents q")
    case Nil
    then show ?thesis using Suc.prems deq_none [OF Nil] by simp
  next
    case (Cons m ms)
    then show ?thesis
      using Suc deq_some [OF Cons] by (auto split: prod.splits)
  qed
qed simp

lemma fifo:
  assumes "enq_all ms q = (acc, q')" "deq_all (length (contents q) + length acc) q' = (out, q'')"
  shows "out = contents q @ acc \<and> contents q'' = []"
  using enq_all_contents [OF assms(1)] deq_all_contents [OF assms(2)] by simp

lemma within_capacity:
  assumes "enq_all ms q = (acc, q')" "capacity q = Some n" "length (contents q) \<le> n"
  shows "length (contents q') \<le> n"
  using assms
proof (induction ms arbitrary: q acc)
  case (Cons m ms)
  show ?case
  proof (cases m q rule: enq_cases)
    case (ok q1)
    then have "length (contents q1) \<le> n"
      using enq_bound [OF ok(1) Cons.prems(2)] by simp
    then show ?thesis
      using Cons ok by (auto split: prod.splits)
  next
    case full
    then show ?thesis using Cons by (auto split: prod.splits)
  qed
qed simp

end

definition push_result :: "'m \<Rightarrow> 'm MessageQueue \<Rightarrow> bool \<times> 'm MessageQueue" where
  "push_result m q = (case mq_push m q of (ok, full, q') \<Rightarrow> (ok, q'))"

definition queue_capacity :: "'m MessageQueue \<Rightarrow> nat option" where
  "queue_capacity q = (if queueLimit q = 0 then None else Some (queueLimit q))"

interpretation mq: bounded_fifo push_result mq_tryPop messages queue_capacity
  by unfold_locales
    (auto simp: push_result_def mq_push_def mq_tryPop_def queue_capacity_def Let_def split: if_splits list.splits)

section \<open>Schedules\<close>

text \<open>
  A run of the queue: the operations of its clients and the turns of its workers in any order. The
  run records what \<^verbatim>\<open>push\<close> accepted, what was handed to a consumer or a handler, and whether the queue
  was ever cleared.
\<close>

record 'm mq_run =
  run_queue :: "'m MessageQueue"
  run_accepted :: "'m list"
  run_delivered :: "'m list"
  run_cleared :: bool

inductive mq_step :: "'m mq_run \<Rightarrow> 'm mq_run \<Rightarrow> bool" where
  step_push: "mq_push m (run_queue r) = (True, full, q) \<Longrightarrow>
    mq_step r (r\<lparr>run_queue := q, run_accepted := run_accepted r @ [m]\<rparr>)"
| step_push_full: "mq_push m (run_queue r) = (False, full, q) \<Longrightarrow> mq_step r (r\<lparr>run_queue := q\<rparr>)"
| step_tryPop: "mq_tryPop (run_queue r) = (Some m, q) \<Longrightarrow>
    mq_step r (r\<lparr>run_queue := q, run_delivered := run_delivered r @ [m]\<rparr>)"
| step_blockingPop: "mq_blockingPop (run_queue r) = (Some m, q) \<Longrightarrow>
    mq_step r (r\<lparr>run_queue := q, run_delivered := run_delivered r @ [m]\<rparr>)"
| step_worker: "0 < workers (run_queue r) \<Longrightarrow> workerLoop_turn (run_queue r) = (Worker_handle m, q) \<Longrightarrow>
    mq_step r (r\<lparr>run_queue := q, run_delivered := run_delivered r @ [m]\<rparr>)"
| step_clear: "mq_step r (r\<lparr>run_queue := mq_clear (run_queue r), run_cleared := True\<rparr>)"
| step_setQueueLimit: "mq_step r (r\<lparr>run_queue := setQueueLimit n (run_queue r)\<rparr>)"
| step_setWorkerCount: "mq_step r (r\<lparr>run_queue := setWorkerCount n (run_queue r)\<rparr>)"
| step_start: "mq_step r (r\<lparr>run_queue := mq_start (run_queue r)\<rparr>)"
| step_pause: "mq_step r (r\<lparr>run_queue := mq_pause (run_queue r)\<rparr>)"
| step_resume: "mq_step r (r\<lparr>run_queue := mq_resume (run_queue r)\<rparr>)"
| step_stop: "mq_step r (r\<lparr>run_queue := mq_stop (run_queue r)\<rparr>)"

definition mq_initial :: "'m mq_run" where
  "mq_initial = \<lparr>run_queue = MessageQueue_new, run_accepted = [], run_delivered = [], run_cleared = False\<rparr>"

inductive mq_reachable :: "'m mq_run \<Rightarrow> bool" where
  reach_init: "mq_reachable mq_initial"
| reach_step: "mq_reachable r \<Longrightarrow> mq_step r r' \<Longrightarrow> mq_reachable r'"

definition workers_ok :: "'m MessageQueue \<Rightarrow> bool" where
  "workers_ok q \<longleftrightarrow> \<not> stopRequested q \<and> workers q = (if running q then workerCount q else 0)"

definition delivery_ok :: "'m mq_run \<Rightarrow> bool" where
  "delivery_ok r \<longleftrightarrow>
     subseq (run_delivered r @ messages (run_queue r)) (run_accepted r) \<and>
     (\<not> run_cleared r \<longrightarrow> run_accepted r = run_delivered r @ messages (run_queue r))"

lemmas admin_op_defs = setQueueLimit_def setWorkerCount_def rebuildWorkers_def startWorkersLocked_def
  mq_start_def mq_pause_def mq_resume_def mq_stop_def Let_def

lemma ops_workers_ok:
  "workers_ok q \<Longrightarrow> mq_push m q = (ok, full, q') \<Longrightarrow> workers_ok q'"
  "workers_ok q \<Longrightarrow> mq_tryPop q = (r, q') \<Longrightarrow> workers_ok q'"
  "workers_ok q \<Longrightarrow> mq_blockingPop q = (r, q') \<Longrightarrow> workers_ok q'"
  "workers_ok q \<Longrightarrow> workerLoop_turn q = (a, q') \<Longrightarrow> workers_ok q'"
  by (auto simp: workers_ok_def mq_push_def mq_tryPop_def mq_blockingPop_def workerLoop_turn_def Let_def
      split: if_splits list.splits)

lemma admin_workers_ok:
  "workers_ok q \<Longrightarrow> workers_ok (mq_clear q)" "workers_ok q \<Longrightarrow> workers_ok (setQueueLimit n q)"
  "workers_ok q \<Longrightarrow> workers_ok (setWorkerCount n q)" "workers_ok q \<Longrightarrow> workers_ok (mq_start q)"
  "workers_ok q \<Longrightarrow> workers_ok (mq_pause q)" "workers_ok q \<Longrightarrow> workers_ok (mq_resume q)"
  "workers_ok q \<Longrightarrow> workers_ok (mq_stop q)"
  by (simp_all add: workers_ok_def mq_clear_def admin_op_defs)

lemma mq_step_workers_ok: "mq_step r r' \<Longrightarrow> workers_ok (run_queue r) \<Longrightarrow> workers_ok (run_queue r')"
  by (induction rule: mq_step.induct) (auto intro: ops_workers_ok admin_workers_ok)

lemma worker_ops_messages [simp]:
  "messages (setQueueLimit n q) = messages q" "messages (setWorkerCount n q) = messages q"
  "messages (mq_start q) = messages q" "messages (mq_pause q) = messages q"
  "messages (mq_resume q) = messages q" "messages (mq_stop q) = messages q"
  by (simp_all add: admin_op_defs)

lemma subseq_drop_suffix: "subseq (xs @ ys) zs \<Longrightarrow> subseq xs zs"
  using subseq_order.trans [of xs "xs @ ys" zs] list_emb_append_mono [of "(=)" xs xs "[]" ys] by simp

lemma pop_messages:
  "mq_tryPop q = (Some m, q') \<Longrightarrow> messages q = m # messages q'"
  "mq_blockingPop q = (Some m, q') \<Longrightarrow> messages q = m # messages q'"
  "workerLoop_turn q = (Worker_handle m, q') \<Longrightarrow> messages q = m # messages q'"
  by (auto simp: mq_tryPop_def mq_blockingPop_def workerLoop_turn_def split: if_splits list.splits)

lemma push_messages:
  "mq_push m q = (True, full, q') \<Longrightarrow> messages q' = messages q @ [m]"
  "mq_push m q = (False, full, q') \<Longrightarrow> q' = q"
  by (auto simp: mq_push_def Let_def split: if_splits)

lemma mq_step_delivery_ok: "mq_step r r' \<Longrightarrow> delivery_ok r \<Longrightarrow> delivery_ok r'"
proof (induction rule: mq_step.induct)
  case (step_push m r full q)
  then show ?case
    using list_emb_append_mono [of "(=)" "run_delivered r @ messages (run_queue r)" "run_accepted r" "[m]" "[m]"]
    by (simp add: delivery_ok_def push_messages)
next
  case (step_clear r)
  then show ?case
    by (auto simp: delivery_ok_def mq_clear_def dest: subseq_drop_suffix)
next
  case (step_push_full m r full q)
  then show ?case
    using push_messages(2) [of m "run_queue r" full q] by (simp add: delivery_ok_def)
qed (simp_all add: delivery_ok_def pop_messages push_messages)

section \<open>Properties\<close>


definition sample_run :: "nat mq_run" where
  "sample_run = \<lparr>run_queue = setWorkerCount 2 (MessageQueue_new\<lparr>messages := [5]\<rparr>), run_accepted = [5],
     run_delivered = [], run_cleared = False\<rparr>"

lemma sample_run_reachable: "mq_reachable sample_run"
proof -
  let ?r = "mq_initial\<lparr>run_queue := MessageQueue_new\<lparr>messages := [5]\<rparr>, run_accepted := [5 :: nat]\<rparr>"
  have "mq_step mq_initial ?r"
    using step_push [of 5 mq_initial None "MessageQueue_new\<lparr>messages := [5]\<rparr>"]
    by (simp add: mq_push_def mq_initial_def MessageQueue_new_def)
  then have "mq_reachable ?r"
    by (rule reach_step [OF reach_init])
  then show ?thesis
    using reach_step [OF _ step_setWorkerCount [of ?r 2]] by (simp add: sample_run_def mq_initial_def)
qed


text \<open>
  C28. A queue with a limit never holds more than its limit as long as the limit is kept: any series
  of pushes keeps the bound, a refused push changes nothing and reports the size and the limit, and
  draining the queue returns what it held followed by exactly the accepted messages in order.
\<close>

theorem mq_bounded_fifo:
  assumes "queueLimit q \<noteq> 0" "length (messages q) \<le> queueLimit q" "mq.enq_all ms q = (acc, q')"
  shows "length (messages q') \<le> queueLimit q \<and>
    (\<forall>m. length (messages q') = queueLimit q \<longrightarrow>
       mq_push m q' = (False, Some (queueLimit q, queueLimit q, m), q')) \<and>
    fst (mq.deq_all (length (messages q) + length acc) q') = messages q @ acc"
proof -
  have cap: "queue_capacity q = Some (queueLimit q)"
    using assms(1) by (simp add: queue_capacity_def)
  have same: "queueLimit q' = queueLimit q"
    using mq.enq_all_contents [OF assms(3)] cap by (simp add: queue_capacity_def split: if_splits)
  obtain out q'' where d: "mq.deq_all (length (messages q) + length acc) q' = (out, q'')"
    by (cases "mq.deq_all (length (messages q) + length acc) q'")
  have "out = messages q @ acc"
    using mq.fifo [OF assms(3) d] by simp
  moreover have "length (messages q') \<le> queueLimit q"
    by (rule mq.within_capacity [OF assms(3) cap assms(2)])
  moreover have "mq_push m q' = (False, Some (queueLimit q, queueLimit q, m), q')"
    if "length (messages q') = queueLimit q" for m
    using that assms(1) same by (simp add: mq_push_def Let_def)
  ultimately show ?thesis
    by (simp only: d) simp
qed

theorem mq_bounded_fifo_witness:
  "length (messages (snd (mq.enq_all [1, 2, 3] (setQueueLimit 2 (MessageQueue_new :: nat MessageQueue))))) \<le> 2"
proof -
  let ?q = "setQueueLimit 2 (MessageQueue_new :: nat MessageQueue)"
  have q: "queueLimit ?q \<noteq> 0" "length (messages ?q) \<le> queueLimit ?q" and l: "queueLimit ?q = 2"
    by (simp_all add: setQueueLimit_def MessageQueue_new_def)
  show ?thesis
    using mq_bounded_fifo [OF q prod.collapse [symmetric], of "[1, 2, 3]"] unfolding l by blast
qed

end
