(* ===== verification/Encoding.thy ===== *)
theory Encoding
  imports Connection Message_Hash Message_Queue
begin

text \<open>
  \<^verbatim>\<open>src/common/encoding\<close>: an encoding reads and writes messages as frames on a connection. The two
  framings, \<^verbatim>\<open>protobuf/protobuf_encoding.cpp\<close> and \<^verbatim>\<open>json/json_encoding.cpp\<close>, differ in their magic number and in
  how protobuf turns a message into a body and back, which are parameters of the model.
  \<^verbatim>\<open>encoding.cpp\<close> is the object around them: its queues, the authenticated peer, the read loop. The
  events recorded for ping tracing and the lines written to \<^verbatim>\<open>std::cerr\<close> are not modelled.
\<close>

section \<open>Frames\<close>

record frame_codec =
  kFrameMagic :: u32
  encodePayload :: "RSPMessage \<Rightarrow> bytes option"
  decodePayload :: "bytes \<Rightarrow> RSPMessage option"

definition kFrameHeaderSize :: nat where
  "kFrameHeaderSize = 8"

definition kMaxFrameLength :: nat where
  "kMaxFrameLength = 16 * 1024 * 1024"

definition ProtobufEncoding :: "(RSPMessage \<Rightarrow> bytes option) \<Rightarrow> (bytes \<Rightarrow> RSPMessage option) \<Rightarrow> frame_codec" where
  "ProtobufEncoding serializeToString parseFromArray =
     \<lparr>kFrameMagic = 0x52535050, encodePayload = serializeToString, decodePayload = parseFromArray\<rparr>"

text \<open>A message that cannot be printed as JSON is sent as an empty object.\<close>

definition JsonEncoding :: "(RSPMessage \<Rightarrow> string option) \<Rightarrow> (string \<Rightarrow> RSPMessage option) \<Rightarrow> frame_codec" where
  "JsonEncoding messageToJsonString jsonStringToMessage =
     \<lparr>kFrameMagic = 0x5253504A,
      encodePayload = (\<lambda>m. case messageToJsonString m of Some s \<Rightarrow> Some s | None \<Rightarrow> Some ''{}''),
      decodePayload = jsonStringToMessage\<rparr>"

definition readMessage :: "frame_codec \<Rightarrow> connection \<Rightarrow> RSPMessage option \<times> connection" where
  "readMessage codec c =
     (case readExact kFrameHeaderSize c of
        (None, c) \<Rightarrow> (None, c)
      | (Some header, c) \<Rightarrow>
          if be_dec (take 4 header) \<noteq> kFrameMagic codec then (None, c)
          else
            let payloadLength = unat (be_dec (drop 4 header) :: u32)
            in if payloadLength > kMaxFrameLength then (None, c)
               else (case readExact payloadLength c of
                       (None, c) \<Rightarrow> (None, c)
                     | (Some body, c) \<Rightarrow> (decodePayload codec body, c)))"

definition frame_header :: "frame_codec \<Rightarrow> bytes \<Rightarrow> bytes" where
  "frame_header codec body = uint32_bytes (kFrameMagic codec) @ uint32_bytes (of_nat (length body))"

definition writeMessage :: "frame_codec \<Rightarrow> RSPMessage \<Rightarrow> connection \<Rightarrow> bool \<times> connection" where
  "writeMessage codec m c =
     (case encodePayload codec m of
        None \<Rightarrow> (False, c)
      | Some body \<Rightarrow>
          if length body > kMaxFrameLength then (False, c)
          else (case sendAll (frame_header codec body) c of
                  (False, c) \<Rightarrow> (False, c)
                | (True, c) \<Rightarrow> sendAll body c))"

section \<open>The encoding object\<close>

record 'k Encoding =
  enc_codec :: frame_codec
  enc_connection :: "connection option"
  receivedMessages :: "RSPMessage MessageQueue option"
  outgoingMessages :: "RSPMessage MessageQueue"
  localKeyPair :: "'k KeyPair"
  peerNodeId :: "nodeid option"
  enc_running :: bool
  readThread :: bool

definition Encoding_new :: "frame_codec \<Rightarrow> connection option \<Rightarrow> RSPMessage MessageQueue option \<Rightarrow> 'k KeyPair \<Rightarrow> 'k Encoding" where
  "Encoding_new codec c received kp =
     \<lparr>enc_codec = codec, enc_connection = c, receivedMessages = received,
      outgoingMessages = setWorkerCount 1 MessageQueue_new, localKeyPair = kp, peerNodeId = None,
      enc_running = False, readThread = False\<rparr>"

definition Encoding_start :: "'k Encoding \<Rightarrow> bool \<times> 'k Encoding" where
  "Encoding_start e =
     (if enc_running e \<or> enc_connection e = None \<or> receivedMessages e = None \<or>
         \<not> isValid (localKeyPair e) \<or> peerNodeId e = None
      then (False, e)
      else (True, e\<lparr>enc_running := True, outgoingMessages := mq_start (outgoingMessages e), readThread := True\<rparr>))"

text \<open>\<^verbatim>\<open>stop\<close>; the flag tells whether the caller is the read thread, which does not join itself.\<close>

definition Encoding_stop :: "bool \<Rightarrow> 'k Encoding \<Rightarrow> 'k Encoding" where
  "Encoding_stop self e =
     (if \<not> enc_running e \<and> \<not> readThread e then e
      else e\<lparr>enc_running := False, enc_connection := map_option conn_close (enc_connection e),
             outgoingMessages := mq_stop (outgoingMessages e),
             readThread := readThread e \<and> self\<rparr>)"

definition normalizeOutgoingMessage :: "RSPMessage \<Rightarrow> RSPMessage" where
  "normalizeOutgoingMessage m =
     (case core m of
        challenge_request cr \<Rightarrow> if destination m = None then m\<lparr>signature := None\<rparr> else m
      | _ \<Rightarrow> m)"

definition queueSend :: "RSPMessage \<Rightarrow> 'k Encoding \<Rightarrow> bool \<times> 'k Encoding" where
  "queueSend m e =
     (case mq_push (normalizeOutgoingMessage m) (outgoingMessages e) of
        (ok, full, q) \<Rightarrow> (ok, e\<lparr>outgoingMessages := q\<rparr>))"

definition dispatchSend :: "RSPMessage \<Rightarrow> 'k Encoding \<Rightarrow> bool \<times> 'k Encoding" where
  "dispatchSend m e =
     (case enc_connection e of
        None \<Rightarrow> (False, e)
      | Some c \<Rightarrow> (case writeMessage (enc_codec e) m c of (ok, c) \<Rightarrow> (ok, e\<lparr>enc_connection := Some c\<rparr>)))"

definition enqueueReceived :: "RSPMessage \<Rightarrow> 'k Encoding \<Rightarrow> 'k Encoding" where
  "enqueueReceived m e =
     (case receivedMessages e of
        None \<Rightarrow> e
      | Some q \<Rightarrow> e\<lparr>receivedMessages := Some (snd (snd (mq_push m q)))\<rparr>)"

definition setPeerNodeID :: "nodeid \<Rightarrow> 'k Encoding \<Rightarrow> 'k Encoding result" where
  "setPeerNodeID n e =
     (case peerNodeId e of
        Some n' \<Rightarrow>
          if n' \<noteq> n then Inl (Logic_error ''peer NodeID is already established for this encoding'')
          else Inr (e\<lparr>peerNodeId := Some n\<rparr>)
      | None \<Rightarrow> Inr (e\<lparr>peerNodeId := Some n\<rparr>))"

definition enc_read :: "'k Encoding \<Rightarrow> RSPMessage option \<times> 'k Encoding" where
  "enc_read e =
     (case enc_connection e of
        None \<Rightarrow> (None, e)
      | Some c \<Rightarrow> (case readMessage (enc_codec e) c of (m, c) \<Rightarrow> (m, e\<lparr>enc_connection := Some c\<rparr>)))"

text \<open>
  \<^verbatim>\<open>readLoop\<close>. The first argument counts the turns after which \<^verbatim>\<open>stop\<close> has cleared \<^verbatim>\<open>running_\<close>. The result
  names the node for which the disconnect callback is called.
\<close>

primrec readLoop :: "nat \<Rightarrow> 'k Encoding \<Rightarrow> nodeid option \<times> 'k Encoding" where
  "readLoop 0 e = (None, e)"
| "readLoop (Suc n) e =
     (if \<not> enc_running e then (None, e)
      else case enc_read e of
        (None, e) \<Rightarrow> (peerNodeId e, e\<lparr>enc_running := False\<rparr>)
      | (Some m, e) \<Rightarrow> readLoop n (enqueueReceived m e))"

section \<open>Lemmas\<close>

lemma Encoding_new_simps [simp]:
  "enc_codec (Encoding_new codec c q kp) = codec" "enc_connection (Encoding_new codec c q kp) = c"
  "receivedMessages (Encoding_new codec c q kp) = q" "peerNodeId (Encoding_new codec c q kp) = None"
  "localKeyPair (Encoding_new codec c q kp) = kp" "enc_running (Encoding_new codec c q kp) = False"
  by (simp_all add: Encoding_new_def)

lemma Encoding_start_unauthenticated: "peerNodeId e = None \<Longrightarrow> Encoding_start e = (False, e)"
  by (simp add: Encoding_start_def)

definition frame :: "frame_codec \<Rightarrow> bytes \<Rightarrow> bytes" where
  "frame codec body = frame_header codec body @ body"

lemma frame_header_length [simp]: "length (frame_header codec body) = 8"
  by (simp add: frame_header_def)

lemma frame_length_field: "length body \<le> kMaxFrameLength \<Longrightarrow> unat (of_nat (length body) :: u32) = length body"
  by (simp add: kMaxFrameLength_def unat_of_nat take_bit_nat_eq_self)

lemma readExact_cases:
  obtains c' where "n \<le> length (readable c)" "readExact n c = (Some (take n (readable c)), c')"
      "readable c' = drop n (readable c)" "same_channel c c'"
  | c' where "length (readable c) < n" "readExact n c = (None, c')" "same_channel c c'"
  using readExact_ok [of n c] readExact_short [of c n] by (meson not_le)

lemma readMessage_frame:
  assumes "readable c = frame codec body @ rest" "length body \<le> kMaxFrameLength"
  shows "\<exists>c'. readMessage codec c = (decodePayload codec body, c') \<and> readable c' = rest \<and> same_channel c c'"
proof -
  let ?h = "frame_header codec body"
  obtain c1 where r1: "readExact 8 c = (Some ?h, c1)" "readable c1 = body @ rest" "same_channel c c1"
    using readExact_ok [of 8 c] assms(1) by (auto simp: frame_def)
  obtain c2 where r2: "readExact (length body) c1 = (Some body, c2)" "readable c2 = rest" "same_channel c1 c2"
    using readExact_ok [of "length body" c1] r1(2) by auto
  have "be_dec (take 4 ?h) = kFrameMagic codec" "unat (be_dec (drop 4 ?h) :: u32) = length body"
    using assms(2) by (simp_all add: frame_header_def u32_codec.dec_enc frame_length_field)
  then show ?thesis
    using r1 r2 assms(2) same_channel_trans
    by (auto simp: readMessage_def kFrameHeaderSize_def Let_def)
qed

lemma readMessage_inv:
  assumes "readMessage codec c = (Some m, c')"
  shows "\<exists>body. readable c = frame codec body @ readable c' \<and> length body \<le> kMaxFrameLength \<and>
    decodePayload codec body = Some m"
proof (cases rule: readExact_cases [of 8 c])
  case (1 c1)
  let ?h = "take 8 (readable c)" and ?n = "unat (be_dec (drop 4 (take 8 (readable c))) :: u32)"
  have m: "be_dec (take 4 ?h) = kFrameMagic codec" "?n \<le> kMaxFrameLength"
    using assms 1 by (auto simp: readMessage_def kFrameHeaderSize_def Let_def split: if_splits)
  show ?thesis
  proof (cases rule: readExact_cases [of ?n c1])
    case (1 c2)
    let ?b = "take ?n (readable c1)"
    have l: "length ?b = ?n" using 1(1) by simp
    have "uint32_bytes (be_dec (take 4 ?h)) = take 4 ?h" "uint32_bytes (be_dec (drop 4 ?h)) = drop 4 ?h"
      using \<open>8 \<le> length (readable c)\<close> by (simp_all add: u32_codec.enc_dec)
    then have "frame_header codec ?b = ?h"
      unfolding frame_header_def l m(1) [symmetric] using append_take_drop_id [of 4 ?h] by simp
    moreover have "c' = c2" "decodePayload codec ?b = Some m"
      using assms m 1 \<open>readExact 8 c = _\<close>
      by (auto simp: readMessage_def kFrameHeaderSize_def Let_def)
    moreover have "readable c = ?h @ ?b @ readable c2"
      unfolding 1(3) \<open>readable c1 = _\<close> by (simp only: append_take_drop_id)
    ultimately show ?thesis
      using m(2) l by (intro exI [of _ ?b]) (simp add: frame_def)
  next
    case (2 c2)
    then show ?thesis
      using assms 1 m by (simp add: readMessage_def kFrameHeaderSize_def Let_def)
  qed
next
  case (2 c1)
  then show ?thesis
    using assms by (simp add: readMessage_def kFrameHeaderSize_def)
qed

text \<open>
  C16. Exactly the well-formed frames are read. Whatever the chunks the bytes arrive in, a read
  returns a message and leaves the unread bytes \<^term>\<open>rest\<close> precisely when the stream starts with the
  codec's magic number, the big-endian length of a payload of at most 16 MiB, and that payload, which
  decodes to the message. Nothing after the frame is consumed.
\<close>

theorem readMessage_exact:
  "(\<exists>c'. readMessage codec c = (Some m, c') \<and> readable c' = rest) \<longleftrightarrow>
   (\<exists>body. readable c = uint32_bytes (kFrameMagic codec) @ uint32_bytes (of_nat (length body)) @ body @ rest \<and>
      length body \<le> 16 * 1024 * 1024 \<and> decodePayload codec body = Some m)"
proof -
  have f: "frame codec body @ rest =
      uint32_bytes (kFrameMagic codec) @ uint32_bytes (of_nat (length body)) @ body @ rest" for body
    by (simp add: frame_def frame_header_def)
  show ?thesis
    unfolding f [symmetric] kMaxFrameLength_def [symmetric]
    using readMessage_inv [of codec c m] readMessage_frame [of c codec _ rest] by (metis (no_types, lifting))
qed

lemma writeMessage_frame:
  assumes "encodePayload codec m = Some body" "length body \<le> kMaxFrameLength" "writable (8 + length body + n) c"
  shows "\<exists>c'. writeMessage codec m c = (True, c') \<and> outbound c' = outbound c @ frame codec body \<and> writable n c'"
proof -
  obtain c1 where c1: "sendAll (frame_header codec body) c = (True, c1)"
    "outbound c1 = outbound c @ frame_header codec body" "writable (length body + n) c1"
    using sendAll_ok [of "frame_header codec body" "length body + n" c] assms(3) by (auto simp: ac_simps)
  then show ?thesis
    using sendAll_ok [of body n c1] assms(1,2) by (auto simp: writeMessage_def frame_def)
qed

text \<open>A writer that sends several messages and stops at the first failure.\<close>

primrec write_all :: "frame_codec \<Rightarrow> RSPMessage list \<Rightarrow> connection \<Rightarrow> bool \<times> connection" where
  "write_all codec [] c = (True, c)"
| "write_all codec (m # ms) c =
     (case writeMessage codec m c of (ok, c) \<Rightarrow> if ok then write_all codec ms c else (False, c))"

definition transmissible :: "frame_codec \<Rightarrow> RSPMessage \<Rightarrow> bool" where
  "transmissible codec m \<longleftrightarrow>
     (case encodePayload codec m of
        None \<Rightarrow> False
      | Some body \<Rightarrow> length body \<le> kMaxFrameLength \<and> decodePayload codec body = Some m)"

lemma writeMessage_True:
  assumes "writeMessage codec m c = (True, c')"
  obtains body where "encodePayload codec m = Some body" "length body \<le> kMaxFrameLength"
    "outbound c' = outbound c @ frame codec body"
  using assms
  by (fastforce simp: writeMessage_def frame_def split: option.splits if_splits prod.splits bool.splits
      dest!: sendAll_True)

lemma write_all_True:
  "write_all codec ms c = (True, c') \<Longrightarrow> list_all (transmissible codec) ms \<Longrightarrow>
   outbound c' = outbound c @ concat (map (\<lambda>m. frame codec (the (encodePayload codec m))) ms)"
proof (induction ms arbitrary: c)
  case (Cons m ms)
  obtain c1 where w: "writeMessage codec m c = (True, c1)" "write_all codec ms c1 = (True, c')"
    using Cons.prems(1) by (auto split: prod.splits if_splits)
  from w(1) show ?case
    by (cases rule: writeMessage_True) (use Cons w(2) in auto)
qed simp

lemma readLoop_frames:
  assumes "list_all (transmissible (enc_codec e)) ms" "enc_running e" "enc_connection e = Some c"
    and "readable c = concat (map (\<lambda>m. frame (enc_codec e) (the (encodePayload (enc_codec e) m))) ms) @ rest"
    and "receivedMessages e = Some q" "queueLimit q = 0"
  shows "\<exists>e' c'. readLoop (length ms) e = (None, e') \<and> enc_running e' \<and>
    enc_connection e' = Some c' \<and> readable c' = rest \<and>
    receivedMessages e' = Some (q\<lparr>messages := messages q @ ms\<rparr>)"
  using assms
proof (induction ms arbitrary: e c q)
  case (Cons m ms)
  let ?codec = "enc_codec e"
  obtain body where b: "encodePayload ?codec m = Some body" "length body \<le> kMaxFrameLength"
    "decodePayload ?codec body = Some m"
    using Cons.prems(1) by (auto simp: transmissible_def split: option.splits)
  obtain c' where c': "readMessage ?codec c = (Some m, c')"
    "readable c' = concat (map (\<lambda>m. frame ?codec (the (encodePayload ?codec m))) ms) @ rest"
    using readMessage_frame [of c ?codec body] Cons.prems(4) b by auto
  define e1 where "e1 = enqueueReceived m (e\<lparr>enc_connection := Some c'\<rparr>)"
  have "readLoop (length (m # ms)) e = readLoop (length ms) e1"
    using Cons.prems(2,3) c'(1) by (simp add: enc_read_def e1_def)
  moreover have "\<exists>e' c'. readLoop (length ms) e1 = (None, e') \<and> enc_running e' \<and>
    enc_connection e' = Some c' \<and> readable c' = rest \<and>
    receivedMessages e' = Some ((q\<lparr>messages := messages q @ [m]\<rparr>)\<lparr>messages := (messages q @ [m]) @ ms\<rparr>)"
    using Cons.IH [of e1 c' "q\<lparr>messages := messages q @ [m]\<rparr>"] Cons.prems c'(2)
    by (simp add: e1_def enqueueReceived_def mq_push_def Let_def)
  ultimately show ?case by simp
qed auto

text \<open>
  C17. Frames survive any segmentation: when both ends use a codec that decodes what it encodes, the
  frames one end writes for a sequence of messages are read by the read loop of the other end, which
  puts exactly these messages, in order, on its (unbounded) queue, and keeps running.
\<close>

theorem frames_roundtrip:
  assumes "list_all (transmissible codec) ms" "write_all codec ms w = (True, w')" "outbound w = []"
    and "readable c = outbound w'" "queueLimit q = 0"
    and "e = (Encoding_new codec (Some c) (Some q) kp)\<lparr>enc_running := True\<rparr>"
  shows "\<exists>e'. readLoop (length ms) e = (None, e') \<and> enc_running e' \<and>
    receivedMessages e' = Some (q\<lparr>messages := messages q @ ms\<rparr>)"
  using readLoop_frames [of e ms c "[]" q] write_all_True [OF assms(2,1)] assms
  by (auto simp: Encoding_new_def)

definition sample_codec :: frame_codec where
  "sample_codec = ProtobufEncoding (\<lambda>m. Some ''ping'') (\<lambda>b. if b = ''ping'' then Some sample_message else None)"

definition bytewise :: "bytes \<Rightarrow> connection" where
  "bytewise bs = \<lparr>inbound = map (\<lambda>b. [b]) bs, outbound = [], accepts = replicate 100 1,
     negotiatedEncoding = None, closed = False\<rparr>"

lemma readable_bytewise [simp]: "readable (bytewise bs) = bs"
  by (induction bs) (simp_all add: bytewise_def readable_def)

theorem frames_roundtrip_witness:
  "\<exists>w' e'. write_all sample_codec [sample_message] (bytewise []) = (True, w') \<and>
     readLoop 1 ((Encoding_new sample_codec (Some (bytewise (outbound w'))) (Some MessageQueue_new) (None :: nat option))
       \<lparr>enc_running := True\<rparr>) = (None, e') \<and>
     receivedMessages e' = Some (MessageQueue_new\<lparr>messages := [sample_message]\<rparr>)"
proof -
  have "writable (8 + length ''ping'' + 0) (bytewise [])"
    by (simp add: writable_def bytewise_def list_all_iff)
  then obtain w' where w: "write_all sample_codec [sample_message] (bytewise []) = (True, w')"
    using writeMessage_frame [of sample_codec sample_message "''ping''" 0 "bytewise []"]
    by (auto simp: sample_codec_def ProtobufEncoding_def kMaxFrameLength_def)
  have t: "list_all (transmissible sample_codec) [sample_message]"
    by (simp add: transmissible_def sample_codec_def ProtobufEncoding_def kMaxFrameLength_def)
  have o: "outbound (bytewise []) = []"
    by (simp add: bytewise_def)
  have "\<exists>e'. readLoop (length [sample_message]) ((Encoding_new sample_codec (Some (bytewise (outbound w')))
      (Some MessageQueue_new) (None :: nat option))\<lparr>enc_running := True\<rparr>) = (None, e') \<and> enc_running e' \<and>
      receivedMessages e' = Some (MessageQueue_new\<lparr>messages := messages MessageQueue_new @ [sample_message]\<rparr>)"
    by (rule frames_roundtrip [OF t w o readable_bytewise _ refl]) (simp add: MessageQueue_new_def)
  moreover have "messages MessageQueue_new = []" "length [sample_message] = 1"
    by (simp_all add: MessageQueue_new_def)
  ultimately show ?thesis
    using w by (metis append_Nil)
qed

end
