(* ===== verification/Ascii_Handshake.thy ===== *)
theory Ascii_Handshake
  imports Encoding
begin

text \<open>
  \<^verbatim>\<open>src/common/message_queue/mq_ascii_handshake.cpp\<close>: the text exchange in which a server offers its
  encodings and a client selects one, and the two queues that run it. The handlers' callbacks are set;
  a handler is given a connection (a null pointer is \<^const>\<open>None\<close>) and returns the call it makes.
\<close>

section \<open>Text messages\<close>

definition crlf :: string where
  "crlf = [CHR 0x0D, CHR 0x0A]"

definition kMaxHandshakeBytes :: nat where
  "kMaxHandshakeBytes = 4096"

definition terminated :: "string \<Rightarrow> bool" where
  "terminated message \<longleftrightarrow> length message \<ge> 4 \<and> drop (length message - 4) message = crlf @ crlf"

text \<open>The loop of \<^verbatim>\<open>receiveMessage\<close>; the first argument is the number of bytes the message may still grow by.\<close>

primrec receive_loop :: "nat \<Rightarrow> string \<Rightarrow> connection \<Rightarrow> string option \<times> connection" where
  "receive_loop 0 message c = (None, c)"
| "receive_loop (Suc n) message c =
     (case readExact 1 c of
        (None, c) \<Rightarrow> (None, c)
      | (Some byte, c) \<Rightarrow>
          let message = message @ byte
          in if terminated message then (Some message, c) else receive_loop n message c)"

definition receiveMessage :: "connection \<Rightarrow> string option \<times> connection" where
  "receiveMessage c = receive_loop kMaxHandshakeBytes [] c"

definition is_blank :: "char \<Rightarrow> bool" where
  "is_blank ch \<longleftrightarrow> ch = CHR '' '' \<or> ch = CHR 0x09"

definition trim :: "string \<Rightarrow> string" where
  "trim value = rev (dropWhile is_blank (rev (dropWhile is_blank value)))"

text \<open>The text before and after the first line end.\<close>

fun split_line :: "string \<Rightarrow> (string \<times> string) option" where
  "split_line (a # b # r) =
     (if a = CHR 0x0D \<and> b = CHR 0x0A then Some ([], r) else map_option (apfst (Cons a)) (split_line (b # r)))"
| "split_line _ = None"

lemma split_line_length: "split_line s = Some (l, r) \<Longrightarrow> length r < length s"
  by (induction s arbitrary: l r rule: split_line.induct) (fastforce split: if_splits)+

function headerValue :: "string \<Rightarrow> string \<Rightarrow> string" where
  "headerValue message key =
     (case split_line message of
        None \<Rightarrow> []
      | Some (line, rest) \<Rightarrow>
          if line = [] then []
          else if prefix key line then trim (drop (length key) line)
          else headerValue rest key)"
  by pat_completeness auto
termination
  by (relation "measure (length \<circ> fst)") (auto simp: split_line_length)

declare headerValue.simps [simp del]

definition serverAdvertisement :: string where
  "serverAdvertisement =
     ''RSP version '' @ ''0.1'' @ crlf @ ''encodings:protobuf,json'' @ crlf @ ''asymmetric: P256'' @ crlf @ crlf"

definition clientSelection :: "string \<Rightarrow> string" where
  "clientSelection encoding = ''encoding:'' @ encoding @ crlf @ crlf"

definition successResponse :: "string \<Rightarrow> string" where
  "successResponse encoding = ''1success: encoding:'' @ encoding @ crlf @ crlf"

definition errorResponse :: "string \<Rightarrow> string" where
  "errorResponse message = ''0error: '' @ message @ crlf @ crlf"

section \<open>The exchange\<close>

definition performServerHandshake :: "connection \<Rightarrow> string option \<times> connection" where
  "performServerHandshake c =
     (case sendAll serverAdvertisement c of
        (False, c) \<Rightarrow> (None, c)
      | (True, c) \<Rightarrow>
          (case receiveMessage c of
             (None, c) \<Rightarrow> (None, c)
           | (Some clientMessage, c) \<Rightarrow>
               let selectedEncoding = headerValue clientMessage ''encoding:''
               in if selectedEncoding \<noteq> ''protobuf'' \<and> selectedEncoding \<noteq> ''json''
                  then (None, conn_close (snd (sendAll (errorResponse ''unsupported encoding'') c)))
                  else (case sendAll (successResponse selectedEncoding) c of
                          (False, c) \<Rightarrow> (None, c)
                        | (True, c) \<Rightarrow> (Some selectedEncoding, c))))"

definition performClientHandshake :: "connection \<Rightarrow> string \<Rightarrow> string option \<times> connection" where
  "performClientHandshake c requestedEncoding =
     (case receiveMessage c of
        (None, c) \<Rightarrow> (None, c)
      | (Some serverMessage, c) \<Rightarrow>
          (case sendAll (clientSelection requestedEncoding) c of
             (False, c) \<Rightarrow> (None, c)
           | (True, c) \<Rightarrow>
               (case receiveMessage c of
                  (None, c) \<Rightarrow> (None, c)
                | (Some serverResult, c) \<Rightarrow>
                    if serverResult = [] \<or> hd serverResult \<noteq> CHR ''1'' then (None, c)
                    else
                      let successPrefix = ''1success: encoding:''
                      in if \<not> prefix successPrefix serverResult then (None, c)
                         else (Some (drop (length successPrefix)
                                 (case split_line serverResult of Some (line, rest) \<Rightarrow> line | None \<Rightarrow> serverResult)), c))))"

text \<open>The two codecs the process has are parameters; so is whether duplicating the key throws.\<close>

record codecs =
  protobufEncoding :: frame_codec
  jsonEncoding :: frame_codec

definition createEncodingForConnection :: "'k openssl \<Rightarrow> codecs \<Rightarrow> connection \<Rightarrow> RSPMessage MessageQueue option \<Rightarrow>
    'k KeyPair \<Rightarrow> 'k Encoding option result" where
  "createEncodingForConnection lib cs c received kp =
     (case negotiatedEncoding c of
        None \<Rightarrow> Inr None
      | Some selected \<Rightarrow>
          if selected = ''protobuf''
          then res_bind (KeyPair_duplicate lib kp)
                 (\<lambda>own. Inr (Some (Encoding_new (protobufEncoding cs) (Some c) received own)))
          else if selected = ''json''
          then res_bind (KeyPair_duplicate lib kp)
                 (\<lambda>own. Inr (Some (Encoding_new (jsonEncoding cs) (Some c) received own)))
          else Inr None)"

datatype 'k handshake_end = Handshake_ignored | Handshake_success "'k Encoding" | Handshake_failure "connection option"

text \<open>\<^verbatim>\<open>MessageQueueAsciiHandshakeServer::handleMessage\<close>; a failed connection is closed.\<close>

definition HandshakeServer_handle :: "'k openssl \<Rightarrow> codecs \<Rightarrow> RSPMessage MessageQueue option \<Rightarrow> 'k KeyPair \<Rightarrow>
    connection option \<Rightarrow> 'k handshake_end result" where
  "HandshakeServer_handle lib cs received kp transport =
     (case transport of
        None \<Rightarrow> Inr Handshake_ignored
      | Some c \<Rightarrow>
          (case performServerHandshake c of
             (None, c) \<Rightarrow> Inr (Handshake_failure (Some (conn_close c)))
           | (Some selectedEncoding, c) \<Rightarrow>
               res_bind (setNegotiatedEncoding selectedEncoding c) (\<lambda>c.
               res_bind (createEncodingForConnection lib cs c received kp) (\<lambda>newEncoding.
               (case newEncoding of
                  None \<Rightarrow> Inr (Handshake_failure (Some (conn_close c)))
                | Some e \<Rightarrow> Inr (Handshake_success e))))))"

text \<open>
  \<^verbatim>\<open>MessageQueueAsciiHandshakeClient::handleMessage\<close>: a transport may be null or have no connection;
  stopping the transport closes its connection.
\<close>

definition HandshakeClient_handle :: "'k openssl \<Rightarrow> codecs \<Rightarrow> RSPMessage MessageQueue option \<Rightarrow> 'k KeyPair \<Rightarrow>
    string \<Rightarrow> connection option option \<Rightarrow> 'k handshake_end result" where
  "HandshakeClient_handle lib cs received kp requestedEncoding transport =
     (case transport of
        None \<Rightarrow> Inr Handshake_ignored
      | Some None \<Rightarrow> Inr (Handshake_failure None)
      | Some (Some c) \<Rightarrow>
          (case performClientHandshake c requestedEncoding of
             (selected, c) \<Rightarrow>
               if selected \<noteq> Some requestedEncoding then Inr (Handshake_failure (Some (conn_close c)))
               else
                 res_bind (setNegotiatedEncoding requestedEncoding c) (\<lambda>c.
                 res_bind (createEncodingForConnection lib cs c received kp) (\<lambda>newEncoding.
                 (case newEncoding of
                    None \<Rightarrow> Inr (Handshake_failure (Some (conn_close c)))
                  | Some e \<Rightarrow> Inr (Handshake_success e))))))"

section \<open>Lemmas\<close>

text \<open>The text ends with the terminator, which occurs nowhere before.\<close>

fun ends_once :: "string \<Rightarrow> bool" where
  "ends_once [] = False"
| "ends_once (a # s) = (if take 4 (a # s) = crlf @ crlf then s = tl (crlf @ crlf) else ends_once s)"

lemma ends_once_occurs:
  "ends_once s \<Longrightarrow> take 4 (drop j s) = crlf @ crlf \<Longrightarrow> j + 4 = length s"
proof (induction s arbitrary: j)
  case (Cons a s)
  show ?case
  proof (cases "take 4 (a # s) = crlf @ crlf")
    case True
    then have s: "a # s = crlf @ crlf" using Cons.prems(1) by (cases s) (auto simp: crlf_def)
    then have "j = 0" using Cons.prems(2) by (cases j) (auto simp: crlf_def dest: arg_cong [of _ _ length])
    then show ?thesis using arg_cong [OF s, of length] by (simp add: crlf_def)
  next
    case False
    then show ?thesis using Cons by (cases j) auto
  qed
qed (simp add: crlf_def)

lemma ends_once_terminated: "ends_once s \<Longrightarrow> terminated s"
proof (induction s)
  case (Cons a s)
  show ?case
  proof (cases "take 4 (a # s) = crlf @ crlf")
    case True
    then have "a # s = crlf @ crlf" using Cons.prems by (cases s) (auto simp: crlf_def)
    then show ?thesis by (simp add: terminated_def crlf_def)
  next
    case False
    then have t: "4 \<le> length s" "drop (length s - 4) s = crlf @ crlf"
      using Cons by (auto simp: terminated_def)
    then have "length (a # s) - 4 = Suc (length s - 4)" by simp
    with t show ?thesis
      unfolding terminated_def by (simp del: length_Cons)
  qed
qed simp

definition one_message :: "string \<Rightarrow> bool" where
  "one_message s \<longleftrightarrow> ends_once s \<and> length s \<le> kMaxHandshakeBytes"

lemma one_message_not_before: "one_message s \<Longrightarrow> k < length s \<Longrightarrow> \<not> terminated (take k s)"
proof
  assume s: "one_message s" "k < length s" and t: "terminated (take k s)"
  then have "take 4 (drop (k - 4) s) = crlf @ crlf" "4 \<le> k"
    by (auto simp: terminated_def drop_take min_def)
  then show False
    using ends_once_occurs [of s "k - 4"] s by (simp add: one_message_def)
qed

lemma receive_loop_message:
  assumes "terminated (acc @ s)" "s \<noteq> []" "length s \<le> n" "readable c = s @ rest"
    and "\<And>k. k < length s \<Longrightarrow> 0 < k \<Longrightarrow> \<not> terminated (acc @ take k s)"
  shows "\<exists>c'. receive_loop n acc c = (Some (acc @ s), c') \<and> readable c' = rest \<and> same_channel c c'"
  using assms
proof (induction s arbitrary: acc n c)
  case (Cons b s)
  obtain n' where n: "n = Suc n'" using Cons.prems(3) by (cases n) auto
  obtain c1 where c1: "readExact 1 c = (Some [b], c1)" "readable c1 = s @ rest" "same_channel c c1"
    using readExact_ok [of 1 c] Cons.prems(4) by auto
  show ?case
  proof (cases "s = []")
    case True
    then show ?thesis using Cons.prems(1) n c1 by (simp del: One_nat_def)
  next
    case False
    have "\<not> terminated (acc @ [b])"
      using Cons.prems(5) [of 1] False by simp
    moreover have "\<exists>c'. receive_loop n' (acc @ [b]) c1 = (Some ((acc @ [b]) @ s), c') \<and> readable c' = rest \<and> same_channel c1 c'"
      using Cons.prems(1,3) Cons.prems(5) [of "Suc _"] False n c1 by (intro Cons.IH) auto
    ultimately show ?thesis
      using n c1 same_channel_trans by (auto simp del: One_nat_def)
  qed
qed simp

lemma receiveMessage_message:
  assumes "one_message s" "readable c = s @ rest"
  shows "\<exists>c'. receiveMessage c = (Some s, c') \<and> readable c' = rest \<and> same_channel c c'"
  unfolding receiveMessage_def
  using receive_loop_message [of "[]" s kMaxHandshakeBytes c rest] assms one_message_not_before [OF assms(1)]
    ends_once_terminated [of s]
  by (cases s) (auto simp: one_message_def)

lemma handshake_texts:
  "one_message serverAdvertisement"
  "one_message (clientSelection ''protobuf'')" "one_message (clientSelection ''json'')"
  "one_message (successResponse ''protobuf'')" "one_message (successResponse ''json'')"
  by (simp_all add: one_message_def serverAdvertisement_def clientSelection_def successResponse_def
      kMaxHandshakeBytes_def crlf_def)

lemma handshake_headers:
  "headerValue (clientSelection ''protobuf'') ''encoding:'' = ''protobuf''"
  "headerValue (clientSelection ''json'') ''encoding:'' = ''json''"
  "\<exists>r. split_line (successResponse ''protobuf'') = Some (''1success: encoding:protobuf'', r)"
  "\<exists>r. split_line (successResponse ''json'') = Some (''1success: encoding:json'', r)"
  "prefix ''1success: encoding:'' (successResponse e)" "hd (successResponse e) = CHR ''1''" "successResponse e \<noteq> []"
  by (subst headerValue.simps, simp add: clientSelection_def crlf_def trim_def is_blank_def)+
     (simp_all add: successResponse_def crlf_def)

definition supported :: "string \<Rightarrow> bool" where
  "supported e \<longleftrightarrow> e = ''protobuf'' \<or> e = ''json''"

lemma supported_texts:
  assumes "supported enc"
  shows "one_message (clientSelection enc)" "one_message (successResponse enc)"
    "headerValue (clientSelection enc) ''encoding:'' = enc"
    "\<exists>r. split_line (successResponse enc) = Some (''1success: encoding:'' @ enc, r)"
  using assms handshake_texts handshake_headers(1-4) unfolding supported_def by auto

lemma performServerHandshake_ok:
  assumes "supported enc" "readable s = clientSelection enc @ rest"
    and "writable (length serverAdvertisement + length (successResponse enc)) s"
  shows "\<exists>s'. performServerHandshake s = (Some enc, s') \<and> readable s' = rest \<and>
    outbound s' = outbound s @ serverAdvertisement @ successResponse enc \<and>
    negotiatedEncoding s' = negotiatedEncoding s"
proof -
  obtain s1 where s1: "sendAll serverAdvertisement s = (True, s1)" "outbound s1 = outbound s @ serverAdvertisement"
    "writable (length (successResponse enc)) s1" "readable s1 = readable s" "negotiatedEncoding s1 = negotiatedEncoding s"
    using sendAll_ready [OF assms(3)] by blast
  obtain s2 where s2: "receiveMessage s1 = (Some (clientSelection enc), s2)" "readable s2 = rest" "same_channel s1 s2"
    using receiveMessage_message [OF supported_texts(1) [OF assms(1)]] s1(4) assms(2) by metis
  have w: "writable (length (successResponse enc) + 0) s2"
    using s1(3) writable_same_channel [OF s2(3)] by simp
  obtain s3 where s3: "sendAll (successResponse enc) s2 = (True, s3)"
    "outbound s3 = outbound s2 @ successResponse enc" "readable s3 = readable s2"
    "negotiatedEncoding s3 = negotiatedEncoding s2"
    using sendAll_ready [OF w] by blast
  have "outbound s2 = outbound s1" "negotiatedEncoding s2 = negotiatedEncoding s1" "\<not> (enc \<noteq> ''protobuf'' \<and> enc \<noteq> ''json'')"
    using s2(3) assms(1) by (auto simp: same_channel_def supported_def)
  then show ?thesis
    unfolding performServerHandshake_def
    using s1 s2 s3 supported_texts(3) [OF assms(1)] by (simp add: Let_def del: de_Morgan_conj)
qed

lemma performClientHandshake_ok:
  assumes "supported enc" "readable c = serverAdvertisement @ successResponse enc @ rest"
    and "writable (length (clientSelection enc)) c"
  shows "\<exists>c'. performClientHandshake c enc = (Some enc, c') \<and> readable c' = rest \<and>
    outbound c' = outbound c @ clientSelection enc"
proof -
  obtain c1 where c1: "receiveMessage c = (Some serverAdvertisement, c1)"
    "readable c1 = successResponse enc @ rest" "same_channel c c1"
    using receiveMessage_message [OF handshake_texts(1) assms(2)] by blast
  have w: "writable (length (clientSelection enc) + 0) c1"
    using assms(3) writable_same_channel [OF c1(3)] by simp
  obtain c2 where c2: "sendAll (clientSelection enc) c1 = (True, c2)"
    "outbound c2 = outbound c1 @ clientSelection enc" "readable c2 = readable c1"
    using sendAll_ready [OF w] by blast
  obtain c3 where c3: "receiveMessage c2 = (Some (successResponse enc), c3)" "readable c3 = rest" "same_channel c2 c3"
    using receiveMessage_message [OF supported_texts(2) [OF assms(1)]] c1(2) c2(3) by metis
  obtain r where r: "split_line (successResponse enc) = Some (''1success: encoding:'' @ enc, r)"
    using supported_texts(4) [OF assms(1)] by blast
  have "outbound c3 = outbound c @ clientSelection enc"
    using c1(3) c2(2) c3(3) by (simp add: same_channel_def)
  then show ?thesis
    unfolding performClientHandshake_def
    using c1(1) c2(1) c3(1,2) r handshake_headers(5-7) [of enc] by (simp add: Let_def)
qed

text \<open>
  C18. The two sides of the handshake meet. When the client asks for an encoding the server supports,
  each side, reading what the other writes in any segmentation, ends with that encoding, and neither
  consumes a byte of what follows the handshake: the first frame is left for the encoding to read.
\<close>

theorem handshake_agreement:
  assumes "supported enc"
    and "readable s = clientSelection enc @ afterClient"
    and "writable (length serverAdvertisement + length (successResponse enc)) s"
    and "readable c = serverAdvertisement @ successResponse enc @ afterServer"
    and "writable (length (clientSelection enc)) c"
  shows "(\<exists>s'. performServerHandshake s = (Some enc, s') \<and> readable s' = afterClient \<and>
      outbound s' = outbound s @ serverAdvertisement @ successResponse enc) \<and>
    (\<exists>c'. performClientHandshake c enc = (Some enc, c') \<and> readable c' = afterServer \<and>
      outbound c' = outbound c @ clientSelection enc)"
  using performServerHandshake_ok [OF assms(1-3)] performClientHandshake_ok [OF assms(1,4,5)] by blast

theorem handshake_agreement_witness:
  "\<exists>s' c'. performServerHandshake (bytewise (clientSelection ''json'' @ ''frame'')\<lparr>accepts := replicate 200 7\<rparr>) = (Some ''json'', s') \<and>
     performClientHandshake (bytewise (serverAdvertisement @ successResponse ''json'')\<lparr>accepts := replicate 200 7\<rparr>) ''json'' =
       (Some ''json'', c') \<and> readable s' = ''frame''"
proof -
  have r: "readable (bytewise bs\<lparr>accepts := as\<rparr>) = bs" for bs as
    using readable_bytewise [of bs] by (simp add: readable_def bytewise_def)
  have l: "length serverAdvertisement = 62" "length (successResponse ''json'') = 27" "length (clientSelection ''json'') = 17"
    by (simp_all add: serverAdvertisement_def successResponse_def clientSelection_def crlf_def)
  have w: "n \<le> 200 \<Longrightarrow> writable n (bytewise bs\<lparr>accepts := replicate 200 7\<rparr>)" for n bs
    by (simp add: writable_def bytewise_def list_all_iff)
  show ?thesis
    using handshake_agreement [of "''json''" "bytewise (clientSelection ''json'' @ ''frame'')\<lparr>accepts := replicate 200 7\<rparr>"
        "''frame''" "bytewise (serverAdvertisement @ successResponse ''json'')\<lparr>accepts := replicate 200 7\<rparr>" "[]"]
    by (simp only: r l w supported_def simp_thms append_Nil2 le_refl append_assoc)
       (use w l in \<open>force simp del: One_nat_def\<close>)
qed



end
