(* ===== verification/Identity_Cache.thy ===== *)
theory Identity_Cache
  imports Message_Hash Std_Map
begin

text \<open>
  \<^verbatim>\<open>class IdentityCache\<close> of \<^verbatim>\<open>src/common/node.cpp\<close>: the public keys of the nodes a process has heard
  from, bounded, with the least recently observed entry evicted first. A node identifier is the hash of
  a public key, so an entry proves itself. Observers are values of a type of their own; an operation
  that notifies returns the calls it makes.
\<close>

section \<open>Node identifiers and identities\<close>

definition toProtoNodeId :: "nodeid \<Rightarrow> NodeId" where
  "toProtoNodeId n = native_u64_bytes (high n) @ native_u64_bytes (low n)"

lemma length_toProtoNodeId [simp]: "length (toProtoNodeId n) = 16"
  by (cases n) (simp add: toProtoNodeId_def)

lemma nodeIdFromSourceField_toProtoNodeId [simp]: "nodeIdFromSourceField (toProtoNodeId n) = Some n"
  by (cases n) (simp add: toProtoNodeId_def nodeIdFromSourceField_def native_u64.dec_enc)

definition nodeIdFromIdentity :: "'k openssl \<Rightarrow> Identity \<Rightarrow> nodeid option" where
  "nodeIdFromIdentity lib i =
     (case res_bind (fromPublicKey lib (public_key_or_default i)) (\<lambda>key. nodeID lib key) of
        Inl e \<Rightarrow> None
      | Inr n \<Rightarrow> Some n)"

definition sanitizedIdentityForCache :: "Identity \<Rightarrow> Identity" where
  "sanitizedIdentityForCache i = \<lparr>id_nonce = None, public_key = Some (public_key_or_default i), boot_id = None\<rparr>"

lemma nodeIdFromIdentity_sanitized [simp]:
  "nodeIdFromIdentity lib (sanitizedIdentityForCache i) = nodeIdFromIdentity lib i"
  by (simp add: nodeIdFromIdentity_def sanitizedIdentityForCache_def public_key_or_default_def)

section \<open>The cache\<close>

record 'cb IdentityCache =
  maximumEntries :: nat
  localNodeId :: "nodeid option"
  nextIdentityObservedCallbackToken :: u64
  identityObservedCallbacks :: "(u64, 'cb) std_map"
  usageOrder :: "nodeid list"
  entries :: "(nodeid, Identity) std_map"

definition IdentityCache_new :: "nodeid \<Rightarrow> nat \<Rightarrow> 'cb IdentityCache" where
  "IdentityCache_new n maxEntries =
     \<lparr>maximumEntries = maxEntries, localNodeId = Some n, nextIdentityObservedCallbackToken = 1,
      identityObservedCallbacks = [], usageOrder = [], entries = []\<rparr>"

text \<open>\<^verbatim>\<open>trimToLimitLocked\<close>; \<^verbatim>\<open>back()\<close> of an empty list has no meaning.\<close>

function trimToLimitLocked :: "'cb IdentityCache \<Rightarrow> 'cb IdentityCache result" where
  "trimToLimitLocked c =
     (if smap_size (entries c) \<le> maximumEntries c then Inr c
      else if usageOrder c = [] then Inl (Undefined ''back of an empty list'')
      else trimToLimitLocked
             (c\<lparr>usageOrder := butlast (usageOrder c), entries := smap_erase (last (usageOrder c)) (entries c)\<rparr>))"
  by pat_completeness auto
termination
  by (relation "measure (length \<circ> usageOrder)") auto

declare trimToLimitLocked.simps [simp del]

definition cacheIdentity :: "'k openssl \<Rightarrow> Identity \<Rightarrow> nodeid option \<Rightarrow> 'cb IdentityCache \<Rightarrow>
    (bool \<times> ('cb \<times> nodeid) list \<times> 'cb IdentityCache) result" where
  "cacheIdentity lib i sourceNodeId c =
     (case nodeIdFromIdentity lib i of
        None \<Rightarrow> Inr (False, [], c)
      | Some derived \<Rightarrow>
          let cachedIdentity = sanitizedIdentityForCache i
          in if sourceNodeId \<noteq> None \<and> sourceNodeId \<noteq> Some derived then Inr (False, [], c)
             else
               res_bind
                 (case smap_find (entries c) derived of
                    Some old \<Rightarrow>
                      Inr (c\<lparr>usageOrder := derived # remove1 derived (usageOrder c),
                             entries := smap_set derived cachedIdentity (entries c)\<rparr>)
                  | None \<Rightarrow>
                      trimToLimitLocked
                        (c\<lparr>usageOrder := derived # usageOrder c,
                           entries := smap_set derived cachedIdentity (entries c)\<rparr>))
                 (\<lambda>c. Inr (True, map (\<lambda>(token, cb). (cb, derived)) (identityObservedCallbacks c), c)))"

primrec cache_all :: "'k openssl \<Rightarrow> nodeid option \<Rightarrow> Identity list \<Rightarrow> 'cb IdentityCache \<Rightarrow>
    (bool \<times> ('cb \<times> nodeid) list \<times> 'cb IdentityCache) result" where
  "cache_all lib src [] c = Inr (False, [], c)"
| "cache_all lib src (i # is) c =
     res_bind (cacheIdentity lib i src c) (\<lambda>(b, ns, c).
     res_bind (cache_all lib src is c) (\<lambda>(b', ns', c). Inr (b \<or> b', ns @ ns', c)))"

definition IdentityCache_observeMessage :: "'k openssl \<Rightarrow> RSPMessage \<Rightarrow> 'cb IdentityCache \<Rightarrow>
    (bool \<times> ('cb \<times> nodeid) list \<times> 'cb IdentityCache) result" where
  "IdentityCache_observeMessage lib m c =
     cache_all lib (senderNodeIdFromMessage m)
       ((case core m of identity i \<Rightarrow> [i] | _ \<Rightarrow> []) @ identities m) c"

text \<open>
  \<^verbatim>\<open>sendChallengeRequest\<close>: the nonce is 16 random bytes, here two words; \<^verbatim>\<open>send\<close> is the callback of the
  cache, or null, with its answer.
\<close>

definition randomChallengeNonce :: "u64 \<Rightarrow> u64 \<Rightarrow> bytes" where
  "randomChallengeNonce r s = native_u64_bytes r @ native_u64_bytes s"

definition sendChallengeRequest :: "(RSPMessage \<Rightarrow> bool) option \<Rightarrow> u64 \<Rightarrow> u64 \<Rightarrow> nodeid \<Rightarrow> 'cb IdentityCache \<Rightarrow>
    RSPMessage option \<times> bool" where
  "sendChallengeRequest send r s n c =
     (case (send, localNodeId c) of
        (Some f, Some local) \<Rightarrow>
          let m = RSPMessage_default\<lparr>source := Some (toProtoNodeId local), destination := Some (toProtoNodeId n),
                    core := challenge_request \<lparr>challenge_nonce = Some (randomChallengeNonce r s)\<rparr>\<rparr>
          in (Some m, f m)
      | _ \<Rightarrow> (None, False))"

text \<open>A null callback is not registered and gets the token 0.\<close>

definition addIdentityObservedCallback :: "'cb option \<Rightarrow> 'cb IdentityCache \<Rightarrow> u64 \<times> 'cb IdentityCache" where
  "addIdentityObservedCallback callback c =
     (case callback of
        None \<Rightarrow> (0, c)
      | Some cb \<Rightarrow>
          let token = nextIdentityObservedCallbackToken c
          in (token, c\<lparr>nextIdentityObservedCallbackToken := token + 1,
                       identityObservedCallbacks := smap_set token cb (identityObservedCallbacks c)\<rparr>))"

definition removeIdentityObservedCallback :: "u64 \<Rightarrow> 'cb IdentityCache \<Rightarrow> bool \<times> 'cb IdentityCache" where
  "removeIdentityObservedCallback token c =
     (smap_find (identityObservedCallbacks c) token \<noteq> None,
      c\<lparr>identityObservedCallbacks := smap_erase token (identityObservedCallbacks c)\<rparr>)"

definition IdentityCache_get :: "nodeid \<Rightarrow> 'cb IdentityCache \<Rightarrow> Identity option" where
  "IdentityCache_get n c = smap_find (entries c) n"

definition IdentityCache_contains :: "nodeid \<Rightarrow> 'cb IdentityCache \<Rightarrow> bool" where
  "IdentityCache_contains n c \<longleftrightarrow> smap_find (entries c) n \<noteq> None"

definition setMaximumEntries :: "nat \<Rightarrow> 'cb IdentityCache \<Rightarrow> 'cb IdentityCache result" where
  "setMaximumEntries n c = trimToLimitLocked (c\<lparr>maximumEntries := n\<rparr>)"

section \<open>The invariant\<close>

definition order_ok :: "'cb IdentityCache \<Rightarrow> bool" where
  "order_ok c \<longleftrightarrow> smap_ok (entries c) \<and> distinct (usageOrder c) \<and> set (usageOrder c) = fst ` set (entries c)"

definition cache_ok :: "'k openssl \<Rightarrow> 'cb IdentityCache \<Rightarrow> bool" where
  "cache_ok lib c \<longleftrightarrow> order_ok c \<and> smap_size (entries c) \<le> maximumEntries c \<and>
     list_all (\<lambda>(n, i). nodeIdFromIdentity lib i = Some n) (entries c)"

lemma order_ok_size: "order_ok c \<Longrightarrow> smap_size (entries c) = length (usageOrder c)"
  by (metis distinct_card distinct_map length_map list.set_map order_ok_def smap_ok_distinct smap_size_def)

lemma order_ok_evict:
  assumes "order_ok c" "usageOrder c \<noteq> []"
  shows "order_ok (c\<lparr>usageOrder := butlast (usageOrder c), entries := smap_erase (last (usageOrder c)) (entries c)\<rparr>)"
proof -
  obtain xs x where "usageOrder c = xs @ [x]"
    using assms(2) by (cases "usageOrder c" rule: rev_cases) auto
  moreover have "fst ` set (smap_erase k (entries c)) = fst ` set (entries c) - {k}" for k
    by (auto simp: smap_erase_def)
  ultimately show ?thesis
    using assms(1) by (auto simp: order_ok_def)
qed

lemma trimToLimitLocked_ok:
  "order_ok c \<Longrightarrow> \<exists>c'. trimToLimitLocked c = Inr c' \<and> order_ok c' \<and> smap_size (entries c') \<le> maximumEntries c' \<and>
     set (entries c') \<subseteq> set (entries c) \<and> usageOrder c' = take (maximumEntries c) (usageOrder c) \<and>
     maximumEntries c' = maximumEntries c \<and> identityObservedCallbacks c' = identityObservedCallbacks c"
proof (induction c rule: trimToLimitLocked.induct)
  case (1 c)
  show ?case
  proof (cases "smap_size (entries c) \<le> maximumEntries c")
    case True
    then show ?thesis
      using 1(2) order_ok_size [OF 1(2)] by (simp add: trimToLimitLocked.simps [of c])
  next
    case False
    then have ne: "usageOrder c \<noteq> []" and l: "maximumEntries c \<le> length (usageOrder c) - 1"
      using order_ok_size [OF 1(2)] by auto
    let ?c = "c\<lparr>usageOrder := butlast (usageOrder c), entries := smap_erase (last (usageOrder c)) (entries c)\<rparr>"
    obtain c' where c': "trimToLimitLocked ?c = Inr c'" "order_ok c'" "smap_size (entries c') \<le> maximumEntries c'"
      "set (entries c') \<subseteq> set (entries ?c)" "usageOrder c' = take (maximumEntries ?c) (usageOrder ?c)"
      "maximumEntries c' = maximumEntries c" "identityObservedCallbacks c' = identityObservedCallbacks c"
      using 1(1) [OF False ne order_ok_evict [OF 1(2) ne]] by auto
    have "set (entries ?c) \<subseteq> set (entries c)"
      by (auto simp: smap_erase_def)
    then show ?thesis
      using c' False ne l by (subst trimToLimitLocked.simps) (auto simp: butlast_conv_take min_def)
  qed
qed

lemma order_ok_insert:
  assumes "order_ok c" "smap_find (entries c) n = None"
  shows "order_ok (c\<lparr>usageOrder := n # usageOrder c, entries := smap_set n i (entries c)\<rparr>)"
  using assms by (auto simp: order_ok_def set_keys_smap_set smap_find_None_iff)

lemma order_ok_touch:
  assumes "order_ok c" "smap_find (entries c) n = Some j"
  shows "order_ok (c\<lparr>usageOrder := n # remove1 n (usageOrder c), entries := smap_set n i (entries c)\<rparr>)"
proof -
  have "n \<in> fst ` set (entries c)"
    using smap_find_in_set [OF assms(2)] by force
  then show ?thesis
    using assms(1) by (auto simp: order_ok_def set_keys_smap_set)
qed

lemma cacheIdentity_ok:
  assumes "cache_ok lib c"
  shows "\<exists>b ns c'. cacheIdentity lib i src c = Inr (b, ns, c') \<and> cache_ok lib c' \<and> maximumEntries c' = maximumEntries c"
proof (cases "nodeIdFromIdentity lib i")
  case None
  then show ?thesis using assms by (auto simp: cacheIdentity_def)
next
  case (Some n)
  let ?c = "c\<lparr>usageOrder := n # usageOrder c, entries := smap_set n (sanitizedIdentityForCache i) (entries c)\<rparr>"
  let ?t = "c\<lparr>usageOrder := n # remove1 n (usageOrder c), entries := smap_set n (sanitizedIdentityForCache i) (entries c)\<rparr>"
  have self: "list_all (\<lambda>(n, i). nodeIdFromIdentity lib i = Some n) (smap_set n (sanitizedIdentityForCache i) (entries c))"
    using assms set_smap_set_subset [of n "sanitizedIdentityForCache i" "entries c"] Some
    by (fastforce simp: cache_ok_def list_all_iff)
  have order: "order_ok c" using assms by (simp add: cache_ok_def)
  show ?thesis
  proof (cases "smap_find (entries c) n")
    case None
    obtain c' where "trimToLimitLocked ?c = Inr c'" "order_ok c'" "smap_size (entries c') \<le> maximumEntries c'"
      "set (entries c') \<subseteq> set (entries ?c)" "maximumEntries c' = maximumEntries c"
      using trimToLimitLocked_ok [OF order_ok_insert [OF order None, of "sanitizedIdentityForCache i"]] by auto
    moreover from this have "cache_ok lib c'"
      using self by (auto simp: cache_ok_def list_all_iff)
    ultimately show ?thesis
      using Some None assms by (auto simp: cacheIdentity_def Let_def)
  next
    case touch: (Some j)
    have "smap_size (entries ?t) = smap_size (entries c)"
      using smap.count_update [of "entries c" n] touch order by (simp add: order_ok_def)
    then show ?thesis
      using Some touch assms self order_ok_touch [OF order touch]
      by (auto simp: cacheIdentity_def cache_ok_def Let_def)
  qed
qed

lemma cache_all_ok:
  "cache_ok lib c \<Longrightarrow> \<exists>b ns c'. cache_all lib src is c = Inr (b, ns, c') \<and> cache_ok lib c' \<and> maximumEntries c' = maximumEntries c"
proof (induction "is" arbitrary: c)
  case (Cons i "is")
  obtain b ns c1 where 1: "cacheIdentity lib i src c = Inr (b, ns, c1)" "cache_ok lib c1" "maximumEntries c1 = maximumEntries c"
    using cacheIdentity_ok [OF Cons.prems] by blast
  obtain b' ns' c2 where "cache_all lib src is c1 = Inr (b', ns', c2)" "cache_ok lib c2" "maximumEntries c2 = maximumEntries c1"
    using Cons.IH [OF 1(2)] by blast
  with 1 show ?case by auto
qed auto

text \<open>The operations that change a cache, in any order.\<close>

datatype 'cb cache_op =
    Observe RSPMessage
  | Set_maximum nat
  | Add_observer "'cb option"
  | Remove_observer u64

fun cache_step :: "'k openssl \<Rightarrow> 'cb cache_op \<Rightarrow> 'cb IdentityCache \<Rightarrow> 'cb IdentityCache result" where
  "cache_step lib (Observe m) c = res_bind (IdentityCache_observeMessage lib m c) (\<lambda>(b, ns, c). Inr c)"
| "cache_step lib (Set_maximum n) c = setMaximumEntries n c"
| "cache_step lib (Add_observer cb) c = Inr (snd (addIdentityObservedCallback cb c))"
| "cache_step lib (Remove_observer t) c = Inr (snd (removeIdentityObservedCallback t c))"

primrec cache_run :: "'k openssl \<Rightarrow> 'cb cache_op list \<Rightarrow> 'cb IdentityCache \<Rightarrow> 'cb IdentityCache result" where
  "cache_run lib [] c = Inr c"
| "cache_run lib (x # xs) c = res_bind (cache_step lib x c) (cache_run lib xs)"

lemma cache_step_ok: "cache_ok lib c \<Longrightarrow> \<exists>c'. cache_step lib x c = Inr c' \<and> cache_ok lib c'"
proof (cases x)
  case (Observe m)
  assume "cache_ok lib c"
  from cache_all_ok [OF this] Observe show ?thesis
    by (simp add: IdentityCache_observeMessage_def) (metis (no_types, lifting) case_prod_conv res_bind_Inr)
next
  case (Set_maximum n)
  assume c: "cache_ok lib c"
  then have "order_ok (c\<lparr>maximumEntries := n\<rparr>)"
    by (simp add: cache_ok_def order_ok_def)
  from trimToLimitLocked_ok [OF this] c Set_maximum show ?thesis
    by (auto simp: setMaximumEntries_def cache_ok_def list_all_iff subset_iff)
qed (auto simp: cache_ok_def order_ok_def addIdentityObservedCallback_def removeIdentityObservedCallback_def Let_def
    split: option.splits)

text \<open>
  C35. In every sequence of operations the cache stays within its limit, the eviction loop never runs
  out of entries, and every entry proves itself: the key stored for a node identifier is a key with
  that node identifier, whoever sent it.
\<close>

theorem identity_cache_run:
  "\<exists>c. cache_run lib ops (IdentityCache_new n maxEntries) = Inr c \<and>
     smap_size (entries c) \<le> maximumEntries c \<and>
     list_all (\<lambda>(n, i). nodeIdFromIdentity lib i = Some n) (entries c)"
proof -
  have "cache_ok lib c \<Longrightarrow> \<exists>c'. cache_run lib ops c = Inr c' \<and> cache_ok lib c'" for c
  proof (induction ops arbitrary: c)
    case (Cons x ops)
    then show ?case using cache_step_ok [OF Cons.prems, of x] by auto
  qed simp
  moreover have "cache_ok lib (IdentityCache_new n maxEntries)"
    by (simp add: cache_ok_def order_ok_def IdentityCache_new_def smap_size_def)
  ultimately show ?thesis
    by (auto simp: cache_ok_def)
qed

text \<open>
  An accepted identity can be looked up: when the key of an identity has the node identifier the
  message claims as its sender, or the message claims none, its key is stored without the nonce and
  the boot identifier, its node becomes the most recent one, the most recent entries up to the limit
  are kept in their order, and every observer is told. An identity that does not fit the claimed sender
  changes nothing.
\<close>

lemma cacheIdentity_effect:
  assumes "cache_ok lib c" "nodeIdFromIdentity lib i = Some n" "0 < maximumEntries c"
  shows "(src = None \<or> src = Some n \<longrightarrow>
      (\<exists>c'. cacheIdentity lib i src c = Inr (True, map (\<lambda>e. (snd e, n)) (identityObservedCallbacks c), c') \<and>
        IdentityCache_get n c' = Some (sanitizedIdentityForCache i) \<and>
        usageOrder c' = take (maximumEntries c) (n # remove1 n (usageOrder c)))) \<and>
    (src \<noteq> None \<and> src \<noteq> Some n \<longrightarrow> cacheIdentity lib i src c = Inr (False, [], c))"
proof (intro conjI impI)
  assume "src \<noteq> None \<and> src \<noteq> Some n"
  then show "cacheIdentity lib i src c = Inr (False, [], c)"
    using assms(2) by (simp add: cacheIdentity_def)
next
  assume src: "src = None \<or> src = Some n"
  have order: "order_ok c" using assms(1) by (simp add: cache_ok_def)
  have len: "length (usageOrder c) \<le> maximumEntries c"
    using assms(1) order_ok_size [OF order] by (simp add: cache_ok_def)
  have calls: "map (\<lambda>(token, cb). (cb, n)) cbs = map (\<lambda>e. (snd e, n)) cbs" for cbs :: "(u64 \<times> 'b) list"
    by (simp add: case_prod_beta)
  show "\<exists>c'. cacheIdentity lib i src c = Inr (True, map (\<lambda>e. (snd e, n)) (identityObservedCallbacks c), c') \<and>
      IdentityCache_get n c' = Some (sanitizedIdentityForCache i) \<and>
      usageOrder c' = take (maximumEntries c) (n # remove1 n (usageOrder c))"
  proof (cases "smap_find (entries c) n")
    case None
    let ?c = "c\<lparr>usageOrder := n # usageOrder c, entries := smap_set n (sanitizedIdentityForCache i) (entries c)\<rparr>"
    obtain c' where c': "trimToLimitLocked ?c = Inr c'" "order_ok c'" "set (entries c') \<subseteq> set (entries ?c)"
      "usageOrder c' = take (maximumEntries c) (n # usageOrder c)" "identityObservedCallbacks c' = identityObservedCallbacks c"
      using trimToLimitLocked_ok [OF order_ok_insert [OF order None, of "sanitizedIdentityForCache i"]] by auto
    have notin: "n \<notin> set (usageOrder c)"
      using None order by (simp add: order_ok_def smap_find_None_iff)
    have "n \<in> fst ` set (entries c')"
      using c'(2,4) assms(3) by (cases "maximumEntries c") (auto simp: order_ok_def)
    then obtain j where "(n, j) \<in> set (entries c')" by auto
    moreover from this have "smap_find (entries ?c) n = Some j"
      using c'(3) order by (intro smap_in_set_find) (auto simp: order_ok_def)
    ultimately have "smap_find (entries c') n = Some (sanitizedIdentityForCache i)"
      using c'(2) by (auto intro: smap_in_set_find simp: order_ok_def)
    then show ?thesis
      using src None assms(2) c' notin
      by (intro exI [of _ c']) (auto simp: cacheIdentity_def calls IdentityCache_get_def remove1_idem)
  next
    case (Some j)
    have "n \<in> set (usageOrder c)"
      using smap_find_in_set [OF Some] order by (force simp: order_ok_def)
    then have "length (n # remove1 n (usageOrder c)) \<le> maximumEntries c"
      using len assms(3) by (simp add: length_remove1)
    then show ?thesis
      using src Some assms(2) by (auto simp: cacheIdentity_def calls IdentityCache_get_def)
  qed
qed

end
