(* ===== verification/Aes_Negotiation.thy ===== *)
theory Aes_Negotiation
  imports Identity_Cache Message_Queue
begin

text \<open>
  The AES key negotiation of \<^verbatim>\<open>class RSPNode\<close> (\<^verbatim>\<open>src/common/node.cpp\<close>): two nodes agree on a symmetric key
  through a request and a reply that carry ephemeral public keys. Every method takes the mutex of the
  negotiation state, so a method is a function of the node. Times, random bytes and generated keys are
  arguments; the key derivation of the cryptography library is a field of the node.
\<close>

section \<open>State\<close>

record AesNegotiationLimits =
  maxActiveKeys :: nat
  maxPendingNegotiations :: nat
  defaultLifetimeMs :: u64
  minLifetimeMs :: u64
  maxLifetimeMs :: u64
  pendingTimeoutMs :: u64

definition AesNegotiationLimits_default :: AesNegotiationLimits where
  "AesNegotiationLimits_default =
     \<lparr>maxActiveKeys = 64, maxPendingNegotiations = 64, defaultLifetimeMs = 5 * 60 * 1000,
      minLifetimeMs = 1000, maxLifetimeMs = 60 * 60 * 1000, pendingTimeoutMs = 15 * 1000\<rparr>"

record 'k PendingAesNegotiation =
  pend_keyId :: bytes
  ephemeralKeyPair :: "'k KeyPair"
  pend_algorithm :: u32
  requestedLifetimeMs :: u64
  pend_expiresAt :: datetime

record ActiveAesKey =
  act_keyId :: bytes
  keyMaterial :: bytes
  act_algorithm :: u32
  act_expiresAt :: datetime

record 'k AesNegotiationState =
  limits :: AesNegotiationLimits
  pendingByPeer :: "(nodeid, 'k PendingAesNegotiation) std_map"
  activeByPeer :: "(nodeid, ActiveAesKey) std_map"

text \<open>
  The part of a node the negotiation uses. \<^verbatim>\<open>keyNodeID\<close> is the value of \<^verbatim>\<open>keyPair_.nodeID()\<close>, which the
  constructor computes and no method changes; \<^verbatim>\<open>EVP_PKEY_derive\<close> is the shared secret of a private and a
  public key.
\<close>

record 'k node_base =
  node_openssl :: "'k openssl"
  EVP_PKEY_derive :: "'k \<Rightarrow> 'k \<Rightarrow> bytes option"
  keyNodeID :: nodeid
  aesNegotiationState :: "'k AesNegotiationState"
  outputQueue :: "RSPMessage MessageQueue"

section \<open>Helpers\<close>

definition isValidKeyId :: "bytes \<Rightarrow> bool" where
  "isValidKeyId keyId \<longleftrightarrow> length keyId = 16"

definition randomKeyId :: "u64 \<Rightarrow> u64 \<Rightarrow> bytes" where
  "randomKeyId r s = native_u64_bytes r @ native_u64_bytes s"

text \<open>\<^verbatim>\<open>std::clamp\<close> has no meaning when the bounds are in the wrong order.\<close>

definition std_clamp :: "u64 \<Rightarrow> u64 \<Rightarrow> u64 \<Rightarrow> u64 result" where
  "std_clamp v lo hi =
     (if hi < lo then Inl (Undefined ''clamp with bounds out of order'')
      else Inr (if v < lo then lo else if hi < v then hi else v))"

definition clampLifetimeMs :: "u64 \<Rightarrow> AesNegotiationLimits \<Rightarrow> u64 result" where
  "clampLifetimeMs requested l =
     std_clamp (if requested = 0 then defaultLifetimeMs l else requested) (minLifetimeMs l) (maxLifetimeMs l)"

definition addMilliseconds :: "datetime \<Rightarrow> u64 \<Rightarrow> datetime" where
  "addMilliseconds base ms = addSeconds base (real (unat ms) / 1000)"

text \<open>A null handle makes the library fail; an empty secret is refused.\<close>

definition deriveSharedSecret :: "('k, 'z) node_base_scheme \<Rightarrow> 'k KeyPair \<Rightarrow> 'k KeyPair \<Rightarrow> bytes option" where
  "deriveSharedSecret n localKey peerKey =
     (case (localKey, peerKey) of
        (Some k, Some p) \<Rightarrow>
          (case EVP_PKEY_derive n k p of
             None \<Rightarrow> None
           | Some secret \<Rightarrow> if secret = [] then None else Some secret)
      | _ \<Rightarrow> None)"

text \<open>The comparison of \<^verbatim>\<open>std::string\<close>: byte by byte, unsigned.\<close>

fun string_le :: "bytes \<Rightarrow> bytes \<Rightarrow> bool" where
  "string_le [] ys = True"
| "string_le (x # xs) [] = False"
| "string_le (x # xs) (y # ys) =
     ((of_char x :: nat) < of_char y \<or> x = y \<and> string_le xs ys)"

definition deriveAesKeyMaterial :: "'k openssl \<Rightarrow> bytes \<Rightarrow> bytes \<Rightarrow> nodeid \<Rightarrow> nodeid \<Rightarrow> bytes" where
  "deriveAesKeyMaterial lib sharedSecret keyId firstNode secondNode =
     (let firstNodeBytes = toProtoNodeId firstNode;
          secondNodeBytes = toProtoNodeId secondNode;
          lowerNodeBytes = (if string_le firstNodeBytes secondNodeBytes then firstNodeBytes else secondNodeBytes);
          upperNodeBytes = (if string_le firstNodeBytes secondNodeBytes then secondNodeBytes else firstNodeBytes)
      in SHA256 lib (sharedSecret @ keyId @ lowerNodeBytes @ upperNodeBytes @ ''rsp-aes-negotiation-v1''))"

definition makeAesKeyDropNotification :: "nodeid \<Rightarrow> nodeid \<Rightarrow> bytes \<Rightarrow> string \<Rightarrow> RSPMessage" where
  "makeAesKeyDropNotification sourceNodeId destinationNodeId keyId reason =
     RSPMessage_default\<lparr>source := Some (toProtoNodeId sourceNodeId),
       destination := Some (toProtoNodeId destinationNodeId),
       core := aes_key_drop_notification \<lparr>drop_key_id = Some keyId, drop_reason = reason\<rparr>\<rparr>"

definition makeAesKeyNegotiationError :: "nodeid \<Rightarrow> nodeid \<Rightarrow> u32 \<Rightarrow> bytes option \<Rightarrow> string \<Rightarrow> RSPMessage" where
  "makeAesKeyNegotiationError sourceNodeId destinationNodeId errorCode keyId errorMessage =
     RSPMessage_default\<lparr>source := Some (toProtoNodeId sourceNodeId),
       destination := Some (toProtoNodeId destinationNodeId),
       core := aes_key_negotiation_error
         \<lparr>neg_error_code = errorCode, err_key_id = keyId, neg_error_message = errorMessage\<rparr>\<rparr>"

section \<open>Operations\<close>

definition setAesNegotiationLimits :: "AesNegotiationLimits \<Rightarrow> ('k, 'z) node_base_scheme \<Rightarrow>
    ('k, 'z) node_base_scheme result" where
  "setAesNegotiationLimits l n =
     (let l = (if minLifetimeMs l = 0 then l\<lparr>minLifetimeMs := 1\<rparr> else l);
          l = (if maxLifetimeMs l < minLifetimeMs l then l\<lparr>maxLifetimeMs := minLifetimeMs l\<rparr> else l)
      in res_bind (std_clamp (defaultLifetimeMs l) (minLifetimeMs l) (maxLifetimeMs l)) (\<lambda>d.
           let l = l\<lparr>defaultLifetimeMs := d\<rparr>;
               l = (if pendingTimeoutMs l = 0 then l\<lparr>pendingTimeoutMs := 1\<rparr> else l)
           in Inr (n\<lparr>aesNegotiationState := aesNegotiationState n\<lparr>limits := l\<rparr>\<rparr>)))"

definition pushOutputMessage :: "RSPMessage \<Rightarrow> ('k, 'z) node_base_scheme \<Rightarrow> bool \<times> ('k, 'z) node_base_scheme" where
  "pushOutputMessage m n = (case mq_push m (outputQueue n) of (ok, full, q) \<Rightarrow> (ok, n\<lparr>outputQueue := q\<rparr>))"

definition push_all :: "RSPMessage list \<Rightarrow> ('k, 'z) node_base_scheme \<Rightarrow> ('k, 'z) node_base_scheme" where
  "push_all ms n = fold (\<lambda>m n. snd (pushOutputMessage m n)) ms n"

definition processExpiredAesKeys :: "datetime \<Rightarrow> ('k, 'z) node_base_scheme \<Rightarrow> ('k, 'z) node_base_scheme" where
  "processExpiredAesKeys now n =
     (let st = aesNegotiationState n;
          dropNotifications = map (\<lambda>(peer, k). makeAesKeyDropNotification (keyNodeID n) peer (act_keyId k) ''expired'')
            (filter (\<lambda>(peer, k). \<not> now < act_expiresAt k) (activeByPeer st))
      in push_all dropNotifications
           (n\<lparr>aesNegotiationState :=
              st\<lparr>activeByPeer := smap_erase_if (\<lambda>peer k. \<not> now < act_expiresAt k) (activeByPeer st),
                 pendingByPeer := smap_erase_if (\<lambda>peer p. \<not> now < pend_expiresAt p) (pendingByPeer st)\<rparr>\<rparr>))"

text \<open>
  What a call takes from outside: the clock at its first reading (in \<^const>\<open>processExpiredAesKeys\<close>) and at
  its second, random words and the key the generator returns.
\<close>

record 'k aes_inputs =
  now_first :: datetime
  now_second :: datetime
  random_high :: u64
  random_low :: u64
  generated :: "'k option"

definition beginAesKeyNegotiation :: "'k aes_inputs \<Rightarrow> nodeid \<Rightarrow> u64 \<Rightarrow> ('k, 'z) node_base_scheme \<Rightarrow>
    (bool \<times> ('k, 'z) node_base_scheme) result" where
  "beginAesKeyNegotiation inp peer requested n =
     (if peer = keyNodeID n then Inr (False, n)
      else
        let n = processExpiredAesKeys (now_first inp) n;
            st = aesNegotiationState n;
            lib = node_openssl n
        in if smap_find (pendingByPeer st) peer \<noteq> None \<or> smap_find (activeByPeer st) peer \<noteq> None then Inr (False, n)
        else if maxPendingNegotiations (limits st) = 0 \<or>
                maxPendingNegotiations (limits st) \<le> smap_size (pendingByPeer st) then Inr (False, n)
        else if maxActiveKeys (limits st) = 0 \<or>
                maxActiveKeys (limits st) \<le> smap_size (activeByPeer st) then Inr (False, n)
        else res_bind (clampLifetimeMs requested (limits st)) (\<lambda>lifetimeMs.
          catch_exception
            (res_bind (generateP256 lib (generated inp)) (\<lambda>ephemeral.
             res_bind (KeyPair_publicKey lib ephemeral) (\<lambda>pk.
               let keyId = randomKeyId (random_high inp) (random_low inp);
                   request = RSPMessage_default\<lparr>source := Some (toProtoNodeId (keyNodeID n)),
                     destination := Some (toProtoNodeId peer),
                     core := aes_key_negotiation_request
                       \<lparr>req_key_id = Some keyId, req_ephemeral_public_key = Some pk,
                        requested_lifetime_ms = lifetimeMs,
                        req_algorithm = KEY_NEGOTIATION_ALGORITHM_P256_SHA256_AES256\<rparr>\<rparr>;
                   pending = \<lparr>pend_keyId = keyId, ephemeralKeyPair = ephemeral,
                     pend_algorithm = KEY_NEGOTIATION_ALGORITHM_P256_SHA256_AES256,
                     requestedLifetimeMs = lifetimeMs,
                     pend_expiresAt = addMilliseconds (now_second inp) (pendingTimeoutMs (limits st))\<rparr>;
                   n = n\<lparr>aesNegotiationState := st\<lparr>pendingByPeer := smap_set peer pending (pendingByPeer st)\<rparr>\<rparr>
               in case pushOutputMessage request n of
                    (True, n) \<Rightarrow> Inr (True, n)
                  | (False, n) \<Rightarrow>
                      Inr (False, n\<lparr>aesNegotiationState := (aesNegotiationState n)
                        \<lparr>pendingByPeer := smap_erase peer (pendingByPeer (aesNegotiationState n))\<rparr>\<rparr>))))
            (Inr (False, n))))"

definition dropAesKey :: "datetime \<Rightarrow> nodeid \<Rightarrow> string \<Rightarrow> ('k, 'z) node_base_scheme \<Rightarrow> bool \<times> ('k, 'z) node_base_scheme" where
  "dropAesKey now peer reason n =
     (let n = processExpiredAesKeys now n;
          st = aesNegotiationState n;
          st = st\<lparr>pendingByPeer := smap_erase peer (pendingByPeer st)\<rparr>
      in case smap_find (activeByPeer st) peer of
           None \<Rightarrow> (False, n\<lparr>aesNegotiationState := st\<rparr>)
         | Some k \<Rightarrow>
             pushOutputMessage
               (makeAesKeyDropNotification (keyNodeID n) peer (act_keyId k) (if reason = [] then ''local_drop'' else reason))
               (n\<lparr>aesNegotiationState := st\<lparr>activeByPeer := smap_erase peer (activeByPeer st)\<rparr>\<rparr>))"

definition hasAesKey :: "datetime \<Rightarrow> nodeid \<Rightarrow> ('k, 'z) node_base_scheme \<Rightarrow> bool \<times> ('k, 'z) node_base_scheme" where
  "hasAesKey now peer n =
     (let n = processExpiredAesKeys now n
      in (smap_find (activeByPeer (aesNegotiationState n)) peer \<noteq> None, n))"

definition aesKeyInfo :: "datetime \<Rightarrow> nodeid \<Rightarrow> ('k, 'z) node_base_scheme \<Rightarrow>
    (guid \<times> nodeid \<times> u32 \<times> datetime) option \<times> ('k, 'z) node_base_scheme" where
  "aesKeyInfo now peer n =
     (let n = processExpiredAesKeys now n
      in (case smap_find (activeByPeer (aesNegotiationState n)) peer of
            None \<Rightarrow> None
          | Some k \<Rightarrow>
              if \<not> isValidKeyId (act_keyId k) then None
              else Some (GUID (native_u64_of (take 8 (act_keyId k))) (native_u64_of (take 8 (drop 8 (act_keyId k)))),
                         peer, act_algorithm k, act_expiresAt k), n))"

definition aesKeyMaterialForPeer :: "datetime \<Rightarrow> nodeid \<Rightarrow> ('k, 'z) node_base_scheme \<Rightarrow>
    bytes option \<times> ('k, 'z) node_base_scheme" where
  "aesKeyMaterialForPeer now peer n =
     (let n = processExpiredAesKeys now n
      in (map_option keyMaterial (smap_find (activeByPeer (aesNegotiationState n)) peer), n))"


section \<open>Messages of the negotiation\<close>

text \<open>
  The branches of \<^verbatim>\<open>handleAesNegotiationMessage\<close>: each yields the message to send back and the new
  state. In the request branch the key is stored before the public key of the reply is read: when
  reading it fails, the key stays and an error is sent.
\<close>

definition aes_request :: "datetime \<Rightarrow> 'k option \<Rightarrow> nodeid \<Rightarrow> AesKeyNegotiationRequest \<Rightarrow> ('k, 'z) node_base_scheme \<Rightarrow>
    (RSPMessage option \<times> 'k AesNegotiationState) result" where
  "aes_request now gen sender request n =
     (let st = aesNegotiationState n; lib = node_openssl n;
          err = (\<lambda>code keyId msg. Inr (Some (makeAesKeyNegotiationError (keyNodeID n) sender code keyId msg), st))
      in case (req_key_id request, req_ephemeral_public_key request) of
           (Some keyId, Some peerKey) \<Rightarrow>
             if \<not> isValidKeyId keyId
             then err KEY_NEGOTIATION_ERROR_INVALID_REQUEST (Some keyId) ''invalid AES key negotiation request''
             else if req_algorithm request \<noteq> KEY_NEGOTIATION_ALGORITHM_P256_SHA256_AES256
             then err KEY_NEGOTIATION_ERROR_UNSUPPORTED_ALGORITHM (Some keyId) ''unsupported AES key negotiation algorithm''
             else if smap_find (pendingByPeer st) sender \<noteq> None
             then err KEY_NEGOTIATION_ERROR_PAIR_NEGOTIATION_EXISTS (Some keyId) ''peer already has a pending AES negotiation''
             else if smap_find (activeByPeer st) sender \<noteq> None
             then err KEY_NEGOTIATION_ERROR_PAIR_KEY_EXISTS (Some keyId) ''peer already has an active AES key''
             else if maxActiveKeys (limits st) = 0 \<or> maxActiveKeys (limits st) \<le> smap_size (activeByPeer st)
             then err KEY_NEGOTIATION_ERROR_KEY_LIMIT_REACHED (Some keyId) ''AES key capacity reached''
             else
               let invalid = (\<lambda>st. Inr (Some (makeAesKeyNegotiationError (keyNodeID n) sender
                     KEY_NEGOTIATION_ERROR_INVALID_REQUEST (Some keyId) ''invalid AES key negotiation public key''), st))
               in catch_exception
                 (res_bind (fromPublicKey lib peerKey) (\<lambda>peerEphemeralKey.
                  res_bind (generateP256 lib gen) (\<lambda>responderEphemeralKey.
                    case deriveSharedSecret n responderEphemeralKey peerEphemeralKey of
                      None \<Rightarrow> err KEY_NEGOTIATION_ERROR_KEY_INCORRECT (Some keyId) ''failed to derive shared AES key material''
                    | Some sharedSecret \<Rightarrow>
                        res_bind (clampLifetimeMs (requested_lifetime_ms request) (limits st)) (\<lambda>acceptedLifetimeMs.
                          let active = \<lparr>act_keyId = keyId,
                                keyMaterial = deriveAesKeyMaterial lib sharedSecret keyId (keyNodeID n) sender,
                                act_algorithm = req_algorithm request,
                                act_expiresAt = addMilliseconds now acceptedLifetimeMs\<rparr>;
                              st = st\<lparr>activeByPeer := smap_set sender active (activeByPeer st)\<rparr>
                          in catch_exception
                               (res_bind (KeyPair_publicKey lib responderEphemeralKey) (\<lambda>pk.
                                  Inr (Some (RSPMessage_default\<lparr>source := Some (toProtoNodeId (keyNodeID n)),
                                    destination := Some (toProtoNodeId sender),
                                    core := aes_key_negotiation_reply
                                      \<lparr>rep_key_id = Some keyId, rep_ephemeral_public_key = Some pk,
                                       accepted_lifetime_ms = acceptedLifetimeMs,
                                       rep_algorithm = req_algorithm request\<rparr>\<rparr>), st)))
                               (invalid st)))))
                 (invalid st)
         | (keyId, _) \<Rightarrow> err KEY_NEGOTIATION_ERROR_INVALID_REQUEST keyId ''invalid AES key negotiation request'')"

definition aes_reply :: "datetime \<Rightarrow> nodeid \<Rightarrow> AesKeyNegotiationReply \<Rightarrow> ('k, 'z) node_base_scheme \<Rightarrow>
    (RSPMessage option \<times> 'k AesNegotiationState) result" where
  "aes_reply now sender reply n =
     (let st = aesNegotiationState n; lib = node_openssl n;
          err = (\<lambda>code keyId msg st. Inr (Some (makeAesKeyNegotiationError (keyNodeID n) sender code keyId msg), st))
      in case (rep_key_id reply, rep_ephemeral_public_key reply) of
           (Some keyId, Some peerKey) \<Rightarrow>
             if \<not> isValidKeyId keyId
             then err KEY_NEGOTIATION_ERROR_INVALID_REQUEST (Some keyId) ''invalid AES key negotiation reply'' st
             else if rep_algorithm reply \<noteq> KEY_NEGOTIATION_ALGORITHM_P256_SHA256_AES256
             then err KEY_NEGOTIATION_ERROR_UNSUPPORTED_ALGORITHM (Some keyId) ''unsupported AES key negotiation algorithm'' st
             else
               (case smap_find (pendingByPeer st) sender of
                  None \<Rightarrow> err KEY_NEGOTIATION_ERROR_UNKNOWN_KEY (Some keyId) ''no pending AES negotiation for peer'' st
                | Some pending \<Rightarrow>
                    let erased = st\<lparr>pendingByPeer := smap_erase sender (pendingByPeer st)\<rparr>
                    in if pend_keyId pending \<noteq> keyId
                    then err KEY_NEGOTIATION_ERROR_KEY_INCORRECT (Some keyId)
                           ''reply key id does not match the pending negotiation'' st
                    else if maxActiveKeys (limits st) = 0 \<or>
                            smap_find (activeByPeer st) sender = None \<and>
                            maxActiveKeys (limits st) \<le> smap_size (activeByPeer st)
                    then err KEY_NEGOTIATION_ERROR_KEY_LIMIT_REACHED (Some keyId) ''AES key capacity reached'' erased
                    else catch_exception
                      (res_bind (fromPublicKey lib peerKey) (\<lambda>peerEphemeralKey.
                         case deriveSharedSecret n (ephemeralKeyPair pending) peerEphemeralKey of
                           None \<Rightarrow> err KEY_NEGOTIATION_ERROR_KEY_INCORRECT (Some keyId)
                                     ''failed to derive shared AES key material'' erased
                         | Some sharedSecret \<Rightarrow>
                             res_bind (clampLifetimeMs
                               (if accepted_lifetime_ms reply = 0 then requestedLifetimeMs pending
                                else accepted_lifetime_ms reply) (limits st)) (\<lambda>acceptedLifetimeMs.
                               let active = \<lparr>act_keyId = pend_keyId pending,
                                     keyMaterial = deriveAesKeyMaterial lib sharedSecret keyId (keyNodeID n) sender,
                                     act_algorithm = rep_algorithm reply,
                                     act_expiresAt = addMilliseconds now acceptedLifetimeMs\<rparr>
                               in Inr (None, erased\<lparr>activeByPeer := smap_set sender active (activeByPeer st)\<rparr>))))
                      (err KEY_NEGOTIATION_ERROR_INVALID_REQUEST (Some keyId) ''invalid AES key negotiation public key'' st))
         | (keyId, _) \<Rightarrow> err KEY_NEGOTIATION_ERROR_INVALID_REQUEST keyId ''invalid AES key negotiation reply'' st)"

definition aes_drop :: "nodeid \<Rightarrow> AesKeyDropNotification \<Rightarrow> ('k, 'z) node_base_scheme \<Rightarrow>
    RSPMessage option \<times> 'k AesNegotiationState" where
  "aes_drop sender notification n =
     (let st = aesNegotiationState n;
          err = (\<lambda>code keyId msg. Some (makeAesKeyNegotiationError (keyNodeID n) sender code keyId msg))
      in case drop_key_id notification of
           None \<Rightarrow> (err KEY_NEGOTIATION_ERROR_INVALID_REQUEST None ''invalid AES key drop notification'', st)
         | Some keyId \<Rightarrow>
             if \<not> isValidKeyId keyId
             then (err KEY_NEGOTIATION_ERROR_INVALID_REQUEST (Some keyId) ''invalid AES key drop notification'', st)
             else
               let (out, st) =
                     (case smap_find (activeByPeer st) sender of
                        None \<Rightarrow> (err KEY_NEGOTIATION_ERROR_UNKNOWN_KEY (Some keyId) ''AES key not found for peer'', st)
                      | Some k \<Rightarrow>
                          if act_keyId k \<noteq> keyId
                          then (err KEY_NEGOTIATION_ERROR_KEY_INCORRECT (Some keyId) ''AES key id mismatch for peer'', st)
                          else (None, st\<lparr>activeByPeer := smap_erase sender (activeByPeer st)\<rparr>))
               in (out, case smap_find (pendingByPeer st) sender of
                          Some pending \<Rightarrow>
                            if pend_keyId pending = keyId
                            then st\<lparr>pendingByPeer := smap_erase sender (pendingByPeer st)\<rparr> else st
                        | None \<Rightarrow> st))"

definition handleAesKeyNegotiationError :: "RSPMessage \<Rightarrow> AesKeyNegotiationError \<Rightarrow> 'k AesNegotiationState \<Rightarrow>
    'k AesNegotiationState" where
  "handleAesKeyNegotiationError m err st =
     (case (senderNodeIdFromMessage m, err_key_id err) of
        (Some sender, Some keyId) \<Rightarrow>
          if \<not> isValidKeyId keyId then st
          else
            let st = (case smap_find (pendingByPeer st) sender of
                        Some pending \<Rightarrow>
                          if pend_keyId pending = keyId
                          then st\<lparr>pendingByPeer := smap_erase sender (pendingByPeer st)\<rparr> else st
                      | None \<Rightarrow> st)
            in if neg_error_code err = KEY_NEGOTIATION_ERROR_KEY_INCORRECT \<or>
                  neg_error_code err = KEY_NEGOTIATION_ERROR_UNKNOWN_KEY \<or>
                  neg_error_code err = KEY_NEGOTIATION_ERROR_EXPIRED
               then (case smap_find (activeByPeer st) sender of
                       Some k \<Rightarrow>
                         if act_keyId k = keyId
                         then st\<lparr>activeByPeer := smap_erase sender (activeByPeer st)\<rparr> else st
                     | None \<Rightarrow> st)
               else st
      | _ \<Rightarrow> st)"

definition aes_respond :: "RSPMessage option \<times> 'k AesNegotiationState \<Rightarrow> ('k, 'z) node_base_scheme \<Rightarrow>
    bool \<times> ('k, 'z) node_base_scheme" where
  "aes_respond r n =
     (case r of (out, st) \<Rightarrow>
        let n = n\<lparr>aesNegotiationState := st\<rparr>
        in (True, case out of None \<Rightarrow> n | Some m \<Rightarrow> snd (pushOutputMessage m n)))"

definition handleAesNegotiationMessage :: "'k aes_inputs \<Rightarrow> RSPMessage \<Rightarrow> ('k, 'z) node_base_scheme \<Rightarrow>
    (bool \<times> ('k, 'z) node_base_scheme) result" where
  "handleAesNegotiationMessage inp m n =
     (let swept = processExpiredAesKeys (now_first inp) n
      in case core m of
           aes_key_negotiation_error err \<Rightarrow>
             Inr (True, swept\<lparr>aesNegotiationState := handleAesKeyNegotiationError m err (aesNegotiationState swept)\<rparr>)
         | aes_key_negotiation_request request \<Rightarrow>
             (case senderNodeIdFromMessage m of
                None \<Rightarrow> Inr (True, swept)
              | Some sender \<Rightarrow>
                  res_bind (aes_request (now_second inp) (generated inp) sender request swept) (\<lambda>r. Inr (aes_respond r swept)))
         | aes_key_negotiation_reply reply \<Rightarrow>
             (case senderNodeIdFromMessage m of
                None \<Rightarrow> Inr (True, swept)
              | Some sender \<Rightarrow> res_bind (aes_reply (now_second inp) sender reply swept) (\<lambda>r. Inr (aes_respond r swept)))
         | aes_key_drop_notification notification \<Rightarrow>
             (case senderNodeIdFromMessage m of
                None \<Rightarrow> Inr (True, swept)
              | Some sender \<Rightarrow> Inr (aes_respond (aes_drop sender notification swept) swept))
         | _ \<Rightarrow> Inr (False, n))"


section \<open>The output queue\<close>

lemma pushOutputMessage_state [simp]:
  "aesNegotiationState (snd (pushOutputMessage m n)) = aesNegotiationState n"
  "keyNodeID (snd (pushOutputMessage m n)) = keyNodeID n"
  "node_openssl (snd (pushOutputMessage m n)) = node_openssl n"
  "EVP_PKEY_derive (snd (pushOutputMessage m n)) = EVP_PKEY_derive n"
  by (simp_all add: pushOutputMessage_def split: prod.splits)

lemma push_all_state [simp]:
  "aesNegotiationState (push_all ms n) = aesNegotiationState n"
  "keyNodeID (push_all ms n) = keyNodeID n"
  "node_openssl (push_all ms n) = node_openssl n"
  "EVP_PKEY_derive (push_all ms n) = EVP_PKEY_derive n"
  by (induction ms arbitrary: n) (simp_all add: push_all_def)

definition expire_state :: "datetime \<Rightarrow> 'k AesNegotiationState \<Rightarrow> 'k AesNegotiationState" where
  "expire_state now st =
     st\<lparr>activeByPeer := smap_erase_if (\<lambda>peer k. \<not> now < act_expiresAt k) (activeByPeer st),
        pendingByPeer := smap_erase_if (\<lambda>peer p. \<not> now < pend_expiresAt p) (pendingByPeer st)\<rparr>"

lemma processExpiredAesKeys_state [simp]:
  "aesNegotiationState (processExpiredAesKeys now n) = expire_state now (aesNegotiationState n)"
  "keyNodeID (processExpiredAesKeys now n) = keyNodeID n"
  "node_openssl (processExpiredAesKeys now n) = node_openssl n"
  "EVP_PKEY_derive (processExpiredAesKeys now n) = EVP_PKEY_derive n"
  by (simp_all add: processExpiredAesKeys_def expire_state_def Let_def)

section \<open>The invariant\<close>

definition limits_ok :: "AesNegotiationLimits \<Rightarrow> bool" where
  "limits_ok l \<longleftrightarrow> 0 < minLifetimeMs l \<and> minLifetimeMs l \<le> defaultLifetimeMs l \<and>
     defaultLifetimeMs l \<le> maxLifetimeMs l \<and> 0 < pendingTimeoutMs l"

definition active_ok :: "ActiveAesKey \<Rightarrow> bool" where
  "active_ok k \<longleftrightarrow> length (act_keyId k) = 16 \<and> length (keyMaterial k) = 32 \<and>
     act_algorithm k = KEY_NEGOTIATION_ALGORITHM_P256_SHA256_AES256"

definition aes_ok :: "'k AesNegotiationState \<Rightarrow> bool" where
  "aes_ok st \<longleftrightarrow> limits_ok (limits st) \<and> smap_ok (pendingByPeer st) \<and> smap_ok (activeByPeer st) \<and>
     (\<forall>p. smap_find (pendingByPeer st) p = None \<or> smap_find (activeByPeer st) p = None) \<and>
     (\<forall>p k. smap_find (activeByPeer st) p = Some k \<longrightarrow> active_ok k) \<and>
     (\<forall>p k. smap_find (pendingByPeer st) p = Some k \<longrightarrow> length (pend_keyId k) = 16)"

text \<open>
  A transition keeps the invariant and the limits, and takes neither map beyond the larger of its size
  before and its limit.
\<close>

definition aes_move :: "'k AesNegotiationState \<Rightarrow> 'k AesNegotiationState \<Rightarrow> bool" where
  "aes_move st st' \<longleftrightarrow> (aes_ok st \<longrightarrow> aes_ok st' \<and> limits st' = limits st \<and>
     smap_size (activeByPeer st') \<le> max (smap_size (activeByPeer st)) (maxActiveKeys (limits st)) \<and>
     smap_size (pendingByPeer st') \<le> max (smap_size (pendingByPeer st)) (maxPendingNegotiations (limits st)))"

lemma aes_move_refl [simp]: "aes_move st st"
  by (simp add: aes_move_def)

lemma aes_move_trans: "aes_move a b \<Longrightarrow> aes_move b c \<Longrightarrow> aes_move a c"
  unfolding aes_move_def by fastforce

lemma std_clamp_ok: "lo \<le> hi \<Longrightarrow> \<exists>d. std_clamp v lo hi = Inr d \<and> lo \<le> d \<and> d \<le> hi"
  by (auto simp: std_clamp_def)

lemma clampLifetimeMs_ok:
  "limits_ok l \<Longrightarrow> \<exists>v. clampLifetimeMs ms l = Inr v \<and> minLifetimeMs l \<le> v \<and> v \<le> maxLifetimeMs l"
  unfolding limits_ok_def clampLifetimeMs_def by (intro std_clamp_ok) (blast intro: order_trans)

lemma aes_move_drop_pending: "aes_move st (st\<lparr>pendingByPeer := smap_erase p (pendingByPeer st)\<rparr>)"
  unfolding aes_move_def aes_ok_def
  using smap.count_delete_le [of "pendingByPeer st" p] by (auto simp: smap_find_erase)

lemma aes_move_drop_active: "aes_move st (st\<lparr>activeByPeer := smap_erase p (activeByPeer st)\<rparr>)"
  unfolding aes_move_def aes_ok_def
  using smap.count_delete_le [of "activeByPeer st" p] by (auto simp: smap_find_erase)

lemma aes_move_expire: "aes_move st (expire_state now st)"
  unfolding aes_move_def aes_ok_def expire_state_def
  by (auto simp: smap_find_erase_if smap_size_erase_if le_max_iff_disj split: option.splits)
    (metis option.distinct(1))

lemma aes_move_active:
  assumes "smap_find (pendingByPeer st) p = None" "smap_size (activeByPeer st) < maxActiveKeys (limits st)" "active_ok k"
  shows "aes_move st (st\<lparr>activeByPeer := smap_set p k (activeByPeer st)\<rparr>)"
  unfolding aes_move_def aes_ok_def
  using assms smap.update_within_limit [of "activeByPeer st" "maxActiveKeys (limits st)" p k]
  by (auto simp: smap_find_set)

lemma aes_move_pending:
  assumes "smap_find (activeByPeer st) p = None"
    and "smap_size (pendingByPeer st) < maxPendingNegotiations (limits st)" "length (pend_keyId k) = 16"
  shows "aes_move st (st\<lparr>pendingByPeer := smap_set p k (pendingByPeer st)\<rparr>)"
  unfolding aes_move_def aes_ok_def
  using assms smap.update_within_limit [of "pendingByPeer st" "maxPendingNegotiations (limits st)" p k]
  by (auto simp: smap_find_set)

lemma length_randomKeyId [simp]: "length (randomKeyId r s) = 16"
  by (simp add: randomKeyId_def)

lemma length_deriveAesKeyMaterial [simp]:
  "openssl_ok lib \<Longrightarrow> length (deriveAesKeyMaterial lib secret keyId a b) = 32"
  by (simp add: deriveAesKeyMaterial_def openssl_ok_def Let_def)


section \<open>The operations are transitions\<close>

lemma catchable [simp]: "\<not> uncatchable (Runtime_error s)"
  by (simp add: uncatchable_def)

lemma key_errors_catchable:
  "fromPublicKey lib pk = Inl e \<Longrightarrow> \<not> uncatchable e"
  "generateP256 lib gen = Inl e \<Longrightarrow> \<not> uncatchable e"
  "KeyPair_publicKey lib kp = Inl e \<Longrightarrow> \<not> uncatchable e"
  by (auto simp: fromPublicKey_def generateP256_def KeyPair_publicKey_def readPublicKeyBuffer_def KeyPair_new_def
      writePublicKeyBytes_def algorithmForKey_def verifyP256_def split: option.splits if_splits res_bind_splits)

lemma catch_bind:
  "(\<And>e. m = Inl e \<Longrightarrow> \<not> uncatchable e) \<Longrightarrow>
   catch_exception (res_bind m f) h = (case m of Inl e \<Rightarrow> h | Inr x \<Rightarrow> catch_exception (f x) h)"
  by (cases m) (simp_all add: catch_exception_def)

lemmas catch_keys =
  catch_bind [OF key_errors_catchable(1)] catch_bind [OF key_errors_catchable(2)] catch_bind [OF key_errors_catchable(3)]

lemma setAesNegotiationLimits_ok:
  "\<exists>l'. setAesNegotiationLimits l n = Inr (n\<lparr>aesNegotiationState := aesNegotiationState n\<lparr>limits := l'\<rparr>\<rparr>) \<and>
     limits_ok l' \<and> maxActiveKeys l' = maxActiveKeys l \<and> maxPendingNegotiations l' = maxPendingNegotiations l"
proof -
  define a where "a = (if minLifetimeMs l = 0 then l\<lparr>minLifetimeMs := 1\<rparr> else l)"
  define b where "b = (if maxLifetimeMs a < minLifetimeMs a then a\<lparr>maxLifetimeMs := minLifetimeMs a\<rparr> else a)"
  have a: "0 < minLifetimeMs a" "maxActiveKeys a = maxActiveKeys l" "maxPendingNegotiations a = maxPendingNegotiations l"
    by (auto simp: a_def word_gt_0)
  then have b: "0 < minLifetimeMs b" "minLifetimeMs b \<le> maxLifetimeMs b"
    "maxActiveKeys b = maxActiveKeys l" "maxPendingNegotiations b = maxPendingNegotiations l"
    by (auto simp: b_def)
  obtain d where d: "std_clamp (defaultLifetimeMs b) (minLifetimeMs b) (maxLifetimeMs b) = Inr d"
    "minLifetimeMs b \<le> d" "d \<le> maxLifetimeMs b"
    using std_clamp_ok [OF b(2)] by blast
  define c where "c = b\<lparr>defaultLifetimeMs := d\<rparr>"
  define e where "e = (if pendingTimeoutMs c = 0 then c\<lparr>pendingTimeoutMs := 1\<rparr> else c)"
  have "setAesNegotiationLimits l n = Inr (n\<lparr>aesNegotiationState := aesNegotiationState n\<lparr>limits := e\<rparr>\<rparr>)"
    unfolding setAesNegotiationLimits_def Let_def a_def [symmetric] b_def [symmetric] d(1) res_bind_Inr
      c_def [symmetric] e_def [symmetric] ..
  moreover have "limits_ok e" "maxActiveKeys e = maxActiveKeys l" "maxPendingNegotiations e = maxPendingNegotiations l"
    using b d by (simp_all add: limits_ok_def e_def c_def word_gt_0)
  ultimately show ?thesis by blast
qed

lemma clamp_bounds:
  "limits_ok l \<Longrightarrow> clampLifetimeMs ms l = Inr v \<Longrightarrow> v \<noteq> 0 \<and> v \<le> maxLifetimeMs l"
  using clampLifetimeMs_ok [of l ms] by (auto simp: limits_ok_def word_gt_0)

lemma addMilliseconds_mono: "v \<le> w \<Longrightarrow> addMilliseconds t v \<le> addMilliseconds t w"
  using of_nat_mono [of "unat v" "unat w", where ?'a = real]
  by (simp add: addMilliseconds_def addSeconds_def word_le_nat_alt divide_right_mono)

lemma pending_no_active:
  "aes_ok st \<Longrightarrow> smap_find (pendingByPeer st) p = Some z \<Longrightarrow> smap_find (activeByPeer st) p = None"
  by (metis aes_ok_def option.distinct(1))

lemma aes_ok_clamp: "aes_ok st \<Longrightarrow> \<exists>v. clampLifetimeMs ms (limits st) = Inr v"
  using clampLifetimeMs_ok [of "limits st" ms] by (auto simp: aes_ok_def)

lemma aes_request_move:
  assumes "openssl_ok (node_openssl n)" "aes_ok (aesNegotiationState n)"
  shows "\<exists>out st. aes_request now gen sender request n = Inr (out, st) \<and> aes_move (aesNegotiationState n) st"
proof -
  obtain v where v: "clampLifetimeMs (requested_lifetime_ms request) (limits (aesNegotiationState n)) = Inr v"
    using aes_ok_clamp [OF assms(2)] by blast
  show ?thesis
    using assms(1)
    by (simp add: aes_request_def Let_def v catch_keys isValidKeyId_def split: option.split sum.split)
      (auto intro!: aes_move_active simp: active_ok_def)
qed

lemma aes_reply_move:
  assumes "openssl_ok (node_openssl n)" "aes_ok (aesNegotiationState n)"
  shows "\<exists>out st. aes_reply now sender reply n = Inr (out, st) \<and> aes_move (aesNegotiationState n) st"
proof (cases "smap_find (pendingByPeer (aesNegotiationState n)) sender")
  case None
  then show ?thesis by (simp add: aes_reply_def Let_def split: option.split)
next
  case (Some pending)
  let ?st = "aesNegotiationState n"
  let ?erased = "?st\<lparr>pendingByPeer := smap_erase sender (pendingByPeer ?st)\<rparr>"
  have free: "smap_find (activeByPeer ?st) sender = None"
    using pending_no_active [OF assms(2) Some] .
  have store: "aes_move ?st (?erased\<lparr>activeByPeer := smap_set sender k (activeByPeer ?st)\<rparr>)"
    if "smap_size (activeByPeer ?st) < maxActiveKeys (limits ?st)" "active_ok k" for k
    using aes_move_trans [OF aes_move_drop_pending aes_move_active [of ?erased sender k]] that
    by (simp add: smap_find_erase)
  obtain v w where w: "clampLifetimeMs (requestedLifetimeMs pending) (limits ?st) = Inr v"
    "clampLifetimeMs (accepted_lifetime_ms reply) (limits ?st) = Inr w"
    using aes_ok_clamp [OF assms(2)] by blast
  show ?thesis
    using assms(1) Some free
    by (simp add: aes_reply_def Let_def w catch_keys isValidKeyId_def split: option.split sum.split)
      (auto intro!: aes_move_drop_pending store simp: active_ok_def)
qed

lemma aes_move_drop_both:
  "aes_move st (st\<lparr>activeByPeer := smap_erase p (activeByPeer st), pendingByPeer := smap_erase p (pendingByPeer st)\<rparr>)"
  "aes_move st (st\<lparr>pendingByPeer := smap_erase p (pendingByPeer st), activeByPeer := smap_erase p (activeByPeer st)\<rparr>)"
  using aes_move_trans [OF aes_move_drop_active aes_move_drop_pending,
      of st p p]
    aes_move_trans [OF aes_move_drop_pending aes_move_drop_active, of st p p] by simp_all

lemma aes_drop_move: "aes_move (aesNegotiationState n) (snd (aes_drop sender d n))"
  by (auto simp: aes_drop_def Let_def intro: aes_move_drop_active aes_move_drop_pending aes_move_drop_both
      split: option.splits)

lemma handleAesKeyNegotiationError_move: "aes_move st (handleAesKeyNegotiationError m err st)"
  by (auto simp: handleAesKeyNegotiationError_def Let_def
      intro: aes_move_drop_active aes_move_drop_pending aes_move_drop_both split: option.splits)


text \<open>The parts of a node that no operation of the negotiation changes.\<close>

definition same_node :: "('k, 'z) node_base_scheme \<Rightarrow> ('k, 'z) node_base_scheme \<Rightarrow> bool" where
  "same_node n n' \<longleftrightarrow> node_openssl n' = node_openssl n \<and> EVP_PKEY_derive n' = EVP_PKEY_derive n \<and> keyNodeID n' = keyNodeID n"

lemma beginAesKeyNegotiation_move:
  assumes "aes_ok (aesNegotiationState n)"
  shows "\<exists>b n'. beginAesKeyNegotiation inp peer ms n = Inr (b, n') \<and> same_node n n' \<and>
    aes_move (aesNegotiationState n) (aesNegotiationState n')"
proof -
  let ?n = "processExpiredAesKeys (now_first inp) n"
  let ?st = "expire_state (now_first inp) (aesNegotiationState n)"
  have ok: "aes_ok ?st" and swept: "aes_move (aesNegotiationState n) ?st"
    using assms aes_move_expire [of "aesNegotiationState n" "now_first inp"] by (auto simp: aes_move_def)
  obtain v where v: "clampLifetimeMs ms (limits ?st) = Inr v"
    using aes_ok_clamp [OF ok] by blast
  have set: "aes_move ?st (?st\<lparr>pendingByPeer := smap_set peer k (pendingByPeer ?st)\<rparr>)"
    if "smap_find (activeByPeer ?st) peer = None" "smap_size (pendingByPeer ?st) < maxPendingNegotiations (limits ?st)"
      "length (pend_keyId k) = 16" for k
    using aes_move_pending that by blast
  have unset: "aes_move ?st (?st\<lparr>pendingByPeer := smap_erase peer (smap_set peer k (pendingByPeer ?st))\<rparr>)"
    if "smap_find (activeByPeer ?st) peer = None" "smap_size (pendingByPeer ?st) < maxPendingNegotiations (limits ?st)"
      "length (pend_keyId k) = 16" for k
    using aes_move_trans [OF set aes_move_drop_pending, OF that, of peer] by simp
  show ?thesis
    by (simp add: beginAesKeyNegotiation_def Let_def v catch_keys same_node_def swept split: sum.split prod.split bool.split)
      (auto simp: pushOutputMessage_def swept intro!: aes_move_trans [OF swept] set unset split: prod.splits)
qed

lemma dropAesKey_move:
  "same_node n (snd (dropAesKey now peer reason n))"
  "aes_move (aesNegotiationState n) (aesNegotiationState (snd (dropAesKey now peer reason n)))"
proof -
  note moves = aes_move_trans [OF aes_move_expire aes_move_drop_pending]
    aes_move_trans [OF aes_move_expire aes_move_drop_both(2)]
  show "same_node n (snd (dropAesKey now peer reason n))"
    by (simp add: dropAesKey_def Let_def same_node_def split: option.split)
  show "aes_move (aesNegotiationState n) (aesNegotiationState (snd (dropAesKey now peer reason n)))"
    by (simp add: dropAesKey_def Let_def moves split: option.split)
qed

lemma aes_respond_state [simp]:
  "aesNegotiationState (snd (aes_respond r n)) = snd r" "fst (aes_respond r n)"
  "same_node n (snd (aes_respond r n))"
  by (auto simp: aes_respond_def same_node_def Let_def split: prod.splits option.splits)

lemma handleAesNegotiationMessage_move:
  assumes "openssl_ok (node_openssl n)" "aes_ok (aesNegotiationState n)"
  shows "\<exists>b n'. handleAesNegotiationMessage inp m n = Inr (b, n') \<and> same_node n n' \<and>
    aes_move (aesNegotiationState n) (aesNegotiationState n')"
proof -
  let ?n = "processExpiredAesKeys (now_first inp) n"
  have swept: "aes_move (aesNegotiationState n) (aesNegotiationState ?n)" and lib: "openssl_ok (node_openssl ?n)"
    using assms(1) aes_move_expire by simp_all
  then have ok: "aes_ok (aesNegotiationState ?n)"
    using assms(2) unfolding aes_move_def by blast
  have respond: "\<exists>b n'. (res_bind r (\<lambda>r. Inr (aes_respond r ?n))) = Inr (b, n') \<and> same_node n n' \<and>
      aes_move (aesNegotiationState n) (aesNegotiationState n')"
    if move: "\<exists>out st. r = Inr (out, st) \<and> aes_move (aesNegotiationState ?n) st" for r
  proof -
    obtain out st where r: "r = Inr (out, st)" "aes_move (aesNegotiationState ?n) st"
      using move by blast
    have "same_node n (snd (aes_respond (out, st) ?n))"
      using aes_respond_state(3) [of ?n "(out, st)"] by (simp add: same_node_def)
    then show ?thesis
      using r aes_move_trans [OF swept]
      by (intro exI [of _ "snd (aes_respond (out, st) ?n)"] exI [of _ True]) (auto simp: prod_eq_iff)
  qed
  have dropped: "\<exists>b n'. aes_respond (aes_drop sender d ?n) ?n = (b, n') \<and> same_node n n' \<and>
      aes_move (aesNegotiationState n) (aesNegotiationState n')" for sender d
    using respond [of "Inr (aes_drop sender d ?n)"] aes_drop_move [of ?n sender d]
    by (cases "aes_drop sender d ?n") simp
  show ?thesis
    using respond [OF aes_request_move [OF lib ok]] respond [OF aes_reply_move [OF lib ok]]
      dropped aes_move_trans [OF swept handleAesKeyNegotiationError_move] swept
    by (cases "core m") (auto simp: handleAesNegotiationMessage_def Let_def same_node_def split: option.split)
qed


section \<open>Runs\<close>

text \<open>The negotiation part of the constructor of \<^verbatim>\<open>RSPNode\<close>.\<close>

definition node_base_new :: "'k openssl \<Rightarrow> ('k \<Rightarrow> 'k \<Rightarrow> bytes option) \<Rightarrow> 'k KeyPair \<Rightarrow> 'k node_base result" where
  "node_base_new lib derive kp =
     res_bind (nodeID lib kp) (\<lambda>local.
       Inr \<lparr>node_openssl = lib, EVP_PKEY_derive = derive, keyNodeID = local,
            aesNegotiationState = \<lparr>limits = AesNegotiationLimits_default, pendingByPeer = [], activeByPeer = []\<rparr>,
            outputQueue = mq_start (setWorkerCount 1 MessageQueue_new)\<rparr>)"

datatype 'k aes_op =
    Set_limits AesNegotiationLimits
  | Begin "'k aes_inputs" nodeid u64
  | Drop_key datetime nodeid string
  | Aes_message "'k aes_inputs" RSPMessage
  | Sweep datetime

fun aes_step :: "'k aes_op \<Rightarrow> ('k, 'z) node_base_scheme \<Rightarrow> ('k, 'z) node_base_scheme result" where
  "aes_step (Set_limits l) n = setAesNegotiationLimits l n"
| "aes_step (Begin inp peer ms) n = res_bind (beginAesKeyNegotiation inp peer ms n) (\<lambda>(b, n). Inr n)"
| "aes_step (Drop_key now peer reason) n = Inr (snd (dropAesKey now peer reason n))"
| "aes_step (Aes_message inp m) n = res_bind (handleAesNegotiationMessage inp m n) (\<lambda>(b, n). Inr n)"
| "aes_step (Sweep now) n = Inr (processExpiredAesKeys now n)"

primrec aes_run :: "'k aes_op list \<Rightarrow> ('k, 'z) node_base_scheme \<Rightarrow> ('k, 'z) node_base_scheme result" where
  "aes_run [] n = Inr n"
| "aes_run (x # xs) n = res_bind (aes_step x n) (aes_run xs)"

text \<open>The largest value a limit has had during a run.\<close>

fun peak :: "(AesNegotiationLimits \<Rightarrow> nat) \<Rightarrow> nat \<Rightarrow> 'k aes_op list \<Rightarrow> nat" where
  "peak f b [] = b"
| "peak f b (Set_limits l # xs) = peak f (max b (f l)) xs"
| "peak f b (x # xs) = peak f b xs"

definition bounded_by :: "nat \<Rightarrow> nat \<Rightarrow> ('k, 'z) node_base_scheme \<Rightarrow> bool" where
  "bounded_by a p n \<longleftrightarrow> openssl_ok (node_openssl n) \<and> aes_ok (aesNegotiationState n) \<and>
     max (smap_size (activeByPeer (aesNegotiationState n))) (maxActiveKeys (limits (aesNegotiationState n))) \<le> a \<and>
     max (smap_size (pendingByPeer (aesNegotiationState n))) (maxPendingNegotiations (limits (aesNegotiationState n))) \<le> p"

lemma bounded_by_move:
  "bounded_by a p n \<Longrightarrow> same_node n n' \<Longrightarrow> aes_move (aesNegotiationState n) (aesNegotiationState n') \<Longrightarrow> bounded_by a p n'"
  unfolding bounded_by_def aes_move_def same_node_def by fastforce

lemma aes_step_bounded:
  assumes "bounded_by a p n" "\<And>l. x \<noteq> Set_limits l"
  shows "\<exists>n'. aes_step x n = Inr n' \<and> bounded_by a p n'"
proof (cases x)
  case (Begin inp peer ms)
  with assms(1) show ?thesis
    using beginAesKeyNegotiation_move [of n inp peer ms] bounded_by_move [OF assms(1)] by (fastforce simp: bounded_by_def)
next
  case (Drop_key now peer reason)
  with assms(1) show ?thesis
    using bounded_by_move [OF assms(1) dropAesKey_move] by simp
next
  case (Aes_message inp m)
  with assms(1) show ?thesis
    using handleAesNegotiationMessage_move [of n inp m] bounded_by_move [OF assms(1)] by (fastforce simp: bounded_by_def)
next
  case (Sweep now)
  with assms(1) show ?thesis
    using bounded_by_move [OF assms(1), of "processExpiredAesKeys now n"] by (simp add: same_node_def aes_move_expire)
qed (use assms(2) in blast)

lemma aes_set_limits_bounded:
  assumes "bounded_by a p n"
  shows "\<exists>n'. aes_step (Set_limits l) n = Inr n' \<and> bounded_by (max a (maxActiveKeys l)) (max p (maxPendingNegotiations l)) n'"
  using setAesNegotiationLimits_ok [of l n] assms by (auto simp: bounded_by_def aes_ok_def)

lemma aes_run_bounded:
  "bounded_by a p n \<Longrightarrow>
   \<exists>n'. aes_run ops n = Inr n' \<and> bounded_by (peak maxActiveKeys a ops) (peak maxPendingNegotiations p ops) n'"
proof (induction ops arbitrary: a p n)
  case (Cons x ops)
  show ?case
  proof (cases "\<exists>l. x = Set_limits l")
    case True
    then obtain l where "x = Set_limits l" by blast
    with aes_set_limits_bounded [OF Cons.prems, of l] Cons.IH show ?thesis by fastforce
  next
    case False
    then obtain n' where "aes_step x n = Inr n'" "bounded_by a p n'"
      using aes_step_bounded [OF Cons.prems, of x] by blast
    moreover have "peak f b (x # ops) = peak f b ops" for f b
      using False by (cases x) auto
    ultimately show ?thesis using Cons.IH by simp
  qed
qed simp

section \<open>Properties\<close>

text \<open>
  C34. In every sequence of negotiation operations, messages and configuration changes a node keeps to
  its limits: a peer never has both a pending negotiation and a key, every key has a 16 byte identifier
  and 32 bytes of material, the lifetime bounds stay in order (so clamping to them is defined), and
  neither map grows beyond the largest limit configured so far.
\<close>

theorem aes_run_invariant:
  assumes "openssl_ok lib" "node_base_new lib derive kp = Inr n"
  shows "\<exists>n'. aes_run ops n = Inr n' \<and> aes_ok (aesNegotiationState n') \<and>
    smap_size (activeByPeer (aesNegotiationState n')) \<le> peak maxActiveKeys 64 ops \<and>
    smap_size (pendingByPeer (aesNegotiationState n')) \<le> peak maxPendingNegotiations 64 ops"
proof -
  have "bounded_by 64 64 n"
    using assms by (auto simp: node_base_new_def bounded_by_def aes_ok_def limits_ok_def AesNegotiationLimits_default_def
        smap_size_def res_bind_eq_Inr)
  from aes_run_bounded [OF this, of ops] show ?thesis by (auto simp: bounded_by_def)
qed


section \<open>Key agreement\<close>

lemma string_le_Nil [simp]: "string_le xs [] \<longleftrightarrow> xs = []"
  by (cases xs) simp_all

lemma string_le_antisym: "string_le x y \<Longrightarrow> string_le y x \<Longrightarrow> x = y"
  by (induction x y rule: string_le.induct) auto

lemma string_le_total: "string_le x y \<or> string_le y x"
proof (induction x y rule: string_le.induct)
  case (3 x xs y ys)
  have "(of_char x :: nat) < of_char y \<or> x = y \<or> (of_char y :: nat) < of_char x"
    by (metis linorder_neqE_nat of_char_eq_iff)
  with 3 show ?case by auto
qed simp_all

lemma deriveAesKeyMaterial_commute:
  "deriveAesKeyMaterial lib secret keyId a b = deriveAesKeyMaterial lib secret keyId b a"
  using string_le_antisym [of "toProtoNodeId a" "toProtoNodeId b"] string_le_total [of "toProtoNodeId a" "toProtoNodeId b"]
  by (auto simp: deriveAesKeyMaterial_def Let_def)

text \<open>
  What is relied on of the library: the secret two key pairs derive from each other's public part, as
  it is written and read back, is the same and not empty.
\<close>

definition ecdh_ok :: "'k openssl \<Rightarrow> ('k \<Rightarrow> 'k \<Rightarrow> bytes option) \<Rightarrow> bool" where
  "ecdh_ok lib derive \<longleftrightarrow>
     (\<forall>k k' b b' p p'. PEM_write_PUBKEY lib k = Some b \<and> PEM_read_PUBKEY lib b = Some p \<and>
        PEM_write_PUBKEY lib k' = Some b' \<and> PEM_read_PUBKEY lib b' = Some p' \<longrightarrow>
        (\<exists>s. s \<noteq> [] \<and> derive k p' = Some s \<and> derive k' p = Some s))"

text \<open>A node that has nothing with a peer and room for a negotiation and a key.\<close>

definition aes_free :: "nodeid \<Rightarrow> ('k, 'z) node_base_scheme \<Rightarrow> bool" where
  "aes_free peer n \<longleftrightarrow> aes_ok (aesNegotiationState n) \<and>
     smap_find (pendingByPeer (aesNegotiationState n)) peer = None \<and>
     smap_find (activeByPeer (aesNegotiationState n)) peer = None \<and>
     smap_size (pendingByPeer (aesNegotiationState n)) < maxPendingNegotiations (limits (aesNegotiationState n)) \<and>
     smap_size (activeByPeer (aesNegotiationState n)) < maxActiveKeys (limits (aesNegotiationState n)) \<and>
     queueLimit (outputQueue n) = 0"

lemma push_unbounded:
  "queueLimit (outputQueue n) = 0 \<Longrightarrow>
   pushOutputMessage m n = (True, n\<lparr>outputQueue := outputQueue n\<lparr>messages := messages (outputQueue n) @ [m]\<rparr>\<rparr>)"
  by (simp add: pushOutputMessage_def mq_push_def Let_def)

lemma push_queueLimit [simp]: "queueLimit (outputQueue (snd (pushOutputMessage m n))) = queueLimit (outputQueue n)"
  by (simp add: pushOutputMessage_def mq_push_def Let_def)

lemma processExpired_queueLimit [simp]: "queueLimit (outputQueue (processExpiredAesKeys now n)) = queueLimit (outputQueue n)"
proof -
  have "queueLimit (outputQueue (push_all ms n)) = queueLimit (outputQueue n)" for ms and n :: "('a, 'b) node_base_scheme"
    by (induction ms arbitrary: n) (simp_all add: push_all_def)
  then show ?thesis by (simp add: processExpiredAesKeys_def Let_def)
qed

lemma expire_state_ok: "aes_ok st \<Longrightarrow> aes_ok (expire_state now st)"
  using aes_move_expire [of st now] by (simp add: aes_move_def)

lemma expire_state_find:
  "aes_ok st \<Longrightarrow> smap_find (pendingByPeer (expire_state now st)) p =
     (case smap_find (pendingByPeer st) p of None \<Rightarrow> None | Some k \<Rightarrow> if now < pend_expiresAt k then Some k else None)"
  "aes_ok st \<Longrightarrow> smap_find (activeByPeer (expire_state now st)) p =
     (case smap_find (activeByPeer st) p of None \<Rightarrow> None | Some k \<Rightarrow> if now < act_expiresAt k then Some k else None)"
  by (auto simp: aes_ok_def expire_state_def smap_find_erase_if split: option.split)

lemma expire_state_sizes:
  "limits (expire_state now st) = limits st"
  "smap_size (activeByPeer (expire_state now st)) \<le> smap_size (activeByPeer st)"
  "smap_size (pendingByPeer (expire_state now st)) \<le> smap_size (pendingByPeer st)"
  by (simp_all add: expire_state_def smap_size_erase_if)

lemma aes_free_swept: "aes_free peer n \<Longrightarrow> aes_free peer (processExpiredAesKeys now n)"
  using expire_state_sizes(2,3) [of now "aesNegotiationState n"]
  by (simp add: aes_free_def expire_state_ok expire_state_find expire_state_sizes(1))

definition sent :: "('k, 'z) node_base_scheme \<Rightarrow> RSPMessage option" where
  "sent n = (if messages (outputQueue n) = [] then None else Some (last (messages (outputQueue n))))"

text \<open>A message reaches the peer with its content and its sender, and possibly a signature and other parts.\<close>

definition delivered :: "RSPMessage \<Rightarrow> RSPMessage \<Rightarrow> bool" where
  "delivered m m' \<longleftrightarrow> core m' = core m \<and> senderNodeIdFromMessage m' = senderNodeIdFromMessage m"

lemma generate_publicKey:
  "KeyPair_publicKey lib (Some k) = Inr pk \<Longrightarrow> generateP256 lib (Some k) = Inr (Some k)"
  by (auto simp: generateP256_def KeyPair_new_def KeyPair_publicKey_def algorithmForKey_def res_bind_eq_Inr)

lemma publicKey_written:
  assumes "openssl_ok lib" "KeyPair_publicKey lib (Some k) = Inr pk"
  obtains p where "PEM_write_PUBKEY lib k = Some (public_key_bytes pk)" "PEM_read_PUBKEY lib (public_key_bytes pk) = Some p"
    "fromPublicKey lib pk = Inr (Some p)"
  using assms
  by (fastforce simp: KeyPair_publicKey_def fromPublicKey_def algorithmForKey_def verifyP256_def
      writePublicKeyBytes_def readPublicKeyBuffer_def KeyPair_new_def openssl_ok_def
      res_bind_eq_Inr split: option.splits if_splits)


definition request_message :: "nodeid \<Rightarrow> nodeid \<Rightarrow> bytes \<Rightarrow> PublicKey \<Rightarrow> u64 \<Rightarrow> RSPMessage" where
  "request_message from_node to_node keyId pk lifetime =
     RSPMessage_default\<lparr>source := Some (toProtoNodeId from_node), destination := Some (toProtoNodeId to_node),
       core := aes_key_negotiation_request \<lparr>req_key_id = Some keyId, req_ephemeral_public_key = Some pk,
         requested_lifetime_ms = lifetime, req_algorithm = KEY_NEGOTIATION_ALGORITHM_P256_SHA256_AES256\<rparr>\<rparr>"

definition reply_message :: "nodeid \<Rightarrow> nodeid \<Rightarrow> bytes \<Rightarrow> PublicKey \<Rightarrow> u64 \<Rightarrow> RSPMessage" where
  "reply_message from_node to_node keyId pk lifetime =
     RSPMessage_default\<lparr>source := Some (toProtoNodeId from_node), destination := Some (toProtoNodeId to_node),
       core := aes_key_negotiation_reply \<lparr>rep_key_id = Some keyId, rep_ephemeral_public_key = Some pk,
         accepted_lifetime_ms = lifetime, rep_algorithm = KEY_NEGOTIATION_ALGORITHM_P256_SHA256_AES256\<rparr>\<rparr>"

lemma begin_effect:
  assumes "aes_free peer n" "peer \<noteq> keyNodeID n" "generated inp = Some k"
    and "KeyPair_publicKey (node_openssl n) (Some k) = Inr pk"
  defines "keyId \<equiv> randomKeyId (random_high inp) (random_low inp)"
  obtains v n' where "beginAesKeyNegotiation inp peer ms n = Inr (True, n')"
    "sent n' = Some (request_message (keyNodeID n) peer keyId pk v)"
    "smap_find (pendingByPeer (aesNegotiationState n')) peer =
       Some \<lparr>pend_keyId = keyId, ephemeralKeyPair = Some k, pend_algorithm = KEY_NEGOTIATION_ALGORITHM_P256_SHA256_AES256,
         requestedLifetimeMs = v, pend_expiresAt = addMilliseconds (now_second inp) (pendingTimeoutMs (limits (aesNegotiationState n)))\<rparr>"
    "smap_size (activeByPeer (aesNegotiationState n')) < maxActiveKeys (limits (aesNegotiationState n'))"
    "limits (aesNegotiationState n') = limits (aesNegotiationState n)"
    "aes_ok (aesNegotiationState n')" "same_node n n'"
proof -
  let ?n = "processExpiredAesKeys (now_first inp) n"
  have free: "aes_free peer ?n"
    using assms(1) by (rule aes_free_swept)
  have ok: "aes_ok (aesNegotiationState n)"
    using assms(1) by (simp add: aes_free_def)
  obtain v where v: "clampLifetimeMs ms (limits (aesNegotiationState n)) = Inr v"
    using aes_ok_clamp [OF ok] by blast
  have "\<exists>n'. beginAesKeyNegotiation inp peer ms n = Inr (True, n') \<and>
    sent n' = Some (request_message (keyNodeID n) peer keyId pk v) \<and>
    smap_find (pendingByPeer (aesNegotiationState n')) peer =
       Some \<lparr>pend_keyId = keyId, ephemeralKeyPair = Some k, pend_algorithm = KEY_NEGOTIATION_ALGORITHM_P256_SHA256_AES256,
         requestedLifetimeMs = v, pend_expiresAt = addMilliseconds (now_second inp) (pendingTimeoutMs (limits (aesNegotiationState n)))\<rparr> \<and>
    smap_size (activeByPeer (aesNegotiationState n')) < maxActiveKeys (limits (aesNegotiationState n')) \<and>
    limits (aesNegotiationState n') = limits (aesNegotiationState n)"
    using assms(2,3,4) free
    by (simp add: beginAesKeyNegotiation_def Let_def expire_state_sizes(1) v generate_publicKey aes_free_def
        push_unbounded sent_def request_message_def keyId_def)
  then show thesis
    using that beginAesKeyNegotiation_move [OF ok, of inp peer ms] ok unfolding aes_move_def by auto
qed

lemma request_effect:
  assumes "openssl_ok (node_openssl n)" "aes_free peer n" "generated inp = Some k"
    and "KeyPair_publicKey (node_openssl n) (Some k) = Inr pk" "fromPublicKey (node_openssl n) pk' = Inr (Some p)"
    and "EVP_PKEY_derive n k p = Some secret" "secret \<noteq> []" "length keyId = 16"
    and "delivered (request_message peer (keyNodeID n) keyId pk' v) m"
  obtains w n' where "handleAesNegotiationMessage inp m n = Inr (True, n')"
    "sent n' = Some (reply_message (keyNodeID n) peer keyId pk w)"
    "clampLifetimeMs v (limits (aesNegotiationState n)) = Inr w"
    "smap_find (activeByPeer (aesNegotiationState n')) peer =
       Some \<lparr>act_keyId = keyId, keyMaterial = deriveAesKeyMaterial (node_openssl n) secret keyId (keyNodeID n) peer,
         act_algorithm = KEY_NEGOTIATION_ALGORITHM_P256_SHA256_AES256, act_expiresAt = addMilliseconds (now_second inp) w\<rparr>"
proof -
  let ?n = "processExpiredAesKeys (now_first inp) n"
  have free: "aes_free peer ?n"
    using assms(2) by (rule aes_free_swept)
  obtain w where w: "clampLifetimeMs v (limits (aesNegotiationState n)) = Inr w"
    using aes_ok_clamp assms(2) by (auto simp: aes_free_def)
  have m: "core m = core (request_message peer (keyNodeID n) keyId pk' v)" "senderNodeIdFromMessage m = Some peer"
    using assms(9) by (simp_all add: delivered_def request_message_def RSPMessage_default_def senderNodeIdFromMessage_def)
  show thesis
    using that [OF _ _ w] m free assms(3-8)
    by (simp add: handleAesNegotiationMessage_def Let_def request_message_def aes_request_def isValidKeyId_def
        aes_free_def generate_publicKey deriveSharedSecret_def expire_state_sizes(1) w aes_respond_def push_unbounded
        sent_def reply_message_def)
qed

lemma reply_effect:
  assumes "aes_ok (aesNegotiationState n)" "smap_find (pendingByPeer (aesNegotiationState n)) peer = Some pending"
    and "smap_size (activeByPeer (aesNegotiationState n)) < maxActiveKeys (limits (aesNegotiationState n))"
    and "now_first inp < pend_expiresAt pending" "ephemeralKeyPair pending = Some k" "pend_keyId pending = keyId"
    and "fromPublicKey (node_openssl n) pk = Inr (Some p)" "EVP_PKEY_derive n k p = Some secret" "secret \<noteq> []"
    and "length keyId = 16" "w \<noteq> 0"
    and "delivered (reply_message peer (keyNodeID n) keyId pk w) m"
  obtains w' n' where "handleAesNegotiationMessage inp m n = Inr (True, n')"
    "clampLifetimeMs w (limits (aesNegotiationState n)) = Inr w'"
    "smap_find (pendingByPeer (aesNegotiationState n')) peer = None"
    "smap_find (activeByPeer (aesNegotiationState n')) peer =
       Some \<lparr>act_keyId = keyId, keyMaterial = deriveAesKeyMaterial (node_openssl n) secret keyId (keyNodeID n) peer,
         act_algorithm = KEY_NEGOTIATION_ALGORITHM_P256_SHA256_AES256, act_expiresAt = addMilliseconds (now_second inp) w'\<rparr>"
proof -
  let ?st = "expire_state (now_first inp) (aesNegotiationState n)"
  have st: "smap_find (pendingByPeer ?st) peer = Some pending"
      "smap_size (activeByPeer ?st) < maxActiveKeys (limits (aesNegotiationState n))"
    using assms(1-4) expire_state_sizes(2) [of "now_first inp" "aesNegotiationState n"]
    by (simp_all add: expire_state_find)
  obtain w' where w': "clampLifetimeMs w (limits (aesNegotiationState n)) = Inr w'"
    using aes_ok_clamp [OF assms(1)] by blast
  have m: "core m = core (reply_message peer (keyNodeID n) keyId pk w)" "senderNodeIdFromMessage m = Some peer"
    using assms(12) by (simp_all add: delivered_def reply_message_def RSPMessage_default_def senderNodeIdFromMessage_def)
  show thesis
    using that [OF _ w'] m assms(5-11) st
    by (simp add: handleAesNegotiationMessage_def Let_def reply_message_def aes_reply_def isValidKeyId_def
        deriveSharedSecret_def expire_state_sizes(1) w' aes_respond_def smap_find_erase)
qed


text \<open>
  Two nodes share a key: each has an active key for the other, with the same identifier and material,
  and \<^verbatim>\<open>a\<close> has nothing pending; the keys expire no later than the given times.
\<close>

definition shared_key :: "nodeid \<Rightarrow> ('k, 'z) node_base_scheme \<Rightarrow> datetime \<Rightarrow> nodeid \<Rightarrow> ('k, 'z) node_base_scheme \<Rightarrow> datetime \<Rightarrow> bool" where
  "shared_key ida a latest_a idb b latest_b \<longleftrightarrow>
     (case (smap_find (activeByPeer (aesNegotiationState a)) idb, smap_find (activeByPeer (aesNegotiationState b)) ida) of
        (Some x, Some y) \<Rightarrow>
          act_keyId x = act_keyId y \<and> keyMaterial x = keyMaterial y \<and> length (keyMaterial x) = 32 \<and>
          smap_find (pendingByPeer (aesNegotiationState a)) idb = None \<and>
          act_expiresAt x \<le> latest_a \<and> act_expiresAt y \<le> latest_b
      | _ \<Rightarrow> False)"

lemma reply_agrees:
  assumes "openssl_ok (node_openssl n)" "aes_ok (aesNegotiationState n)"
    and "smap_find (pendingByPeer (aesNegotiationState n)) peer = Some pending"
    and "smap_size (activeByPeer (aesNegotiationState n)) < maxActiveKeys (limits (aesNegotiationState n))"
    and "now_first inp < pend_expiresAt pending" "ephemeralKeyPair pending = Some k" "pend_keyId pending = keyId"
    and "fromPublicKey (node_openssl n) pk = Inr (Some p)" "EVP_PKEY_derive n k p = Some secret" "secret \<noteq> []"
    and "length keyId = 16" "w \<noteq> 0"
    and "delivered (reply_message peer (keyNodeID n) keyId pk w) m"
    and "smap_find (activeByPeer (aesNegotiationState b)) (keyNodeID n) =
      Some \<lparr>act_keyId = keyId, keyMaterial = deriveAesKeyMaterial (node_openssl n) secret keyId peer (keyNodeID n),
        act_algorithm = alg, act_expiresAt = expiry\<rparr>" "expiry \<le> latest"
  shows "\<exists>a. handleAesNegotiationMessage inp m n = Inr (True, a) \<and>
    shared_key (keyNodeID n) a (addMilliseconds (now_second inp) (maxLifetimeMs (limits (aesNegotiationState n)))) peer b latest"
proof (rule reply_effect [OF assms(2-13)])
  fix w' n'
  assume n': "handleAesNegotiationMessage inp m n = Inr (True, n')"
    "clampLifetimeMs w (limits (aesNegotiationState n)) = Inr w'"
    "smap_find (pendingByPeer (aesNegotiationState n')) peer = None"
    "smap_find (activeByPeer (aesNegotiationState n')) peer =
       Some \<lparr>act_keyId = keyId, keyMaterial = deriveAesKeyMaterial (node_openssl n) secret keyId (keyNodeID n) peer,
         act_algorithm = KEY_NEGOTIATION_ALGORITHM_P256_SHA256_AES256, act_expiresAt = addMilliseconds (now_second inp) w'\<rparr>"
  have "w' \<le> maxLifetimeMs (limits (aesNegotiationState n))"
    using clamp_bounds [OF _ n'(2)] assms(2) by (auto simp: aes_ok_def)
  then show ?thesis
    using n' assms(1,14,15) deriveAesKeyMaterial_commute [of "node_openssl n" secret keyId "keyNodeID n" peer]
    by (simp add: shared_key_def addMilliseconds_mono)
qed



text \<open>
  Nothing expired is left: a sweep at a time removes exactly the keys and the negotiations that have
  expired by then, keeps the others as they are, and queues one drop notification for each removed key,
  in the order of the peers, addressed to the peer with the identifier of the key. The look-up
  operations sweep first, so they never see an expired key.
\<close>

theorem aes_sweep:
  assumes "aes_ok (aesNegotiationState n)" "queueLimit (outputQueue n) = 0"
    and n': "n' = processExpiredAesKeys now n"
  shows "(\<forall>p. smap_find (activeByPeer (aesNegotiationState n')) p =
      (case smap_find (activeByPeer (aesNegotiationState n)) p of Some k \<Rightarrow> if now < act_expiresAt k then Some k else None | None \<Rightarrow> None)) \<and>
    (\<forall>p. smap_find (pendingByPeer (aesNegotiationState n')) p =
      (case smap_find (pendingByPeer (aesNegotiationState n)) p of Some k \<Rightarrow> if now < pend_expiresAt k then Some k else None | None \<Rightarrow> None)) \<and>
    messages (outputQueue n') = messages (outputQueue n) @
      map (\<lambda>(p, k). makeAesKeyDropNotification (keyNodeID n) p (act_keyId k) ''expired'')
        (filter (\<lambda>(p, k). act_expiresAt k \<le> now) (activeByPeer (aesNegotiationState n))) \<and>
    (fst (hasAesKey now p n) \<longleftrightarrow> (\<exists>k. smap_find (activeByPeer (aesNegotiationState n)) p = Some k \<and> now < act_expiresAt k)) \<and>
    (fst (aesKeyMaterialForPeer now p n) = Some mat \<longleftrightarrow>
       (\<exists>k. smap_find (activeByPeer (aesNegotiationState n)) p = Some k \<and> now < act_expiresAt k \<and> keyMaterial k = mat))"
proof -
  have "messages (outputQueue (push_all ms n)) = messages (outputQueue n) @ ms"
    if "queueLimit (outputQueue n) = 0" for ms and n :: "('a, 'b) node_base_scheme"
    using that by (induction ms arbitrary: n) (simp_all add: push_all_def push_unbounded)
  then have "messages (outputQueue n') = messages (outputQueue n) @
      map (\<lambda>(p, k). makeAesKeyDropNotification (keyNodeID n) p (act_keyId k) ''expired'')
        (filter (\<lambda>(p, k). act_expiresAt k \<le> now) (activeByPeer (aesNegotiationState n)))"
    using assms(2) by (simp add: processExpiredAesKeys_def Let_def n' not_less)
  then show ?thesis
    using assms(1)
    by (auto simp: n' expire_state_find hasAesKey_def aesKeyMaterialForPeer_def Let_def split: option.splits)
qed

text \<open>
  Two nodes that start at the same time get no key. When both have a negotiation pending with the
  other and each receives the other's request before anything else, both refuse it, and each refusal
  removes the negotiation it answers: nothing is pending and no key exists afterwards.
\<close>

theorem aes_glare:
  assumes "aes_ok (aesNegotiationState a)" "queueLimit (outputQueue a) = 0"
    and "smap_find (pendingByPeer (aesNegotiationState a)) (keyNodeID b) = Some x" "now_first i < pend_expiresAt x"
    and "length keyId = 16" "delivered (request_message (keyNodeID b) (keyNodeID a) keyId pk v) m"
    and "aes_ok (aesNegotiationState b)"
    and "smap_find (pendingByPeer (aesNegotiationState b)) (keyNodeID a) = Some y" "pend_keyId y = keyId"
  shows "\<exists>a' refusal. handleAesNegotiationMessage i m a = Inr (True, a') \<and> sent a' = Some refusal \<and>
    smap_find (activeByPeer (aesNegotiationState a')) (keyNodeID b) = None \<and>
    (\<forall>m' j. delivered refusal m' \<longrightarrow> (\<exists>b'. handleAesNegotiationMessage j m' b = Inr (True, b') \<and>
       smap_find (pendingByPeer (aesNegotiationState b')) (keyNodeID a) = None \<and>
       smap_find (activeByPeer (aesNegotiationState b')) (keyNodeID a) = None))"
proof -
  let ?st = "expire_state (now_first i) (aesNegotiationState a)"
  have pending: "smap_find (pendingByPeer ?st) (keyNodeID b) = Some x"
    using assms(1,3,4) by (simp add: expire_state_find)
  have m: "core m = core (request_message (keyNodeID b) (keyNodeID a) keyId pk v)" "senderNodeIdFromMessage m = Some (keyNodeID b)"
    using assms(6) by (simp_all add: delivered_def request_message_def RSPMessage_default_def senderNodeIdFromMessage_def)
  show ?thesis
    using m pending assms(2,5,7-9) pending_no_active [OF expire_state_ok [OF assms(1)] pending]
      pending_no_active [OF assms(7,8)]
    by (auto simp: handleAesNegotiationMessage_def Let_def request_message_def aes_request_def isValidKeyId_def
        aes_respond_def push_unbounded sent_def delivered_def makeAesKeyNegotiationError_def RSPMessage_default_def
        senderNodeIdFromMessage_def handleAesKeyNegotiationError_def expire_state_find smap_find_erase split: option.split)
qed


section \<open>Concrete runs\<close>

definition toy_derive :: "nat \<Rightarrow> nat \<Rightarrow> bytes option" where
  "toy_derive k p = Some [char_of (k + p)]"

lemma toy_ecdh: "ecdh_ok toy_openssl toy_derive"
proof -
  have "char_of (k + k' mod 256) = char_of (k + k')" for k k' :: nat
    using char_of_mod_256 [of "k + k' mod 256"] char_of_mod_256 [of "k + k'"] by (simp add: mod_add_right_eq)
  from this [of _ _] show ?thesis
    by (auto simp: ecdh_ok_def toy_openssl_def toy_derive_def add.commute)
qed

definition toy_pending :: "bytes \<Rightarrow> nat PendingAesNegotiation" where
  "toy_pending keyId = \<lparr>pend_keyId = keyId, ephemeralKeyPair = Some 7, pend_algorithm = 1, requestedLifetimeMs = 1000,
     pend_expiresAt = 10\<rparr>"

definition toy_aes :: "nodeid \<Rightarrow> (nodeid \<times> nat PendingAesNegotiation) list \<Rightarrow> nat node_base" where
  "toy_aes own pending = \<lparr>node_openssl = toy_openssl, EVP_PKEY_derive = toy_derive, keyNodeID = own,
     aesNegotiationState = \<lparr>limits = AesNegotiationLimits_default, pendingByPeer = pending, activeByPeer = []\<rparr>,
     outputQueue = MessageQueue_new\<rparr>"

definition toy_inputs :: "real \<Rightarrow> nat \<Rightarrow> nat aes_inputs" where
  "toy_inputs t k = \<lparr>now_first = t, now_second = t, random_high = 5, random_low = 6, generated = Some k\<rparr>"

lemma toy_aes_ok:
  "aes_ok (aesNegotiationState (toy_aes own []))"
  "length keyId = 16 \<Longrightarrow> aes_ok (aesNegotiationState (toy_aes own [(p, toy_pending keyId)]))"
  by (auto simp: aes_ok_def toy_aes_def limits_ok_def AesNegotiationLimits_default_def toy_pending_def smap_find_def
      smap_ok_def)

lemma toy_aes_free: "aes_free p (toy_aes own [])"
  using toy_aes_ok(1) [of own]
  by (simp add: aes_free_def) (simp add: toy_aes_def AesNegotiationLimits_default_def MessageQueue_new_def smap_size_def)

lemma toy_publicKey_any: "KeyPair_publicKey toy_openssl (Some k) = Inr \<lparr>key_algorithm = P256, public_key_bytes = [char_of k]\<rparr>"
  by (simp add: KeyPair_publicKey_def algorithmForKey_def verifyP256_def writePublicKeyBytes_def toy_openssl_def)

theorem aes_run_invariant_witness:
  "\<exists>n n'. node_base_new toy_openssl toy_derive (Some 7) = Inr n \<and>
     aes_run [Set_limits (AesNegotiationLimits_default\<lparr>maxLifetimeMs := 0\<rparr>), Begin (toy_inputs 0 9) (GUID 1 2) 0] n = Inr n' \<and>
     aes_ok (aesNegotiationState n')"
proof -
  obtain n where n: "node_base_new toy_openssl toy_derive (Some 7) = Inr n"
    by (simp add: node_base_new_def nodeID_def toy_openssl_def Let_def)
  from aes_run_invariant [OF toy_openssl_ok n] n show ?thesis by blast
qed


theorem aes_sweep_witness:
  "smap_find (pendingByPeer (aesNegotiationState
     (processExpiredAesKeys 10 (toy_aes (GUID 1 0) [(GUID 2 0, toy_pending (replicate 16 (CHR ''a'')))])))) (GUID 2 0) = None"
  using aes_sweep [OF toy_aes_ok(2) [of "replicate 16 (CHR ''a'')" "GUID 1 0" "GUID 2 0"] _ refl, of 10]
  by (simp add: toy_aes_def MessageQueue_new_def) (simp add: smap_find_def toy_pending_def)

theorem aes_glare_witness:
  "\<exists>a' refusal. handleAesNegotiationMessage (toy_inputs 0 9)
       (request_message (GUID 2 0) (GUID 1 0) (replicate 16 (CHR ''b'')) PublicKey_default 1000)
       (toy_aes (GUID 1 0) [(GUID 2 0, toy_pending (replicate 16 (CHR ''a'')))]) = Inr (True, a') \<and>
     sent a' = Some refusal \<and> smap_find (activeByPeer (aesNegotiationState a')) (GUID 2 0) = None"
proof -
  let ?a = "toy_aes (GUID 1 0) [(GUID 2 0, toy_pending (replicate 16 (CHR ''a'')))]"
  let ?b = "toy_aes (GUID 2 0) [(GUID 1 0, toy_pending (replicate 16 (CHR ''b'')))]"
  have a: "queueLimit (outputQueue ?a) = 0" "keyNodeID ?a = GUID 1 0" "keyNodeID ?b = GUID 2 0"
    "smap_find (pendingByPeer (aesNegotiationState ?a)) (GUID 2 0) = Some (toy_pending (replicate 16 (CHR ''a'')))"
    "smap_find (pendingByPeer (aesNegotiationState ?b)) (GUID 1 0) = Some (toy_pending (replicate 16 (CHR ''b'')))"
    by (simp_all add: toy_aes_def MessageQueue_new_def smap_find_def)
  have t: "now_first (toy_inputs 0 9) < pend_expiresAt (toy_pending (replicate 16 (CHR ''a'')))"
      "pend_keyId (toy_pending (replicate 16 (CHR ''b''))) = replicate 16 (CHR ''b'')"
    by (simp_all add: toy_inputs_def toy_pending_def)
  show ?thesis
    using aes_glare [of ?a ?b, OF toy_aes_ok(2) a(1) _ t(1) _ _ toy_aes_ok(2) _ t(2)] a
    by (simp add: delivered_def) blast
qed

end
