(* ===== verification/Logging.thy ===== *)
theory Logging
  imports Requirement Message_Hash Std_Map "HOL-Library.Sublist"
begin

text \<open>
  \<^verbatim>\<open>src/common/logging/logging.cpp\<close>: log subscriptions with filters over the payload of a record, and
  the publication of a record to the subscribers. The time and the fresh subscription identifier are
  arguments. The delivery callback is a function on a state of its own that answers whether the
  message was taken.
\<close>

section \<open>Identifiers and times on the wire\<close>

definition guidFromProto :: "Uuid \<Rightarrow> guid option" where
  "guidFromProto v =
     (if length v \<noteq> 16 then None else Some (GUID (native_u64_of (take 8 v)) (native_u64_of (take 8 (drop 8 v)))))"

definition guidToProto :: "guid \<Rightarrow> Uuid" where
  "guidToProto g = native_u64_bytes (high g) @ native_u64_bytes (low g)"

definition nodeIdToProto :: "nodeid \<Rightarrow> NodeId" where
  "nodeIdToProto n = native_u64_bytes (high n) @ native_u64_bytes (low n)"

definition dateTimeToProto :: "datetime \<Rightarrow> DateTimeMsg" where
  "dateTimeToProto t = millisecondsSinceEpoch t"

lemma guidFromProto_guidToProto [simp]: "guidFromProto (guidToProto g) = Some g"
  by (cases g) (simp add: guidFromProto_def guidToProto_def native_u64.dec_enc)

lemma nodeIdToProto_inject [simp]: "nodeIdToProto a = nodeIdToProto b \<longleftrightarrow> a = b"
  by (metis guidFromProto_guidToProto guidToProto_def nodeIdToProto_def option.inject)

section \<open>Filters\<close>

text \<open>A path of a log filter has the same segments as the path of a requirement.\<close>

definition toFieldPath :: "FieldPath \<Rightarrow> FieldPath" where
  "toFieldPath path = map (\<lambda>seg. seg) path"

definition toFieldValue :: "LogFieldValue \<Rightarrow> FieldValue" where
  "toFieldValue v =
     (case v of
        LFV_bytes b \<Rightarrow> FV_bytes b
      | LFV_string s \<Rightarrow> FV_string s
      | LFV_int n \<Rightarrow> FV_int n
      | LFV_uint n \<Rightarrow> FV_uint n
      | LFV_bool b \<Rightarrow> FV_bool b
      | LFV_enum n \<Rightarrow> FV_enum n
      | LFV_not_set \<Rightarrow> FV_not_set)"

fun evaluateFilterTreeImpl :: "LogTree \<Rightarrow> desc_pool \<Rightarrow> dmsg \<Rightarrow> snapshot_view option \<Rightarrow> bool result" where
  "evaluateFilterTreeImpl (LT_equals (Some l) (Some r)) pool m snap =
     res_eq (evaluateFilterTreeImpl l pool m snap) (evaluateFilterTreeImpl r pool m snap)"
| "evaluateFilterTreeImpl (LT_equals None r) pool m snap = Inr False"
| "evaluateFilterTreeImpl (LT_equals (Some l) None) pool m snap = Inr False"
| "evaluateFilterTreeImpl (LT_and (Some l) (Some r)) pool m snap =
     res_and (evaluateFilterTreeImpl l pool m snap) (evaluateFilterTreeImpl r pool m snap)"
| "evaluateFilterTreeImpl (LT_and None r) pool m snap = Inr False"
| "evaluateFilterTreeImpl (LT_and (Some l) None) pool m snap = Inr False"
| "evaluateFilterTreeImpl (LT_or (Some l) (Some r)) pool m snap =
     res_or (evaluateFilterTreeImpl l pool m snap) (evaluateFilterTreeImpl r pool m snap)"
| "evaluateFilterTreeImpl (LT_or None r) pool m snap = Inr False"
| "evaluateFilterTreeImpl (LT_or (Some l) None) pool m snap = Inr False"
| "evaluateFilterTreeImpl (LT_all_of ts) pool m snap =
     (if ts = [] then Inr False else res_all (\<lambda>t. evaluateFilterTreeImpl t pool m snap) ts)"
| "evaluateFilterTreeImpl (LT_any_of ts) pool m snap = res_any (\<lambda>t. evaluateFilterTreeImpl t pool m snap) ts"
| "evaluateFilterTreeImpl (LT_field_equals path val) pool m snap =
     (case (path, val) of
        (Some p, Some v) \<Rightarrow>
          res_bind (resolveFieldPath (toFieldPath p) pool m snap) (\<lambda>resolved.
            Inr (resolvedValueEquals resolved (toFieldValue v)))
      | _ \<Rightarrow> Inr False)"
| "evaluateFilterTreeImpl (LT_field_exists path) pool m snap =
     (case path of
        None \<Rightarrow> Inr False
      | Some p \<Rightarrow>
          res_bind (resolveFieldPath (toFieldPath p) pool m snap) (\<lambda>resolved. Inr (resolvedValuePresent resolved)))"
| "evaluateFilterTreeImpl (LT_field_contains path sub_path val) pool m snap =
     (case (path, sub_path, val) of
        (Some p, Some q, Some v) \<Rightarrow>
          res_bind (resolveRepeatedMessages (toFieldPath p) pool m snap) (\<lambda>elements.
            res_any (\<lambda>(epool, elem).
              res_bind elem (\<lambda>x.
              res_bind (resolveFieldPath (toFieldPath q) epool x snap) (\<lambda>resolved.
                Inr (resolvedValueEquals resolved (toFieldValue v))))) elements)
      | _ \<Rightarrow> Inr False)"
| "evaluateFilterTreeImpl LT_true pool m snap = Inr True"
| "evaluateFilterTreeImpl LT_false pool m snap = Inr False"
| "evaluateFilterTreeImpl LT_not_set pool m snap = Inr False"

section \<open>Subscriptions\<close>

record Subscription =
  subscriberNodeId :: nodeid
  payloadTypeUrl :: string
  sub_filter :: LogTree
  sub_expiresAt :: datetime

record SubscriptionManager =
  logNodeId :: nodeid
  subscriptions :: "(guid, Subscription) std_map"

record PublishStats =
  matched_subscriptions :: nat
  delivered_messages :: nat
  expired_subscriptions :: nat
  removed_subscriptions_on_failure :: nat

definition SubscriptionManager_new :: "nodeid \<Rightarrow> SubscriptionManager" where
  "SubscriptionManager_new n = \<lparr>logNodeId = n, subscriptions = []\<rparr>"

text \<open>\<^verbatim>\<open>emplace\<close> leaves the entry of a key that is present.\<close>

definition subscribe :: "guid \<Rightarrow> nodeid \<Rightarrow> LogSubscribeRequest \<Rightarrow> datetime \<Rightarrow> SubscriptionManager \<Rightarrow>
    LogSubscribeReply \<times> SubscriptionManager" where
  "subscribe fresh subscriber request now sm =
     (case log_filter request of
        Some tree \<Rightarrow>
          if payload_type_url request = [] \<or> duration_ms request = 0
          then (\<lparr>sub_status = LOG_SUBSCRIPTION_STATUS_INVALID, sub_id = None, expires_at = None,
                 sub_message = ''log subscriptions require payload_type_url, filter, and non-zero duration_ms''\<rparr>, sm)
          else
            let expiresAt = addSeconds now (real (unat (duration_ms request)) / 1000);
                sub = \<lparr>subscriberNodeId = subscriber, payloadTypeUrl = payload_type_url request, sub_filter = tree,
                       sub_expiresAt = expiresAt\<rparr>
            in (\<lparr>sub_status = LOG_SUBSCRIPTION_STATUS_ACCEPTED, sub_id = Some (guidToProto fresh),
                 expires_at = Some (dateTimeToProto expiresAt), sub_message = []\<rparr>,
                if smap_find (subscriptions sm) fresh = None
                then sm\<lparr>subscriptions := smap_set fresh sub (subscriptions sm)\<rparr> else sm)
      | None \<Rightarrow>
          (\<lparr>sub_status = LOG_SUBSCRIPTION_STATUS_INVALID, sub_id = None, expires_at = None,
            sub_message = ''log subscriptions require payload_type_url, filter, and non-zero duration_ms''\<rparr>, sm))"

definition unsubscribe :: "nodeid \<Rightarrow> LogUnsubscribeRequest \<Rightarrow> SubscriptionManager \<Rightarrow>
    LogUnsubscribeReply \<times> SubscriptionManager" where
  "unsubscribe subscriber request sm =
     (case unsub_req_id request of
        None \<Rightarrow>
          (\<lparr>unsub_status = LOG_SUBSCRIPTION_STATUS_INVALID, unsub_id = None, unsub_message = ''subscription_id is required''\<rparr>, sm)
      | Some u \<Rightarrow>
          (case guidFromProto u of
             None \<Rightarrow>
               (\<lparr>unsub_status = LOG_SUBSCRIPTION_STATUS_INVALID, unsub_id = None,
                 unsub_message = ''subscription_id must be 16 bytes''\<rparr>, sm)
           | Some subscriptionId \<Rightarrow>
               (case smap_find (subscriptions sm) subscriptionId of
                  Some s \<Rightarrow>
                    if subscriberNodeId s = subscriber
                    then (\<lparr>unsub_status = LOG_SUBSCRIPTION_STATUS_REMOVED, unsub_id = Some u, unsub_message = []\<rparr>,
                          sm\<lparr>subscriptions := smap_erase subscriptionId (subscriptions sm)\<rparr>)
                    else (\<lparr>unsub_status = LOG_SUBSCRIPTION_STATUS_NOT_FOUND, unsub_id = Some u,
                           unsub_message = ''subscription not found for subscriber''\<rparr>, sm)
                | None \<Rightarrow>
                    (\<lparr>unsub_status = LOG_SUBSCRIPTION_STATUS_NOT_FOUND, unsub_id = Some u,
                      unsub_message = ''subscription not found for subscriber''\<rparr>, sm))))"

definition removeExpired :: "datetime \<Rightarrow> SubscriptionManager \<Rightarrow> nat \<times> SubscriptionManager" where
  "removeExpired now sm =
     (length (filter (\<lambda>e. sub_expiresAt (snd e) \<le> now) (subscriptions sm)),
      sm\<lparr>subscriptions := smap_erase_if (\<lambda>_ s. sub_expiresAt s \<le> now) (subscriptions sm)\<rparr>)"

definition removeAllForNode :: "nodeid \<Rightarrow> SubscriptionManager \<Rightarrow> nat \<times> SubscriptionManager" where
  "removeAllForNode n sm =
     (length (filter (\<lambda>e. subscriberNodeId (snd e) = n) (subscriptions sm)),
      sm\<lparr>subscriptions := smap_erase_if (\<lambda>_ s. subscriberNodeId s = n) (subscriptions sm)\<rparr>)"

definition subscriptionCount :: "SubscriptionManager \<Rightarrow> nat" where
  "subscriptionCount sm = smap_size (subscriptions sm)"

definition hasSubscription :: "guid \<Rightarrow> SubscriptionManager \<Rightarrow> bool" where
  "hasSubscription g sm \<longleftrightarrow> smap_find (subscriptions sm) g \<noteq> None"

section \<open>Publication\<close>

text \<open>The message sent to one subscriber: absent fields of the record are filled in.\<close>

definition envelope :: "nodeid \<Rightarrow> datetime \<Rightarrow> LogRecord \<Rightarrow> guid \<times> Subscription \<Rightarrow> RSPMessage" where
  "envelope local now record candidate =
     RSPMessage_default\<lparr>source := Some (nodeIdToProto local),
       destination := Some (nodeIdToProto (subscriberNodeId (snd candidate))),
       core := log_record
         \<lparr>rec_subscription_id = (case rec_subscription_id record of None \<Rightarrow> Some (guidToProto (fst candidate)) | x \<Rightarrow> x),
          producer_node_id = (case producer_node_id record of None \<Rightarrow> Some (nodeIdToProto local) | x \<Rightarrow> x),
          time_created = (case time_created record of None \<Rightarrow> Some (dateTimeToProto now) | x \<Rightarrow> x),
          payload = payload record\<rparr>\<rparr>"

type_synonym 'q deliver = "RSPMessage \<Rightarrow> 'q \<Rightarrow> bool \<times> 'q"

primrec publish_loop :: "snapshot_view \<Rightarrow> dmsg \<Rightarrow> LogRecord \<Rightarrow> string \<Rightarrow> datetime \<Rightarrow> 'q deliver \<Rightarrow>
    (guid \<times> Subscription) list \<Rightarrow> nodeid list \<Rightarrow> PublishStats \<Rightarrow> SubscriptionManager \<Rightarrow> 'q \<Rightarrow>
    (PublishStats \<times> SubscriptionManager \<times> 'q) result" where
  "publish_loop snap unpacked record url now deliver [] failed stats sm q = Inr (stats, sm, q)"
| "publish_loop snap unpacked record url now deliver (c # cs) failed stats sm q =
     (if subscriberNodeId (snd c) \<in> set failed \<or> payloadTypeUrl (snd c) \<noteq> url
      then publish_loop snap unpacked record url now deliver cs failed stats sm q
      else res_bind (evaluateFilterTreeImpl (sub_filter (snd c)) (snap_pool snap) unpacked (Some snap)) (\<lambda>matches.
        if \<not> matches then publish_loop snap unpacked record url now deliver cs failed stats sm q
        else
          let stats = stats\<lparr>matched_subscriptions := matched_subscriptions stats + 1\<rparr>
          in case deliver (envelope (logNodeId sm) now record c) q of
               (False, q) \<Rightarrow>
                 (case removeAllForNode (subscriberNodeId (snd c)) sm of
                    (removed, sm) \<Rightarrow>
                      publish_loop snap unpacked record url now deliver cs (subscriberNodeId (snd c) # failed)
                        (stats\<lparr>removed_subscriptions_on_failure := removed_subscriptions_on_failure stats + removed\<rparr>) sm q)
             | (True, q) \<Rightarrow>
                 publish_loop snap unpacked record url now deliver cs failed
                   (stats\<lparr>delivered_messages := delivered_messages stats + 1\<rparr>) sm q))"

definition publish :: "LogRecord \<Rightarrow> 'q deliver \<Rightarrow> snapshot_view option \<Rightarrow> datetime \<Rightarrow> SubscriptionManager \<Rightarrow> 'q \<Rightarrow>
    (PublishStats \<times> SubscriptionManager \<times> 'q) result" where
  "publish record deliver schemaSnapshot now sm q =
     (let stats = \<lparr>matched_subscriptions = 0, delivered_messages = 0, expired_subscriptions = 0,
                   removed_subscriptions_on_failure = 0\<rparr>
      in case payload record of
           None \<Rightarrow> Inr (stats, sm, q)
         | Some p \<Rightarrow>
             if type_url p = [] then Inr (stats, sm, q)
             else
               (case removeExpired now sm of
                  (expired, sm) \<Rightarrow>
                    let stats = stats\<lparr>expired_subscriptions := expired\<rparr>
                    in case schemaSnapshot of
                         None \<Rightarrow> Inr (stats, sm, q)
                       | Some snap \<Rightarrow>
                           let name = typeNameFromUrl (type_url p)
                           in case snap_pool snap name of
                                None \<Rightarrow> Inr (stats, sm, q)
                              | Some d \<Rightarrow>
                                  (case snap_parse snap name (any_value p) of
                                     None \<Rightarrow> Inr (stats, sm, q)
                                   | Some unpacked \<Rightarrow>
                                       publish_loop snap unpacked record (type_url p) now deliver
                                         (subscriptions sm) [] stats sm q)))"


section \<open>Filters and requirement trees\<close>

text \<open>The message tree of the requirement language with the same nodes.\<close>

primrec message_tree :: "LogTree \<Rightarrow> MesTree" where
  "message_tree (LT_equals l r) = MT_equals (map_option message_tree l) (map_option message_tree r)"
| "message_tree (LT_and l r) = MT_and (map_option message_tree l) (map_option message_tree r)"
| "message_tree (LT_or l r) = MT_or (map_option message_tree l) (map_option message_tree r)"
| "message_tree LT_true = MT_true"
| "message_tree LT_false = MT_false"
| "message_tree (LT_all_of ts) = MT_all_of (map message_tree ts)"
| "message_tree (LT_any_of ts) = MT_any_of (map message_tree ts)"
| "message_tree (LT_field_equals p v) = MT_field_equals p (map_option toFieldValue v)"
| "message_tree (LT_field_exists p) = MT_field_exists p"
| "message_tree (LT_field_contains p q v) = MT_field_contains p q (map_option toFieldValue v)"
| "message_tree LT_not_set = MT_not_set"

lemma toFieldPath_id [simp]: "toFieldPath p = p"
  by (simp add: toFieldPath_def)



section \<open>Delivery\<close>

text \<open>
  A delivery callback that keeps the attempts and its answers; what it answers is arbitrary.
\<close>

type_synonym attempts = "(RSPMessage \<times> bool) list"

definition recording :: "(RSPMessage \<Rightarrow> attempts \<Rightarrow> bool) \<Rightarrow> attempts deliver" where
  "recording answer m q = (answer m q, q @ [(m, answer m q)])"

text \<open>A subscriber is lost when an attempt to reach it failed.\<close>

definition lost :: "attempts \<Rightarrow> nodeid \<Rightarrow> bool" where
  "lost q n \<longleftrightarrow> (\<exists>m. (m, False) \<in> set q \<and> destination m = Some (nodeIdToProto n))"

fun no_retry :: "attempts \<Rightarrow> bool" where
  "no_retry [] = True"
| "no_retry ((m, b) # q) = (no_retry q \<and> (b \<or> (\<forall>x \<in> set q. destination (fst x) \<noteq> destination m)))"

definition wants :: "snapshot_view \<Rightarrow> dmsg \<Rightarrow> string \<Rightarrow> guid \<times> Subscription \<Rightarrow> bool" where
  "wants snap unpacked url c \<longleftrightarrow> payloadTypeUrl (snd c) = url \<and>
     evaluateFilterTreeImpl (sub_filter (snd c)) (snap_pool snap) unpacked (Some snap) = Inr True"

definition evaluates :: "snapshot_view \<Rightarrow> dmsg \<Rightarrow> guid \<times> Subscription \<Rightarrow> bool" where
  "evaluates snap unpacked c \<longleftrightarrow>
     (\<exists>b. evaluateFilterTreeImpl (sub_filter (snd c)) (snap_pool snap) unpacked (Some snap) = Inr b)"

text \<open>What the attempts of a loop over candidates satisfy.\<close>

definition fair_attempts :: "(guid \<times> Subscription \<Rightarrow> bool) \<Rightarrow> (guid \<times> Subscription \<Rightarrow> RSPMessage) \<Rightarrow>
    (guid \<times> Subscription) list \<Rightarrow> nodeid list \<Rightarrow> attempts \<Rightarrow> bool" where
  "fair_attempts match env cs failed q \<longleftrightarrow>
     subseq (map fst q) (map env (filter match cs)) \<and> no_retry q \<and>
     (\<forall>n \<in> set failed. \<forall>x \<in> set q. destination (fst x) \<noteq> Some (nodeIdToProto n)) \<and>
     (\<forall>c \<in> set cs. match c \<longrightarrow> subscriberNodeId (snd c) \<in> set failed \<or> lost q (subscriberNodeId (snd c)) \<or> (env c, True) \<in> set q)"

lemma fair_skip:
  assumes "fair_attempts match env cs failed q" "subscriberNodeId (snd c) \<in> set failed \<or> \<not> match c"
  shows "fair_attempts match env (c # cs) failed q"
  using assms by (auto simp: fair_attempts_def)

lemma fair_sent:
  assumes "fair_attempts match env cs failed q" "match c" "subscriberNodeId (snd c) \<notin> set failed"
    and "destination (env c) = Some (nodeIdToProto (subscriberNodeId (snd c)))"
  shows "fair_attempts match env (c # cs) failed ((env c, True) # q)"
  using assms by (auto simp: fair_attempts_def lost_def)

lemma fair_lost:
  assumes "fair_attempts match env cs (subscriberNodeId (snd c) # failed) q" "match c" "subscriberNodeId (snd c) \<notin> set failed"
    and "destination (env c) = Some (nodeIdToProto (subscriberNodeId (snd c)))"
  shows "fair_attempts match env (c # cs) failed ((env c, False) # q)"
  using assms by (fastforce simp: fair_attempts_def lost_def)

lemma destination_envelope [simp]: "destination (envelope local now record c) = Some (nodeIdToProto (subscriberNodeId (snd c)))"
  by (simp add: envelope_def)

lemma lost_simps [simp]:
  "\<not> lost [] n" "lost ((m, True) # q) n = lost q n"
  "lost ((envelope local now record c, False) # q) n \<longleftrightarrow> n = subscriberNodeId (snd c) \<or> lost q n"
  by (auto simp: lost_def)

lemma erase_erase: "smap_erase_if P (smap_erase_if Q m) = smap_erase_if (\<lambda>k v. Q k v \<or> P k v) m"
  by (simp add: smap_erase_if_def conj_commute)

lemma removed_count: "length (filter (\<lambda>e. P (snd e)) m) + smap_size (smap_erase_if (\<lambda>_. P) m) = smap_size m"
  using sum_length_filter_compl [of "\<lambda>e. P (snd e)" m] by (simp add: smap_size_def smap_erase_if_def)


text \<open>The accounts of a publication: what was attempted, delivered and removed.\<close>

definition accounts :: "PublishStats \<Rightarrow> SubscriptionManager \<Rightarrow> attempts \<Rightarrow> PublishStats \<Rightarrow> SubscriptionManager \<Rightarrow> bool" where
  "accounts stats sm q stats' sm' \<longleftrightarrow>
     sm' = sm\<lparr>subscriptions := smap_erase_if (\<lambda>_ s. lost q (subscriberNodeId s)) (subscriptions sm)\<rparr> \<and>
     matched_subscriptions stats' = matched_subscriptions stats + length q \<and>
     delivered_messages stats' = delivered_messages stats + length (filter snd q) \<and>
     expired_subscriptions stats' = expired_subscriptions stats \<and>
     removed_subscriptions_on_failure stats' + smap_size (subscriptions sm') =
       removed_subscriptions_on_failure stats + smap_size (subscriptions sm)"

lemma accounts_refl [simp]: "accounts stats sm [] stats sm"
  by (simp add: accounts_def smap_erase_if_def)

lemma accounts_sent:
  "accounts (stats\<lparr>matched_subscriptions := Suc (matched_subscriptions stats),
      delivered_messages := Suc (delivered_messages stats)\<rparr>) sm q stats' sm' \<Longrightarrow>
   accounts stats sm ((m, True) # q) stats' sm'"
  by (auto simp: accounts_def)

lemma accounts_lost:
  assumes "removeAllForNode (subscriberNodeId (snd c)) sm = (removed, sm1)"
    and "accounts (stats\<lparr>matched_subscriptions := Suc (matched_subscriptions stats),
      removed_subscriptions_on_failure := removed_subscriptions_on_failure stats + removed\<rparr>) sm1 q stats' sm'"
  shows "accounts stats sm ((envelope local now record c, False) # q) stats' sm'"
  using assms removed_count [of "\<lambda>s. subscriberNodeId s = subscriberNodeId (snd c)" "subscriptions sm"]
  by (auto simp: accounts_def removeAllForNode_def erase_erase)

lemma publish_loop_accounts:
  assumes "list_all (evaluates snap unpacked) cs"
  shows "\<exists>new stats' sm'. publish_loop snap unpacked record url now (recording answer) cs failed stats sm q = Inr (stats', sm', q @ new) \<and>
    accounts stats sm new stats' sm' \<and>
    fair_attempts (wants snap unpacked url) (envelope (logNodeId sm) now record) cs failed new"
  using assms
proof (induction cs arbitrary: failed stats sm q)
  case Nil
  then show ?case by (simp add: fair_attempts_def)
next
  case (Cons c cs)
  then have tail: "list_all (evaluates snap unpacked) cs" by simp
  obtain b where b: "evaluateFilterTreeImpl (sub_filter (snd c)) (snap_pool snap) unpacked (Some snap) = Inr b"
    using Cons.prems by (auto simp: evaluates_def)
  let ?n = "subscriberNodeId (snd c)" and ?e = "envelope (logNodeId sm) now record c"
  consider (skip) "?n \<in> set failed \<or> \<not> wants snap unpacked url c"
    | (sent) "?n \<notin> set failed" "wants snap unpacked url c" "answer ?e q"
    | (lost) "?n \<notin> set failed" "wants snap unpacked url c" "\<not> answer ?e q"
    by blast
  then show ?case
  proof cases
    case skip
    have "publish_loop snap unpacked record url now (recording answer) (c # cs) failed stats sm q =
        publish_loop snap unpacked record url now (recording answer) cs failed stats sm q"
      using skip b by (auto simp: wants_def)
    then show ?thesis
      using Cons.IH [OF tail, of failed stats sm q] fair_skip [of "wants snap unpacked url" _ cs failed _ c] skip by metis
  next
    case sent
    let ?s = "stats\<lparr>matched_subscriptions := Suc (matched_subscriptions stats), delivered_messages := Suc (delivered_messages stats)\<rparr>"
    have step: "publish_loop snap unpacked record url now (recording answer) (c # cs) failed stats sm q =
        publish_loop snap unpacked record url now (recording answer) cs failed ?s sm (q @ [(?e, True)])"
      using sent b by (simp add: wants_def recording_def)
    obtain new stats' sm' where "publish_loop snap unpacked record url now (recording answer) cs failed ?s sm (q @ [(?e, True)]) =
        Inr (stats', sm', (q @ [(?e, True)]) @ new)"
      "accounts ?s sm new stats' sm'" "fair_attempts (wants snap unpacked url) (envelope (logNodeId sm) now record) cs failed new"
      using Cons.IH [OF tail] by blast
    with step accounts_sent fair_sent [of "wants snap unpacked url" _ cs failed _ c] sent show ?thesis
      by (intro exI [of _ "(?e, True) # new"]) force
  next
    case lost
    obtain removed sm1 where sm1: "removeAllForNode ?n sm = (removed, sm1)" by fastforce
    then have own: "logNodeId sm1 = logNodeId sm" by (auto simp: removeAllForNode_def)
    let ?s = "stats\<lparr>matched_subscriptions := Suc (matched_subscriptions stats),
      removed_subscriptions_on_failure := removed_subscriptions_on_failure stats + removed\<rparr>"
    have step: "publish_loop snap unpacked record url now (recording answer) (c # cs) failed stats sm q =
        publish_loop snap unpacked record url now (recording answer) cs (?n # failed) ?s sm1 (q @ [(?e, False)])"
      using lost b sm1 by (simp add: wants_def recording_def)
    obtain new stats' sm' where "publish_loop snap unpacked record url now (recording answer) cs (?n # failed) ?s sm1 (q @ [(?e, False)]) =
        Inr (stats', sm', (q @ [(?e, False)]) @ new)"
      "accounts ?s sm1 new stats' sm'"
      "fair_attempts (wants snap unpacked url) (envelope (logNodeId sm) now record) cs (?n # failed) new"
      using Cons.IH [OF tail, of "?n # failed" ?s sm1 "q @ [(?e, False)]"] own by auto
    with step accounts_lost [OF sm1] fair_lost [of "wants snap unpacked url" _ cs c failed] lost show ?thesis
      by (intro exI [of _ "(?e, False) # new"]) force
  qed
qed


section \<open>Properties\<close>

text \<open>
  C36. Publishing a record reaches those who asked for it. For a record whose type the schema snapshot
  knows and whose payload parses, with the expired subscriptions removed first: the messages sent are,
  in the order of the subscriptions, envelopes for live subscriptions whose type and filter match; every
  such subscription gets its message unless a delivery to the same node failed; a node is not tried
  again after a failure and loses all its subscriptions, and no other subscription is touched. The
  statistics count exactly that.
\<close>

theorem publish_fair:
  assumes "payload record = Some p" "type_url p \<noteq> []"
    and "snap_pool snap (typeNameFromUrl (type_url p)) = Some d"
    and "snap_parse snap (typeNameFromUrl (type_url p)) (any_value p) = Some unpacked"
    and live: "live = smap_erase_if (\<lambda>_ s. sub_expiresAt s \<le> now) (subscriptions sm)" "list_all (evaluates snap unpacked) live"
  shows "\<exists>q stats sm'. publish record (recording answer) (Some snap) now sm [] = Inr (stats, sm', q) \<and>
    fair_attempts (wants snap unpacked (type_url p)) (envelope (logNodeId sm) now record) live [] q \<and>
    subscriptions sm' = smap_erase_if (\<lambda>_ s. lost q (subscriberNodeId s)) live \<and>
    matched_subscriptions stats = length q \<and> delivered_messages stats = length (filter snd q) \<and>
    expired_subscriptions stats + smap_size live = subscriptionCount sm \<and>
    removed_subscriptions_on_failure stats + subscriptionCount sm' = smap_size live"
proof -
  let ?s = "\<lparr>matched_subscriptions = 0, delivered_messages = 0,
    expired_subscriptions = length (filter (\<lambda>e. sub_expiresAt (snd e) \<le> now) (subscriptions sm)),
    removed_subscriptions_on_failure = 0\<rparr>"
  let ?sm = "sm\<lparr>subscriptions := live\<rparr>"
  have "publish record (recording answer) (Some snap) now sm [] =
      publish_loop snap unpacked record (type_url p) now (recording answer) live [] ?s ?sm []"
    using assms(1-4) by (simp add: publish_def removeExpired_def live(1))
  then show ?thesis
    using publish_loop_accounts [OF live(2), of "record" "type_url p" now answer "[]" ?s ?sm "[]"]
      removed_count [of "\<lambda>s. sub_expiresAt s \<le> now" "subscriptions sm"]
    by (auto simp: accounts_def subscriptionCount_def live(1))
qed

text \<open>
  C37. Subscriptions belong to the node that made them. An accepted subscription is registered for the
  requester until its time is over; an unsubscription by another node, whatever it names, leaves it in
  place; with the identifier of the reply the subscriber itself removes it, and the manager is as before.
\<close>

theorem subscription_owner:
  assumes "smap_ok (subscriptions sm)" "smap_find (subscriptions sm) fresh = None"
    and "subscribe fresh n request now sm = (reply, sm1)" "sub_status reply = LOG_SUBSCRIPTION_STATUS_ACCEPTED"
    and "other \<noteq> n"
  shows "(\<exists>tree. log_filter request = Some tree \<and> smap_find (subscriptions sm1) fresh =
      Some \<lparr>subscriberNodeId = n, payloadTypeUrl = payload_type_url request, sub_filter = tree,
        sub_expiresAt = now + real (unat (duration_ms request)) / 1000\<rparr>) \<and>
    now < sub_expiresAt (the (smap_find (subscriptions sm1) fresh)) \<and>
    smap_find (subscriptions (snd (unsubscribe other r sm1))) fresh = smap_find (subscriptions sm1) fresh \<and>
    snd (unsubscribe n \<lparr>unsub_req_id = sub_id reply\<rparr> sm1) = sm \<and>
    unsub_status (fst (unsubscribe n \<lparr>unsub_req_id = sub_id reply\<rparr> sm1)) = LOG_SUBSCRIPTION_STATUS_REMOVED"
proof -
  obtain tree where tree: "log_filter request = Some tree" "duration_ms request \<noteq> 0"
    and sm1: "sm1 = sm\<lparr>subscriptions := smap_set fresh \<lparr>subscriberNodeId = n, payloadTypeUrl = payload_type_url request,
      sub_filter = tree, sub_expiresAt = now + real (unat (duration_ms request)) / 1000\<rparr> (subscriptions sm)\<rparr>"
    and reply: "sub_id reply = Some (guidToProto fresh)"
    using assms(2-4) by (auto simp: subscribe_def addSeconds_def Let_def split: option.splits if_splits)
  have "0 < real (unat (duration_ms request))"
    using tree(2) unat_eq_zero [of "duration_ms request"] by (simp only: of_nat_0_less_iff neq0_conv [symmetric]) simp
  moreover have "smap_erase fresh (smap_set fresh v (subscriptions sm)) = subscriptions sm" for v
    using assms(2) by (simp add: smap_erase_set smap_erase_absent smap_find_None_iff)
  ultimately show ?thesis
    using tree sm1 reply assms(5)
    by (auto simp: unsubscribe_def smap_find_set smap_find_erase split: option.splits)
qed

section \<open>Concrete runs\<close>

definition sample_snapshot :: snapshot_view where
  "sample_snapshot = \<lparr>snap_pool = (\<lambda>name. if name = ''t'' then Some [] else None), snap_parse = (\<lambda>name b. Some (DMsg name []))\<rparr>"

definition sample_record :: LogRecord where
  "sample_record = \<lparr>rec_subscription_id = None, producer_node_id = None, time_created = None,
     payload = Some \<lparr>type_url = ''t'', any_value = []\<rparr>\<rparr>"

definition sample_request :: LogSubscribeRequest where
  "sample_request = \<lparr>payload_type_url = ''t'', log_filter = Some LT_true, duration_ms = 1000\<rparr>"

definition sample_manager :: SubscriptionManager where
  "sample_manager = snd (subscribe (GUID 1 1) (GUID 5 5) sample_request 0 (SubscriptionManager_new (GUID 9 9)))"

theorem publish_fair_witness:
  "\<exists>q stats sm'. publish sample_record (recording (\<lambda>m q. True)) (Some sample_snapshot) (1/2) sample_manager [] = Inr (stats, sm', q) \<and>
     matched_subscriptions stats = length q \<and> expired_subscriptions stats = 0"
proof -
  let ?live = "smap_erase_if (\<lambda>_ s. sub_expiresAt s \<le> 1/2) (subscriptions sample_manager)"
  have "list_all (evaluates sample_snapshot (DMsg ''t'' [])) ?live" "smap_size ?live = subscriptionCount sample_manager"
    by (auto simp: sample_manager_def subscribe_def sample_request_def SubscriptionManager_new_def smap_erase_if_def
        evaluates_def addSeconds_def smap_size_def subscriptionCount_def Let_def)
  then show ?thesis
    using publish_fair [of sample_record "\<lparr>type_url = ''t'', any_value = []\<rparr>" sample_snapshot "[]" "DMsg ''t'' []" ?live "1/2"
        sample_manager "\<lambda>m q. True"]
    by (auto simp: sample_record_def sample_snapshot_def)
qed

theorem subscription_owner_witness:
  "snd (unsubscribe (GUID 5 5) \<lparr>unsub_req_id = Some (guidToProto (GUID 1 1))\<rparr> sample_manager) = SubscriptionManager_new (GUID 9 9)"
  using subscription_owner [of "SubscriptionManager_new (GUID 9 9)" "GUID 1 1" "GUID 5 5" sample_request 0 _ _ "GUID 6 6", OF _ _ surjective_pairing]
  by (simp add: sample_manager_def SubscriptionManager_new_def subscribe_def sample_request_def Let_def)

end
