(* ===== verification/Signing_Queues.thy ===== *)
theory Signing_Queues
  imports Message_Hash Std_Map "HOL-Library.Multiset"
begin

text \<open>
  The queues of \<^verbatim>\<open>src/common/message_queue/mq_signing.cpp\<close>: signing outgoing messages, checking the
  signatures of incoming ones, and holding messages whose signer's key is not known yet. The
  callbacks the queues are constructed with are set; a handler's result is the list of calls it makes
  and the exception that leaves it. A message moved into a callback is left default-constructed.
  Lines written to \<^verbatim>\<open>std::cerr\<close> are not modelled.
\<close>

section \<open>Signing\<close>

text \<open>\<^verbatim>\<open>GetKeyFunction\<close>: a null pointer is \<^const>\<open>None\<close>, and the lookup may throw.\<close>

type_synonym 'k get_key = "nodeid \<Rightarrow> 'k KeyPair option result"

datatype sign_call = Sign_success RSPMessage | Sign_failure RSPMessage string

definition MessageQueueSign_keyPair :: "'k KeyPair \<Rightarrow> 'k get_key" where
  "MessageQueueSign_keyPair kp = (\<lambda>n. Inr (Some kp))"

definition MessageQueueSign_handle :: "'k openssl \<Rightarrow> hash_env \<Rightarrow> 'k get_key \<Rightarrow> (sign_call \<Rightarrow> exn option) \<Rightarrow>
    nodeid \<Rightarrow> RSPMessage \<Rightarrow> sign_call calls" where
  "MessageQueueSign_handle lib env getKey cb randomId m =
     (let requestedNodeId = (case senderNodeIdFromMessage m of Some n \<Rightarrow> n | None \<Rightarrow> randomId)
      in case getKey requestedNodeId of
           Inl e \<Rightarrow> throw e
         | Inr None \<Rightarrow> call cb (Sign_failure m ''no signing key found for message sender'')
         | Inr (Some kp) \<Rightarrow>
             if \<not> hasPrivateKey lib kp
             then call cb (Sign_failure m ''key for message sender has no private key'')
             else
               catch_calls
                 (case signMessage lib env kp m of
                    Inr block \<Rightarrow> call cb (Sign_success (m\<lparr>signature := Some block\<rparr>))
                  | Inl e \<Rightarrow> throw e)
                 (\<lambda>moved e. call cb (Sign_failure (if moved then RSPMessage_default else m)
                                        (''signing failed: '' @ what e))))"

definition MessageQueueSign_handleQueueFull :: "nat \<Rightarrow> nat \<Rightarrow> RSPMessage \<Rightarrow> sign_call" where
  "MessageQueueSign_handleQueueFull currentSize limit rejected =
     Sign_failure rejected (''signing queue full (limit='' @ dec_of_nat limit @ '')'')"

section \<open>Checking\<close>

datatype FailureKind =
    MissingSignature
  | InvalidSignerNodeId
  | MissingVerificationKey
  | SignatureVerificationFailed
  | InternalError

record Failure =
  failure_kind :: FailureKind
  failure_reason :: string
  failure_signer :: "nodeid option"

datatype check_call = Check_success RSPMessage | Check_failure RSPMessage Failure

definition check_failure :: "RSPMessage \<Rightarrow> FailureKind \<Rightarrow> string \<Rightarrow> nodeid option \<Rightarrow> check_call" where
  "check_failure m k reason n =
     Check_failure m \<lparr>failure_kind = k, failure_reason = reason, failure_signer = n\<rparr>"

definition CheckSignature_keyPair :: "'k openssl \<Rightarrow> 'k KeyPair \<Rightarrow> 'k get_key" where
  "CheckSignature_keyPair lib kp =
     (\<lambda>n. res_bind (nodeID lib kp) (\<lambda>own. Inr (if n = own then Some kp else None)))"

definition CheckSignature_handle :: "'k openssl \<Rightarrow> hash_env \<Rightarrow> 'k get_key \<Rightarrow> (check_call \<Rightarrow> exn option) \<Rightarrow>
    RSPMessage \<Rightarrow> check_call calls" where
  "CheckSignature_handle lib env getKey cb m =
     (case signature m of
        None \<Rightarrow> call cb (check_failure m MissingSignature ''message has no signature'' None)
      | Some sig \<Rightarrow>
          (case nodeIdFromSignerField (bytes_or_default (signer sig)) of
             None \<Rightarrow> call cb (check_failure m InvalidSignerNodeId
                       ''signature signer has invalid node ID encoding'' None)
           | Some n \<Rightarrow>
               (case getKey n of
                  Inl e \<Rightarrow> throw e
                | Inr None \<Rightarrow> call cb (check_failure m MissingVerificationKey
                                ''no verification key found for signer node ID'' (Some n))
                | Inr (Some kp) \<Rightarrow>
                    catch_calls
                      (case verifyMessageSignature lib env kp m sig of
                         Inr True \<Rightarrow> call cb (Check_success m)
                       | Inr False \<Rightarrow> call cb (check_failure m SignatureVerificationFailed
                                         ''signature verification failed'' (Some n))
                       | Inl e \<Rightarrow> throw e)
                      (\<lambda>moved e. call cb (check_failure (if moved then RSPMessage_default else m) InternalError
                                   (''signature check failed: '' @ what e) (Some n))))))"

definition CheckSignature_handleQueueFull :: "nat \<Rightarrow> nat \<Rightarrow> RSPMessage \<Rightarrow> check_call" where
  "CheckSignature_handleQueueFull currentSize limit rejected =
     check_failure rejected InternalError (''check-signature queue full (limit='' @ dec_of_nat limit @ '')'') None"

section \<open>Messages waiting for an identity\<close>

record PendingSignerState =
  pending_messages :: "RSPMessage list"
  resolverActive :: bool

definition PendingSignerState_new :: PendingSignerState where
  "PendingSignerState_new = \<lparr>pending_messages = [], resolverActive = False\<rparr>"

record Limits =
  maxPendingMessages :: nat
  maxPendingPerSigner :: nat
  resolveTimeout :: nat
  pollInterval :: nat

definition Limits_default :: Limits where
  "Limits_default =
     \<lparr>maxPendingMessages = 512, maxPendingPerSigner = 32, resolveTimeout = 1500, pollInterval = 25\<rparr>"

record RequestIdentity =
  pendingBySigner :: "(nodeid, PendingSignerState) std_map"
  totalPendingMessages :: nat
  ri_stopping :: bool
  ri_limits :: Limits

definition RequestIdentity_new :: "Limits \<Rightarrow> RequestIdentity" where
  "RequestIdentity_new l =
     \<lparr>pendingBySigner = [], totalPendingMessages = 0, ri_stopping = False, ri_limits = l\<rparr>"

text \<open>
  \<^verbatim>\<open>handleMessage\<close>: the reason of a rejection, or whether a resolver thread is started for the
  signer. \<^verbatim>\<open>operator[]\<close> creates the signer's entry before the limit of the signer is tested.
\<close>

definition RequestIdentity_handle :: "RSPMessage \<Rightarrow> nodeid \<Rightarrow> RequestIdentity \<Rightarrow>
    (string + bool) \<times> RequestIdentity" where
  "RequestIdentity_handle m n q =
     (let l = ri_limits q
      in if ri_stopping q then (Inl ''identity resolution queue is stopping'', q)
         else if maxPendingMessages l \<noteq> 0 \<and> totalPendingMessages q \<ge> maxPendingMessages l
         then (Inl (''identity resolution queue exceeded max pending messages ('' @
                 dec_of_nat (maxPendingMessages l) @ '')''), q)
         else
           let state = (case smap_find (pendingBySigner q) n of Some st \<Rightarrow> st | None \<Rightarrow> PendingSignerState_new)
           in if maxPendingPerSigner l \<noteq> 0 \<and> length (pending_messages state) \<ge> maxPendingPerSigner l
              then (Inl (''identity resolution queue exceeded max pending messages for signer ('' @
                      dec_of_nat (maxPendingPerSigner l) @ '')''),
                    q\<lparr>pendingBySigner := smap_set n state (pendingBySigner q)\<rparr>)
              else (Inr (\<not> resolverActive state),
                    q\<lparr>pendingBySigner :=
                        smap_set n \<lparr>pending_messages = pending_messages state @ [m], resolverActive = True\<rparr>
                          (pendingBySigner q),
                      totalPendingMessages := Suc (totalPendingMessages q)\<rparr>))"

definition RequestIdentity_handleQueueFull :: "nat \<Rightarrow> nat \<Rightarrow> RSPMessage \<times> nodeid \<Rightarrow> RSPMessage \<times> string" where
  "RequestIdentity_handleQueueFull currentSize limit rejected =
     (fst rejected, ''identity resolution queue full (limit='' @ dec_of_nat limit @ '')'')"

definition drainSignerMessages :: "nodeid \<Rightarrow> RequestIdentity \<Rightarrow> RSPMessage list \<times> RequestIdentity" where
  "drainSignerMessages n q =
     (case smap_find (pendingBySigner q) n of
        None \<Rightarrow> ([], q)
      | Some st \<Rightarrow>
          (pending_messages st,
           q\<lparr>totalPendingMessages := totalPendingMessages q - length (pending_messages st),
             pendingBySigner := smap_erase n (pendingBySigner q)\<rparr>))"

text \<open>A message leaves the queue through \<^verbatim>\<open>replay_\<close>, which accepts it or not, or through \<^verbatim>\<open>onFailure_\<close>.\<close>

datatype ri_call = RI_replay RSPMessage bool | RI_fail RSPMessage string

definition replayMessages :: "(RSPMessage \<Rightarrow> bool) \<Rightarrow> RSPMessage list \<Rightarrow> ri_call list" where
  "replayMessages replay ms =
     concat (map (\<lambda>m. if replay m then [RI_replay m True]
                      else [RI_replay m False,
                            RI_fail m ''failed to requeue message for signature verification'']) ms)"

definition failMessages :: "RSPMessage list \<Rightarrow> string \<Rightarrow> ri_call list" where
  "failMessages ms reason = map (\<lambda>m. RI_fail m reason) ms"

text \<open>
  The resolver thread of a signer. A turn of its loop sees whether the identity is known, whether the
  signer has an entry, whether the queue is stopping, and the time; it ends the thread or waits.
  Times are in milliseconds.
\<close>

record resolver_view =
  view_identity :: bool
  view_entry :: bool
  view_stopping :: bool
  view_now :: nat

datatype resolver_end = Resolve_replay | Resolve_fail string | Resolve_gone

definition resolver_turn :: "nat \<Rightarrow> resolver_view \<Rightarrow> resolver_end option" where
  "resolver_turn deadline v =
     (if view_identity v then Some Resolve_replay
      else if \<not> view_entry v then Some Resolve_gone
      else if view_stopping v then Some (Resolve_fail ''identity resolution queue is stopping'')
      else if view_now v \<ge> deadline then Some (Resolve_fail ''timed out waiting for signer identity'')
      else None)"

definition resolver_wait :: "Limits \<Rightarrow> nat \<Rightarrow> nat \<Rightarrow> nat" where
  "resolver_wait l deadline now = min (deadline - now) (pollInterval l)"

fun resolver_loop :: "nat \<Rightarrow> resolver_view list \<Rightarrow> resolver_end option" where
  "resolver_loop deadline [] = None"
| "resolver_loop deadline (v # vs) =
     (case resolver_turn deadline v of Some e \<Rightarrow> Some e | None \<Rightarrow> resolver_loop deadline vs)"

definition resolveSigner :: "Limits \<Rightarrow> bool \<Rightarrow> bool \<Rightarrow> nat \<Rightarrow> resolver_view list \<Rightarrow> resolver_end option" where
  "resolveSigner l known requested start vs =
     (if known then Some Resolve_replay
      else if \<not> requested then Some (Resolve_fail ''failed to request identity for signer'')
      else resolver_loop (start + resolveTimeout l) vs)"

definition resolver_finish :: "(RSPMessage \<Rightarrow> bool) \<Rightarrow> nodeid \<Rightarrow> resolver_end \<Rightarrow> RequestIdentity \<Rightarrow>
    ri_call list \<times> RequestIdentity" where
  "resolver_finish replay n e q =
     (case e of
        Resolve_replay \<Rightarrow> map_prod (replayMessages replay) id (drainSignerMessages n q)
      | Resolve_fail reason \<Rightarrow> map_prod (\<lambda>ms. failMessages ms reason) id (drainSignerMessages n q)
      | Resolve_gone \<Rightarrow> ([], q))"

text \<open>The destructor sets \<^verbatim>\<open>stopping_\<close> before it joins the resolver threads.\<close>

definition RequestIdentity_destroy :: "RequestIdentity \<Rightarrow> RequestIdentity" where
  "RequestIdentity_destroy q = q\<lparr>ri_stopping := True\<rparr>"

section \<open>Runs of the identity queue\<close>

text \<open>
  A run interleaves the arrival of messages, the end of resolver threads and the destruction of the
  queue. Ghost components record the accepted messages, the live resolver threads and the messages
  whose fate has been reported: accepted by \<^verbatim>\<open>replay_\<close>, or given to \<^verbatim>\<open>onFailure_\<close>.
\<close>

definition settled :: "ri_call list \<Rightarrow> RSPMessage multiset" where
  "settled cs = mset (concat (map (\<lambda>c. case c of RI_replay m ok \<Rightarrow> if ok then [m] else [] | RI_fail m s \<Rightarrow> [m]) cs))"

record ri_run =
  ri_queue :: RequestIdentity
  ri_threads :: "nodeid multiset"
  ri_accepted :: "RSPMessage multiset"
  ri_settled :: "RSPMessage multiset"

definition ri_initial :: "Limits \<Rightarrow> ri_run" where
  "ri_initial l = \<lparr>ri_queue = RequestIdentity_new l, ri_threads = {#}, ri_accepted = {#}, ri_settled = {#}\<rparr>"

inductive ri_step :: "ri_run \<Rightarrow> ri_run \<Rightarrow> bool" where
  step_accept: "RequestIdentity_handle m n (ri_queue r) = (Inr started, q) \<Longrightarrow>
    ri_step r (r\<lparr>ri_queue := q, ri_accepted := add_mset m (ri_accepted r),
      ri_threads := (if started then add_mset n (ri_threads r) else ri_threads r)\<rparr>)"
| step_reject: "RequestIdentity_handle m n (ri_queue r) = (Inl reason, q) \<Longrightarrow>
    ri_step r (r\<lparr>ri_queue := q\<rparr>)"
| step_resolved: "n \<in># ri_threads r \<Longrightarrow>
    (e = Resolve_gone \<Longrightarrow> smap_find (pendingBySigner (ri_queue r)) n = None) \<Longrightarrow>
    resolver_finish replay n e (ri_queue r) = (cs, q) \<Longrightarrow>
    ri_step r (r\<lparr>ri_queue := q, ri_threads := ri_threads r - {#n#},
      ri_settled := ri_settled r + settled cs\<rparr>)"
| step_destroy: "ri_step r (r\<lparr>ri_queue := RequestIdentity_destroy (ri_queue r)\<rparr>)"

inductive ri_reachable :: "Limits \<Rightarrow> ri_run \<Rightarrow> bool" for l where
  reach_init: "ri_reachable l (ri_initial l)"
| reach_step: "ri_reachable l r \<Longrightarrow> ri_step r r' \<Longrightarrow> ri_reachable l r'"

definition pending_total :: "(nodeid, PendingSignerState) std_map \<Rightarrow> RSPMessage multiset" where
  "pending_total p = (\<Sum>e\<in>#mset p. mset (pending_messages (snd e)))"

definition obeys :: "nat \<Rightarrow> nat \<Rightarrow> bool" where
  "obeys limit n \<longleftrightarrow> limit = 0 \<or> n \<le> limit"

definition entry_ok :: "Limits \<Rightarrow> PendingSignerState \<Rightarrow> bool" where
  "entry_ok l st \<longleftrightarrow> resolverActive st \<and> pending_messages st \<noteq> [] \<and>
     obeys (maxPendingPerSigner l) (length (pending_messages st))"

definition ri_ok :: "Limits \<Rightarrow> ri_run \<Rightarrow> bool" where
  "ri_ok l r \<longleftrightarrow>
     (let q = ri_queue r; p = pendingBySigner q
      in ri_limits q = l \<and> smap_ok p \<and>
         totalPendingMessages q = size (pending_total p) \<and>
         obeys (maxPendingMessages l) (totalPendingMessages q) \<and>
         list_all (\<lambda>e. entry_ok l (snd e)) p \<and>
         ri_threads r = mset (map fst p) \<and>
         ri_accepted r = ri_settled r + pending_total p)"

lemma mset_smap_split:
  "smap_ok p \<Longrightarrow> smap_find p k = Some v \<Longrightarrow> mset p = add_mset (k, v) (mset (smap_erase k p))"
proof (induction p)
  case (Cons e p)
  have ok: "smap_ok p" and notin: "fst e \<notin> fst ` set p"
    using Cons.prems(1) by (auto simp: smap_ok_def)
  show ?case
  proof (cases "fst e = k")
    case True
    then have "smap_erase k p = p"
      using notin by (simp add: smap_erase_absent)
    then show ?thesis
      using True Cons.prems(2) by (cases e) (simp add: smap_find_def smap_erase_def)
  next
    case False
    then show ?thesis
      using Cons ok by (cases e) (auto simp: smap_find_def smap_erase_def)
  qed
qed simp

lemma mset_smap_set:
  "smap_ok p \<Longrightarrow> mset (smap_set k v p) = add_mset (k, v) (mset (smap_erase k p))"
  using mset_smap_split [of "smap_set k v p" k v] by (simp add: smap_erase_set)

lemma pending_total_set:
  "smap_ok p \<Longrightarrow> pending_total (smap_set n st p) = mset (pending_messages st) + pending_total (smap_erase n p)"
  by (simp add: pending_total_def mset_smap_set)

lemma pending_total_split:
  "smap_ok p \<Longrightarrow> smap_find p n = Some st \<Longrightarrow>
   pending_total p = mset (pending_messages st) + pending_total (smap_erase n p)"
  by (simp add: pending_total_def mset_smap_split [of p n st])

lemma list_all_smap_set:
  "smap_ok p \<Longrightarrow> list_all P (smap_set n st p) \<longleftrightarrow> P (n, st) \<and> list_all P (smap_erase n p)"
  by (simp add: list_all_iff flip: set_mset_mset) (simp add: mset_smap_set)

lemma list_all_smap_erase: "list_all P p \<Longrightarrow> list_all P (smap_erase n p)"
  by (simp add: list_all_iff smap_erase_def)

lemma settled_replay: "settled (replayMessages replay ms) = mset ms"
  by (induction ms) (auto simp: settled_def replayMessages_def)

lemma settled_fail: "settled (failMessages ms reason) = mset ms"
  by (induction ms) (auto simp: settled_def failMessages_def)

lemma handle_accept_cases:
  assumes "RequestIdentity_handle m n q = (Inr started, q')"
  obtains st where "st = (case smap_find (pendingBySigner q) n of Some st \<Rightarrow> st | None \<Rightarrow> PendingSignerState_new)"
    "started = (\<not> resolverActive st)"
    "q' = q\<lparr>pendingBySigner := smap_set n \<lparr>pending_messages = pending_messages st @ [m], resolverActive = True\<rparr>
         (pendingBySigner q), totalPendingMessages := Suc (totalPendingMessages q)\<rparr>"
    "obeys (maxPendingMessages (ri_limits q)) (Suc (totalPendingMessages q))"
    "obeys (maxPendingPerSigner (ri_limits q)) (Suc (length (pending_messages st)))"
  using assms that [OF refl]
  by (auto simp: RequestIdentity_handle_def Let_def obeys_def not_le split: if_splits)

lemma ri_ok_accept:
  assumes ok: "ri_ok l r" and h: "RequestIdentity_handle m n (ri_queue r) = (Inr started, q)"
  shows "ri_ok l (r\<lparr>ri_queue := q, ri_accepted := add_mset m (ri_accepted r),
    ri_threads := (if started then add_mset n (ri_threads r) else ri_threads r)\<rparr>)"
  using h
proof (cases rule: handle_accept_cases)
  case (1 st)
  let ?p = "pendingBySigner (ri_queue r)"
  have sp: "smap_ok ?p" using ok by (simp add: ri_ok_def Let_def)
  show ?thesis
  proof (cases "smap_find ?p n")
    case None
    then have "smap_erase n ?p = ?p"
      by (simp add: smap_erase_absent smap_find_None_iff)
    with None show ?thesis
      using ok 1 sp
      by (simp add: ri_ok_def Let_def PendingSignerState_new_def pending_total_set
          list_all_smap_set entry_ok_def mset_smap_set)
  next
    case (Some st')
    then have st: "st = st'" "resolverActive st'"
      using 1 ok sp smap_find_in_set [OF Some] by (auto simp: ri_ok_def Let_def list_all_iff entry_ok_def)
    have keys: "image_mset fst (mset ?p) = add_mset n (image_mset fst (mset (smap_erase n ?p)))"
      by (simp add: mset_smap_split [OF sp Some])
    show ?thesis
      using ok 1 sp Some st keys list_all_smap_erase [of "\<lambda>e. entry_ok l (snd e)" ?p n]
      by (simp add: ri_ok_def Let_def pending_total_set pending_total_split [OF sp Some]
          list_all_smap_set entry_ok_def mset_smap_set)
  qed
qed

lemma ri_ok_reject:
  assumes "ri_ok l r" "RequestIdentity_handle m n (ri_queue r) = (Inl reason, q)"
  shows "ri_ok l (r\<lparr>ri_queue := q\<rparr>)"
proof -
  have "q = ri_queue r"
    using assms
    by (auto simp: RequestIdentity_handle_def Let_def PendingSignerState_new_def ri_ok_def smap_set_same
        split: if_splits option.splits)
  then show ?thesis
    using assms(1) by simp
qed

lemma resolver_finish_drain:
  assumes "smap_find (pendingBySigner q) n = Some st" "e \<noteq> Resolve_gone" "resolver_finish replay n e q = (cs, q')"
  shows "settled cs = mset (pending_messages st) \<and>
    q' = q\<lparr>totalPendingMessages := totalPendingMessages q - length (pending_messages st),
           pendingBySigner := smap_erase n (pendingBySigner q)\<rparr>"
  using assms by (cases e) (auto simp: resolver_finish_def drainSignerMessages_def settled_replay settled_fail)

lemma ri_ok_resolved:
  assumes ok: "ri_ok l r" and n: "n \<in># ri_threads r"
    and e: "e = Resolve_gone \<Longrightarrow> smap_find (pendingBySigner (ri_queue r)) n = None"
    and f: "resolver_finish replay n e (ri_queue r) = (cs, q)"
  shows "ri_ok l (r\<lparr>ri_queue := q, ri_threads := ri_threads r - {#n#}, ri_settled := ri_settled r + settled cs\<rparr>)"
proof -
  let ?p = "pendingBySigner (ri_queue r)"
  have sp: "smap_ok ?p" using ok by (simp add: ri_ok_def Let_def)
  have "n \<in> fst ` set ?p" using ok n by (simp add: ri_ok_def Let_def)
  then obtain st where st: "smap_find ?p n = Some st"
    using smap_find_None_iff [of ?p n] by auto
  have d: "settled cs = mset (pending_messages st)"
    "q = (ri_queue r)\<lparr>totalPendingMessages := totalPendingMessages (ri_queue r) - length (pending_messages st),
           pendingBySigner := smap_erase n ?p\<rparr>"
    using resolver_finish_drain [OF st _ f] e st by auto
  show ?thesis
    using ok d list_all_smap_erase [of "\<lambda>e. entry_ok l (snd e)" ?p n] sp
    by (auto simp: ri_ok_def Let_def pending_total_split [OF sp st] mset_smap_split [OF sp st] obeys_def)
qed

lemma ri_reachable_ok: "ri_reachable l r \<Longrightarrow> ri_ok l r"
proof (induction rule: ri_reachable.induct)
  case reach_init
  then show ?case
    by (simp add: ri_ok_def ri_initial_def RequestIdentity_new_def pending_total_def obeys_def)
next
  case (reach_step r r')
  from reach_step(2) show ?case
  proof cases
    case (step_accept m n started q)
    then show ?thesis using ri_ok_accept [OF reach_step(3)] by simp
  next
    case (step_reject m n reason q)
    then show ?thesis using ri_ok_reject [OF reach_step(3)] by simp
  next
    case (step_resolved n e replay cs q)
    then show ?thesis using ri_ok_resolved [OF reach_step(3), of n e replay cs q] by simp
  next
    case step_destroy
    then show ?thesis using reach_step(3) by (auto simp: ri_ok_def RequestIdentity_destroy_def Let_def)
  qed
qed

section \<open>Properties\<close>

lemma call_simps [simp]: "fst (call cb c) = [c]" "snd (call cb c) = cb c" "fst (throw e) = []" "snd (throw e) = Some e"
  by (simp_all add: call_def throw_def)

lemma catch_calls_sound: "c \<in> set (fst (catch_calls m h)) \<Longrightarrow> c \<in> set (fst m) \<or> (\<exists>moved e. c \<in> set (fst (h moved e)))"
  by (cases m) (auto simp: catch_calls_def prod.case_eq_if split: option.splits if_splits)

lemma catch_calls_keeps: "c \<in> set (fst m) \<Longrightarrow> c \<in> set (fst (catch_calls m h))"
  by (cases m) (simp add: catch_calls_def split: option.splits prod.splits)

lemma check_failure_neq [simp]: "Check_success m \<noteq> check_failure m' k reason n"
  by (simp add: check_failure_def)

definition verified :: "'k openssl \<Rightarrow> hash_env \<Rightarrow> 'k get_key \<Rightarrow> RSPMessage \<Rightarrow> bool" where
  "verified lib env getKey m \<longleftrightarrow>
     (\<exists>sig n kp. signature m = Some sig \<and> nodeIdFromSignerField (bytes_or_default (signer sig)) = Some n \<and>
        getKey n = Inr (Some kp) \<and> verifyMessageSignature lib env kp m sig = Inr True)"

definition reported :: "'c calls \<Rightarrow> bool" where
  "reported m \<longleftrightarrow> fst m \<noteq> [] \<or> snd m \<noteq> None"

lemma reported_simps [simp]: "reported (call cb c)" "reported (throw e)"
  by (simp_all add: reported_def)

lemma reported_catch [simp]: "reported m \<Longrightarrow> (\<And>moved e. reported (h moved e)) \<Longrightarrow> reported (catch_calls m h)"
  by (cases m) (auto simp: catch_calls_def reported_def prod.case_eq_if split: option.splits)

text \<open>
  C2. Whatever the callbacks do, the signature check passes on exactly the messages that carry a
  signature naming a signer whose key is known and under which the message verifies, and passes them
  on unchanged. No message is dropped silently: the handler makes a call, or an exception leaves it.
\<close>

theorem CheckSignature_passes:
  "(Check_success m' \<in> set (fst (CheckSignature_handle lib env getKey cb m)) \<longleftrightarrow>
     m' = m \<and> verified lib env getKey m) \<and>
   reported (CheckSignature_handle lib env getKey cb m)"
proof -
  define h where "h f n moved e =
    call cb (check_failure (if moved then RSPMessage_default else m) InternalError (f e) n)"
    for f :: "exn \<Rightarrow> string" and n moved e
  have attempt: "Check_success m' \<in> set (fst (catch_calls t (h f n))) \<longleftrightarrow> Check_success m' \<in> set (fst t)" for t f n
    using catch_calls_sound [of "Check_success m'" t "h f n"] catch_calls_keeps [of _ t "h f n"]
    by (auto simp: h_def)
  show ?thesis
    unfolding CheckSignature_handle_def
    by (auto simp: verified_def attempt [unfolded h_def [abs_def]] 
        split: option.splits sum.splits bool.splits)
qed

text \<open>
  C7. What one queue signs, the other accepts: a message that \<^verbatim>\<open>MessageQueueSign\<close> hands on differs from
  the original only in its signature, and \<^verbatim>\<open>MessageQueueCheckSignature\<close>, constructed with the key read
  back from the signer's public key message, hands it on and reports nothing else.
\<close>

theorem sign_check_pipeline:
  assumes "openssl_ok lib" "\<And>k d s. DigestSign lib k d = Some s \<Longrightarrow> s \<noteq> [] \<and> length s < 2 ^ 32"
    and "KeyPair_publicKey lib kp = Inr pk"
    and "Sign_success out \<in> set (fst (MessageQueueSign_handle lib env (MessageQueueSign_keyPair kp) cb rid m))"
  shows "out\<lparr>signature := signature m\<rparr> = m \<and>
    (\<exists>vk. fromPublicKey lib pk = Inr vk \<and>
       CheckSignature_handle lib env (CheckSignature_keyPair lib vk) (\<lambda>c. None) out = ([Check_success out], None))"
proof -
  obtain block where block: "signMessage lib env kp m = Inr block" and s: "out = m\<lparr>signature := Some block\<rparr>"
    using assms(4)
    by (auto simp: MessageQueueSign_handle_def MessageQueueSign_keyPair_def Let_def
        dest!: catch_calls_sound split: if_splits sum.splits)
  obtain vk n where "fromPublicKey lib pk = Inr vk" "nodeID lib vk = Inr n"
    "nodeIdFromSignerField (bytes_or_default (signer block)) = Some n"
    "verifyMessageSignature lib env vk out block = Inr True"
    using sign_then_verify [OF assms(1) _ block assms(3)] assms(2) s by blast
  then show ?thesis
    using s by (simp add: CheckSignature_handle_def CheckSignature_keyPair_def call_def)
qed

theorem sign_check_pipeline_witness:
  "\<exists>out vk. Sign_success out \<in> set (fst (MessageQueueSign_handle toy_openssl empty_env
       (MessageQueueSign_keyPair (Some 7)) (\<lambda>c. None) (GUID 1 2) sample_message)) \<and>
     CheckSignature_handle toy_openssl empty_env (CheckSignature_keyPair toy_openssl vk) (\<lambda>c. None) out =
       ([Check_success out], None)"
proof -
  obtain block where b: "signMessage toy_openssl empty_env (Some 7) sample_message = Inr block"
    using sample_signed by blast
  let ?s = "sample_message\<lparr>signature := Some block\<rparr>"
  have "hasPrivateKey toy_openssl (Some 7)"
    by (simp add: hasPrivateKey_def toy_openssl_def)
  then have s: "Sign_success ?s \<in> set (fst (MessageQueueSign_handle toy_openssl empty_env
      (MessageQueueSign_keyPair (Some 7)) (\<lambda>c. None) (GUID 1 2) sample_message))"
    using b by (simp add: MessageQueueSign_handle_def MessageQueueSign_keyPair_def Let_def call_def)
  show ?thesis
    using sign_check_pipeline [OF toy_openssl_ok _ toy_publicKey s] toy_sign s by blast
qed

text \<open>
  C14. In every run of the identity queue the counter is the number of messages held, both limits
  are respected, every signer with an entry has messages waiting and exactly one live resolver
  thread, and no message is lost or duplicated: the accepted messages are those reported on together
  with those still held. Once no resolver is live, every accepted message has been reported on.
\<close>

theorem RequestIdentity_run:
  assumes "ri_reachable l r"
  shows "totalPendingMessages (ri_queue r) = size (pending_total (pendingBySigner (ri_queue r))) \<and>
    (maxPendingMessages l = 0 \<or> totalPendingMessages (ri_queue r) \<le> maxPendingMessages l) \<and>
    (\<forall>(n, st) \<in> set (pendingBySigner (ri_queue r)). pending_messages st \<noteq> [] \<and> count (ri_threads r) n = 1 \<and>
       (maxPendingPerSigner l = 0 \<or> length (pending_messages st) \<le> maxPendingPerSigner l)) \<and>
    ri_accepted r = ri_settled r + pending_total (pendingBySigner (ri_queue r)) \<and>
    (ri_threads r = {#} \<longrightarrow> ri_settled r = ri_accepted r)"
proof -
  let ?p = "pendingBySigner (ri_queue r)"
  have ok: "ri_ok l r" using ri_reachable_ok [OF assms] .
  then have d: "distinct (map fst ?p)" and t: "ri_threads r = mset (map fst ?p)"
    by (simp_all add: ri_ok_def Let_def smap_ok_distinct)
  have "count (ri_threads r) n = 1" if "(n, st) \<in> set ?p" for n st
    unfolding t using that d by (force simp: distinct_count_atmost_1 simp del: mset_map)
  then show ?thesis
    using ok by (auto simp: ri_ok_def Let_def list_all_iff entry_ok_def obeys_def pending_total_def)
qed

definition ri_sample :: ri_run where
  "ri_sample = \<lparr>ri_queue = snd (RequestIdentity_handle sample_message (GUID 1 2) (RequestIdentity_new Limits_default)),
     ri_threads = {#GUID 1 2#}, ri_accepted = {#sample_message#}, ri_settled = {#}\<rparr>"

lemma ri_sample_reachable: "ri_reachable Limits_default ri_sample"
proof -
  let ?r = "ri_initial Limits_default"
  have h: "RequestIdentity_handle sample_message (GUID 1 2) (ri_queue ?r) = (Inr True, ri_queue ri_sample)"
    by (simp add: RequestIdentity_handle_def ri_initial_def ri_sample_def RequestIdentity_new_def
        Limits_default_def PendingSignerState_new_def)
  show ?thesis
    using ri_reachable.reach_step [OF ri_reachable.reach_init step_accept [OF h]]
    by (simp add: ri_initial_def ri_sample_def)
qed

theorem RequestIdentity_run_witness:
  "totalPendingMessages (ri_queue ri_sample) = 1 \<and> count (ri_threads ri_sample) (GUID 1 2) = 1 \<and>
   pending_total (pendingBySigner (ri_queue ri_sample)) = {#sample_message#}"
proof -
  have "ri_accepted ri_sample = {#sample_message#}" "ri_settled ri_sample = {#}"
    "count (ri_threads ri_sample) (GUID 1 2) = 1"
    by (simp_all add: ri_sample_def)
  then show ?thesis
    using RequestIdentity_run [OF ri_sample_reachable] by (metis add_0 size_single)
qed

text \<open>
  C29. The resolver thread gives up in time: when it asked for the identity and sees the clock at or
  past its deadline, it has ended by that turn. It fails its messages for a timeout only in a turn at
  or past the deadline, and while it waits it never sleeps past the deadline.
\<close>

theorem resolver_ends:
  assumes "v \<in> set vs" "start + resolveTimeout l \<le> view_now v"
  shows "(\<exists>e. resolveSigner l known requested start vs = Some e) \<and>
    (resolveSigner l known requested start vs = Some (Resolve_fail ''timed out waiting for signer identity'') \<longrightarrow>
     (\<exists>u \<in> set vs. start + resolveTimeout l \<le> view_now u \<and> \<not> view_identity u)) \<and>
    (resolver_turn deadline u = None \<longrightarrow> view_now u + resolver_wait l deadline (view_now u) \<le> deadline)"
proof -
  have ends: "\<exists>e. resolver_loop d vs = Some e" if "v \<in> set vs" "d \<le> view_now v" for d vs
    using that by (induction vs) (auto simp: resolver_turn_def split: option.splits if_splits)
  have late: "\<exists>u \<in> set vs. d \<le> view_now u \<and> \<not> view_identity u"
    if "resolver_loop d vs = Some (Resolve_fail ''timed out waiting for signer identity'')" for d vs
    using that by (induction vs) (auto simp: resolver_turn_def split: option.splits if_splits)
  show ?thesis
    using ends [OF assms] late
    by (auto simp: resolveSigner_def resolver_turn_def resolver_wait_def split: if_splits)
qed

theorem resolver_ends_witness:
  "\<exists>e. resolveSigner Limits_default False True 100
     [\<lparr>view_identity = False, view_entry = True, view_stopping = False, view_now = 100\<rparr>,
      \<lparr>view_identity = False, view_entry = True, view_stopping = False, view_now = 1600\<rparr>] = Some e"
  using resolver_ends [of "\<lparr>view_identity = False, view_entry = True, view_stopping = False, view_now = 1600\<rparr>"
      "[\<lparr>view_identity = False, view_entry = True, view_stopping = False, view_now = 100\<rparr>,
      \<lparr>view_identity = False, view_entry = True, view_stopping = False, view_now = 1600\<rparr>]" 100 Limits_default
      False True]
  by (simp add: Limits_default_def)

end
