(* ===== verification/Authentication.thy ===== *)
theory Authentication
  imports Ascii_Handshake Requirement_Soundness Signing_Queues
begin

text \<open>
  \<^verbatim>\<open>src/common/message_queue/mq_authn.cpp\<close> and \<^verbatim>\<open>mq_authz.cpp\<close>: the challenge-response exchange that
  establishes the peer of a new encoding, and the check that the sender of a message holds the
  endorsements a requirement asks for. Random bytes and the endorsement lookup are arguments; the
  callbacks are set.
\<close>

section \<open>Validation of an identity\<close>

definition kNonceLength :: nat where
  "kNonceLength = 16"

definition validateReceivedIdentity :: "'k openssl \<Rightarrow> hash_env \<Rightarrow> RSPMessage \<Rightarrow> bytes \<Rightarrow> nodeid option result" where
  "validateReceivedIdentity lib env m expectedNonce =
     (case core m of
        identity i \<Rightarrow>
          (case signature m of
             None \<Rightarrow> Inr None
           | Some sig \<Rightarrow>
               if bytes_or_default (id_nonce i) \<noteq> expectedNonce then Inr None
               else
                 catch_exception
                   (res_bind (fromPublicKey lib (public_key_or_default i)) (\<lambda>peerKey.
                    res_bind (verifyMessageSignature lib env peerKey m sig) (\<lambda>ok.
                    if \<not> ok then Inr None
                    else res_bind (nodeID lib peerKey) (\<lambda>n. Inr (Some n)))))
                   (Inr None))
      | _ \<Rightarrow> Inr None)"

section \<open>The exchange\<close>

text \<open>
  The node's side: its libraries, key and boot identifier, fixed when the queue is constructed.
\<close>

record 'k authn_node =
  node_lib :: "'k openssl"
  node_env :: hash_env
  node_key :: "'k KeyPair"
  node_bootId :: Uuid

text \<open>
  The state of one exchange: the encoding, the three flags of the loop, and the calls of
  \<^verbatim>\<open>storeIdentity_\<close> made so far. \<^verbatim>\<open>authn_seen\<close> records the messages that were read; the code does not keep
  them.
\<close>

record 'k authn_state =
  authn_encoding :: "'k Encoding"
  peerIdentityReceived :: bool
  localIdentitySent :: bool
  peerChallengeReceived :: bool
  authn_stored :: "(nodeid \<times> Identity) list"
  authn_seen :: "RSPMessage list"

datatype authn_turn = Authn_return bool | Authn_throw exn | Authn_continue

definition challengeMessage :: "bytes \<Rightarrow> RSPMessage" where
  "challengeMessage n =
     RSPMessage_default\<lparr>core := challenge_request \<lparr>challenge_nonce = Some n\<rparr>\<rparr>"

definition identityMessage :: "'k authn_node \<Rightarrow> bytes \<Rightarrow> RSPMessage result" where
  "identityMessage node n =
     res_bind (KeyPair_publicKey (node_lib node) (node_key node)) (\<lambda>pk.
     let m = RSPMessage_default\<lparr>core := identity \<lparr>id_nonce = Some n, public_key = Some pk,
               boot_id = Some (node_bootId node)\<rparr>\<rparr>
     in res_bind (signMessage (node_lib node) (node_env node) (node_key node) m) (\<lambda>block.
        Inr (m\<lparr>signature := Some block\<rparr>)))"

definition answer_challenge :: "'k authn_node \<Rightarrow> RSPMessage \<Rightarrow> ChallengeRequest \<Rightarrow> 'k authn_state \<Rightarrow>
    authn_turn \<times> 'k authn_state" where
  "answer_challenge node m cr st =
     (if destination m \<noteq> None \<or> signature m \<noteq> None \<or> peerChallengeReceived st \<or>
         length (bytes_or_default (challenge_nonce cr)) \<noteq> kNonceLength
      then (Authn_return False, st)
      else
        (case identityMessage node (bytes_or_default (challenge_nonce cr)) of
           Inl e \<Rightarrow> (Authn_throw e, st)
         | Inr im \<Rightarrow>
             (case dispatchSend im (authn_encoding st) of
                (False, e) \<Rightarrow> (Authn_return False, st\<lparr>authn_encoding := e\<rparr>)
              | (True, e) \<Rightarrow>
                  (Authn_continue,
                   st\<lparr>authn_encoding := e, peerChallengeReceived := True, localIdentitySent := True\<rparr>))))"

definition accept_identity :: "'k authn_node \<Rightarrow> bytes \<Rightarrow> RSPMessage \<Rightarrow> Identity \<Rightarrow> 'k authn_state \<Rightarrow>
    authn_turn \<times> 'k authn_state" where
  "accept_identity node localNonce m i st =
     (if peerIdentityReceived st then (Authn_return False, st)
      else
        (case validateReceivedIdentity (node_lib node) (node_env node) m localNonce of
           Inl e \<Rightarrow> (Authn_throw e, st)
         | Inr None \<Rightarrow> (Authn_return False, st)
         | Inr (Some n) \<Rightarrow>
             (case setPeerNodeID n (authn_encoding st) of
                Inl e \<Rightarrow> (Authn_throw e, st)
              | Inr e \<Rightarrow>
                  (Authn_continue,
                   st\<lparr>authn_encoding := e, authn_stored := authn_stored st @ [(n, i)],
                      peerIdentityReceived := True\<rparr>))))"

definition exchange_turn :: "'k authn_node \<Rightarrow> bytes \<Rightarrow> 'k authn_state \<Rightarrow> authn_turn \<times> 'k authn_state" where
  "exchange_turn node localNonce st =
     (case enc_read (authn_encoding st) of
        (None, e) \<Rightarrow> (Authn_return False, st\<lparr>authn_encoding := e\<rparr>)
      | (Some m, e) \<Rightarrow>
          let st = st\<lparr>authn_encoding := e, authn_seen := authn_seen st @ [m]\<rparr>
          in (case core m of
                challenge_request cr \<Rightarrow> answer_challenge node m cr st
              | identity i \<Rightarrow> accept_identity node localNonce m i st
              | _ \<Rightarrow> (Authn_return False, st)))"

text \<open>
  The loop ends: a turn that continues uses up one of the two messages the peer may send, since a
  second challenge or a second identity is refused.
\<close>

definition turns_left :: "'k authn_state \<Rightarrow> nat" where
  "turns_left st = of_bool (\<not> peerIdentityReceived st) + of_bool (\<not> peerChallengeReceived st)"

lemma exchange_turn_decreases:
  assumes "exchange_turn node localNonce st = (Authn_continue, st')"
  shows "turns_left st' < turns_left st"
  using assms
  by (auto simp: exchange_turn_def answer_challenge_def accept_identity_def turns_left_def Let_def
      split: option.splits sum.splits prod.splits core_message.splits if_splits bool.splits)

function exchange_loop :: "'k authn_node \<Rightarrow> bytes \<Rightarrow> 'k authn_state \<Rightarrow> bool result \<times> 'k authn_state" where
  "exchange_loop node localNonce st =
     (if peerIdentityReceived st \<and> localIdentitySent st then (Inr True, st)
      else
        (case exchange_turn node localNonce st of
           (Authn_return b, st') \<Rightarrow> (Inr b, st')
         | (Authn_throw e, st') \<Rightarrow> (Inl e, st')
         | (Authn_continue, st') \<Rightarrow> exchange_loop node localNonce st'))"
  by pat_completeness auto
termination
  by (relation "measure (\<lambda>(node, n, st). turns_left st)") (auto dest: exchange_turn_decreases [OF sym])

declare exchange_loop.simps [simp del]

definition authn_start :: "'k Encoding \<Rightarrow> 'k authn_state" where
  "authn_start e = \<lparr>authn_encoding = e, peerIdentityReceived = False, localIdentitySent = False,
     peerChallengeReceived = False, authn_stored = [], authn_seen = []\<rparr>"

definition performInitialIdentityExchange :: "'k authn_node \<Rightarrow> bytes \<Rightarrow> 'k Encoding \<Rightarrow>
    bool result \<times> 'k authn_state" where
  "performInitialIdentityExchange node randomNonce enc =
     (if enc_connection enc = None \<or> \<not> isValid (node_key node) then (Inr False, authn_start enc)
      else
        (case dispatchSend (normalizeOutgoingMessage (challengeMessage randomNonce)) enc of
           (False, e) \<Rightarrow> (Inr False, authn_start e)
         | (True, e) \<Rightarrow> exchange_loop node randomNonce (authn_start e)))"

datatype 'k authn_call = AuthN_success "'k Encoding" | AuthN_failure "'k Encoding option"

definition MessageQueueAuthN_handle :: "'k authn_node \<Rightarrow> bytes \<Rightarrow> 'k Encoding option \<Rightarrow> 'k authn_call result" where
  "MessageQueueAuthN_handle node randomNonce enc =
     (case enc of
        None \<Rightarrow> Inr (AuthN_failure None)
      | Some e \<Rightarrow>
          (case performInitialIdentityExchange node randomNonce e of
             (Inl ex, st) \<Rightarrow> Inl ex
           | (Inr True, st) \<Rightarrow> Inr (AuthN_success (authn_encoding st))
           | (Inr False, st) \<Rightarrow> Inr (AuthN_failure (Some (authn_encoding st)))))"

section \<open>Authorisation\<close>

datatype authz_call = AuthZ_success RSPMessage | AuthZ_failure RSPMessage

definition MessageQueueAuthZ_handle :: "(nodeid \<Rightarrow> EndorsementMsg list result) \<Rightarrow> AST \<Rightarrow> snapshot_view option \<Rightarrow>
    (authz_call \<Rightarrow> exn option) \<Rightarrow> RSPMessage \<Rightarrow> authz_call calls" where
  "MessageQueueAuthZ_handle getEndorsements authorizationTree snap cb m =
     (case senderNodeIdFromMessage m of
        None \<Rightarrow> call cb (AuthZ_failure m)
      | Some sourceNodeId \<Rightarrow>
          (case getEndorsements sourceNodeId of
             Inl e \<Rightarrow> if uncatchable e then throw e else call cb (AuthZ_failure m)
           | Inr es \<Rightarrow>
               (case reduceRequirementTree authorizationTree es (Some m) snap of
                  Inl e \<Rightarrow> if uncatchable e then throw e else call cb (AuthZ_failure m)
                | Inr AST_not_set \<Rightarrow>
                    catch_calls (call cb (AuthZ_success m))
                      (\<lambda>moved e. call cb (AuthZ_failure (if moved then RSPMessage_default else m)))
                | Inr _ \<Rightarrow> call cb (AuthZ_failure m))))"

section \<open>What a completed exchange establishes\<close>

definition proves_identity :: "'k authn_node \<Rightarrow> bytes \<Rightarrow> RSPMessage \<Rightarrow> Identity \<Rightarrow> nodeid \<Rightarrow> bool" where
  "proves_identity node localNonce m i n \<longleftrightarrow>
     core m = identity i \<and> bytes_or_default (id_nonce i) = localNonce \<and>
     (\<exists>sig key. signature m = Some sig \<and> fromPublicKey (node_lib node) (public_key_or_default i) = Inr key \<and>
        verifyMessageSignature (node_lib node) (node_env node) key m sig = Inr True \<and>
        nodeID (node_lib node) key = Inr n)"

lemma validateReceivedIdentity_Some:
  "validateReceivedIdentity (node_lib node) (node_env node) m localNonce = Inr (Some n) \<longleftrightarrow>
   (\<exists>i. proves_identity node localNonce m i n)"
  by (auto simp: validateReceivedIdentity_def proves_identity_def catch_exception_def res_bind_eq_Inr
      res_bind_eq_Inl split: core_message.splits option.splits sum.splits if_splits)

definition authn_ok :: "'k authn_node \<Rightarrow> bytes \<Rightarrow> 'k authn_state \<Rightarrow> bool" where
  "authn_ok node localNonce st \<longleftrightarrow>
     (if peerIdentityReceived st
      then \<exists>m i n. m \<in> set (authn_seen st) \<and> proves_identity node localNonce m i n \<and>
             peerNodeId (authn_encoding st) = Some n \<and> authn_stored st = [(n, i)]
      else authn_stored st = []) \<and>
     localIdentitySent st = peerChallengeReceived st"

lemma enc_read_peer: "enc_read e = (m, e') \<Longrightarrow> peerNodeId e' = peerNodeId e"
  by (auto simp: enc_read_def split: option.splits prod.splits)

lemma dispatchSend_peer: "dispatchSend m e = (b, e') \<Longrightarrow> peerNodeId e' = peerNodeId e"
  by (auto simp: dispatchSend_def split: option.splits prod.splits)

lemma setPeerNodeID_Inr: "setPeerNodeID n e = Inr e' \<Longrightarrow> peerNodeId e' = Some n"
  by (auto simp: setPeerNodeID_def split: option.splits if_splits)

lemma answer_challenge_ok:
  "authn_ok node localNonce st \<Longrightarrow> answer_challenge node m cr st = (Authn_continue, st') \<Longrightarrow> authn_ok node localNonce st'"
  by (auto simp: answer_challenge_def authn_ok_def dest!: dispatchSend_peer split: if_splits sum.splits prod.splits bool.splits)

lemma accept_identity_ok:
  assumes "authn_ok node localNonce st" "accept_identity node localNonce m i st = (Authn_continue, st')"
    and "m \<in> set (authn_seen st)" "core m = identity i"
  shows "authn_ok node localNonce st'"
proof -
  obtain n e where n: "validateReceivedIdentity (node_lib node) (node_env node) m localNonce = Inr (Some n)"
    and e: "setPeerNodeID n (authn_encoding st) = Inr e" and st: "\<not> peerIdentityReceived st"
    "st' = st\<lparr>authn_encoding := e, authn_stored := authn_stored st @ [(n, i)], peerIdentityReceived := True\<rparr>"
    using assms(2) by (auto simp: accept_identity_def split: if_splits sum.splits option.splits)
  have "proves_identity node localNonce m i n"
    using n assms(4) by (auto simp: validateReceivedIdentity_Some proves_identity_def)
  then show ?thesis
    using assms(1,3) st setPeerNodeID_Inr [OF e] by (auto simp: authn_ok_def)
qed

lemma authn_ok_read:
  assumes "authn_ok node localNonce st" "peerNodeId e = peerNodeId (authn_encoding st)"
  shows "authn_ok node localNonce (st\<lparr>authn_encoding := e, authn_seen := authn_seen st @ [m]\<rparr>)"
proof (cases "peerIdentityReceived st")
  case True
  then obtain m' i n where "m' \<in> set (authn_seen st)" "proves_identity node localNonce m' i n"
    "peerNodeId (authn_encoding st) = Some n" "authn_stored st = [(n, i)]"
    using assms(1) by (auto simp: authn_ok_def)
  then show ?thesis
    using assms True by (auto simp: authn_ok_def intro!: exI [of _ m'])
next
  case False
  then show ?thesis using assms by (simp add: authn_ok_def)
qed

lemma exchange_turn_ok:
  assumes "authn_ok node localNonce st" "exchange_turn node localNonce st = (Authn_continue, st')"
  shows "authn_ok node localNonce st'"
proof -
  obtain mo e where "enc_read (authn_encoding st) = (mo, e)" by fastforce
  moreover from this obtain m where "mo = Some m"
    using assms(2) by (cases mo) (auto simp: exchange_turn_def)
  ultimately have r: "enc_read (authn_encoding st) = (Some m, e)" by simp
  let ?st = "st\<lparr>authn_encoding := e, authn_seen := authn_seen st @ [m]\<rparr>"
  have ok: "authn_ok node localNonce ?st"
    by (rule authn_ok_read [OF assms(1) enc_read_peer [OF r]])
  have turn: "exchange_turn node localNonce st =
      (case core m of challenge_request cr \<Rightarrow> answer_challenge node m cr ?st
       | identity i \<Rightarrow> accept_identity node localNonce m i ?st | _ \<Rightarrow> (Authn_return False, ?st))"
    by (simp add: exchange_turn_def r Let_def)
  show ?thesis
  proof (cases "core m")
    case (challenge_request cr)
    then show ?thesis using assms(2) turn answer_challenge_ok [OF ok, of m cr st'] by simp
  next
    case (identity i)
    then show ?thesis using assms(2) turn accept_identity_ok [OF ok, of m i st'] by simp
  qed (use assms(2) turn in simp_all)
qed

lemma exchange_turn_not_True: "exchange_turn node localNonce st \<noteq> (Authn_return True, st')"
proof -
  have "answer_challenge node m cr st1 \<noteq> (Authn_return True, st')"
    "accept_identity node localNonce m i st1 \<noteq> (Authn_return True, st')" for m cr i st1
    by (auto simp: answer_challenge_def accept_identity_def split: option.splits sum.splits prod.splits bool.splits)
  then show ?thesis
    by (auto simp: exchange_turn_def Let_def split: option.splits prod.splits core_message.split)
qed

lemma exchange_loop_ok:
  "authn_ok node localNonce st \<Longrightarrow> exchange_loop node localNonce st = (Inr True, st') \<Longrightarrow>
   authn_ok node localNonce st' \<and> peerIdentityReceived st' \<and> localIdentitySent st'"
proof (induction node localNonce st rule: exchange_loop.induct)
  case (1 node localNonce st)
  show ?case
  proof (cases "peerIdentityReceived st \<and> localIdentitySent st")
    case True
    then show ?thesis using "1.prems" by (simp add: exchange_loop.simps [of node localNonce st])
  next
    case False
    obtain t st1 where t: "exchange_turn node localNonce st = (t, st1)" by fastforce
    have "t = Authn_continue" "exchange_loop node localNonce st1 = (Inr True, st')"
      using "1.prems"(2) False t exchange_turn_not_True [of node localNonce st st1]
      by (auto simp: exchange_loop.simps [of node localNonce st] split: authn_turn.splits)
    then show ?thesis
      using "1.IH" [OF False t [symmetric]] exchange_turn_ok [OF "1.prems"(1)] t by blast
  qed
qed

text \<open>
  C30. Authentication is sound: when the exchange succeeds, the node has read a message that carries
  an identity with the nonce of its own challenge and a signature that verifies under the public key
  in that identity; the peer recorded in the encoding, and the one identity stored, are those of that
  key. The node has also answered the peer's challenge.
\<close>

theorem authn_sound:
  assumes "performInitialIdentityExchange node localNonce enc = (Inr True, st)"
  shows "localIdentitySent st \<and>
    (\<exists>m i sig key n. m \<in> set (authn_seen st) \<and> core m = identity i \<and> signature m = Some sig \<and>
      bytes_or_default (id_nonce i) = localNonce \<and>
      fromPublicKey (node_lib node) (public_key_or_default i) = Inr key \<and>
      verifyMessageSignature (node_lib node) (node_env node) key m sig = Inr True \<and>
      nodeID (node_lib node) key = Inr n \<and>
      peerNodeId (authn_encoding st) = Some n \<and> authn_stored st = [(n, i)])"
proof -
  obtain e where "exchange_loop node localNonce (authn_start e) = (Inr True, st)"
    using assms by (auto simp: performInitialIdentityExchange_def split: if_splits prod.splits bool.splits)
  moreover have "authn_ok node localNonce (authn_start e)"
    by (simp add: authn_ok_def authn_start_def)
  ultimately have ok: "authn_ok node localNonce st" "peerIdentityReceived st" "localIdentitySent st"
    using exchange_loop_ok [of node localNonce "authn_start e" st] by simp_all
  then obtain m i n where "m \<in> set (authn_seen st)" and p: "proves_identity node localNonce m i n"
    and "peerNodeId (authn_encoding st) = Some n" "authn_stored st = [(n, i)]"
    unfolding authn_ok_def by auto
  with ok(3) show ?thesis
    unfolding proves_identity_def by blast
qed

section \<open>Two honest sides, and an echo\<close>

text \<open>The bytes on the wire of a message, when it can be sent.\<close>

definition wire :: "frame_codec \<Rightarrow> RSPMessage \<Rightarrow> bytes" where
  "wire codec m = frame codec (the (encodePayload codec m))"

lemma enc_read_wire:
  assumes "enc_connection e = Some c" "readable c = wire (enc_codec e) m @ rest" "transmissible (enc_codec e) m"
  shows "\<exists>c'. enc_read e = (Some m, e\<lparr>enc_connection := Some c'\<rparr>) \<and> readable c' = rest \<and> same_channel c c'"
proof -
  obtain body where b: "encodePayload (enc_codec e) m = Some body" "length body \<le> kMaxFrameLength"
    "decodePayload (enc_codec e) body = Some m"
    using assms(3) by (auto simp: transmissible_def split: option.splits)
  then obtain c' where "readMessage (enc_codec e) c = (Some m, c')" "readable c' = rest" "same_channel c c'"
    using readMessage_frame [of c "enc_codec e" body rest] assms(2) by (auto simp: wire_def)
  then show ?thesis
    using assms(1) by (auto simp: enc_read_def)
qed

lemma dispatchSend_wire:
  assumes "enc_connection e = Some c" "transmissible (enc_codec e) m"
    and "writable (length (wire (enc_codec e) m) + n) c"
  shows "\<exists>c'. dispatchSend m e = (True, e\<lparr>enc_connection := Some c'\<rparr>) \<and>
    outbound c' = outbound c @ wire (enc_codec e) m \<and> readable c' = readable c \<and> writable n c'"
proof -
  obtain body where b: "encodePayload (enc_codec e) m = Some body" "length body \<le> kMaxFrameLength"
    using assms(2) by (auto simp: transmissible_def split: option.splits)
  let ?h = "frame_header (enc_codec e) body"
  have w: "writable (length ?h + (length body + n)) c"
    using assms(3) b by (simp add: wire_def frame_def add.assoc)
  obtain c1 where c1: "sendAll ?h c = (True, c1)" "outbound c1 = outbound c @ ?h" "writable (length body + n) c1"
    "readable c1 = readable c"
    using sendAll_ready [OF w] by blast
  obtain c2 where c2: "sendAll body c1 = (True, c2)" "outbound c2 = outbound c1 @ body" "writable n c2"
    "readable c2 = readable c1"
    using sendAll_ready [OF c1(3)] by blast
  have "writeMessage (enc_codec e) m c = (True, c2)"
    using b c1(1) c2(1) by (simp add: writeMessage_def)
  then show ?thesis
    using assms(1) b c1 c2 by (intro exI [of _ c2]) (simp add: dispatchSend_def wire_def frame_def)
qed

text \<open>The exchange of a node that is sent a challenge and then an identity it accepts.\<close>

definition ready :: "'k authn_node \<Rightarrow> 'k Encoding \<Rightarrow> connection \<Rightarrow> bytes \<Rightarrow> RSPMessage \<Rightarrow> bool" where
  "ready node e c localNonce own \<longleftrightarrow>
     enc_connection e = Some c \<and> peerNodeId e = None \<and> isValid (node_key node) \<and>
     transmissible (enc_codec e) (challengeMessage localNonce) \<and> transmissible (enc_codec e) own \<and>
     writable (length (wire (enc_codec e) (challengeMessage localNonce)) + length (wire (enc_codec e) own)) c"

lemma exchange_completes:
  assumes r: "ready node e c localNonce own" and own: "identityMessage node peerNonce = Inr own"
    and pn: "length peerNonce = 16" and im: "core im = identity i"
    and v: "validateReceivedIdentity (node_lib node) (node_env node) im localNonce = Inr (Some n)"
    and t: "transmissible (enc_codec e) (challengeMessage peerNonce)" "transmissible (enc_codec e) im"
    and rd: "readable c = wire (enc_codec e) (challengeMessage peerNonce) @ wire (enc_codec e) im @ rest"
  shows "\<exists>st c'. performInitialIdentityExchange node localNonce e = (Inr True, st) \<and>
    peerNodeId (authn_encoding st) = Some n \<and> enc_connection (authn_encoding st) = Some c' \<and> readable c' = rest \<and>
    outbound c' = outbound c @ wire (enc_codec e) (challengeMessage localNonce) @ wire (enc_codec e) own"
proof -
  let ?codec = "enc_codec e" and ?ch = "challengeMessage peerNonce"
  have r': "enc_connection e = Some c" "peerNodeId e = None" "isValid (node_key node)" "transmissible ?codec own"
    "transmissible ?codec (challengeMessage localNonce)"
    "writable (length (wire ?codec (challengeMessage localNonce)) + length (wire ?codec own)) c"
    using r by (simp_all add: ready_def)
  obtain c1 where c1: "dispatchSend (challengeMessage localNonce) e = (True, e\<lparr>enc_connection := Some c1\<rparr>)"
    "outbound c1 = outbound c @ wire ?codec (challengeMessage localNonce)" "readable c1 = readable c"
    "writable (length (wire ?codec own) + 0) c1"
    using dispatchSend_wire [OF r'(1,5,6)] by auto
  let ?e1 = "e\<lparr>enc_connection := Some c1\<rparr>"
  obtain c2 where c2: "enc_read ?e1 = (Some ?ch, e\<lparr>enc_connection := Some c2\<rparr>)" "readable c2 = wire ?codec im @ rest"
    "same_channel c1 c2"
    using enc_read_wire [of ?e1 c1 ?ch "wire ?codec im @ rest"] c1(3) rd t(1) by auto
  let ?e2 = "e\<lparr>enc_connection := Some c2\<rparr>"
  have w2: "writable (length (wire (enc_codec ?e2) own) + 0) c2"
    using c1(4) writable_same_channel [OF c2(3)] by simp
  obtain c3 where c3: "dispatchSend own ?e2 = (True, e\<lparr>enc_connection := Some c3\<rparr>)"
    "outbound c3 = outbound c2 @ wire ?codec own" "readable c3 = readable c2"
    using dispatchSend_wire [of ?e2 c2 own 0] r'(4) w2 by auto
  let ?e3 = "e\<lparr>enc_connection := Some c3\<rparr>"
  obtain c4 where c4: "enc_read ?e3 = (Some im, e\<lparr>enc_connection := Some c4\<rparr>)" "readable c4 = rest" "same_channel c3 c4"
    using enc_read_wire [of ?e3 c3 im rest] c3(3) c2(2) t(2) by auto
  have norm: "normalizeOutgoingMessage (challengeMessage localNonce) = challengeMessage localNonce"
    by (simp add: normalizeOutgoingMessage_def challengeMessage_def RSPMessage_default_def)
  let ?s0 = "authn_start ?e1"
  let ?s1 = "?s0\<lparr>authn_encoding := ?e3, authn_seen := [?ch], peerChallengeReceived := True, localIdentitySent := True\<rparr>"
  let ?s2 = "?s1\<lparr>authn_encoding := e\<lparr>enc_connection := Some c4, peerNodeId := Some n\<rparr>, authn_seen := [?ch, im],
    authn_stored := [(n, i)], peerIdentityReceived := True\<rparr>"
  have t1: "exchange_turn node localNonce ?s0 = (Authn_continue, ?s1)"
    using c2(1) c3(1) own pn
    by (simp add: exchange_turn_def authn_start_def answer_challenge_def challengeMessage_def RSPMessage_default_def
        kNonceLength_def)
  have t2: "exchange_turn node localNonce ?s1 = (Authn_continue, ?s2)"
    using c4(1) im v r'(2)
    by (simp add: exchange_turn_def authn_start_def accept_identity_def setPeerNodeID_def)
  have "exchange_loop node localNonce ?s0 = exchange_loop node localNonce ?s1"
    by (subst exchange_loop.simps) (simp add: t1, simp add: authn_start_def)
  also have "\<dots> = exchange_loop node localNonce ?s2"
    by (subst exchange_loop.simps) (simp only: t2, simp add: authn_start_def)
  also have "\<dots> = (Inr True, ?s2)"
    by (subst exchange_loop.simps) (simp add: authn_start_def)
  finally have "performInitialIdentityExchange node localNonce e = (Inr True, ?s2)"
    using r'(1,3) c1(1) norm by (simp add: performInitialIdentityExchange_def)
  then show ?thesis
    using c1(2) c2(3) c3(2) c4(2,3) by (intro exI [of _ ?s2] exI [of _ c4]) (simp add: same_channel_def)
qed

lemma identityMessage_validates:
  assumes "openssl_ok lib" "\<And>k d s. DigestSign lib k d = Some s \<Longrightarrow> s \<noteq> [] \<and> length s < 2 ^ 32"
    and "identityMessage peer n = Inr im" "node_lib peer = lib" "node_env peer = env"
  shows "\<exists>k i. nodeID lib (node_key peer) = Inr k \<and> core im = identity i \<and>
    validateReceivedIdentity lib env im n = Inr (Some k)"
proof -
  obtain pk block where pk: "KeyPair_publicKey lib (node_key peer) = Inr pk"
    and block: "signMessage lib env (node_key peer) (RSPMessage_default\<lparr>core := identity
        \<lparr>id_nonce = Some n, public_key = Some pk, boot_id = Some (node_bootId peer)\<rparr>\<rparr>) = Inr block"
    and im: "im = RSPMessage_default\<lparr>core := identity
        \<lparr>id_nonce = Some n, public_key = Some pk, boot_id = Some (node_bootId peer)\<rparr>, signature := Some block\<rparr>"
    using assms(3-5) by (auto simp: identityMessage_def res_bind_eq_Inr Let_def)
  obtain vk k where "fromPublicKey lib pk = Inr vk" "nodeID lib vk = Inr k" "nodeID lib (node_key peer) = Inr k"
    "verifyMessageSignature lib env vk im block = Inr True"
    using sign_then_verify [OF assms(1) _ block pk] assms(2) im by blast
  then show ?thesis
    using im by (simp add: validateReceivedIdentity_def public_key_or_default_def)
qed

text \<open>
  C31. Two honest nodes authenticate each other. When each reads what the other writes, in any
  segmentation, both exchanges succeed, each records the other's node identifier as its peer, writes
  its challenge and its signed identity and nothing else, and leaves the bytes after the exchange.
\<close>

theorem authn_mutual:
  assumes "openssl_ok lib" "\<And>k d s. DigestSign lib k d = Some s \<Longrightarrow> s \<noteq> [] \<and> length s < 2 ^ 32"
    and "node_lib a = lib" "node_lib b = lib" "node_env a = env" "node_env b = env"
    and "length na = 16" "length nb = 16"
    and "identityMessage a nb = Inr ia" "identityMessage b na = Inr ib"
    and "ready a ea ca na ia" "ready b eb cb nb ib" "enc_codec ea = codec" "enc_codec eb = codec"
    and "readable ca = wire codec (challengeMessage nb) @ wire codec ib @ resta"
    and "readable cb = wire codec (challengeMessage na) @ wire codec ia @ restb"
  shows "\<exists>sta stb ca' cb'.
    performInitialIdentityExchange a na ea = (Inr True, sta) \<and> performInitialIdentityExchange b nb eb = (Inr True, stb) \<and>
    map_option Inr (peerNodeId (authn_encoding sta)) = Some (nodeID lib (node_key b)) \<and>
    map_option Inr (peerNodeId (authn_encoding stb)) = Some (nodeID lib (node_key a)) \<and>
    enc_connection (authn_encoding sta) = Some ca' \<and> enc_connection (authn_encoding stb) = Some cb' \<and>
    readable ca' = resta \<and> readable cb' = restb \<and>
    outbound ca' = outbound ca @ wire codec (challengeMessage na) @ wire codec ia \<and>
    outbound cb' = outbound cb @ wire codec (challengeMessage nb) @ wire codec ib"
proof -
  obtain ka ja where ka: "nodeID lib (node_key a) = Inr ka" "core ia = identity ja"
    "validateReceivedIdentity lib env ia nb = Inr (Some ka)"
    using identityMessage_validates [OF assms(1) _ assms(9) assms(3) assms(5)] assms(2) by blast
  obtain kb jb where kb: "nodeID lib (node_key b) = Inr kb" "core ib = identity jb"
    "validateReceivedIdentity lib env ib na = Inr (Some kb)"
    using identityMessage_validates [OF assms(1) _ assms(10) assms(4) assms(6)] assms(2) by blast
  have ta: "transmissible (enc_codec ea) (challengeMessage nb)" "transmissible (enc_codec ea) ib"
    and tb: "transmissible (enc_codec eb) (challengeMessage na)" "transmissible (enc_codec eb) ia"
    using assms(11-14) by (simp_all add: ready_def)
  have "\<exists>st c'. performInitialIdentityExchange a na ea = (Inr True, st) \<and>
    peerNodeId (authn_encoding st) = Some kb \<and> enc_connection (authn_encoding st) = Some c' \<and> readable c' = resta \<and>
    outbound c' = outbound ca @ wire (enc_codec ea) (challengeMessage na) @ wire (enc_codec ea) ia"
    by (rule exchange_completes [OF assms(11,9,8) kb(2) _ ta]) (use kb(3) assms in simp_all)
  moreover have "\<exists>st c'. performInitialIdentityExchange b nb eb = (Inr True, st) \<and>
    peerNodeId (authn_encoding st) = Some ka \<and> enc_connection (authn_encoding st) = Some c' \<and> readable c' = restb \<and>
    outbound c' = outbound cb @ wire (enc_codec eb) (challengeMessage nb) @ wire (enc_codec eb) ib"
    by (rule exchange_completes [OF assms(12,10,7) ka(2) _ tb]) (use ka(3) assms in simp_all)
  ultimately show ?thesis
    using ka(1) kb(1) assms(13,14) by fastforce
qed

text \<open>
  The exchange does not tell a peer from an echo. A node whose own challenge and own identity are
  sent back to it, byte for byte, completes the exchange and records itself as the authenticated peer:
  what it read is exactly what it wrote.
\<close>

theorem authn_reflection:
  assumes "openssl_ok lib" "\<And>k d s. DigestSign lib k d = Some s \<Longrightarrow> s \<noteq> [] \<and> length s < 2 ^ 32"
    and "node_lib a = lib" "length na = 16" "identityMessage a na = Inr ia"
    and "ready a e c na ia" "outbound c = []"
    and "readable c = wire (enc_codec e) (challengeMessage na) @ wire (enc_codec e) ia"
  shows "\<exists>st c'. performInitialIdentityExchange a na e = (Inr True, st) \<and>
    map_option Inr (peerNodeId (authn_encoding st)) = Some (nodeID lib (node_key a)) \<and>
    enc_connection (authn_encoding st) = Some c' \<and> outbound c' = readable c"
proof -
  obtain k i where k: "nodeID lib (node_key a) = Inr k" "core ia = identity i"
    "validateReceivedIdentity lib (node_env a) ia na = Inr (Some k)"
    using identityMessage_validates [OF assms(1) _ assms(5) assms(3) refl] assms(2) by blast
  have "\<exists>st c'. performInitialIdentityExchange a na e = (Inr True, st) \<and>
    peerNodeId (authn_encoding st) = Some k \<and> enc_connection (authn_encoding st) = Some c' \<and> readable c' = [] \<and>
    outbound c' = outbound c @ wire (enc_codec e) (challengeMessage na) @ wire (enc_codec e) ia"
    by (rule exchange_completes [OF assms(6,5,4) k(2)]) (use k(3) assms in \<open>simp_all add: ready_def\<close>)
  then show ?thesis
    using k(1) assms(7,8) by fastforce
qed


section \<open>Witnesses\<close>

text \<open>A codec for a fixed list of messages: a message is sent as its position.\<close>

definition list_codec :: "RSPMessage list \<Rightarrow> frame_codec" where
  "list_codec ms = ProtobufEncoding (\<lambda>m. Some (replicate (length (takeWhile (\<lambda>x. x \<noteq> m) ms)) CHR ''x''))
     (\<lambda>b. if length b < length ms then Some (ms ! length b) else None)"

lemma transmissible_list_codec:
  assumes "m \<in> set ms" "length ms \<le> kMaxFrameLength"
  shows "transmissible (list_codec ms) m"
proof -
  have "length (takeWhile (\<lambda>x. x \<noteq> m) ms) < length ms"
    using assms(1) by (induction ms) auto
  moreover from this have "ms ! length (takeWhile (\<lambda>x. x \<noteq> m) ms) = m"
    using nth_length_takeWhile by fastforce
  ultimately show ?thesis
    using assms(2) by (simp add: transmissible_def list_codec_def ProtobufEncoding_def)
qed

lemma length_wire_list_codec:
  "m \<in> set ms \<Longrightarrow> length (wire (list_codec ms) m) \<le> 8 + length ms"
  using length_takeWhile_le [of "\<lambda>x. x \<noteq> m" ms]
  by (simp add: wire_def frame_def list_codec_def ProtobufEncoding_def)

definition toy_node :: "nat \<Rightarrow> nat authn_node" where
  "toy_node k = \<lparr>node_lib = toy_openssl, node_env = empty_env, node_key = Some k, node_bootId = replicate 16 CHR ''b''\<rparr>"

definition toy_encoding :: "frame_codec \<Rightarrow> bytes \<Rightarrow> nat Encoding" where
  "toy_encoding codec bs = Encoding_new codec (Some (bytewise bs)) None (Some 0)"

lemma toy_identity: "k < 256 \<Longrightarrow> \<exists>im. identityMessage (toy_node k) n = Inr im"
  by (simp add: identityMessage_def toy_node_def KeyPair_publicKey_def algorithmForKey_def verifyP256_def
      writePublicKeyBytes_def toy_openssl_def signMessage_def messageSignatureInput_def computeMessageHash_def
      hashRSPMessage_def hash_core_23_def signBlock_def KeyPair_sign_def hasPrivateKey_def nodeID_def Let_def)

lemma toy_ready:
  assumes "challengeMessage n \<in> set ms" "own \<in> set ms" "length ms \<le> 40"
  shows "ready (toy_node k) (toy_encoding (list_codec ms) bs) (bytewise bs) n own"
proof -
  have "length (wire (list_codec ms) (challengeMessage n)) + length (wire (list_codec ms) own) \<le> 100"
    using length_wire_list_codec [OF assms(1)] length_wire_list_codec [OF assms(2)] assms(3) by simp
  then have "writable (length (wire (list_codec ms) (challengeMessage n)) + length (wire (list_codec ms) own)) (bytewise bs)"
    by (simp add: writable_def bytewise_def list_all_iff)
  then show ?thesis
    using assms transmissible_list_codec [of _ ms]
    by (simp add: ready_def toy_encoding_def toy_node_def isValid_def kMaxFrameLength_def)
qed

definition nonce_a :: bytes where
  "nonce_a = replicate 16 CHR ''A''"

definition nonce_b :: bytes where
  "nonce_b = replicate 16 CHR ''B''"

theorem authn_mutual_witness:
  "\<exists>codec bs bs' sta stb. performInitialIdentityExchange (toy_node 7) nonce_a (toy_encoding codec bs) = (Inr True, sta) \<and>
     performInitialIdentityExchange (toy_node 9) nonce_b (toy_encoding codec bs') = (Inr True, stb) \<and>
     map_option Inr (peerNodeId (authn_encoding sta)) = Some (nodeID toy_openssl (Some 9))"
proof -
  obtain ia ib where i: "identityMessage (toy_node 7) nonce_b = Inr ia" "identityMessage (toy_node 9) nonce_a = Inr ib"
    using toy_identity [of 7 nonce_b] toy_identity [of 9 nonce_a] by auto
  let ?ms = "[challengeMessage nonce_a, challengeMessage nonce_b, ia, ib]"
  let ?codec = "list_codec ?ms"
  let ?ba = "wire ?codec (challengeMessage nonce_b) @ wire ?codec ib @ []"
  let ?bb = "wire ?codec (challengeMessage nonce_a) @ wire ?codec ia @ []"
  have r: "ready (toy_node 7) (toy_encoding ?codec ?ba) (bytewise ?ba) nonce_a ia"
    "ready (toy_node 9) (toy_encoding ?codec ?bb) (bytewise ?bb) nonce_b ib"
    by (rule toy_ready; simp)+
  have l: "node_lib (toy_node k) = toy_openssl" "node_env (toy_node k) = empty_env" "node_key (toy_node k) = Some k"
    "enc_codec (toy_encoding c b) = c" for k c b
    by (simp_all add: toy_node_def toy_encoding_def)
  have n: "length nonce_a = 16" "length nonce_b = 16"
    by (simp_all add: nonce_a_def nonce_b_def)
  show ?thesis
    using authn_mutual [OF toy_openssl_ok _ l(1) l(1) l(2) l(2) n i r l(4) l(4) readable_bytewise readable_bytewise]
      toy_sign unfolding l(3) by blast
qed

theorem authn_reflection_witness:
  "\<exists>codec bs st. performInitialIdentityExchange (toy_node 7) nonce_a (toy_encoding codec bs) = (Inr True, st) \<and>
     map_option Inr (peerNodeId (authn_encoding st)) = Some (nodeID toy_openssl (Some 7))"
proof -
  obtain ia where i: "identityMessage (toy_node 7) nonce_a = Inr ia"
    using toy_identity [of 7 nonce_a] by auto
  let ?codec = "list_codec [challengeMessage nonce_a, ia]"
  let ?b = "wire ?codec (challengeMessage nonce_a) @ wire ?codec ia"
  have r: "ready (toy_node 7) (toy_encoding ?codec ?b) (bytewise ?b) nonce_a ia"
    by (rule toy_ready; simp)
  have l: "node_lib (toy_node 7) = toy_openssl" "node_key (toy_node 7) = Some 7" "length nonce_a = 16"
    "outbound (bytewise ?b) = []" "enc_codec (toy_encoding ?codec ?b) = ?codec"
    by (simp_all add: toy_node_def toy_encoding_def nonce_a_def bytewise_def)
  show ?thesis
    using authn_reflection [OF toy_openssl_ok _ l(1,3) i r l(4)] toy_sign l(2,5) readable_bytewise [of ?b] by metis
qed

theorem authn_sound_witness:
  "\<exists>codec bs st m i n. performInitialIdentityExchange (toy_node 7) nonce_a (toy_encoding codec bs) = (Inr True, st) \<and>
     m \<in> set (authn_seen st) \<and> core m = identity i \<and> authn_stored st = [(n, i)] \<and>
     peerNodeId (authn_encoding st) = Some n \<and> bytes_or_default (id_nonce i) = nonce_a"
proof -
  obtain ia where i: "identityMessage (toy_node 7) nonce_a = Inr ia"
    using toy_identity [of 7 nonce_a] by auto
  let ?codec = "list_codec [challengeMessage nonce_a, ia]"
  let ?b = "wire ?codec (challengeMessage nonce_a) @ wire ?codec ia @ []"
  have r: "ready (toy_node 7) (toy_encoding ?codec ?b) (bytewise ?b) nonce_a ia"
    by (rule toy_ready; simp)
  obtain k j where k: "core ia = identity j" "validateReceivedIdentity toy_openssl empty_env ia nonce_a = Inr (Some k)"
    using identityMessage_validates [OF toy_openssl_ok _ i, of empty_env] toy_sign by (auto simp: toy_node_def)
  obtain st where st: "performInitialIdentityExchange (toy_node 7) nonce_a (toy_encoding ?codec ?b) = (Inr True, st)"
    using exchange_completes [OF r i _ k(1), of k "[]"] k(2) transmissible_list_codec [of _ "[challengeMessage nonce_a, ia]"]
    by (auto simp: toy_node_def toy_encoding_def nonce_a_def kMaxFrameLength_def)
  show ?thesis
    using st authn_sound [OF st] by blast
qed

definition authz_message :: RSPMessage where
  "authz_message = sample_message\<lparr>source := Some (replicate 16 CHR ''s'')\<rparr>"


end
