(* ===== verification/Node.thy ===== *)
theory Node
  imports Aes_Negotiation Logging Authentication
begin

text \<open>
  \<^verbatim>\<open>class RSPNode\<close> and its input queue (\<^verbatim>\<open>src/common/node.cpp\<close>): the behaviour every kind of node shares.
  A node extends the negotiation state with its key, its identity cache, its log subscriptions and its
  input queue. \<^verbatim>\<open>handleNodeSpecificMessage\<close> is virtual: it is an argument of the handler, a function of
  the whole node.
\<close>

section \<open>The node\<close>

record ('k, 'cb) RSPNode = "'k node_base" +
  own_keyPair :: "'k KeyPair"
  own_env :: hash_env
  own_bootId :: Uuid
  identityCache :: "'cb IdentityCache"
  inputQueue :: "RSPMessage MessageQueue"
  loggingSubscriptions :: SubscriptionManager

text \<open>The constructor; the boot identifier is 16 random bytes.\<close>

definition RSPNode_new :: "'k openssl \<Rightarrow> ('k \<Rightarrow> 'k \<Rightarrow> bytes option) \<Rightarrow> hash_env \<Rightarrow> u64 \<Rightarrow> u64 \<Rightarrow> 'k KeyPair \<Rightarrow>
    ('k, 'cb) RSPNode result" where
  "RSPNode_new lib derive env r s kp =
     res_bind (node_base_new lib derive kp) (\<lambda>n.
       Inr (node_base.extend n (RSPNode.fields kp env (native_u64_bytes r @ native_u64_bytes s)
              (IdentityCache_new (keyNodeID n) 1024) (mq_start (setWorkerCount 1 MessageQueue_new))
              (SubscriptionManager_new (keyNodeID n)))))"

definition stopNodeQueues :: "('k, 'cb, 'z) RSPNode_scheme \<Rightarrow> ('k, 'cb, 'z) RSPNode_scheme" where
  "stopNodeQueues n = n\<lparr>inputQueue := mq_stop (inputQueue n), outputQueue := mq_stop (outputQueue n)\<rparr>"

definition node_observeMessage :: "RSPMessage \<Rightarrow> ('k, 'cb, 'z) RSPNode_scheme \<Rightarrow>
    (('cb \<times> nodeid) list \<times> ('k, 'cb, 'z) RSPNode_scheme) result" where
  "node_observeMessage m n =
     res_bind (IdentityCache_observeMessage (node_openssl n) m (identityCache n)) (\<lambda>(cached, calls, c).
       Inr (calls, n\<lparr>identityCache := c\<rparr>))"

definition enqueueInput :: "datetime \<Rightarrow> RSPMessage \<Rightarrow> ('k, 'cb, 'z) RSPNode_scheme \<Rightarrow>
    (bool \<times> ('cb \<times> nodeid) list \<times> ('k, 'cb, 'z) RSPNode_scheme) result" where
  "enqueueInput now m n =
     res_bind (node_observeMessage m (processExpiredAesKeys now n)) (\<lambda>(calls, n).
       case mq_push m (inputQueue n) of (ok, full, q) \<Rightarrow> Inr (ok, calls, n\<lparr>inputQueue := q\<rparr>))"

section \<open>The input handler\<close>

definition toProtoDateTime :: "datetime \<Rightarrow> DateTimeMsg" where
  "toProtoDateTime t = millisecondsSinceEpoch t"

text \<open>What a call of the handler takes from outside.\<close>

record 'k node_inputs =
  in_aes :: "'k aes_inputs"
  in_fresh :: guid
  in_now :: datetime

definition log_subscribe_reply_to :: "'k node_inputs \<Rightarrow> RSPMessage \<Rightarrow> LogSubscribeRequest \<Rightarrow> ('k, 'cb, 'z) RSPNode_scheme \<Rightarrow>
    ('k, 'cb, 'z) RSPNode_scheme" where
  "log_subscribe_reply_to inp m request n =
     (case senderNodeIdFromMessage m of
        None \<Rightarrow> n
      | Some requester \<Rightarrow>
          (case subscribe (in_fresh inp) requester request (in_now inp) (loggingSubscriptions n) of
             (reply, sm) \<Rightarrow>
               snd (pushOutputMessage
                 ((copyMessageTrace m (RSPMessage_default\<lparr>destination := Some (toProtoNodeId requester)\<rparr>))
                    \<lparr>core := log_subscribe_reply reply\<rparr>)
                 (n\<lparr>loggingSubscriptions := sm\<rparr>))))"

definition log_unsubscribe_reply_to :: "RSPMessage \<Rightarrow> LogUnsubscribeRequest \<Rightarrow> ('k, 'cb, 'z) RSPNode_scheme \<Rightarrow>
    ('k, 'cb, 'z) RSPNode_scheme" where
  "log_unsubscribe_reply_to m request n =
     (case senderNodeIdFromMessage m of
        None \<Rightarrow> n
      | Some requester \<Rightarrow>
          (case unsubscribe requester request (loggingSubscriptions n) of
             (reply, sm) \<Rightarrow>
               snd (pushOutputMessage
                 ((copyMessageTrace m (RSPMessage_default\<lparr>destination := Some (toProtoNodeId requester)\<rparr>))
                    \<lparr>core := log_unsubscribe_reply reply\<rparr>)
                 (n\<lparr>loggingSubscriptions := sm\<rparr>))))"

text \<open>The answer to a challenge, before it is queued.\<close>

definition identityReply :: "('k, 'cb, 'z) RSPNode_scheme \<Rightarrow> RSPMessage \<Rightarrow> nodeid \<Rightarrow> bytes \<Rightarrow> RSPMessage result" where
  "identityReply n m requester challengeNonce =
     res_bind (KeyPair_publicKey (node_openssl n) (own_keyPair n)) (\<lambda>pk.
     let reply = (copyMessageTrace m (RSPMessage_default\<lparr>destination := Some (toProtoNodeId requester)\<rparr>))
           \<lparr>core := identity \<lparr>id_nonce = Some challengeNonce, public_key = Some pk, boot_id = Some (own_bootId n)\<rparr>\<rparr>
     in res_bind (signMessage (node_openssl n) (own_env n) (own_keyPair n) reply) (\<lambda>block.
        Inr (reply\<lparr>signature := Some block\<rparr>)))"

definition challenge_reply_to :: "RSPMessage \<Rightarrow> ChallengeRequest \<Rightarrow> ('k, 'cb, 'z) RSPNode_scheme \<Rightarrow>
    ('k, 'cb, 'z) RSPNode_scheme result" where
  "challenge_reply_to m challenge n =
     (case (senderNodeIdFromMessage m, challenge_nonce challenge) of
        (Some requester, Some challengeNonce) \<Rightarrow>
          if length challengeNonce \<noteq> 16 then Inr n
          else res_bind (identityReply n m requester challengeNonce) (\<lambda>reply. Inr (snd (pushOutputMessage reply n)))
      | _ \<Rightarrow> Inr n)"

text \<open>The reply to a ping, or the error for a message no part of the node handles.\<close>

definition base_reply :: "datetime \<Rightarrow> RSPMessage \<Rightarrow> RSPMessage" where
  "base_reply now m =
     (let reply = RSPMessage_default
            \<lparr>destination := (case source m of Some s \<Rightarrow> Some s | None \<Rightarrow> map_option toProtoNodeId (senderNodeIdFromMessage m)),
             nonce := nonce m\<rparr>
      in case core m of
           ping_request ping \<Rightarrow>
             reply\<lparr>core := ping_reply
               \<lparr>pong_nonce = Some (bytes_or_default (ping_nonce ping)), pong_sequence = ping_sequence ping,
                pong_time_sent = Some (case ping_time_sent ping of None \<Rightarrow> 0 | Some t \<Rightarrow> t),
                pong_time_replied = Some (toProtoDateTime now)\<rparr>\<rparr>
         | _ \<Rightarrow>
             reply\<lparr>core := error_msg
               \<lparr>error_code = UNKNOWN_MESSAGE_TYPE, error_message = ''unsupported message for base node handler''\<rparr>\<rparr>)"

type_synonym ('k, 'cb, 'z) specific = "RSPMessage \<Rightarrow> ('k, 'cb, 'z) RSPNode_scheme \<Rightarrow> (bool \<times> ('k, 'cb, 'z) RSPNode_scheme) result"

definition NodeInputQueue_handle :: "('k, 'cb, 'z) specific \<Rightarrow> 'k node_inputs \<Rightarrow> RSPMessage \<Rightarrow> ('k, 'cb, 'z) RSPNode_scheme \<Rightarrow>
    ('k, 'cb, 'z) RSPNode_scheme result" where
  "NodeInputQueue_handle handleNodeSpecificMessage inp m n =
     (case core m of
        log_subscribe_request request \<Rightarrow> Inr (log_subscribe_reply_to inp m request n)
      | log_unsubscribe_request request \<Rightarrow> Inr (log_unsubscribe_reply_to m request n)
      | _ \<Rightarrow>
          res_bind (handleNodeSpecificMessage m n) (\<lambda>(handled, n).
            if handled then Inr n
            else (case core m of
                    challenge_request challenge \<Rightarrow> challenge_reply_to m challenge n
                  | _ \<Rightarrow>
                      res_bind (handleAesNegotiationMessage (in_aes inp) m n) (\<lambda>(handled, n).
                        if handled then Inr n
                        else Inr (snd (pushOutputMessage (base_reply (in_now inp) m) n))))))"

text \<open>\<^verbatim>\<open>publishLogRecord\<close>: the delivery callback pushes to the output queue.\<close>

definition queue_deliver :: "RSPMessage MessageQueue deliver" where
  "queue_deliver m q = (case mq_push m q of (ok, full, q) \<Rightarrow> (ok, q))"

definition publishLogRecord :: "LogRecord \<Rightarrow> snapshot_view option \<Rightarrow> datetime \<Rightarrow> ('k, 'cb, 'z) RSPNode_scheme \<Rightarrow>
    (bool \<times> ('k, 'cb, 'z) RSPNode_scheme) result" where
  "publishLogRecord rec schemaSnapshot now n =
     (if subscriptionCount (loggingSubscriptions n) = 0 then Inr (True, n)
      else res_bind (publish rec queue_deliver schemaSnapshot now (loggingSubscriptions n) (outputQueue n)) (\<lambda>(stats, sm, q).
        Inr (True, n\<lparr>loggingSubscriptions := sm, outputQueue := q\<rparr>)))"


section \<open>The invariant\<close>

definition node_ok :: "('k, 'cb, 'z) RSPNode_scheme \<Rightarrow> bool" where
  "node_ok n \<longleftrightarrow> openssl_ok (node_openssl n) \<and> nodeID (node_openssl n) (own_keyPair n) = Inr (keyNodeID n) \<and>
     aes_ok (aesNegotiationState n) \<and> cache_ok (node_openssl n) (identityCache n) \<and>
     smap_ok (subscriptions (loggingSubscriptions n)) \<and> logNodeId (loggingSubscriptions n) = keyNodeID n"

text \<open>The negotiation changes its own state and the output queue, and nothing else of a node.\<close>

definition only_aes :: "('k, 'z) node_base_scheme \<Rightarrow> ('k, 'z) node_base_scheme \<Rightarrow> bool" where
  "only_aes n n' \<longleftrightarrow> (\<exists>st q. n' = n\<lparr>aesNegotiationState := st, outputQueue := q\<rparr>)"

lemma only_aesI [intro]: "only_aes n (n\<lparr>aesNegotiationState := st, outputQueue := q\<rparr>)"
  by (auto simp: only_aes_def)

lemma only_aes_refl [simp]: "only_aes n n"
  using only_aesI [of n "outputQueue n" "aesNegotiationState n"] by simp

lemma only_aes_trans: "only_aes a b \<Longrightarrow> only_aes b c \<Longrightarrow> only_aes a c"
  unfolding only_aes_def by (elim exE) (simp, blast)

lemma only_aes_state [simp]: "only_aes n (n\<lparr>aesNegotiationState := st\<rparr>)"
  using only_aesI [of n "outputQueue n" st] by simp

lemma only_aes_push [simp]: "only_aes n (snd (pushOutputMessage m n))"
  using only_aesI [of n _ "aesNegotiationState n"] by (simp add: pushOutputMessage_def split: prod.split)

lemma only_aes_push_all: "only_aes n (push_all ms n)"
  by (induction ms arbitrary: n) (auto simp: push_all_def intro: only_aes_trans [OF only_aes_push])

lemma only_aes_sweep [simp]: "only_aes n (processExpiredAesKeys now n)"
  unfolding processExpiredAesKeys_def Let_def by (rule only_aes_trans [OF only_aes_state only_aes_push_all])

lemma only_aes_respond [simp]: "only_aes n (snd (aes_respond r n))"
  by (auto simp: aes_respond_def Let_def split: prod.split option.split intro: only_aes_trans [OF only_aes_state only_aes_push])

lemma only_aes_handle:
  "handleAesNegotiationMessage inp m n = Inr (b, n') \<Longrightarrow> only_aes n n'"
proof -
  let ?n = "processExpiredAesKeys (now_first inp) n"
  have respond: "only_aes n n1" if "aes_respond r ?n = (b1, n1)" for r b1 n1
    using only_aes_trans [OF only_aes_sweep only_aes_respond] that by (metis snd_conv)
  have state: "only_aes n (?n\<lparr>aesNegotiationState := st\<rparr>)" for st
    by (rule only_aes_trans [OF only_aes_sweep only_aes_state])
  assume "handleAesNegotiationMessage inp m n = Inr (b, n')"
  then show ?thesis
    using state
    by (cases "core m")
      (auto simp: handleAesNegotiationMessage_def Let_def res_bind_eq_Inr split: option.splits dest: respond)
qed

lemma only_aes_keeps:
  assumes "only_aes n n'"
  shows "node_openssl n' = node_openssl n" "keyNodeID n' = keyNodeID n" "own_keyPair n' = own_keyPair n"
    "identityCache n' = identityCache n" "inputQueue n' = inputQueue n" "loggingSubscriptions n' = loggingSubscriptions n"
  using assms by (auto simp: only_aes_def)


lemma node_ok_only_aes: "only_aes n n' \<Longrightarrow> aes_ok (aesNegotiationState n') \<Longrightarrow> node_ok n \<Longrightarrow> node_ok n'"
  by (simp add: node_ok_def only_aes_keeps)

lemma node_ok_push: "node_ok n \<Longrightarrow> node_ok (snd (pushOutputMessage m n))"
  by (rule node_ok_only_aes [OF only_aes_push]) (simp_all add: node_ok_def)

lemma node_ok_sweep: "node_ok n \<Longrightarrow> node_ok (processExpiredAesKeys now n)"
  by (rule node_ok_only_aes [OF only_aes_sweep]) (simp_all add: node_ok_def expire_state_ok)

lemma node_ok_queues [simp]:
  "node_ok (n\<lparr>inputQueue := q\<rparr>) = node_ok n" "node_ok (n\<lparr>outputQueue := q\<rparr>) = node_ok n"
  by (simp_all add: node_ok_def)

lemma node_ok_new: "openssl_ok lib \<Longrightarrow> RSPNode_new lib derive env r s kp = Inr n \<Longrightarrow> node_ok n"
  by (auto simp: RSPNode_new_def node_base_new_def res_bind_eq_Inr node_base.defs RSPNode.defs node_ok_def aes_ok_def
      limits_ok_def AesNegotiationLimits_default_def cache_ok_def order_ok_def IdentityCache_new_def
      SubscriptionManager_new_def smap_size_def)

lemma subscribe_ok:
  "smap_ok (subscriptions sm) \<Longrightarrow> smap_ok (subscriptions (snd (subscribe g n request now sm)))"
  "logNodeId (snd (subscribe g n request now sm)) = logNodeId sm"
  by (simp_all add: subscribe_def Let_def split: option.split)

lemma unsubscribe_ok:
  "smap_ok (subscriptions sm) \<Longrightarrow> smap_ok (subscriptions (snd (unsubscribe n request sm)))"
  "logNodeId (snd (unsubscribe n request sm)) = logNodeId sm"
  by (simp_all add: unsubscribe_def split: option.split)

lemma publish_loop_ok:
  "publish_loop snap unpacked rec url now deliver cs failed stats sm q = Inr (stats', sm', q') \<Longrightarrow>
   smap_ok (subscriptions sm) \<Longrightarrow> smap_ok (subscriptions sm') \<and> logNodeId sm' = logNodeId sm"
  by (induction cs arbitrary: failed stats sm q)
    (auto simp: removeAllForNode_def Let_def res_bind_eq_Inr split: if_splits prod.splits bool.splits)

lemma publish_ok:
  "publish rec deliver snap now sm q = Inr (stats, sm', q') \<Longrightarrow> smap_ok (subscriptions sm) \<Longrightarrow>
   smap_ok (subscriptions sm') \<and> logNodeId sm' = logNodeId sm"
  by (auto simp: publish_def removeExpired_def Let_def dest: publish_loop_ok split: option.splits if_splits)

lemma node_ok_observe:
  assumes "node_ok n"
  shows "\<exists>calls n'. node_observeMessage m n = Inr (calls, n') \<and> node_ok n' \<and> inputQueue n' = inputQueue n"
proof -
  obtain b ns c where "IdentityCache_observeMessage (node_openssl n) m (identityCache n) = Inr (b, ns, c)" "cache_ok (node_openssl n) c"
    using assms cache_all_ok [of "node_openssl n" "identityCache n"]
    by (fastforce simp: node_ok_def IdentityCache_observeMessage_def)
  with assms show ?thesis by (simp add: node_observeMessage_def node_ok_def)
qed

lemma node_ok_enqueue:
  assumes "node_ok n"
  shows "\<exists>ok calls n'. enqueueInput now m n = Inr (ok, calls, n') \<and> node_ok n'"
  using node_ok_observe [OF node_ok_sweep [OF assms], of m now] by (auto simp: enqueueInput_def split: prod.split)


lemma node_ok_log_replies:
  assumes "node_ok n"
  shows "node_ok (log_subscribe_reply_to inp m r n)" "node_ok (log_unsubscribe_reply_to m u n)"
proof -
  have sm: "node_ok (n\<lparr>loggingSubscriptions := sm\<rparr>)"
    if "smap_ok (subscriptions sm)" "logNodeId sm = logNodeId (loggingSubscriptions n)" for sm
    using assms that by (simp add: node_ok_def)
  have ok: "smap_ok (subscriptions (loggingSubscriptions n))"
    using assms by (simp add: node_ok_def)
  show "node_ok (log_subscribe_reply_to inp m r n)"
    using assms subscribe_ok(1) [OF ok] subscribe_ok(2)
    by (auto simp: log_subscribe_reply_to_def split: option.split prod.split intro!: node_ok_push sm) (metis snd_conv)+
  show "node_ok (log_unsubscribe_reply_to m u n)"
    using assms unsubscribe_ok(1) [OF ok] unsubscribe_ok(2)
    by (auto simp: log_unsubscribe_reply_to_def split: option.split prod.split intro!: node_ok_push sm) (metis snd_conv)+
qed

lemma node_ok_challenge: "node_ok n \<Longrightarrow> challenge_reply_to m c n = Inr n' \<Longrightarrow> node_ok n'"
  by (auto simp: challenge_reply_to_def res_bind_eq_Inr node_ok_push split: option.splits if_splits)

lemma node_ok_aes:
  assumes "node_ok n" "handleAesNegotiationMessage inp m n = Inr (b, n')"
  shows "node_ok n'"
proof -
  have "aes_ok (aesNegotiationState n')"
    using assms handleAesNegotiationMessage_move [of n inp m] by (auto simp: node_ok_def aes_move_def)
  then show ?thesis
    using node_ok_only_aes [OF only_aes_handle [OF assms(2)]] assms(1) by blast
qed

text \<open>What the handler of a subclass has to keep.\<close>

definition keeps_node :: "('k, 'cb, 'z) specific \<Rightarrow> bool" where
  "keeps_node specific \<longleftrightarrow> (\<forall>m n h n'. node_ok n \<longrightarrow> specific m n = Inr (h, n') \<longrightarrow> node_ok n')"

lemma node_ok_handle:
  assumes "keeps_node specific" "node_ok n" "NodeInputQueue_handle specific inp m n = Inr n'"
  shows "node_ok n'"
proof -
  have rest: "node_ok n'"
    if run: "res_bind (specific m n) (\<lambda>(handled, n).
            if handled then Inr n
            else (case core m of
                    challenge_request challenge \<Rightarrow> challenge_reply_to m challenge n
                  | _ \<Rightarrow>
                      res_bind (handleAesNegotiationMessage (in_aes inp) m n) (\<lambda>(handled, n).
                        if handled then Inr n
                        else Inr (snd (pushOutputMessage (base_reply (in_now inp) m) n))))) = Inr n'"
  proof -
    obtain h n1 where n1: "specific m n = Inr (h, n1)" "node_ok n1"
      using run assms(1,2) by (auto simp: res_bind_eq_Inr keeps_node_def)
    show ?thesis
      using run n1
      by (cases "core m") (auto simp: res_bind_eq_Inr split: if_splits intro: node_ok_challenge node_ok_aes node_ok_push)
  qed
  show ?thesis
    using assms(2,3) rest
    by (cases "core m") (auto simp: NodeInputQueue_handle_def node_ok_log_replies)
qed

lemma node_ok_publish:
  "node_ok n \<Longrightarrow> publishLogRecord rec snap now n = Inr (b, n') \<Longrightarrow> node_ok n'"
  by (auto simp: publishLogRecord_def res_bind_eq_Inr node_ok_def dest: publish_ok split: if_splits)

section \<open>Runs of a node\<close>

text \<open>
  The states a node can reach: messages arrive and are handled in turn, replies leave the output queue,
  records are published, negotiations are started and dropped, limits are changed, the queues are stopped.
\<close>

inductive node_reachable :: "'k openssl \<Rightarrow> ('k, 'cb, unit) specific \<Rightarrow> ('k, 'cb) RSPNode \<Rightarrow> bool"
  for lib specific where
  start: "node_reachable lib specific n" if "RSPNode_new lib derive env r s kp = Inr n"
| arrive: "node_reachable lib specific n'" if "node_reachable lib specific n" "enqueueInput now m n = Inr (ok, calls, n')"
| handle: "node_reachable lib specific n'"
  if "node_reachable lib specific n" "mq_tryPop (inputQueue n) = (Some m, q)"
    "NodeInputQueue_handle specific inp m (n\<lparr>inputQueue := q\<rparr>) = Inr n'"
| leave: "node_reachable lib specific (n\<lparr>outputQueue := q\<rparr>)"
  if "node_reachable lib specific n" "mq_tryPop (outputQueue n) = (Some m, q)"
| log: "node_reachable lib specific n'" if "node_reachable lib specific n" "publishLogRecord rec snap now n = Inr (b, n')"
| negotiate: "node_reachable lib specific n'" if "node_reachable lib specific n" "aes_step x n = Inr n'"
| resize: "node_reachable lib specific (n\<lparr>identityCache := c\<rparr>)"
  if "node_reachable lib specific n" "setMaximumEntries k (identityCache n) = Inr c"
| observer: "node_reachable lib specific (n\<lparr>identityCache := snd (addIdentityObservedCallback cb (identityCache n))\<rparr>)"
  if "node_reachable lib specific n"
| stop: "node_reachable lib specific (stopNodeQueues n)" if "node_reachable lib specific n"


lemma only_aes_begin: "beginAesKeyNegotiation inp peer ms n = Inr (b, n') \<Longrightarrow> only_aes n n'"
proof -
  let ?n = "processExpiredAesKeys (now_first inp) n"
  have push: "only_aes n n1" if "pushOutputMessage m (?n\<lparr>aesNegotiationState := st\<rparr>) = (b1, n1)" for m st b1 n1
    using only_aes_trans [OF only_aes_trans [OF only_aes_sweep only_aes_state] only_aes_push] that by (metis snd_conv)
  have undo: "only_aes n (n1\<lparr>aesNegotiationState := st'\<rparr>)"
    if "pushOutputMessage m (?n\<lparr>aesNegotiationState := st\<rparr>) = (b1, n1)" for m st st' b1 n1
    using only_aes_trans [OF push only_aes_state] that by blast
  assume run: "beginAesKeyNegotiation inp peer ms n = Inr (b, n')"
  let ?l = "limits (expire_state (now_first inp) (aesNegotiationState n))"
  consider (same) "n' = n" | (swept) "n' = ?n"
    | (pushed) v kp pk where "clampLifetimeMs ms ?l = Inr v" "generateP256 (node_openssl n) (generated inp) = Inr kp"
        "KeyPair_publicKey (node_openssl n) kp = Inr pk"
    using run
    by (cases "clampLifetimeMs ms ?l"; cases "generateP256 (node_openssl n) (generated inp)")
      (auto simp: beginAesKeyNegotiation_def Let_def catch_exception_def res_bind_eq_Inr split: if_splits sum.splits)
  then show ?thesis
  proof cases
    case pushed
    then show ?thesis
      using run
      by (auto simp: beginAesKeyNegotiation_def Let_def split: if_splits prod.splits bool.splits dest: push undo)
  qed simp_all
qed

lemma only_aes_drop: "only_aes n (snd (dropAesKey now peer reason n))"
  by (auto simp: dropAesKey_def Let_def split: option.split
      intro: only_aes_trans [OF only_aes_sweep only_aes_state]
        only_aes_trans [OF only_aes_trans [OF only_aes_sweep only_aes_state] only_aes_push])

lemma only_aes_step: "aes_step x n = Inr n' \<Longrightarrow> only_aes n n'"
proof (cases x)
  case (Set_limits l)
  assume "aes_step x n = Inr n'"
  with Set_limits setAesNegotiationLimits_ok [of l n] show ?thesis by auto
qed (auto simp: res_bind_eq_Inr only_aes_drop dest: only_aes_begin only_aes_handle)

lemma node_ok_aes_step:
  assumes "node_ok n" "aes_step x n = Inr n'"
  shows "node_ok n'"
proof -
  have b: "bounded_by (max (smap_size (activeByPeer (aesNegotiationState n))) (maxActiveKeys (limits (aesNegotiationState n))))
      (max (smap_size (pendingByPeer (aesNegotiationState n))) (maxPendingNegotiations (limits (aesNegotiationState n)))) n"
    using assms(1) by (simp add: bounded_by_def node_ok_def)
  have "aes_ok (aesNegotiationState n')"
    using aes_run_bounded [OF b, of "[x]"] assms(2) by (auto simp: bounded_by_def)
  then show ?thesis
    using node_ok_only_aes [OF only_aes_step [OF assms(2)]] assms(1) by blast
qed

lemma node_reachable_ok:
  assumes "node_reachable lib specific n" "openssl_ok lib" "keeps_node specific"
  shows "node_ok n"
  using assms(1)
proof induction
  case (start derive env r s kp n)
  then show ?case using node_ok_new assms(2) by blast
next
  case (arrive n now m ok calls n')
  then show ?case using node_ok_enqueue [OF arrive.IH, of now m] by auto
next
  case (handle n m q inp n')
  then show ?case using node_ok_handle [OF assms(3)] by (metis node_ok_queues(1))
next
  case (log n rec snap now b n')
  then show ?case using node_ok_publish by blast
next
  case (negotiate n x n')
  then show ?case using node_ok_aes_step by blast
next
  case (resize n k c)
  then show ?case using cache_step_ok [of "node_openssl n" "identityCache n" "Set_maximum k"]
    by (auto simp: node_ok_def)
next
  case (observer n cb)
  then show ?case using cache_step_ok [of "node_openssl n" "identityCache n" "Add_observer cb"]
    by (auto simp: node_ok_def)
next
  case (stop n)
  then show ?case by (simp add: stopNodeQueues_def)
qed simp


section \<open>Properties\<close>


text \<open>The answer to a challenge is the identity of the node, signed with its key.\<close>

lemma identityReply_proves:
  assumes "node_ok n" "\<And>k d s. DigestSign (node_openssl n) k d = Some s \<Longrightarrow> s \<noteq> [] \<and> length s < 2 ^ 32"
    and "identityReply n m requester c = Inr reply"
  obtains pk i where "KeyPair_publicKey (node_openssl n) (own_keyPair n) = Inr pk" "core reply = identity i"
    "sanitizedIdentityForCache i = \<lparr>id_nonce = None, public_key = Some pk, boot_id = None\<rparr>"
    "nodeIdFromIdentity (node_openssl n) i = Some (keyNodeID n)" "identities reply = []"
    "destination reply = Some (toProtoNodeId requester)" "senderNodeIdFromMessage reply = Some (keyNodeID n)"
    "validateReceivedIdentity (node_openssl n) (own_env n) reply c = Inr (Some (keyNodeID n))"
proof -
  let ?lib = "node_openssl n"
  define i where "i pk = \<lparr>id_nonce = Some c, public_key = Some pk, boot_id = Some (own_bootId n)\<rparr>" for pk
  define r where "r pk = (copyMessageTrace m (RSPMessage_default\<lparr>destination := Some (toProtoNodeId requester)\<rparr>))\<lparr>core := identity (i pk)\<rparr>" for pk
  obtain pk block where pk: "KeyPair_publicKey ?lib (own_keyPair n) = Inr pk"
    and block: "signMessage ?lib (own_env n) (own_keyPair n) (r pk) = Inr block" and reply: "reply = (r pk)\<lparr>signature := Some block\<rparr>"
    using assms(3) by (auto simp: identityReply_def i_def r_def Let_def res_bind_eq_Inr)
  have own: "nodeID ?lib (own_keyPair n) = Inr (keyNodeID n)" and lib: "openssl_ok ?lib"
    using assms(1) by (simp_all add: node_ok_def)
  obtain vk where vk: "fromPublicKey ?lib pk = Inr vk" "verifyMessageSignature ?lib (own_env n) vk reply block = Inr True"
      "nodeID ?lib vk = Inr (keyNodeID n)" "nodeIdFromSignerField (bytes_or_default (signer block)) = Some (keyNodeID n)"
    using sign_then_verify [OF lib _ block pk] assms(2) own reply by (metis sum.inject(2))
  have fields: "core reply = identity (i pk)" "signature reply = Some block" "identities reply = []"
    "destination reply = Some (toProtoNodeId requester)"
    by (simp_all add: reply r_def copyMessageTrace_def RSPMessage_default_def split: option.split)
  obtain b where "signer block = Some b" "nodeIdFromSignerField b = Some (keyNodeID n)"
    using vk(4) by (cases "signer block") (auto simp: nodeIdFromSignerField_def)
  then have "senderNodeIdFromMessage reply = Some (keyNodeID n)"
    by (simp add: senderNodeIdFromMessage_def fields)
  moreover have "nodeIdFromIdentity ?lib (i pk) = Some (keyNodeID n)"
    using vk(1,3) by (simp add: nodeIdFromIdentity_def i_def public_key_or_default_def)
  moreover have "validateReceivedIdentity ?lib (own_env n) reply c = Inr (Some (keyNodeID n))"
    using vk by (simp add: validateReceivedIdentity_def fields i_def public_key_or_default_def)
  ultimately show thesis
    using that [OF pk fields(1)] fields by (simp add: sanitizedIdentityForCache_def i_def public_key_or_default_def)
qed

text \<open>
  C39. A node proves its identity to whoever asks. The reply it queues to a challenge with a 16 byte nonce
  is addressed to the requester, is accepted as an answer to that challenge with the node's own
  identifier, names the node as its sender, and puts its public key into every identity cache with room
  that observes it, under its identifier.
\<close>

theorem challenge_answered:
  assumes "node_ok n" "\<And>k d s. DigestSign (node_openssl n) k d = Some s \<Longrightarrow> s \<noteq> [] \<and> length s < 2 ^ 32"
    and "core m = challenge_request \<lparr>challenge_nonce = Some c\<rparr>" "length c = 16"
    and "senderNodeIdFromMessage m = Some requester" "specific m n = Inr (False, n)"
    and "identityReply n m requester c = Inr reply" "queueLimit (outputQueue n) = 0"
    and "cache_ok (node_openssl n) cache" "0 < maximumEntries cache"
  shows "(\<exists>n'. NodeInputQueue_handle specific inp m n = Inr n' \<and> messages (outputQueue n') = messages (outputQueue n) @ [reply]) \<and>
    destination reply = Some (toProtoNodeId requester) \<and>
    validateReceivedIdentity (node_openssl n) (own_env n) reply c = Inr (Some (keyNodeID n)) \<and>
    senderNodeIdFromMessage reply = Some (keyNodeID n) \<and>
    (\<exists>calls cache' pk. IdentityCache_observeMessage (node_openssl n) reply cache = Inr (True, calls, cache') \<and>
       KeyPair_publicKey (node_openssl n) (own_keyPair n) = Inr pk \<and>
       IdentityCache_get (keyNodeID n) cache' = Some \<lparr>id_nonce = None, public_key = Some pk, boot_id = None\<rparr>)"
proof -
  obtain pk i where r: "KeyPair_publicKey (node_openssl n) (own_keyPair n) = Inr pk" "core reply = identity i"
    "sanitizedIdentityForCache i = \<lparr>id_nonce = None, public_key = Some pk, boot_id = None\<rparr>"
    "nodeIdFromIdentity (node_openssl n) i = Some (keyNodeID n)" "identities reply = []"
    "destination reply = Some (toProtoNodeId requester)" "senderNodeIdFromMessage reply = Some (keyNodeID n)"
    "validateReceivedIdentity (node_openssl n) (own_env n) reply c = Inr (Some (keyNodeID n))"
    using identityReply_proves [OF assms(1) _ assms(7)] assms(2) by blast
  have "\<exists>n'. NodeInputQueue_handle specific inp m n = Inr n' \<and> messages (outputQueue n') = messages (outputQueue n) @ [reply]"
    using assms(3-8) by (simp add: NodeInputQueue_handle_def challenge_reply_to_def push_unbounded)
  moreover have "\<exists>calls cache'. IdentityCache_observeMessage (node_openssl n) reply cache = Inr (True, calls, cache') \<and>
      IdentityCache_get (keyNodeID n) cache' = Some \<lparr>id_nonce = None, public_key = Some pk, boot_id = None\<rparr>"
    using cacheIdentity_effect [OF assms(9) r(4) assms(10), of "Some (keyNodeID n)"] r
    by (auto simp: IdentityCache_observeMessage_def)
  ultimately show ?thesis
    using r by blast
qed


section \<open>A concrete node\<close>

definition no_specific :: "('k, 'cb, 'z) specific" where
  "no_specific m n = Inr (False, n)"

lemma toy_node_new:
  obtains n :: "(nat, nat) RSPNode" where "RSPNode_new toy_openssl toy_derive empty_env 1 2 (Some 7) = Inr n"
    "node_openssl n = toy_openssl" "own_env n = empty_env" "own_keyPair n = Some 7" "queueLimit (outputQueue n) = 0"
  by (simp add: RSPNode_new_def node_base_new_def nodeID_def toy_openssl_def Let_def node_base.defs RSPNode.defs
      mq_start_def setWorkerCount_def MessageQueue_new_def rebuildWorkers_def startWorkersLocked_def)

lemma toy_identityReply:
  assumes "node_openssl n = toy_openssl" "own_env n = empty_env" "own_keyPair n = Some 7"
  shows "\<exists>reply. identityReply n RSPMessage_default requester c = Inr reply"
  using assms
  by (simp add: identityReply_def KeyPair_publicKey_def algorithmForKey_def verifyP256_def copyMessageTrace_def
      writePublicKeyBytes_def toy_openssl_def signMessage_def messageSignatureInput_def computeMessageHash_def
      hashRSPMessage_def hash_core_23_def signBlock_def KeyPair_sign_def hasPrivateKey_def nodeID_def Let_def
      RSPMessage_default_def)


definition toy_challenge :: RSPMessage where
  "toy_challenge = RSPMessage_default\<lparr>source := Some (toProtoNodeId (GUID 3 4)),
     core := challenge_request \<lparr>challenge_nonce = Some nonce_a\<rparr>\<rparr>"

theorem challenge_answered_witness:
  "\<exists>(n :: (nat, nat) RSPNode) reply. identityReply n toy_challenge (GUID 3 4) nonce_a = Inr reply \<and>
     validateReceivedIdentity toy_openssl empty_env reply nonce_a = Inr (Some (keyNodeID n))"
proof -
  obtain n :: "(nat, nat) RSPNode" where n: "RSPNode_new toy_openssl toy_derive empty_env 1 2 (Some 7) = Inr n"
    "node_openssl n = toy_openssl" "own_env n = empty_env" "own_keyPair n = Some 7" "queueLimit (outputQueue n) = 0"
    by (rule toy_node_new)
  have trace: "copyMessageTrace toy_challenge d = copyMessageTrace RSPMessage_default d" for d
    by (simp add: copyMessageTrace_def toy_challenge_def RSPMessage_default_def)
  obtain reply where reply: "identityReply n toy_challenge (GUID 3 4) nonce_a = Inr reply"
    using toy_identityReply [OF n(2-4), of "GUID 3 4" nonce_a] by (auto simp: identityReply_def trace)
  have m: "core toy_challenge = challenge_request \<lparr>challenge_nonce = Some nonce_a\<rparr>" "length nonce_a = 16"
    "senderNodeIdFromMessage toy_challenge = Some (GUID 3 4)" "no_specific toy_challenge n = Inr (False, n)"
    by (simp_all add: toy_challenge_def RSPMessage_default_def senderNodeIdFromMessage_def no_specific_def nonce_a_def)
  have ok: "node_ok n" "cache_ok (node_openssl n) (IdentityCache_new (GUID 3 4) 8 :: nat IdentityCache)"
    using node_ok_new [OF toy_openssl_ok n(1)]
    by (simp_all add: cache_ok_def order_ok_def IdentityCache_new_def smap_size_def)
  show ?thesis
    using challenge_answered [where specific = no_specific, OF ok(1) _ m reply n(5) ok(2)] toy_sign n reply by (auto simp: IdentityCache_new_def)
qed

end
