(* ===== verification/Node_Frame.thy ===== *)
theory Node_Frame
  imports Node
begin

text \<open>
  What the subclasses of \<^verbatim>\<open>RSPNode\<close> share: the queues they start, the conversions that their files
  repeat, the messages whose signature names their sender, and what the code of the base class leaves
  unchanged of a subclass.
\<close>

section \<open>Shared operations\<close>

definition started_queue :: "nat \<Rightarrow> 'm MessageQueue" where
  "started_queue k = mq_start (setWorkerCount k MessageQueue_new)"

definition fromProtoNodeId :: "NodeId \<Rightarrow> nodeid option" where
  "fromProtoNodeId b =
     (if length b \<noteq> 16 then None
      else Some (GUID (native_u64_of (take 8 b)) (native_u64_of (take 8 (drop 8 b)))))"

definition randomMessageNonce :: "u64 \<Rightarrow> u64 \<Rightarrow> bytes" where
  "randomMessageNonce r s = native_u64_bytes r @ native_u64_bytes s"

section \<open>Authentic messages\<close>

definition authentic :: "'k openssl \<Rightarrow> hash_env \<Rightarrow> nodeid \<Rightarrow> RSPMessage \<Rightarrow> bool" where
  "authentic lib env who m \<longleftrightarrow>
     (\<exists>sig key. signature m = Some sig \<and> nodeIdFromSignerField (bytes_or_default (signer sig)) = Some who \<and>
        nodeID lib key = Inr who \<and> verifyMessageSignature lib env key m sig = Inr True)"

definition signatures_fit :: "'k openssl \<Rightarrow> bool" where
  "signatures_fit lib \<longleftrightarrow> (\<forall>k d s. DigestSign lib k d = Some s \<longrightarrow> s \<noteq> [] \<and> length s < 2 ^ 32)"

lemma authentic_sender: "authentic lib env who m \<Longrightarrow> senderNodeIdFromMessage m = Some who"
proof -
  assume "authentic lib env who m"
  then obtain sig where "signature m = Some sig" "nodeIdFromSignerField (bytes_or_default (signer sig)) = Some who"
    by (auto simp: authentic_def)
  then show ?thesis
    by (cases "signer sig") (auto simp: senderNodeIdFromMessage_def nodeIdFromSignerField_def)
qed

lemma sign_verifies:
  assumes "openssl_ok lib" "signatures_fit lib" "nodeID lib kp = Inr who" "signMessage lib env kp m = Inr block"
  shows "verifyMessageSignature lib env kp (m\<lparr>signature := Some block\<rparr>) block = Inr True \<and>
    nodeIdFromSignerField (bytes_or_default (signer block)) = Some who"
proof -
  obtain k where k: "kp = Some k" using assms(3) by (cases kp) (simp_all add: nodeID_def)
  obtain b where b: "messageSignatureInput lib env m = Inr b" and blk: "signBlock lib (Some k) b = Inr block"
    using assms(4) k by (auto simp: signMessage_def res_bind_eq_Inr)
  obtain s where s: "DigestSign lib k (Buffer_contents b) = Some s"
    and block: "block = \<lparr>signer = Some (serializeNodeIdBytes who), sig_algorithm = P256, sig_bytes = s\<rparr>"
    and p256: "verifyP256 lib (Some k) = Inr ()"
    using blk assms(2,3) k
    by (auto simp: signBlock_def KeyPair_sign_def algorithmForKey_def res_bind_eq_Inr signatures_fit_def
        Buffer_contents_from split: option.splits if_splits)
  have "verifyBlock lib (Some k) b block = Inr True"
    using assms(1,2) blk p256 s block by (intro verifyBlock_signBlock [OF assms(1) blk]) (auto simp: signatures_fit_def)
  then show ?thesis
    using b block assms(3) k
    by (simp add: verifyMessageSignature_def nodeIdFromSignerField_def node_codec.dec_enc)
qed

lemma sign_authentic:
  assumes "openssl_ok lib" "signatures_fit lib" "nodeID lib kp = Inr who" "signMessage lib env kp m = Inr block"
  shows "authentic lib env who (m\<lparr>signature := Some block\<rparr>)"
  using sign_verifies [OF assms] assms(3) by (auto simp: authentic_def)

lemma toy_fits: "signatures_fit toy_openssl"
  using toy_sign by (auto simp: signatures_fit_def)

definition all_authentic :: "'k openssl \<Rightarrow> hash_env \<Rightarrow> RSPMessage MessageQueue \<Rightarrow> bool" where
  "all_authentic lib env q \<longleftrightarrow> (\<forall>m\<in>set (messages q). \<exists>who. authentic lib env who m)"

lemma all_authentic_push:
  "all_authentic lib env q \<Longrightarrow> authentic lib env who m \<Longrightarrow> mq_push m q = (ok, full, q') \<Longrightarrow> all_authentic lib env q'"
  by (auto simp: all_authentic_def mq_push_def Let_def split: if_splits)

lemma all_authentic_pop:
  "all_authentic lib env q \<Longrightarrow> mq_tryPop q = (Some m, q') \<Longrightarrow>
   all_authentic lib env q' \<and> (\<exists>who. authentic lib env who m)"
  by (auto simp: all_authentic_def mq_tryPop_def split: list.splits if_splits)

lemma all_authentic_started [simp]: "all_authentic lib env (started_queue k)"
  by (simp add: all_authentic_def started_queue_def mq_start_def setWorkerCount_def MessageQueue_new_def
      rebuildWorkers_def startWorkersLocked_def)

lemma all_authentic_stop: "all_authentic lib env q \<Longrightarrow> all_authentic lib env (mq_stop q)"
  by (simp add: all_authentic_def mq_stop_def)

section \<open>What the shared parts of a node change\<close>

definition base_change :: "('k, 'cb, 'z) RSPNode_scheme \<Rightarrow> ('k, 'cb, 'z) RSPNode_scheme \<Rightarrow> bool" where
  "base_change n n' \<longleftrightarrow> (\<exists>st q sm. n' = n\<lparr>aesNegotiationState := st, outputQueue := q, loggingSubscriptions := sm\<rparr>)"

lemma base_changeI: "base_change n (n\<lparr>aesNegotiationState := st, outputQueue := q, loggingSubscriptions := sm\<rparr>)"
  by (auto simp: base_change_def)

lemma base_change_trans: "base_change a b \<Longrightarrow> base_change b c \<Longrightarrow> base_change a c"
  unfolding base_change_def by (elim exE) (simp, blast)

lemma base_change_aes: "only_aes n n' \<Longrightarrow> base_change n n'"
  using base_changeI [where n = n and sm = "loggingSubscriptions n"] by (auto simp: only_aes_def)

lemma base_change_refl [simp]: "base_change n n"
  by (rule base_change_aes) simp

lemma base_change_push [simp]: "base_change n (snd (pushOutputMessage m n))"
  by (rule base_change_aes) simp

lemma base_change_log [simp]: "base_change n (n\<lparr>loggingSubscriptions := sm\<rparr>)"
  using base_changeI [where n = n and q = "outputQueue n" and st = "aesNegotiationState n"] by simp

lemma base_change_logging:
  "base_change n (log_subscribe_reply_to inp m request n)" "base_change n (log_unsubscribe_reply_to m request' n)"
  by (auto simp: log_subscribe_reply_to_def log_unsubscribe_reply_to_def split: option.split prod.split
      intro: base_change_trans [OF base_change_log base_change_push])

lemma base_change_challenge: "challenge_reply_to m c n = Inr n' \<Longrightarrow> base_change n n'"
  by (auto simp: challenge_reply_to_def res_bind_eq_Inr split: option.splits if_splits)

lemma base_change_log_output: "base_change n (n\<lparr>loggingSubscriptions := sm, outputQueue := q\<rparr>)"
  by (rule base_change_trans [OF base_change_log base_change_aes])
    (use only_aesI [where st = "aesNegotiationState n" and n = "n\<lparr>loggingSubscriptions := sm\<rparr>"] in simp)

lemma base_change_publish: "publishLogRecord rec snap now n = Inr (b, n') \<Longrightarrow> base_change n n'"
  by (auto simp: publishLogRecord_def res_bind_eq_Inr base_change_log_output split: if_splits)

lemma base_change_handle:
  assumes "NodeInputQueue_handle specific inp m n = Inr n'"
  shows "base_change n n' \<or> (\<exists>h n1. specific m n = Inr (h, n1) \<and> base_change n1 n')"
proof -
  have rest: "\<exists>h n1. specific m n = Inr (h, n1) \<and> base_change n1 n'"
    if run: "res_bind (specific m n) (\<lambda>(handled, n).
            if handled then Inr n
            else (case core m of
                    challenge_request challenge \<Rightarrow> challenge_reply_to m challenge n
                  | _ \<Rightarrow>
                      res_bind (handleAesNegotiationMessage (in_aes inp) m n) (\<lambda>(handled, n).
                        if handled then Inr n
                        else Inr (snd (pushOutputMessage (base_reply (in_now inp) m) n))))) = Inr n'"
  proof -
    obtain h n1 where n1: "specific m n = Inr (h, n1)"
      using run by (auto simp: res_bind_eq_Inr)
    have reply: "base_change n1 n'"
      if "res_bind (handleAesNegotiationMessage (in_aes inp) m n1) (\<lambda>(handled, n).
            if handled then Inr n else Inr (snd (pushOutputMessage (base_reply (in_now inp) m) n))) = Inr n'"
      using that base_change_aes [OF only_aes_handle, of "in_aes inp" m n1]
      by (auto simp: res_bind_eq_Inr split: if_splits intro: base_change_trans [OF _ base_change_push])
    have "base_change n1 n'"
      using run n1 reply base_change_challenge [of m _ n1 n']
      by (cases h; cases "core m") simp_all
    then show ?thesis using n1 by blast
  qed
  show ?thesis
    using assms rest by (cases "core m") (auto simp: NodeInputQueue_handle_def base_change_logging)
qed

lemma base_change_keeps:
  assumes "base_change n n'"
  shows "node_openssl n' = node_openssl n" "own_env n' = own_env n" "keyNodeID n' = keyNodeID n"
    "own_keyPair n' = own_keyPair n" "identityCache n' = identityCache n" "inputQueue n' = inputQueue n"
  using assms by (auto simp: base_change_def)

end
