(* ===== verification/Resource_Query.thy ===== *)
theory Resource_Query
  imports Endorsement_Text_Fuel
begin

text \<open>
  The query language of \<^verbatim>\<open>src/resource_manager/resource_manager.cpp\<close>: the lexer, the recursive-descent
  parser and the evaluation of a query on an advertised service. The state of the parser is the token
  it looks at and the text the lexer has left. The mutually recursive parse functions take a number of
  steps they may nest; \<^verbatim>\<open>parseQueryExpression\<close> gives them four for each character of the query and four
  more, and \<^verbatim>\<open>query_parser_total\<close> shows that they are never used up. The character classes are those of
  the C locale, as for the requirement texts.
\<close>

section \<open>The lexer\<close>

datatype QueryTokenType =
    QT_Identifier | QT_String | QT_Integer | QT_Equal | QT_NotEqual | QT_Has | QT_And | QT_Or | QT_Not
  | QT_LeftParen | QT_RightParen | QT_End

record QueryToken =
  tok_type :: QueryTokenType
  tok_text :: string

fun readString_loop :: "string \<Rightarrow> string \<Rightarrow> (QueryToken \<times> string) result" where
  "readString_loop acc [] = Inl (Runtime_error ''unterminated string in resource query'')"
| "readString_loop acc (c # s) =
     (if c = CHR 0x22 then Inr (\<lparr>tok_type = QT_String, tok_text = acc\<rparr>, s)
      else if c = CHR 0x5C then
        (case s of
           [] \<Rightarrow> Inl (Runtime_error ''unterminated escape in resource query string'')
         | d # r \<Rightarrow> readString_loop (acc @ [d]) r)
      else readString_loop (acc @ [c]) s)"

definition readString :: "string \<Rightarrow> (QueryToken \<times> string) result" where
  "readString s = readString_loop [] (tl s)"

definition readInteger :: "string \<Rightarrow> QueryToken \<times> string" where
  "readInteger s = (\<lparr>tok_type = QT_Integer, tok_text = takeWhile isdigit s\<rparr>, dropWhile isdigit s)"

definition identifier_char :: "char \<Rightarrow> bool" where
  "identifier_char c \<longleftrightarrow> isalnum c \<or> c = CHR ''_'' \<or> c = CHR ''.''"

definition keyword_type :: "string \<Rightarrow> QueryTokenType" where
  "keyword_type v =
     (let upper = map toupper v
      in if upper = ''AND'' then QT_And
         else if upper = ''OR'' then QT_Or
         else if upper = ''NOT'' then QT_Not
         else if upper = ''HAS'' then QT_Has
         else QT_Identifier)"

definition readIdentifier :: "string \<Rightarrow> QueryToken \<times> string" where
  "readIdentifier s =
     (let v = takeWhile identifier_char s
      in (\<lparr>tok_type = keyword_type v, tok_text = v\<rparr>, dropWhile identifier_char s))"

definition lexer_next :: "string \<Rightarrow> (QueryToken \<times> string) result" where
  "lexer_next input =
     (case skipWhitespace input of
        [] \<Rightarrow> Inr (\<lparr>tok_type = QT_End, tok_text = []\<rparr>, [])
      | c # s \<Rightarrow>
          if c = CHR ''('' then Inr (\<lparr>tok_type = QT_LeftParen, tok_text = ''(''\<rparr>, s)
          else if c = CHR '')'' then Inr (\<lparr>tok_type = QT_RightParen, tok_text = '')''\<rparr>, s)
          else if c = CHR ''='' then Inr (\<lparr>tok_type = QT_Equal, tok_text = ''=''\<rparr>, s)
          else if c = CHR ''!'' \<and> s \<noteq> [] \<and> hd s = CHR ''='' then
            Inr (\<lparr>tok_type = QT_NotEqual, tok_text = ''!=''\<rparr>, tl s)
          else if c = CHR 0x22 then readString (c # s)
          else if isdigit c then Inr (readInteger (c # s))
          else if isalpha c \<or> c = CHR ''_'' then Inr (readIdentifier (c # s))
          else Inl (Runtime_error ''invalid character in resource query''))"

section \<open>The parser\<close>

datatype QueryOperator = QO_Equal | QO_NotEqual | QO_Has

record QueryValue =
  isInteger :: bool
  stringValue :: string
  integerValue :: u32

text \<open>
  The kinds of \<^verbatim>\<open>QueryExpression\<close> with the members each uses. Every operator the parser builds has its
  operands, so that the tests for a null operand in \<^verbatim>\<open>matchesExpression\<close> have no case here.
\<close>

datatype QueryExpression =
    QE_Empty
  | QE_Comparison string QueryOperator QueryValue
  | QE_And QueryExpression QueryExpression
  | QE_Or QueryExpression QueryExpression
  | QE_Not QueryExpression

type_synonym query_state = "QueryToken \<times> string"
type_synonym query_parse = "(QueryExpression \<times> query_state) result"

abbreviation (input) at_token :: "query_state \<Rightarrow> QueryTokenType" where
  "at_token st \<equiv> tok_type (fst st)"

definition consume :: "QueryTokenType \<Rightarrow> query_state \<Rightarrow> query_state result" where
  "consume expected st =
     (if at_token st \<noteq> expected then Inl (Runtime_error ''unexpected token in resource query'')
      else lexer_next (snd st))"

text \<open>
  \<^verbatim>\<open>std::stoul\<close> of a text of digits, with the 64 bits \<^verbatim>\<open>unsigned long\<close> has on the platforms of the
  repository. The parser keeps the low 32 bits of the result.
\<close>

definition stoul :: "string \<Rightarrow> u64 result" where
  "stoul ds =
     (let n = foldl (\<lambda>n c. n * 10 + digit_val c) 0 ds
      in if n < 2 ^ 64 then Inr (of_nat n) else Inl (Out_of_range ''stoul''))"

definition parse_operator :: "query_state \<Rightarrow> (QueryOperator \<times> query_state) result" where
  "parse_operator st =
     (case at_token st of
        QT_Equal \<Rightarrow> res_bind (consume QT_Equal st) (\<lambda>st. Inr (QO_Equal, st))
      | QT_NotEqual \<Rightarrow> res_bind (consume QT_NotEqual st) (\<lambda>st. Inr (QO_NotEqual, st))
      | QT_Has \<Rightarrow> res_bind (consume QT_Has st) (\<lambda>st. Inr (QO_Has, st))
      | _ \<Rightarrow> Inl (Runtime_error ''expected operator in resource query''))"

definition parse_literal :: "query_state \<Rightarrow> (QueryValue \<times> query_state) result" where
  "parse_literal st =
     (if at_token st = QT_String then
        res_bind (consume QT_String st) (\<lambda>st'.
          Inr (\<lparr>isInteger = False, stringValue = tok_text (fst st), integerValue = 0\<rparr>, st'))
      else if at_token st = QT_Integer then
        res_bind (stoul (tok_text (fst st))) (\<lambda>n.
        res_bind (consume QT_Integer st) (\<lambda>st'.
          Inr (\<lparr>isInteger = True, stringValue = [], integerValue = ucast n\<rparr>, st')))
      else Inl (Runtime_error ''expected literal in resource query''))"

definition parseComparison :: "query_state \<Rightarrow> query_parse" where
  "parseComparison st =
     (if at_token st \<noteq> QT_Identifier then Inl (Runtime_error ''expected field name in resource query'')
      else
        res_bind (consume QT_Identifier st) (\<lambda>st1.
        res_bind (parse_operator st1) (\<lambda>(oper, st2).
        res_bind (parse_literal st2) (\<lambda>(v, st3).
          Inr (QE_Comparison (tok_text (fst st)) oper v, st3)))))"

function (sequential) parseOr :: "nat \<Rightarrow> query_state \<Rightarrow> query_parse"
and parseOr_loop :: "nat \<Rightarrow> QueryExpression \<Rightarrow> query_state \<Rightarrow> query_parse"
and parseAnd :: "nat \<Rightarrow> query_state \<Rightarrow> query_parse"
and parseAnd_loop :: "nat \<Rightarrow> QueryExpression \<Rightarrow> query_state \<Rightarrow> query_parse"
and parseUnary :: "nat \<Rightarrow> query_state \<Rightarrow> query_parse"
and parsePrimary :: "nat \<Rightarrow> query_state \<Rightarrow> query_parse" where
  "parseOr 0 st = Inl out_of_fuel"
| "parseOr (Suc n) st = res_bind (parseAnd n st) (\<lambda>(e, st). parseOr_loop n e st)"
| "parseOr_loop 0 e st = Inl out_of_fuel"
| "parseOr_loop (Suc n) e st =
     (if at_token st = QT_Or then
        res_bind (consume QT_Or st) (\<lambda>st.
        res_bind (parseAnd n st) (\<lambda>(r, st). parseOr_loop n (QE_Or e r) st))
      else Inr (e, st))"
| "parseAnd 0 st = Inl out_of_fuel"
| "parseAnd (Suc n) st = res_bind (parseUnary n st) (\<lambda>(e, st). parseAnd_loop n e st)"
| "parseAnd_loop 0 e st = Inl out_of_fuel"
| "parseAnd_loop (Suc n) e st =
     (if at_token st = QT_And then
        res_bind (consume QT_And st) (\<lambda>st.
        res_bind (parseUnary n st) (\<lambda>(r, st). parseAnd_loop n (QE_And e r) st))
      else Inr (e, st))"
| "parseUnary 0 st = Inl out_of_fuel"
| "parseUnary (Suc n) st =
     (if at_token st = QT_Not then
        res_bind (consume QT_Not st) (\<lambda>st.
        res_bind (parseUnary n st) (\<lambda>(e, st). Inr (QE_Not e, st)))
      else parsePrimary n st)"
| "parsePrimary 0 st = Inl out_of_fuel"
| "parsePrimary (Suc n) st =
     (if at_token st = QT_LeftParen then
        res_bind (consume QT_LeftParen st) (\<lambda>st.
        res_bind (parseOr n st) (\<lambda>(e, st).
        res_bind (consume QT_RightParen st) (\<lambda>st. Inr (e, st))))
      else parseComparison st)"

  by pat_completeness auto
termination
  by (relation "measure (case_sum (case_sum fst (case_sum fst fst)) (case_sum fst (case_sum fst fst)))") auto

definition QueryParser_parse :: "nat \<Rightarrow> query_state \<Rightarrow> QueryExpression result" where
  "QueryParser_parse n st =
     res_bind (parseOr n st) (\<lambda>(e, st).
       if at_token st \<noteq> QT_End then Inl (Runtime_error ''unexpected token at end of resource query'')
       else Inr e)"

definition parseQueryExpression :: "string \<Rightarrow> QueryExpression result" where
  "parseQueryExpression q =
     (if q = [] then Inr QE_Empty
      else res_bind (lexer_next q) (QueryParser_parse (4 * length q + 4)))"

section \<open>Evaluation\<close>

record ServiceCandidate =
  candidate_node :: nodeid
  candidate_schema :: ServiceSchema

definition stringComparisonMatches :: "string \<Rightarrow> QueryOperator \<Rightarrow> string \<Rightarrow> bool" where
  "stringComparisonMatches actual oper expected =
     (case oper of QO_Equal \<Rightarrow> actual = expected | QO_NotEqual \<Rightarrow> actual \<noteq> expected | QO_Has \<Rightarrow> False)"

definition integerComparisonMatches :: "u32 \<Rightarrow> QueryOperator \<Rightarrow> u32 \<Rightarrow> bool" where
  "integerComparisonMatches actual oper expected =
     (case oper of QO_Equal \<Rightarrow> actual = expected | QO_NotEqual \<Rightarrow> actual \<noteq> expected | QO_Has \<Rightarrow> False)"

definition matchesComparison :: "string \<Rightarrow> QueryOperator \<Rightarrow> QueryValue \<Rightarrow> ServiceCandidate \<Rightarrow> bool" where
  "matchesComparison field oper v c =
     (let s = candidate_schema c in
      if field = ''node.id'' then
        if isInteger v then False
        else stringComparisonMatches (GUID_toString (candidate_node c)) oper (stringValue v)
      else if field = ''service.proto_file_name'' then
        if isInteger v then False else stringComparisonMatches (proto_file_name s) oper (stringValue v)
      else if field = ''service.schema_hash'' then
        if isInteger v then False
        else stringComparisonMatches (bytesToHex (schema_hash s)) oper (stringValue v)
      else if field = ''service.schema_version'' then
        if \<not> isInteger v then False else integerComparisonMatches (schema_version s) oper (integerValue v)
      else if field = ''service.accepted_type_urls'' then
        if isInteger v then False
        else (case oper of
                QO_NotEqual \<Rightarrow> list_all (\<lambda>u. u \<noteq> stringValue v) (accepted_type_urls s)
              | _ \<Rightarrow> list_ex (\<lambda>u. u = stringValue v) (accepted_type_urls s))
      else False)"

primrec matchesExpression :: "QueryExpression \<Rightarrow> ServiceCandidate \<Rightarrow> bool" where
  "matchesExpression QE_Empty c = True"
| "matchesExpression (QE_Comparison field oper v) c = matchesComparison field oper v c"
| "matchesExpression (QE_And l r) c = (matchesExpression l c \<and> matchesExpression r c)"
| "matchesExpression (QE_Or l r) c = (matchesExpression l c \<or> matchesExpression r c)"
| "matchesExpression (QE_Not e) c = (\<not> matchesExpression e c)"

section \<open>The parser ends\<close>

text \<open>
  What is left to read: the text and the current token. Every token the parser consumes shortens it.
\<close>

definition query_left :: "query_state \<Rightarrow> nat" where
  "query_left st = length (snd st) + (if at_token st = QT_End then 0 else 1)"

lemma readString_loop_shorter:
  "readString_loop acc s = Inr (t, r) \<Longrightarrow> length r < length s \<and> tok_type t = QT_String"
  by (induction acc s rule: readString_loop.induct) (fastforce split: if_splits list.splits)+

lemma readString_loop_not_stuck: "readString_loop acc s \<noteq> Inl out_of_fuel"
  by (induction acc s rule: readString_loop.induct) (auto split: list.splits)

lemma lexer_not_stuck [simp]: "lexer_next s \<noteq> Inl out_of_fuel"
  using readString_loop_not_stuck by (auto simp: lexer_next_def readString_def split: list.split)

lemma keyword_type_cases: "keyword_type v \<in> {QT_And, QT_Or, QT_Not, QT_Has, QT_Identifier}"
  by (simp add: keyword_type_def Let_def)

lemma lexer_shorter:
  assumes "lexer_next s = Inr st"
  shows "query_left st \<le> length s"
proof (cases "skipWhitespace s")
  case Nil
  then show ?thesis using assms by (auto simp: lexer_next_def query_left_def)
next
  case (Cons c r)
  have len: "length r < length s" using length_skip [of s] Cons by simp
  have d: "length (dropWhile P r) \<le> length r" for P by (rule length_dropWhile_le)
  have alpha: "identifier_char c" if "isalpha c \<or> c = CHR ''_''"
    using that by (auto simp: identifier_char_def isalnum_def)
  obtain t q where st: "st = (t, q)" by (cases st)
  have "length q \<le> length r"
    using assms Cons st d [of isdigit] d [of identifier_char] alpha
    by (auto simp: lexer_next_def readString_def readInteger_def readIdentifier_def Let_def
        dest: readString_loop_shorter split: if_splits)
  then show ?thesis using len st by (simp add: query_left_def)
qed

lemma consume_not_stuck [simp]: "consume t st \<noteq> Inl out_of_fuel"
  by (simp add: consume_def)

lemma consume_less: "consume t st = Inr st' \<Longrightarrow> t \<noteq> QT_End \<Longrightarrow> query_left st' < query_left st"
  by (auto simp: consume_def query_left_def [of st] split: if_splits dest: lexer_shorter)

lemma parse_operator_less: "parse_operator st = Inr (p, st') \<Longrightarrow> query_left st' < query_left st"
  by (auto simp: parse_operator_def res_bind_eq_Inr split: QueryTokenType.splits dest!: consume_less)

lemma parse_literal_less: "parse_literal st = Inr (v, st') \<Longrightarrow> query_left st' < query_left st"
  by (auto simp: parse_literal_def res_bind_eq_Inr split: if_splits dest!: consume_less)

lemma parseComparison_less: "parseComparison st = Inr (e, st') \<Longrightarrow> query_left st' < query_left st"
  by (auto simp: parseComparison_def res_bind_eq_Inr split: if_splits
      dest!: consume_less parse_operator_less parse_literal_less)

lemma stoul_not_stuck [simp]: "stoul ds \<noteq> Inl out_of_fuel"
  by (simp add: stoul_def out_of_fuel_def Let_def)

lemma parseComparison_not_stuck [simp]: "parseComparison st \<noteq> Inl out_of_fuel"
proof -
  have "parse_operator s \<noteq> Inl out_of_fuel" for s
    by (auto simp: parse_operator_def res_bind_eq_Inl split: QueryTokenType.split)
  moreover have "parse_literal s \<noteq> Inl out_of_fuel" for s
    by (auto simp: parse_literal_def res_bind_eq_Inl)
  ultimately show ?thesis
    by (auto simp: parseComparison_def res_bind_eq_Inl)
qed

lemma query_parse_less:
  "parseOr n st = Inr (e', st') \<Longrightarrow> query_left st' < query_left st"
  "parseOr_loop n e st = Inr (e', st') \<Longrightarrow> query_left st' \<le> query_left st"
  "parseAnd n st = Inr (e', st') \<Longrightarrow> query_left st' < query_left st"
  "parseAnd_loop n e st = Inr (e', st') \<Longrightarrow> query_left st' \<le> query_left st"
  "parseUnary n st = Inr (e', st') \<Longrightarrow> query_left st' < query_left st"
  "parsePrimary n st = Inr (e', st') \<Longrightarrow> query_left st' < query_left st"
  by (induction n st and n e st and n st and n e st and n st and n st arbitrary: e' st' and e' st' and e' st' and e' st' and e' st' and e' st'
      rule: parseOr_parseOr_loop_parseAnd_parseAnd_loop_parseUnary_parsePrimary.induct)
    (fastforce simp: res_bind_eq_Inr split: if_splits prod.splits dest: consume_less parseComparison_less)+

lemma query_parse_not_stuck:
  "4 * query_left st + 4 \<le> n \<Longrightarrow> parseOr n st \<noteq> Inl out_of_fuel"
  "4 * query_left st + 1 \<le> n \<Longrightarrow> parseOr_loop n e st \<noteq> Inl out_of_fuel"
  "4 * query_left st + 3 \<le> n \<Longrightarrow> parseAnd n st \<noteq> Inl out_of_fuel"
  "4 * query_left st + 1 \<le> n \<Longrightarrow> parseAnd_loop n e st \<noteq> Inl out_of_fuel"
  "4 * query_left st + 2 \<le> n \<Longrightarrow> parseUnary n st \<noteq> Inl out_of_fuel"
  "4 * query_left st + 1 \<le> n \<Longrightarrow> parsePrimary n st \<noteq> Inl out_of_fuel"
  by (induction n st and n e st and n st and n e st and n st and n st
      rule: parseOr_parseOr_loop_parseAnd_parseAnd_loop_parseUnary_parsePrimary.induct)
    (fastforce simp: res_bind_eq_Inl split: if_splits prod.splits dest: consume_less query_parse_less)+

text \<open>What a parse function can end with: an exception its caller catches, or the bound on nested calls.\<close>

definition soft :: "exn \<Rightarrow> bool" where
  "soft x \<longleftrightarrow> x = out_of_fuel \<or> \<not> uncatchable x"

lemma not_uncatchable [simp]: "\<not> uncatchable (Runtime_error e)" "\<not> uncatchable (Out_of_range e)"
  by (simp_all add: uncatchable_def)

lemma soft_fuel [simp]: "soft out_of_fuel"
  by (simp add: soft_def)

lemma stoul_catchable: "stoul ds = Inl x \<Longrightarrow> \<not> uncatchable x"
  by (auto simp: stoul_def Let_def split: if_splits)

lemma readString_loop_catchable: "readString_loop acc s = Inl x \<Longrightarrow> \<not> uncatchable x"
proof (induction acc s rule: readString_loop.induct)
  case (2 acc c s)
  then show ?case by (cases s) (auto split: if_splits)
qed auto

lemma lexer_catchable: "lexer_next s = Inl x \<Longrightarrow> \<not> uncatchable x"
  by (auto simp: lexer_next_def readString_def split: list.splits if_splits dest: readString_loop_catchable)

lemma consume_catchable: "consume t st = Inl x \<Longrightarrow> \<not> uncatchable x"
  by (auto simp: consume_def split: if_splits dest: lexer_catchable)

lemma parse_operator_catchable: "parse_operator st = Inl x \<Longrightarrow> \<not> uncatchable x"
  by (auto simp: parse_operator_def res_bind_eq_Inl
      split: QueryTokenType.splits dest: consume_catchable)

lemma parse_literal_catchable: "parse_literal st = Inl x \<Longrightarrow> \<not> uncatchable x"
  by (auto simp: parse_literal_def res_bind_eq_Inl
      split: if_splits dest: consume_catchable stoul_catchable)

lemma parseComparison_catchable: "parseComparison st = Inl x \<Longrightarrow> \<not> uncatchable x"
  by (auto simp: parseComparison_def res_bind_eq_Inl
      split: if_splits dest: consume_catchable parse_operator_catchable parse_literal_catchable)

lemma soft_parts: "consume t st = Inl x \<Longrightarrow> soft x" "parseComparison st = Inl x \<Longrightarrow> soft x"
  using consume_catchable parseComparison_catchable by (auto simp: soft_def)

lemma query_parse_catchable:
  "parseOr n st = Inl x \<Longrightarrow> soft x"
  "parseOr_loop n e st = Inl x \<Longrightarrow> soft x"
  "parseAnd n st = Inl x \<Longrightarrow> soft x"
  "parseAnd_loop n e st = Inl x \<Longrightarrow> soft x"
  "parseUnary n st = Inl x \<Longrightarrow> soft x"
  "parsePrimary n st = Inl x \<Longrightarrow> soft x"
  by (induction n st and n e st and n st and n e st and n st and n st
      rule: parseOr_parseOr_loop_parseAnd_parseAnd_loop_parseUnary_parsePrimary.induct)
    (auto simp: res_bind_eq_Inl split: if_splits dest: soft_parts)

text \<open>
  A query of any text is parsed or refused with an exception that the caller catches: the bound on
  nested calls is never reached.
\<close>

lemma parseQueryExpression_total:
  "parseQueryExpression q = Inl x \<Longrightarrow> \<not> uncatchable x"
proof -
  assume f: "parseQueryExpression q = Inl x"
  show "\<not> uncatchable x"
  proof (cases "lexer_next q")
    case (Inl y)
    then show ?thesis using f lexer_catchable by (auto simp: parseQueryExpression_def split: if_splits)
  next
    case (Inr st)
    let ?n = "4 * length q + 4"
    have "parseOr ?n st \<noteq> Inl out_of_fuel"
      using query_parse_not_stuck(1) [of st ?n] lexer_shorter [OF Inr] by simp
    then show ?thesis
      using f Inr query_parse_catchable(1) [of ?n st]
      by (auto simp: parseQueryExpression_def QueryParser_parse_def soft_def
          res_bind_eq_Inl split: if_splits)
  qed
qed

section \<open>The grammar\<close>

text \<open>
  A printer for queries with the parentheses the precedence of the operators asks for and no more:
  \<^verbatim>\<open>OR\<close> binds weakest, both binary operators associate to the left, and \<^verbatim>\<open>NOT\<close> binds strongest. The first
  argument is the level of the context.
\<close>

definition escape_text :: "string \<Rightarrow> string" where
  "escape_text s = concat (map (\<lambda>c. if c = CHR 0x22 \<or> c = CHR 0x5C then [CHR 0x5C, c] else [c]) s)"

definition print_value :: "QueryValue \<Rightarrow> string" where
  "print_value v =
     (if isInteger v then dec_of_nat (unat (integerValue v))
      else [CHR 0x22] @ escape_text (stringValue v) @ [CHR 0x22])"

definition print_operator :: "QueryOperator \<Rightarrow> string" where
  "print_operator oper = (case oper of QO_Equal \<Rightarrow> ''='' | QO_NotEqual \<Rightarrow> ''!='' | QO_Has \<Rightarrow> ''HAS'')"

definition parens :: "bool \<Rightarrow> string \<Rightarrow> string" where
  "parens b s = (if b then ''('' @ s @ '')'' else s)"

primrec print_query :: "nat \<Rightarrow> QueryExpression \<Rightarrow> string" where
  "print_query p QE_Empty = []"
| "print_query p (QE_Comparison f oper v) = f @ '' '' @ print_operator oper @ '' '' @ print_value v"
| "print_query p (QE_And l r) = parens (1 < p) (print_query 1 l @ '' AND '' @ print_query 2 r)"
| "print_query p (QE_Or l r) = parens (0 < p) (print_query 0 l @ '' OR '' @ print_query 1 r)"
| "print_query p (QE_Not e) = ''NOT '' @ print_query 2 e"

definition query_field_ok :: "string \<Rightarrow> bool" where
  "query_field_ok f \<longleftrightarrow>
     f \<noteq> [] \<and> (isalpha (hd f) \<or> hd f = CHR ''_'') \<and> list_all identifier_char f \<and> keyword_type f = QT_Identifier"

definition query_value_ok :: "QueryValue \<Rightarrow> bool" where
  "query_value_ok v \<longleftrightarrow> (if isInteger v then stringValue v = [] else integerValue v = 0)"

primrec query_ok :: "QueryExpression \<Rightarrow> bool" where
  "query_ok QE_Empty = False"
| "query_ok (QE_Comparison f oper v) = (query_field_ok f \<and> query_value_ok v)"
| "query_ok (QE_And l r) = (query_ok l \<and> query_ok r)"
| "query_ok (QE_Or l r) = (query_ok l \<and> query_ok r)"
| "query_ok (QE_Not e) = query_ok e"

section \<open>Reading what the printer writes\<close>

definition query_delim :: "string \<Rightarrow> bool" where
  "query_delim t \<longleftrightarrow> t = [] \<or> hd t = CHR '' '' \<or> hd t = CHR '')''"

lemma delim_simps [simp]: "query_delim []" "query_delim (CHR '' '' # t)" "query_delim (CHR '')'' # t)"
  by (simp_all add: query_delim_def)

lemma delim_stop:
  assumes "query_delim t" "list_all P w" "\<not> P (CHR '' '')" "\<not> P (CHR '')'')"
  shows "takeWhile P (w @ t) = w" "dropWhile P (w @ t) = t"
  using assms
  by (cases t; auto simp: query_delim_def list_all_iff takeWhile_append2 dropWhile_append2)+

lemma not_identifier_chars [simp]: "\<not> identifier_char CHR '' ''" "\<not> identifier_char CHR '')''" "\<not> isdigit CHR '' ''"
  by (simp_all add: identifier_char_def isalnum_def isalpha_def isdigit_def)

lemma lexer_space [simp]: "lexer_next (CHR '' '' # s) = lexer_next s"
  by (simp add: lexer_next_def)

lemma lexer_parens [simp]:
  "lexer_next (CHR ''('' # s) = Inr (\<lparr>tok_type = QT_LeftParen, tok_text = ''(''\<rparr>, s)"
  "lexer_next (CHR '')'' # s) = Inr (\<lparr>tok_type = QT_RightParen, tok_text = '')''\<rparr>, s)"
  by (simp_all add: lexer_next_def skipWhitespace_def isspace_def)

lemma lexer_signs [simp]:
  "lexer_next (CHR ''='' # s) = Inr (\<lparr>tok_type = QT_Equal, tok_text = ''=''\<rparr>, s)"
  "lexer_next (CHR ''!'' # CHR ''='' # s) = Inr (\<lparr>tok_type = QT_NotEqual, tok_text = ''!=''\<rparr>, s)"
  by (simp_all add: lexer_next_def skipWhitespace_def isspace_def)

lemma word_start:
  "isalpha c \<or> c = CHR ''_'' \<Longrightarrow> \<not> isspace c \<and> c \<noteq> CHR ''('' \<and> c \<noteq> CHR '')'' \<and> c \<noteq> CHR ''='' \<and>
     c \<noteq> CHR ''!'' \<and> c \<noteq> CHR 0x22 \<and> \<not> isdigit c"
  by (auto simp: isalpha_def isspace_def isdigit_def less_eq_char_def)

lemma lexer_word:
  assumes "w \<noteq> []" "isalpha (hd w) \<or> hd w = CHR ''_''" "list_all identifier_char w" "query_delim t"
  shows "lexer_next (w @ t) = Inr (\<lparr>tok_type = keyword_type w, tok_text = w\<rparr>, t)"
proof -
  obtain c v where w: "w = c # v" using assms(1) by (cases w) auto
  show ?thesis
    using assms word_start [of c] delim_stop [OF assms(4,3)] w
    by (auto simp: lexer_next_def readIdentifier_def Let_def)
qed

lemma lexer_field:
  "query_field_ok f \<Longrightarrow> query_delim t \<Longrightarrow> lexer_next (f @ t) = Inr (\<lparr>tok_type = QT_Identifier, tok_text = f\<rparr>, t)"
  using lexer_word [of f t] by (simp add: query_field_ok_def)

lemma lexer_keywords [simp]:
  "lexer_next (CHR ''A'' # CHR ''N'' # CHR ''D'' # CHR '' '' # s) = Inr (\<lparr>tok_type = QT_And, tok_text = ''AND''\<rparr>, CHR '' '' # s)"
  "lexer_next (CHR ''O'' # CHR ''R'' # CHR '' '' # s) = Inr (\<lparr>tok_type = QT_Or, tok_text = ''OR''\<rparr>, CHR '' '' # s)"
  "lexer_next (CHR ''N'' # CHR ''O'' # CHR ''T'' # CHR '' '' # s) = Inr (\<lparr>tok_type = QT_Not, tok_text = ''NOT''\<rparr>, CHR '' '' # s)"
  "lexer_next (CHR ''H'' # CHR ''A'' # CHR ''S'' # CHR '' '' # s) = Inr (\<lparr>tok_type = QT_Has, tok_text = ''HAS''\<rparr>, CHR '' '' # s)"
  using lexer_word [of "''AND''" "CHR '' '' # s"] lexer_word [of "''OR''" "CHR '' '' # s"]
    lexer_word [of "''NOT''" "CHR '' '' # s"] lexer_word [of "''HAS''" "CHR '' '' # s"]
  by (simp_all add: keyword_type_def Let_def identifier_char_def isalnum_def isalpha_def toupper_def less_eq_char_def)

lemma readString_escape:
  "readString_loop acc (escape_text s @ CHR 0x22 # t) = Inr (\<lparr>tok_type = QT_String, tok_text = acc @ s\<rparr>, t)"
  by (induction s arbitrary: acc) (auto simp: escape_text_def)

lemma lexer_string:
  "lexer_next (CHR 0x22 # escape_text s @ CHR 0x22 # t) = Inr (\<lparr>tok_type = QT_String, tok_text = s\<rparr>, t)"
  using readString_escape [of "[]" s t]
  by (simp add: lexer_next_def skipWhitespace_def isspace_def readString_def)

lemma lexer_integer:
  assumes "query_delim t"
  shows "lexer_next (dec_of_nat n @ t) = Inr (\<lparr>tok_type = QT_Integer, tok_text = dec_of_nat n\<rparr>, t)"
proof -
  obtain c v where d: "dec_of_nat n = c # v" "isdigit c" by (rule dec_of_nat_start)
  have "\<not> isspace c \<and> c \<noteq> CHR ''('' \<and> c \<noteq> CHR '')'' \<and> c \<noteq> CHR ''='' \<and> c \<noteq> CHR ''!'' \<and> c \<noteq> CHR 0x22"
    using d(2) by (auto simp: isspace_def isdigit_def less_eq_char_def)
  then show ?thesis
    using d delim_stop [OF assms, of isdigit "dec_of_nat n"] dec_of_nat_digits [of n]
    by (auto simp: lexer_next_def readInteger_def)
qed

lemma stoul_snoc: "foldl (\<lambda>n c. n * 10 + digit_val c) 0 (dec_of_nat n) = n"
proof (induction n rule: dec_of_nat.induct)
  case (1 n)
  then show ?case
    using digit_char [of n] digit_char [of "n mod 10"] by (subst dec_of_nat.simps) auto
qed

lemma stoul_dec: "stoul (dec_of_nat (unat (w :: u32))) = Inr (ucast w)"
  using unsigned_less [of w, where 'a = nat] by (simp add: stoul_def stoul_snoc)

lemma low_32_bits: "ucast (ucast (w :: u32) :: u64) = w"
  by transfer simp

lemma lexer_value_literal:
  assumes "query_delim t" "lexer_next t = Inr st'" "query_value_ok v"
  shows "\<exists>st. lexer_next (print_value v @ t) = Inr st \<and> parse_literal st = Inr (v, st')"
  using assms lexer_integer [OF assms(1)] lexer_string [of "stringValue v" t]
  by (cases v) (auto simp: print_value_def parse_literal_def consume_def query_value_ok_def stoul_dec low_32_bits)

lemma comparison_reads:
  assumes "query_delim t" "lexer_next t = Inr st'" "query_field_ok f" "query_value_ok v"
  shows "\<exists>st. lexer_next (print_query p (QE_Comparison f oper v) @ t) = Inr st \<and>
    at_token st = QT_Identifier \<and> parseComparison st = Inr (QE_Comparison f oper v, st')"
proof -
  obtain s3 where s3: "lexer_next (print_value v @ t) = Inr s3" "parse_literal s3 = Inr (v, st')"
    using lexer_value_literal [OF assms(1,2,4)] by blast
  let ?o = "CHR '' '' # print_operator oper @ CHR '' '' # print_value v @ t"
  have "\<exists>s2. lexer_next ?o = Inr s2 \<and> parse_operator s2 = Inr (oper, s3)"
    using s3(1) by (cases oper) (auto simp: print_operator_def parse_operator_def consume_def)
  moreover have "lexer_next (f @ ?o) = Inr (\<lparr>tok_type = QT_Identifier, tok_text = f\<rparr>, ?o)"
    by (rule lexer_field [OF assms(3)]) simp
  ultimately show ?thesis
    using s3(2) by (auto simp: parseComparison_def consume_def)
qed

lemma res_bind_stable:
  assumes "res_bind m f \<noteq> Inl x" "m \<noteq> Inl x \<Longrightarrow> m' = m" "\<And>y. m = Inr y \<Longrightarrow> f y \<noteq> Inl x \<Longrightarrow> f' y = f y"
  shows "res_bind m' f' = res_bind m f"
  using assms by (cases m) auto

lemma query_parse_stable:
  "parseOr n st \<noteq> Inl out_of_fuel \<Longrightarrow> parseOr (n + k) st = parseOr n st"
  "parseOr_loop n e st \<noteq> Inl out_of_fuel \<Longrightarrow> parseOr_loop (n + k) e st = parseOr_loop n e st"
  "parseAnd n st \<noteq> Inl out_of_fuel \<Longrightarrow> parseAnd (n + k) st = parseAnd n st"
  "parseAnd_loop n e st \<noteq> Inl out_of_fuel \<Longrightarrow> parseAnd_loop (n + k) e st = parseAnd_loop n e st"
  "parseUnary n st \<noteq> Inl out_of_fuel \<Longrightarrow> parseUnary (n + k) st = parseUnary n st"
  "parsePrimary n st \<noteq> Inl out_of_fuel \<Longrightarrow> parsePrimary (n + k) st = parsePrimary n st"
  by (induction n st and n e st and n st and n e st and n st and n st
      rule: parseOr_parseOr_loop_parseAnd_parseAnd_loop_parseUnary_parsePrimary.induct)
    (auto intro!: res_bind_stable [where x = out_of_fuel] split: if_splits)

lemma query_parse_mono:
  "parseOr n st = Inr x \<Longrightarrow> parseOr (n + k) st = Inr x"
  "parseOr_loop n e st = Inr x \<Longrightarrow> parseOr_loop (n + k) e st = Inr x"
  "parseAnd n st = Inr x \<Longrightarrow> parseAnd (n + k) st = Inr x"
  "parseAnd_loop n e st = Inr x \<Longrightarrow> parseAnd_loop (n + k) e st = Inr x"
  "parseUnary n st = Inr x \<Longrightarrow> parseUnary (n + k) st = Inr x"
  "parsePrimary n st = Inr x \<Longrightarrow> parsePrimary (n + k) st = Inr x"
  using query_parse_stable(1,3,5,6) [of n st k] query_parse_stable(2,4) [of n e st k] by simp_all

text \<open>
  The three levels of the grammar: the text of an expression, followed by a text that the lexer reads,
  is read as that expression by the parse function of the level.
\<close>

definition reads_unary :: "QueryExpression \<Rightarrow> bool" where
  "reads_unary e \<longleftrightarrow> (\<forall>t st'. query_delim t \<longrightarrow> lexer_next t = Inr st' \<longrightarrow>
     (\<exists>st n. lexer_next (print_query 2 e @ t) = Inr st \<and> parseUnary n st = Inr (e, st')))"

definition reads_and :: "QueryExpression \<Rightarrow> bool" where
  "reads_and e \<longleftrightarrow> (\<forall>t st' m x. query_delim t \<longrightarrow> lexer_next t = Inr st' \<longrightarrow> parseAnd_loop m e st' = Inr x \<longrightarrow>
     (\<exists>st n. lexer_next (print_query 1 e @ t) = Inr st \<and> parseAnd n st = Inr x))"

definition reads_or :: "QueryExpression \<Rightarrow> bool" where
  "reads_or e \<longleftrightarrow> (\<forall>t st' m x. query_delim t \<longrightarrow> lexer_next t = Inr st' \<longrightarrow> at_token st' \<noteq> QT_And \<longrightarrow>
     parseOr_loop m e st' = Inr x \<longrightarrow>
     (\<exists>st n. lexer_next (print_query 0 e @ t) = Inr st \<and> parseOr n st = Inr x))"

lemma reads_unaryE:
  assumes "reads_unary e" "query_delim t" "lexer_next t = Inr st'"
  obtains st n where "lexer_next (print_query 2 e @ t) = Inr st" "parseUnary n st = Inr (e, st')"
  using assms unfolding reads_unary_def by blast

lemma reads_andE:
  assumes "reads_and e" "query_delim t" "lexer_next t = Inr st'" "parseAnd_loop m e st' = Inr x"
  obtains st n where "lexer_next (print_query 1 e @ t) = Inr st" "parseAnd n st = Inr x"
  using assms unfolding reads_and_def by blast

lemma reads_orE:
  assumes "reads_or e" "query_delim t" "lexer_next t = Inr st'" "at_token st' \<noteq> QT_And"
    "parseOr_loop m e st' = Inr x"
  obtains st n where "lexer_next (print_query 0 e @ t) = Inr st" "parseOr n st = Inr x"
  using assms unfolding reads_or_def by blast

lemma reads_and_of_unary:
  assumes "reads_unary e" "print_query 1 e = print_query 2 e"
  shows "reads_and e"
  unfolding reads_and_def
proof (intro allI impI)
  fix t st' m x
  assume t: "query_delim t" "lexer_next t = Inr st'" "parseAnd_loop m e st' = Inr x"
  then obtain st n where st: "lexer_next (print_query 2 e @ t) = Inr st" "parseUnary n st = Inr (e, st')"
    by (meson assms(1) reads_unaryE)
  then have "parseAnd (Suc (n + m)) st = Inr x"
    using query_parse_mono(5) [OF st(2), of m] query_parse_mono(4) [OF t(3), of n] by (simp add: add.commute)
  then show "\<exists>st n. lexer_next (print_query 1 e @ t) = Inr st \<and> parseAnd n st = Inr x"
    unfolding assms(2) using st(1) by blast
qed

lemma reads_or_of_and:
  assumes "reads_and e" "print_query 0 e = print_query 1 e"
  shows "reads_or e"
  unfolding reads_or_def
proof (intro allI impI)
  fix t st' m x
  assume t: "query_delim t" "lexer_next t = Inr st'" "at_token st' \<noteq> QT_And" "parseOr_loop m e st' = Inr x"
  have "parseAnd_loop 1 e st' = Inr (e, st')" using t(3) by simp
  then obtain st n where st: "lexer_next (print_query 1 e @ t) = Inr st" "parseAnd n st = Inr (e, st')"
    using reads_andE [OF assms(1) t(1,2)] by blast
  then have "parseOr (Suc (n + m)) st = Inr x"
    using query_parse_mono(3) [OF st(2), of m] query_parse_mono(2) [OF t(4), of n] by (simp add: add.commute)
  then show "\<exists>st n. lexer_next (print_query 0 e @ t) = Inr st \<and> parseOr n st = Inr x"
    unfolding assms(2) using st(1) by blast
qed

lemma reads_unary_parens:
  assumes "reads_or e" "print_query 2 e = ''('' @ print_query 0 e @ '')''"
  shows "reads_unary e"
  unfolding reads_unary_def
proof (intro allI impI)
  fix t st'
  assume t: "query_delim t" "lexer_next t = Inr st'"
  let ?c = "(\<lparr>tok_type = QT_RightParen, tok_text = '')''\<rparr>, t)"
  have c: "parseOr_loop 1 e ?c = Inr (e, ?c)" "at_token ?c \<noteq> QT_And" by simp_all
  then obtain st n where st: "lexer_next (print_query 0 e @ CHR '')'' # t) = Inr st" "parseOr n st = Inr (e, ?c)"
    using reads_orE [OF assms(1) delim_simps(3) lexer_parens(2) c(2,1)] by blast
  then have "parseUnary (Suc (Suc n)) (\<lparr>tok_type = QT_LeftParen, tok_text = ''(''\<rparr>, print_query 0 e @ CHR '')'' # t)
      = Inr (e, st')"
    using t(2) by (simp add: consume_def)
  then show "\<exists>st n. lexer_next (print_query 2 e @ t) = Inr st \<and> parseUnary n st = Inr (e, st')"
    unfolding assms(2) by (metis append_Cons append_Nil append_assoc lexer_parens(1))
qed

lemma reads_not:
  assumes "reads_unary e"
  shows "reads_unary (QE_Not e)"
  unfolding reads_unary_def
proof (intro allI impI)
  fix t st'
  assume "query_delim t" "lexer_next t = Inr st'"
  then obtain st n where st: "lexer_next (print_query 2 e @ t) = Inr st" "parseUnary n st = Inr (e, st')"
    by (meson assms reads_unaryE)
  then have "parseUnary (Suc n) (\<lparr>tok_type = QT_Not, tok_text = ''NOT''\<rparr>, CHR '' '' # print_query 2 e @ t)
      = Inr (QE_Not e, st')"
    by (simp add: consume_def)
  then show "\<exists>st n. lexer_next (print_query 2 (QE_Not e) @ t) = Inr st \<and> parseUnary n st = Inr (QE_Not e, st')"
    by (metis append_Cons append_Nil append_assoc lexer_keywords(3) print_query.simps(5))
qed

lemma reads_and_op:
  assumes "reads_and l" "reads_unary r"
  shows "reads_and (QE_And l r)"
  unfolding reads_and_def
proof (intro allI impI)
  fix t st' m x
  assume t: "query_delim t" "lexer_next t = Inr st'" "parseAnd_loop m (QE_And l r) st' = Inr x"
  obtain st n where st: "lexer_next (print_query 2 r @ t) = Inr st" "parseUnary n st = Inr (r, st')"
    by (meson assms(2) reads_unaryE t(1,2))
  let ?t = "'' AND '' @ print_query 2 r @ t"
  let ?a = "(\<lparr>tok_type = QT_And, tok_text = ''AND''\<rparr>, CHR '' '' # print_query 2 r @ t)"
  have a: "query_delim ?t" "lexer_next ?t = Inr ?a" by simp_all
  have "parseAnd_loop (Suc (n + m)) l ?a = Inr x"
    using st query_parse_mono(5) [OF st(2), of m] query_parse_mono(4) [OF t(3), of n]
    by (simp add: consume_def add.commute)
  then obtain s0 k where "lexer_next (print_query 1 l @ ?t) = Inr s0" "parseAnd k s0 = Inr x"
    using reads_andE [OF assms(1) a] by blast
  then show "\<exists>st n. lexer_next (print_query 1 (QE_And l r) @ t) = Inr st \<and> parseAnd n st = Inr x"
    by (auto simp: parens_def)
qed

lemma reads_or_op:
  assumes "reads_or l" "reads_and r"
  shows "reads_or (QE_Or l r)"
  unfolding reads_or_def
proof (intro allI impI)
  fix t st' m x
  assume t: "query_delim t" "lexer_next t = Inr st'" "at_token st' \<noteq> QT_And" "parseOr_loop m (QE_Or l r) st' = Inr x"
  have "parseAnd_loop 1 r st' = Inr (r, st')" using t(3) by simp
  then obtain st n where st: "lexer_next (print_query 1 r @ t) = Inr st" "parseAnd n st = Inr (r, st')"
    using reads_andE [OF assms(2) t(1,2)] by blast
  let ?t = "'' OR '' @ print_query 1 r @ t"
  let ?a = "(\<lparr>tok_type = QT_Or, tok_text = ''OR''\<rparr>, CHR '' '' # print_query 1 r @ t)"
  have a: "query_delim ?t" "lexer_next ?t = Inr ?a" "at_token ?a \<noteq> QT_And" by simp_all
  have "parseOr_loop (Suc (n + m)) l ?a = Inr x"
    using st query_parse_mono(3) [OF st(2), of m] query_parse_mono(2) [OF t(4), of n]
    by (simp add: consume_def add.commute)
  then obtain s0 k where "lexer_next (print_query 0 l @ ?t) = Inr s0" "parseOr k s0 = Inr x"
    using reads_orE [OF assms(1) a] by blast
  then show "\<exists>st n. lexer_next (print_query 0 (QE_Or l r) @ t) = Inr st \<and> parseOr n st = Inr x"
    by (auto simp: parens_def)
qed

lemma reads_comparison:
  assumes "query_field_ok f" "query_value_ok v"
  shows "reads_unary (QE_Comparison f oper v)"
  unfolding reads_unary_def
proof (intro allI impI)
  fix t st'
  assume "query_delim t" "lexer_next t = Inr st'"
  then obtain st where st: "lexer_next (print_query 2 (QE_Comparison f oper v) @ t) = Inr st"
    "at_token st = QT_Identifier" "parseComparison st = Inr (QE_Comparison f oper v, st')"
    using comparison_reads assms by blast
  then have "parseUnary 2 st = Inr (QE_Comparison f oper v, st')"
    by (simp add: numeral_2_eq_2)
  then show "\<exists>st n. lexer_next (print_query 2 (QE_Comparison f oper v) @ t) = Inr st \<and>
      parseUnary n st = Inr (QE_Comparison f oper v, st')"
    using st(1) by blast
qed

lemma query_reads: "query_ok e \<Longrightarrow> reads_unary e \<and> reads_and e \<and> reads_or e"
proof (induction e)
  case (QE_Comparison f oper v)
  then show ?case
    using reads_comparison [of f v oper] reads_and_of_unary reads_or_of_and by simp
next
  case (QE_And l r)
  then have a: "reads_and (QE_And l r)" using reads_and_op by simp
  then have o: "reads_or (QE_And l r)" using reads_or_of_and by (simp add: parens_def)
  then show ?case using a reads_unary_parens by (simp add: parens_def)
next
  case (QE_Or l r)
  then have o: "reads_or (QE_Or l r)" using reads_or_op by simp
  then have u: "reads_unary (QE_Or l r)" using reads_unary_parens by (simp add: parens_def)
  then show ?case using o reads_and_of_unary by (simp add: parens_def)
next
  case (QE_Not e)
  then have u: "reads_unary (QE_Not e)" using reads_not by simp
  then have a: "reads_and (QE_Not e)" using reads_and_of_unary by simp
  then show ?case using u reads_or_of_and by simp
qed simp

text \<open>
  C25. Every query with field names and literals of the language, printed with only the parentheses the
  precedence rules ask for, is parsed back to itself: \<^verbatim>\<open>OR\<close> binds weaker than \<^verbatim>\<open>AND\<close>, \<^verbatim>\<open>AND\<close> weaker than
  \<^verbatim>\<open>NOT\<close>, the binary operators associate to the left, and a string literal may hold any byte.
\<close>

theorem query_roundtrip:
  "query_ok e \<Longrightarrow> parseQueryExpression (print_query 0 e) = Inr e"
proof -
  assume e: "query_ok e"
  let ?fin = "(\<lparr>tok_type = QT_End, tok_text = []\<rparr>, [])"
  have c: "lexer_next [] = Inr ?fin" "at_token ?fin \<noteq> QT_And" "parseOr_loop 1 e ?fin = Inr (e, ?fin)"
    by (simp_all add: lexer_next_def)
  obtain st n where st: "lexer_next (print_query 0 e) = Inr st" "parseOr n st = Inr (e, ?fin)"
    using reads_orE [OF _ delim_simps(1) c, of thesis] query_reads [OF e] by auto
  let ?f = "4 * length (print_query 0 e) + 4"
  have "parseOr ?f st \<noteq> Inl out_of_fuel"
    using query_parse_not_stuck(1) [of st ?f] lexer_shorter [OF st(1)] by simp
  then have "parseOr ?f st = Inr (e, ?fin)"
    using query_parse_stable(1) [of ?f st n] query_parse_mono(1) [OF st(2), of ?f] by (simp add: add.commute)
  moreover have "print_query 0 e \<noteq> []"
    using st e query_parse_less(1) [OF st(2)] lexer_shorter [OF st(1)] by (auto simp: query_left_def)
  ultimately show "parseQueryExpression (print_query 0 e) = Inr e"
    using st(1) by (simp add: parseQueryExpression_def QueryParser_parse_def)
qed

theorem query_roundtrip_witness:
  "parseQueryExpression
     (print_query 0 (QE_And (QE_Or (QE_Comparison ''service.schema_version'' QO_NotEqual
        \<lparr>isInteger = True, stringValue = [], integerValue = 4294967295\<rparr>)
        (QE_Not (QE_Comparison ''node.id'' QO_Equal \<lparr>isInteger = False, stringValue = ''a'' @ [CHR 0x22], integerValue = 0\<rparr>)))
        (QE_Comparison ''service.accepted_type_urls'' QO_Has \<lparr>isInteger = False, stringValue = ''u'', integerValue = 0\<rparr>)))
   = Inr (QE_And (QE_Or (QE_Comparison ''service.schema_version'' QO_NotEqual
        \<lparr>isInteger = True, stringValue = [], integerValue = 4294967295\<rparr>)
        (QE_Not (QE_Comparison ''node.id'' QO_Equal \<lparr>isInteger = False, stringValue = ''a'' @ [CHR 0x22], integerValue = 0\<rparr>)))
        (QE_Comparison ''service.accepted_type_urls'' QO_Has \<lparr>isInteger = False, stringValue = ''u'', integerValue = 0\<rparr>))"
  by (rule query_roundtrip)
    (simp add: query_field_ok_def query_value_ok_def identifier_char_def isalnum_def isalpha_def isdigit_def
      keyword_type_def Let_def toupper_def less_eq_char_def)

text \<open>
  A version number is compared modulo \<^verbatim>\<open>2 ^ 32\<close>: the digits of every number below \<^verbatim>\<open>2 ^ 64\<close> are accepted and
  its low 32 bits are kept, so that a query for version 4294967297 selects the services of version 1.
\<close>

lemma low_32_of_nat: "(ucast (of_nat n :: u64) :: u32) = of_nat n"
  by transfer (simp add: take_bit_of_nat)

lemma query_version_wraps:
  assumes "lexer_next t = Inr st'"
  shows "parse_literal (\<lparr>tok_type = QT_Integer, tok_text = dec_of_nat n\<rparr>, t) =
    (if n < 2 ^ 64 then Inr (\<lparr>isInteger = True, stringValue = [], integerValue = of_nat n\<rparr>, st')
     else Inl (Out_of_range ''stoul''))"
  using assms by (auto simp: parse_literal_def consume_def stoul_def stoul_snoc low_32_of_nat)

end
