(* ===== verification/Schema_Registry.thy ===== *)
theory Schema_Registry
  imports Std_Map Field_Resolver
begin

text \<open>
  \<^verbatim>\<open>src/resource_manager/schema_registry.hpp\<close>: the schemas a resource manager has been told of, stored under
  the hash they were advertised with and indexed by file name, and the snapshot that the evaluation of
  requirements and log filters reads types from.
\<close>

section \<open>The snapshot\<close>

record SchemaSnapshot =
  snap_schemas :: "ServiceSchema list"

definition findByTypeUrl :: "string \<Rightarrow> SchemaSnapshot \<Rightarrow> ServiceSchema option" where
  "findByTypeUrl typeUrl snap =
     find (\<lambda>s. list_ex (\<lambda>url. url = typeUrl) (accepted_type_urls s)) (snap_schemas snap)"

definition SchemaSnapshot_empty :: "SchemaSnapshot \<Rightarrow> bool" where
  "SchemaSnapshot_empty snap \<longleftrightarrow> snap_schemas snap = []"

text \<open>
  What the snapshot uses of the protobuf library: the descriptor sets it parses, and descriptor pools. A
  failed \<^verbatim>\<open>BuildFile\<close> leaves the pool as it was, which the pool given to \<^verbatim>\<open>BuildFile\<close> already stands for.
\<close>

record ('f, 'p) descriptor_library =
  fds_parse :: "bytes \<Rightarrow> 'f list option"
  fileProto_name :: "'f \<Rightarrow> string"
  DescriptorPool_new :: 'p
  FindFileByName :: "'p \<Rightarrow> string \<Rightarrow> bool"
  BuildFile :: "'p \<Rightarrow> 'f \<Rightarrow> 'p"
  FindMessageTypeByName :: "'p \<Rightarrow> string \<Rightarrow> field_desc list option"

definition build_file :: "('f, 'p) descriptor_library \<Rightarrow> 'p \<Rightarrow> 'f \<Rightarrow> 'p" where
  "build_file lib pool f = (if FindFileByName lib pool (fileProto_name lib f) then pool else BuildFile lib pool f)"

definition build_schema :: "('f, 'p) descriptor_library \<Rightarrow> 'p \<Rightarrow> ServiceSchema \<Rightarrow> 'p" where
  "build_schema lib pool s =
     (case fds_parse lib (proto_file_descriptor_set s) of
        None \<Rightarrow> pool
      | Some files \<Rightarrow> foldl (build_file lib) pool files)"

definition ensurePool :: "('f, 'p) descriptor_library \<Rightarrow> SchemaSnapshot \<Rightarrow> 'p option" where
  "ensurePool lib snap =
     (if snap_schemas snap = [] then None
      else Some (foldl (build_schema lib) (DescriptorPool_new lib) (snap_schemas snap)))"

definition findMessageDescriptor :: "('f, 'p) descriptor_library \<Rightarrow> string \<Rightarrow> SchemaSnapshot \<Rightarrow> field_desc list option" where
  "findMessageDescriptor lib fullTypeName snap =
     (case ensurePool lib snap of None \<Rightarrow> None | Some pool \<Rightarrow> FindMessageTypeByName lib pool fullTypeName)"

section \<open>The registry\<close>

record SchemaRegistry =
  byHash :: "(bytes, ServiceSchema) std_map"
  byProtoFile :: "(string, bytes) std_map"

definition SchemaRegistry_new :: SchemaRegistry where
  "SchemaRegistry_new = \<lparr>byHash = [], byProtoFile = []\<rparr>"

definition ingest_schema :: "SchemaRegistry \<Rightarrow> ServiceSchema \<Rightarrow> SchemaRegistry" where
  "ingest_schema r s =
     (let hash = schema_hash s
      in if hash = [] \<or> smap_find (byHash r) hash \<noteq> None then r
         else r\<lparr>byHash := smap_set hash s (byHash r), byProtoFile := smap_set (proto_file_name s) hash (byProtoFile r)\<rparr>)"

definition ingest :: "ResourceAdvertisement \<Rightarrow> SchemaRegistry \<Rightarrow> SchemaRegistry" where
  "ingest advertisement r = foldl ingest_schema r (schemas advertisement)"

definition allSchemas :: "SchemaRegistry \<Rightarrow> ServiceSchema list" where
  "allSchemas r = map snd (byHash r)"

definition findByProtoFile :: "string \<Rightarrow> SchemaRegistry \<Rightarrow> ServiceSchema option" where
  "findByProtoFile protoFile r =
     (case smap_find (byProtoFile r) protoFile of None \<Rightarrow> None | Some hash \<Rightarrow> smap_find (byHash r) hash)"

definition findByHash :: "bytes \<Rightarrow> SchemaRegistry \<Rightarrow> ServiceSchema option" where
  "findByHash hash r = smap_find (byHash r) hash"

definition SchemaRegistry_size :: "SchemaRegistry \<Rightarrow> nat" where
  "SchemaRegistry_size r = smap_size (byHash r)"

definition snapshot :: "SchemaRegistry \<Rightarrow> SchemaSnapshot" where
  "snapshot r = \<lparr>snap_schemas = map snd (byHash r)\<rparr>"

section \<open>What the registry promises\<close>

text \<open>
  The specification: the schemas that count, in the order they arrived, are those with a hash that no
  earlier schema had.
\<close>

definition register :: "ServiceSchema list \<Rightarrow> ServiceSchema \<Rightarrow> ServiceSchema list" where
  "register kept s = (if schema_hash s = [] \<or> schema_hash s \<in> set (map schema_hash kept) then kept else kept @ [s])"

definition registered :: "ServiceSchema list \<Rightarrow> ServiceSchema list" where
  "registered ss = foldl register [] ss"

definition implements :: "ServiceSchema list \<Rightarrow> SchemaRegistry \<Rightarrow> bool" where
  "implements kept r \<longleftrightarrow>
     smap_ok (byHash r) \<and> smap_ok (byProtoFile r) \<and> distinct (map schema_hash kept) \<and>
     (\<forall>h. smap_find (byHash r) h = find (\<lambda>s. schema_hash s = h) kept) \<and>
     (\<forall>f. smap_find (byProtoFile r) f = map_option schema_hash (find (\<lambda>s. proto_file_name s = f) (rev kept)))"

lemma find_append: "find P (xs @ ys) = (case find P xs of None \<Rightarrow> find P ys | Some x \<Rightarrow> Some x)"
  by (induction xs) auto

lemma find_None_hash: "find (\<lambda>s. schema_hash s = h) kept = None \<longleftrightarrow> h \<notin> set (map schema_hash kept)"
  by (auto simp: find_None_iff)

lemma find_by_key:
  "distinct (map key xs) \<Longrightarrow> find (\<lambda>s. key s = h) xs = Some s \<longleftrightarrow> s \<in> set xs \<and> key s = h"
  by (induction xs) (auto simp: rev_image_eqI)

lemma find_member: "find P xs = Some x \<Longrightarrow> x \<in> set xs"
  by (induction xs) (auto split: if_splits)

lemma implements_new: "implements [] SchemaRegistry_new"
  by (simp add: implements_def SchemaRegistry_new_def)

lemma implements_schema:
  assumes "implements kept r"
  shows "implements (register kept s) (ingest_schema r s)"
proof (cases "schema_hash s = [] \<or> schema_hash s \<in> set (map schema_hash kept)")
  case True
  then show ?thesis
    using assms find_None_hash [of "schema_hash s" kept] by (auto simp: register_def ingest_schema_def implements_def Let_def)
next
  case False
  then have "find (\<lambda>x. schema_hash x = schema_hash s) kept = None"
    by (simp add: find_None_hash)
  then show ?thesis
    using assms False
    by (auto simp: register_def ingest_schema_def implements_def Let_def smap_find_set find_append split: option.split)
qed

lemma implements_ingest:
  "implements kept r \<Longrightarrow> implements (foldl register kept (schemas ad)) (ingest ad r)"
proof -
  have "implements kept r \<Longrightarrow> implements (foldl register kept ss) (foldl ingest_schema r ss)" for ss
    by (induction ss arbitrary: kept r) (simp_all add: implements_schema)
  then show "implements kept r \<Longrightarrow> ?thesis" by (simp add: ingest_def)
qed

lemma implements_history:
  "implements (registered (concat (map schemas ads))) (foldl (\<lambda>r ad. ingest ad r) SchemaRegistry_new ads)"
  by (induction ads rule: rev_induct) (auto simp: registered_def implements_new dest: implements_ingest)

lemma registered_first:
  "find (\<lambda>s. schema_hash s = h) (registered ss) = (if h = [] then None else find (\<lambda>s. schema_hash s = h) ss)"
proof (induction ss rule: rev_induct)
  case (snoc s ss)
  have none: "find (\<lambda>s. schema_hash s = h) (registered ss) = None \<longleftrightarrow> h \<notin> set (map schema_hash (registered ss))"
    by (rule find_None_hash)
  show ?case
    using snoc none by (auto simp: registered_def register_def find_append split: option.splits if_splits)
qed (simp add: registered_def)

lemma implements_all:
  assumes "implements kept r"
  shows "map snd (byHash r) = sort_key schema_hash kept"
proof (rule map_sorted_distinct_set_unique)
  have ok: "smap_ok (byHash r)" "distinct (map schema_hash kept)"
    and found: "smap_find (byHash r) h = find (\<lambda>s. schema_hash s = h) kept" for h
    using assms by (auto simp: implements_def)
  have entry: "(h, s) \<in> set (byHash r) \<longleftrightarrow> s \<in> set kept \<and> schema_hash s = h" for h s
    using smap_set_iff [OF ok(1), of h s] found [of h] find_by_key [OF ok(2)] by simp
  have "s \<in> snd ` set (byHash r) \<longleftrightarrow> s \<in> set kept" for s
    using entry [of "schema_hash s" s] entry by (metis image_iff prod.collapse snd_conv)
  then show same: "set (map snd (byHash r)) = set (sort_key schema_hash kept)"
    by auto
  have keys: "map schema_hash (map snd (byHash r)) = map fst (byHash r)"
  proof -
    have "schema_hash (snd e) = fst e" if "e \<in> set (byHash r)" for e
      using entry [of "fst e" "snd e"] that by simp
    then show ?thesis by simp
  qed
  show "sorted (map schema_hash (map snd (byHash r)))" "distinct (map schema_hash (map snd (byHash r)))"
    unfolding keys using ok(1) by (auto simp: smap_ok_def strict_sorted_iff)
  show "inj_on schema_hash (set (map snd (byHash r)) \<union> set (sort_key schema_hash kept))"
    unfolding same using ok(2) by (simp add: distinct_map)
  show "sorted (map schema_hash (sort_key schema_hash kept))" "distinct (map schema_hash (sort_key schema_hash kept))"
    using ok(2) by (simp_all add: distinct_map)
qed

text \<open>
  C24. The registry refines the list of registered schemas: after any sequence of advertisements it holds,
  under each non-empty hash, the first schema that was advertised with that hash, whatever its content;
  a file name leads to the schema registered last under that name; \<^verbatim>\<open>allSchemas\<close> and the snapshot list
  each registered schema once, in the order of the hashes.
\<close>

theorem registry_refines:
  "let r = foldl (\<lambda>r ad. ingest ad r) SchemaRegistry_new ads;
       seen = concat (map schemas ads);
       kept = registered seen
   in findByHash h r = (if h = [] then None else find (\<lambda>s. schema_hash s = h) seen) \<and>
      findByProtoFile f r = find (\<lambda>s. proto_file_name s = f) (rev kept) \<and>
      allSchemas r = sort_key schema_hash kept \<and>
      SchemaRegistry_size r = length kept \<and>
      findByTypeUrl u (snapshot r) = find (\<lambda>s. u \<in> set (accepted_type_urls s)) (sort_key schema_hash kept)"
proof -
  let ?kept = "registered (concat (map schemas ads))"
  let ?r = "foldl (\<lambda>r ad. ingest ad r) SchemaRegistry_new ads"
  have i: "implements ?kept ?r" by (rule implements_history)
  note all = implements_all [OF i]
  have len: "SchemaRegistry_size ?r = length ?kept"
    using arg_cong [OF all, of length] by (simp add: SchemaRegistry_size_def smap_size_def)
  have byFile: "findByProtoFile f ?r = find (\<lambda>s. proto_file_name s = f) (rev ?kept)"
  proof (cases "find (\<lambda>s. proto_file_name s = f) (rev ?kept)")
    case (Some s)
    then have "s \<in> set ?kept" using find_member by fastforce
    then have "find (\<lambda>x. schema_hash x = schema_hash s) ?kept = Some s"
      using i find_by_key [of schema_hash ?kept] by (simp add: implements_def)
    then show ?thesis using i Some by (simp add: findByProtoFile_def implements_def)
  qed (use i in \<open>simp add: findByProtoFile_def implements_def\<close>)
  have url: "(\<lambda>s. list_ex (\<lambda>url. url = u) (accepted_type_urls s)) = (\<lambda>s. u \<in> set (accepted_type_urls s))"
    by (auto simp: list_ex_iff)
  show ?thesis
    using i len byFile all registered_first [of h "concat (map schemas ads)"]
    by (simp add: Let_def findByHash_def implements_def allSchemas_def snapshot_def findByTypeUrl_def url)
qed

end
