(* ===== verification/Resource_Manager.thy ===== *)
theory Resource_Manager
  imports Node_Frame Resource_Query Schema_Registry
begin

text \<open>
  \<^verbatim>\<open>class ResourceManager\<close> (\<^verbatim>\<open>src/resource_manager/resource_manager.cpp\<close>): the node that all other nodes connect
  to. It holds one encoding and one signing queue for each authenticated connection, checks and authorises
  what it receives, routes messages between connections, and keeps the directory of advertised services.

  A shared encoding object is a handle and its state. The workers of the queues are turns that a run
  interleaves. The packing of log events and the descriptor pools behind schema snapshots are protobuf's:
  they are the fields of \<^verbatim>\<open>rm_library\<close>. The transports and the tracing of pings are left out.
\<close>

section \<open>State\<close>

datatype node_event =
    NodeStartedEvent NodeId string
  | NodeStoppingEvent NodeId string
  | NodeConnectedEvent NodeId Identity
  | NodeDisconnectedEvent NodeId

record rm_library =
  PackFrom_event :: "node_event \<Rightarrow> AnyMsg"
  loggingSchemaSnapshot :: snapshot_view
  snapshot_pool :: "SchemaSnapshot \<Rightarrow> snapshot_view"

record 'k ActiveEncodingState =
  encoding_handle :: nat
  encoding :: "'k Encoding"
  signingQueue :: "RSPMessage MessageQueue"

record ('k, 'cb) ResourceManager = "('k, 'cb) RSPNode" +
  activeEncodings :: "'k ActiveEncodingState list"
  resourceAdvertisements :: "(nodeid, ResourceAdvertisement) std_map"
  schemaRegistry :: SchemaRegistry
  newEncodingCallback :: bool
  incomingMessages :: "RSPMessage MessageQueue"
  authzQueue :: "RSPMessage MessageQueue option"
  signatureCheckQueue :: "RSPMessage MessageQueue"
  identityRequestQueue :: "(RSPMessage \<times> nodeid) MessageQueue"
  identityRequests :: RequestIdentity
  handshakeQueue :: "connection MessageQueue"
  authnQueue :: "'k Encoding MessageQueue"
  identityObservedCallbackToken :: u64

type_synonym ('k, 'cb) rm = "('k, 'cb) ResourceManager"

text \<open>
  The constructor. \<^verbatim>\<open>cb\<close> is the callback it registers with the identity cache, which wakes the resolver
  threads. The copies of the key that it hands to the handshake and authentication queues may fail.
\<close>

definition ResourceManager_new :: "'k openssl \<Rightarrow> ('k \<Rightarrow> 'k \<Rightarrow> bytes option) \<Rightarrow> hash_env \<Rightarrow> u64 \<Rightarrow> u64 \<Rightarrow> 'cb \<Rightarrow> 'k KeyPair \<Rightarrow>
    ('k, 'cb) rm result" where
  "ResourceManager_new lib derive env r s cb kp =
     res_bind (RSPNode_new lib derive env r s kp) (\<lambda>n.
     res_bind (KeyPair_duplicate lib kp) (\<lambda>handshakeKey.
     res_bind (KeyPair_duplicate lib kp) (\<lambda>authnKey.
     case addIdentityObservedCallback (Some cb) (identityCache n) of (token, cache) \<Rightarrow>
       Inr (RSPNode.extend (n\<lparr>identityCache := cache\<rparr>)
         (ResourceManager.fields [] [] SchemaRegistry_new False (started_queue 1) (Some (started_queue 1)) (started_queue 1)
            (started_queue 1) (RequestIdentity_new Limits_default) (started_queue 4) (started_queue 4) token)))))"

section \<open>Routing\<close>

definition isForThisNode :: "RSPMessage \<Rightarrow> ('k, 'cb) rm \<Rightarrow> bool" where
  "isForThisNode m n =
     (case destination m of None \<Rightarrow> True | Some d \<Rightarrow> d = toProtoNodeId (keyNodeID n))"

definition eraseResourceAdvertisement :: "nodeid \<Rightarrow> ('k, 'cb) rm \<Rightarrow> ('k, 'cb) rm" where
  "eraseResourceAdvertisement nodeId n = n\<lparr>resourceAdvertisements := smap_erase nodeId (resourceAdvertisements n)\<rparr>"

text \<open>The loop over the active encodings: the first whose peer has the destination's bytes.\<close>

definition encoding_for :: "NodeId \<Rightarrow> 'k ActiveEncodingState list \<Rightarrow> 'k ActiveEncodingState option" where
  "encoding_for d as =
     find (\<lambda>a. case peerNodeId (encoding a) of None \<Rightarrow> False | Some p \<Rightarrow> toProtoNodeId p = d) as"

definition update_encoding :: "nat \<Rightarrow> ('k ActiveEncodingState \<Rightarrow> 'k ActiveEncodingState) \<Rightarrow> ('k, 'cb) rm \<Rightarrow> ('k, 'cb) rm" where
  "update_encoding h f n = n\<lparr>activeEncodings := map (\<lambda>a. if encoding_handle a = h then f a else a) (activeEncodings n)\<rparr>"

definition push_signing :: "RSPMessage \<Rightarrow> 'k ActiveEncodingState \<Rightarrow> ('k, 'cb) rm \<Rightarrow> bool \<times> ('k, 'cb) rm" where
  "push_signing m a n =
     (case mq_push m (signingQueue a) of
        (ok, full, q) \<Rightarrow> (ok, update_encoding (encoding_handle a) (\<lambda>a. a\<lparr>signingQueue := q\<rparr>) n))"

definition push_outgoing :: "RSPMessage \<Rightarrow> 'k ActiveEncodingState \<Rightarrow> ('k, 'cb) rm \<Rightarrow> bool \<times> ('k, 'cb) rm" where
  "push_outgoing m a n =
     (case mq_push m (outgoingMessages (encoding a)) of
        (ok, full, q) \<Rightarrow> (ok, update_encoding (encoding_handle a) (\<lambda>a. a\<lparr>encoding := (encoding a)\<lparr>outgoingMessages := q\<rparr>\<rparr>) n))"

definition sendLocalMessage :: "RSPMessage \<Rightarrow> ('k, 'cb) rm \<Rightarrow> bool \<times> ('k, 'cb) rm" where
  "sendLocalMessage m n =
     (case destination m of
        None \<Rightarrow> (False, n)
      | Some d \<Rightarrow>
          if d = [] then (False, n)
          else (case encoding_for d (activeEncodings n) of
                  None \<Rightarrow> (False, n)
                | Some a \<Rightarrow> push_signing m a n))"

definition sendToConnection :: "nat \<Rightarrow> RSPMessage \<Rightarrow> ('k, 'cb) rm \<Rightarrow> bool \<times> ('k, 'cb) rm" where
  "sendToConnection index m n =
     (if index \<ge> length (activeEncodings n) then (False, n)
      else push_signing m (activeEncodings n ! index) n)"

definition erase_destination :: "NodeId \<Rightarrow> ('k, 'cb) rm \<Rightarrow> ('k, 'cb) rm" where
  "erase_destination d n =
     (case fromProtoNodeId d of None \<Rightarrow> n | Some nodeId \<Rightarrow> eraseResourceAdvertisement nodeId n)"

definition routeAndSend :: "RSPMessage \<Rightarrow> ('k, 'cb) rm \<Rightarrow> bool \<times> ('k, 'cb) rm" where
  "routeAndSend m n =
     (case destination m of
        None \<Rightarrow> (False, n)
      | Some d \<Rightarrow>
          if d = [] then (False, n)
          else (case encoding_for d (activeEncodings n) of
                  None \<Rightarrow> (False, erase_destination d n)
                | Some a \<Rightarrow>
                    (case push_outgoing m a n of
                       (pushed, n) \<Rightarrow> (pushed, if pushed then n else erase_destination d n))))"

section \<open>The directory\<close>

definition discovered :: "nodeid \<Rightarrow> ServiceSchema \<Rightarrow> DiscoveredService" where
  "discovered nodeId s = \<lparr>discovered_node_id = Some (toProtoNodeId nodeId), discovered_schema = Some s\<rparr>"

text \<open>The two nested loops of a resource query with their \<^verbatim>\<open>break\<close>s; the counter has 32 bits.\<close>

primrec query_schemas :: "QueryExpression \<Rightarrow> u32 \<Rightarrow> nodeid \<Rightarrow> ServiceSchema list \<Rightarrow>
    u32 \<times> DiscoveredService list \<Rightarrow> u32 \<times> DiscoveredService list" where
  "query_schemas e maxRecords nodeId [] st = st"
| "query_schemas e maxRecords nodeId (s # ss) st =
     (case st of (matchedCount, found) \<Rightarrow>
        if \<not> matchesExpression e \<lparr>candidate_node = nodeId, candidate_schema = s\<rparr>
        then query_schemas e maxRecords nodeId ss (matchedCount, found)
        else
          let st = (matchedCount + 1, found @ [discovered nodeId s])
          in if maxRecords > 0 \<and> fst st \<ge> maxRecords then st
             else query_schemas e maxRecords nodeId ss st)"

primrec query_nodes :: "QueryExpression \<Rightarrow> u32 \<Rightarrow> (nodeid, ResourceAdvertisement) std_map \<Rightarrow>
    u32 \<times> DiscoveredService list \<Rightarrow> u32 \<times> DiscoveredService list" where
  "query_nodes e maxRecords [] st = st"
| "query_nodes e maxRecords (ad # ads) st =
     (let st = query_schemas e maxRecords (fst ad) (schemas (snd ad)) st
      in if maxRecords > 0 \<and> fst st \<ge> maxRecords then st
         else query_nodes e maxRecords ads st)"

definition handle_advertisement :: "RSPMessage \<Rightarrow> ResourceAdvertisement \<Rightarrow> ('k, 'cb) rm \<Rightarrow> bool \<times> ('k, 'cb) rm" where
  "handle_advertisement m ad n =
     (case senderNodeIdFromMessage m of
        None \<Rightarrow> (False, n)
      | Some nodeId \<Rightarrow>
          if records ad = [] \<and> schemas ad = [] then (True, eraseResourceAdvertisement nodeId n)
          else (True, n\<lparr>schemaRegistry := ingest ad (schemaRegistry n),
                        resourceAdvertisements := smap_set nodeId ad (resourceAdvertisements n)\<rparr>))"

definition requested_schemas :: "SchemaRequest \<Rightarrow> SchemaRegistry \<Rightarrow> ServiceSchema list" where
  "requested_schemas request r =
     (if bytes_or_default (req_proto_file_name request) \<noteq> [] then
        (case findByProtoFile (bytes_or_default (req_proto_file_name request)) r of None \<Rightarrow> [] | Some s \<Rightarrow> [s])
      else if bytes_or_default (req_schema_hash request) \<noteq> [] then
        (case findByHash (bytes_or_default (req_schema_hash request)) r of None \<Rightarrow> [] | Some s \<Rightarrow> [s])
      else allSchemas r)"

definition reply_to :: "nodeid \<Rightarrow> core_message \<Rightarrow> RSPMessage" where
  "reply_to requester c = RSPMessage_default\<lparr>destination := Some (toProtoNodeId requester), core := c\<rparr>"

definition handle_schema_request :: "RSPMessage \<Rightarrow> SchemaRequest \<Rightarrow> ('k, 'cb) rm \<Rightarrow> bool \<times> ('k, 'cb) rm" where
  "handle_schema_request m request n =
     (case senderNodeIdFromMessage m of
        None \<Rightarrow> (False, n)
      | Some requester \<Rightarrow>
          pushOutputMessage
            (reply_to requester (schema_reply \<lparr>reply_schemas = requested_schemas request (schemaRegistry n)\<rparr>)) n)"

text \<open>\<^verbatim>\<open>mutable_resource_query_reply\<close> is called for a match only: without one the reply has no content.\<close>

definition query_reply :: "QueryExpression \<Rightarrow> u32 \<Rightarrow> (nodeid, ResourceAdvertisement) std_map \<Rightarrow> core_message" where
  "query_reply e maxRecords ads =
     (let found = snd (query_nodes e maxRecords ads (0, []))
      in if found = [] then core_not_set else resource_query_reply \<lparr>services = found\<rparr>)"

definition handle_resource_query :: "RSPMessage \<Rightarrow> ResourceQuery \<Rightarrow> ('k, 'cb) rm \<Rightarrow> (bool \<times> ('k, 'cb) rm) result" where
  "handle_resource_query m q n =
     (case senderNodeIdFromMessage m of
        None \<Rightarrow> Inr (False, n)
      | Some requester \<Rightarrow>
          (case parseQueryExpression (query q) of
             Inl e \<Rightarrow>
               if uncatchable e then Inl e
               else Inr (pushOutputMessage
                      (reply_to requester (error_msg \<lparr>error_code = UNIMPLEMENTED,
                          error_message = ''invalid resource query: '' @ what e\<rparr>)) n)
           | Inr expression \<Rightarrow>
               Inr (pushOutputMessage
                      (reply_to requester (query_reply expression (max_records q) (resourceAdvertisements n))) n)))"

definition rm_handleNodeSpecificMessage :: "RSPMessage \<Rightarrow> ('k, 'cb) rm \<Rightarrow> (bool \<times> ('k, 'cb) rm) result" where
  "rm_handleNodeSpecificMessage m n =
     (case core m of
        resource_advertisement ad \<Rightarrow> Inr (handle_advertisement m ad n)
      | schema_request request \<Rightarrow> Inr (handle_schema_request m request n)
      | resource_query q \<Rightarrow> handle_resource_query m q n
      | _ \<Rightarrow> Inr (False, n))"

definition handleOutputMessage :: "RSPMessage \<Rightarrow> ('k, 'cb) rm \<Rightarrow> ('k, 'cb) rm" where
  "handleOutputMessage m n = snd (sendLocalMessage m n)"

definition hasResourceAdvertisement :: "nodeid \<Rightarrow> ('k, 'cb) rm \<Rightarrow> bool" where
  "hasResourceAdvertisement nodeId n \<longleftrightarrow> smap_find (resourceAdvertisements n) nodeId \<noteq> None"

definition resourceAdvertisementOf :: "nodeid \<Rightarrow> ('k, 'cb) rm \<Rightarrow> ResourceAdvertisement option" where
  "resourceAdvertisementOf nodeId n = smap_find (resourceAdvertisements n) nodeId"

section \<open>Connections\<close>

definition rm_event :: "rm_library \<Rightarrow> datetime \<Rightarrow> node_event \<Rightarrow> ('k, 'cb) rm \<Rightarrow> ('k, 'cb) rm result" where
  "rm_event rlib now ev n =
     res_bind (publishLogRecord
         \<lparr>rec_subscription_id = None, producer_node_id = None, time_created = None, payload = Some (PackFrom_event rlib ev)\<rparr>
         (Some (loggingSchemaSnapshot rlib)) now n) (\<lambda>(b, n). Inr n)"

definition emitNodeStarted :: "rm_library \<Rightarrow> datetime \<Rightarrow> ('k, 'cb) rm \<Rightarrow> ('k, 'cb) rm result" where
  "emitNodeStarted rlib now n = rm_event rlib now (NodeStartedEvent (toProtoNodeId (keyNodeID n)) ''resource_manager'') n"

definition emitNodeStopping :: "rm_library \<Rightarrow> datetime \<Rightarrow> ('k, 'cb) rm \<Rightarrow> ('k, 'cb) rm result" where
  "emitNodeStopping rlib now n = rm_event rlib now (NodeStoppingEvent (toProtoNodeId (keyNodeID n)) ''resource_manager'') n"

text \<open>
  An accepted connection and a handshake that succeeded: what the queue does not take is closed or
  stopped, and is then the second component.
\<close>

definition enqueueAcceptedConnection :: "connection \<Rightarrow> ('k, 'cb) rm \<Rightarrow> ('k, 'cb) rm \<times> connection option" where
  "enqueueAcceptedConnection c n =
     (case mq_push c (handshakeQueue n) of
        (ok, full, q) \<Rightarrow> (n\<lparr>handshakeQueue := q\<rparr>, if ok then None else Some (conn_close c)))"

definition handleHandshakeSuccess :: "'k Encoding \<Rightarrow> ('k, 'cb) rm \<Rightarrow> ('k, 'cb) rm \<times> 'k Encoding option" where
  "handleHandshakeSuccess e n =
     (case mq_push e (authnQueue n) of
        (ok, full, q) \<Rightarrow> (n\<lparr>authnQueue := q\<rparr>, if ok then None else Some (Encoding_stop False e)))"

text \<open>\<^verbatim>\<open>find_if\<close> and \<^verbatim>\<open>erase\<close>: the first active encoding with the handle is removed.\<close>

fun erase_encoding :: "nat \<Rightarrow> 'k ActiveEncodingState list \<Rightarrow> 'k ActiveEncodingState list" where
  "erase_encoding h [] = []"
| "erase_encoding h (a # as) = (if encoding_handle a = h then as else a # erase_encoding h as)"

text \<open>
  \<^verbatim>\<open>handleAuthNSuccess\<close>: \<^verbatim>\<open>h\<close> is the handle of the encoding. The second component is what happens to it: it
  becomes active, with the callback for new encodings called or not, or it is stopped.
\<close>

datatype 'k adopted = Adopted bool | Stopped "'k Encoding"

definition handleAuthNSuccess :: "nat \<Rightarrow> 'k Encoding \<Rightarrow> ('k, 'cb) rm \<Rightarrow> ('k, 'cb) rm \<times> 'k adopted" where
  "handleAuthNSuccess h e n =
     (case peerNodeId e of
        None \<Rightarrow> (n, Stopped (Encoding_stop False e))
      | Some peer \<Rightarrow>
          let n = n\<lparr>activeEncodings := activeEncodings n @ [\<lparr>encoding_handle = h, encoding = e, signingQueue = started_queue 1\<rparr>]\<rparr>
          in case Encoding_start e of
               (True, e) \<Rightarrow> (update_encoding h (\<lambda>a. a\<lparr>encoding := e\<rparr>) n, Adopted (newEncodingCallback n))
             | (False, e) \<Rightarrow>
                 (n\<lparr>activeEncodings := erase_encoding h (activeEncodings n)\<rparr>, Stopped (Encoding_stop False e)))"

definition handleAuthNFailure :: "'k Encoding option \<Rightarrow> 'k Encoding option" where
  "handleAuthNFailure e = map_option (Encoding_stop False) e"

definition cacheAuthenticatedIdentity :: "rm_library \<Rightarrow> datetime \<Rightarrow> nodeid \<Rightarrow> Identity \<Rightarrow> ('k, 'cb) rm \<Rightarrow>
    (('cb \<times> nodeid) list \<times> ('k, 'cb) rm) result" where
  "cacheAuthenticatedIdentity rlib now peer i n =
     res_bind (node_observeMessage (RSPMessage_default\<lparr>source := Some (toProtoNodeId peer), identities := [i]\<rparr>) n) (\<lambda>(calls, n).
     res_bind (rm_event rlib now (NodeConnectedEvent (toProtoNodeId peer) i) n) (\<lambda>n. Inr (calls, n)))"

definition handleEncodingDisconnect :: "rm_library \<Rightarrow> datetime \<Rightarrow> nat \<Rightarrow> nodeid \<Rightarrow> ('k, 'cb) rm \<Rightarrow> ('k, 'cb) rm result" where
  "handleEncodingDisconnect rlib now h peer n =
     rm_event rlib now (NodeDisconnectedEvent (toProtoNodeId peer))
       (n\<lparr>activeEncodings := erase_encoding h (activeEncodings n)\<rparr>)"

section \<open>Checking and authorising\<close>

text \<open>
  \<^verbatim>\<open>verificationKeyForNodeId\<close>; the exception of \<^verbatim>\<open>duplicate()\<close> is outside the \<^verbatim>\<open>try\<close> block.
\<close>

definition verificationKeyForNodeId :: "('k, 'cb) rm \<Rightarrow> 'k get_key" where
  "verificationKeyForNodeId n nodeId =
     (if nodeId = keyNodeID n then res_bind (KeyPair_duplicate (node_openssl n) (own_keyPair n)) (\<lambda>k. Inr (Some k))
      else (case IdentityCache_get nodeId (identityCache n) of
              None \<Rightarrow> Inr None
            | Some i \<Rightarrow>
                catch_exception
                  (res_bind (fromPublicKey (node_openssl n) (public_key_or_default i)) (\<lambda>k. Inr (Some k)))
                  (Inr None)))"

definition getAuthorizationEndorsements :: "nodeid \<Rightarrow> EndorsementMsg list result" where
  "getAuthorizationEndorsements nodeId = Inr []"

definition authorizationTree :: AST where
  "authorizationTree = AST_true"

text \<open>The nonce of a refusal is that of the refused message, or random.\<close>

definition refusal_nonce :: "u64 \<Rightarrow> u64 \<Rightarrow> RSPMessage \<Rightarrow> Uuid" where
  "refusal_nonce r s m = (case nonce m of Some v \<Rightarrow> v | None \<Rightarrow> randomMessageNonce r s)"

definition sendSignatureFailure :: "u64 \<Rightarrow> u64 \<Rightarrow> RSPMessage \<Rightarrow> string \<Rightarrow> ('k, 'cb) rm \<Rightarrow> ('k, 'cb) rm" where
  "sendSignatureFailure r s rejected reason n =
     (case senderNodeIdFromMessage rejected of
        None \<Rightarrow> n
      | Some requester \<Rightarrow>
          snd (sendLocalMessage
            ((reply_to requester (error_msg \<lparr>error_code = SIGNATURE_FAILED, error_message = reason\<rparr>))
               \<lparr>nonce := Some (refusal_nonce r s rejected)\<rparr>) n))"

definition sendEndorsementNeeded :: "u64 \<Rightarrow> u64 \<Rightarrow> RSPMessage \<Rightarrow> ('k, 'cb) rm \<Rightarrow> ('k, 'cb) rm" where
  "sendEndorsementNeeded r s rejected n =
     (case senderNodeIdFromMessage rejected of
        None \<Rightarrow> n
      | Some requester \<Rightarrow>
          let v = refusal_nonce r s rejected
          in snd (sendLocalMessage
               ((reply_to requester (endorsement_needed \<lparr>message_nonce = Some v, needed_tree = Some authorizationTree\<rparr>))
                  \<lparr>nonce := Some v\<rparr>) n))"

definition handleVerifiedMessage :: "RSPMessage \<Rightarrow> ('k, 'cb) rm \<Rightarrow> ('k, 'cb) rm" where
  "handleVerifiedMessage m n =
     (case authzQueue n of
        None \<Rightarrow> n
      | Some q \<Rightarrow> (case mq_push m q of (ok, full, q) \<Rightarrow> n\<lparr>authzQueue := Some q\<rparr>))"

definition handleSignatureFailure :: "u64 \<Rightarrow> u64 \<Rightarrow> RSPMessage \<Rightarrow> Failure \<Rightarrow> ('k, 'cb) rm \<Rightarrow> ('k, 'cb) rm" where
  "handleSignatureFailure r s m f n =
     (let refuse = sendSignatureFailure r s m (if failure_reason f = [] then ''signature verification failed'' else failure_reason f)
      in case (failure_kind f, failure_signer f) of
           (MissingVerificationKey, Some signerId) \<Rightarrow>
             (case mq_push (m, signerId) (identityRequestQueue n) of
                (True, full, q) \<Rightarrow> n\<lparr>identityRequestQueue := q\<rparr>
              | (False, full, q) \<Rightarrow> refuse (n\<lparr>identityRequestQueue := q\<rparr>))
         | _ \<Rightarrow> refuse n)"

definition handleAuthorizedMessage :: "datetime \<Rightarrow> RSPMessage \<Rightarrow> ('k, 'cb) rm \<Rightarrow> (('cb \<times> nodeid) list \<times> ('k, 'cb) rm) result" where
  "handleAuthorizedMessage now m n =
     (if isForThisNode m n then
        res_bind (enqueueInput now m n) (\<lambda>(ok, calls, n). Inr (calls, n))
      else
        res_bind (node_observeMessage m n) (\<lambda>(calls, n). Inr (calls, snd (routeAndSend m n))))"

text \<open>The handler of \<^verbatim>\<open>incomingMessages_\<close>, which nothing in the repository pushes to, is the same.\<close>

definition IncomingMessageQueue_handle :: "datetime \<Rightarrow> RSPMessage \<Rightarrow> ('k, 'cb) rm \<Rightarrow>
    (('cb \<times> nodeid) list \<times> ('k, 'cb) rm) result" where
  "IncomingMessageQueue_handle now m n =
     (if isForThisNode m n then
        res_bind (enqueueInput now m n) (\<lambda>(ok, calls, n). Inr (calls, n))
      else
        res_bind (node_observeMessage m n) (\<lambda>(calls, n). Inr (calls, snd (routeAndSend m n))))"

definition handleAuthorizationFailure :: "u64 \<Rightarrow> u64 \<Rightarrow> RSPMessage \<Rightarrow> ('k, 'cb) rm \<Rightarrow> ('k, 'cb) rm" where
  "handleAuthorizationFailure r s m n = sendEndorsementNeeded r s m n"

definition rebuildAuthorizationQueue :: "('k, 'cb) rm \<Rightarrow> ('k, 'cb) rm" where
  "rebuildAuthorizationQueue n = n\<lparr>authzQueue := Some (started_queue 1)\<rparr>"

definition ResourceManager_destroy :: "('k, 'cb) rm \<Rightarrow> ('k, 'cb) rm" where
  "ResourceManager_destroy n =
     (stopNodeQueues n)
       \<lparr>incomingMessages := mq_stop (incomingMessages n),
        identityCache :=
          (if identityObservedCallbackToken n \<noteq> 0
           then snd (removeIdentityObservedCallback (identityObservedCallbackToken n) (identityCache n))
           else identityCache n),
        identityObservedCallbackToken := 0,
        signatureCheckQueue := mq_stop (signatureCheckQueue n),
        identityRequestQueue := mq_stop (identityRequestQueue n),
        authzQueue := None,
        handshakeQueue := mq_stop (handshakeQueue n),
        authnQueue := mq_stop (authnQueue n),
        activeEncodings := []\<rparr>"

section \<open>The workers of the queues\<close>

text \<open>
  One message of each queue, with the callbacks the constructor gives the queue. None of the callbacks
  throws; an exception that leaves a handler is the left outcome.
\<close>

definition check_call_of :: "u64 \<Rightarrow> u64 \<Rightarrow> check_call \<Rightarrow> ('k, 'cb) rm \<Rightarrow> ('k, 'cb) rm" where
  "check_call_of r s c n =
     (case c of Check_success m \<Rightarrow> handleVerifiedMessage m n | Check_failure m f \<Rightarrow> handleSignatureFailure r s m f n)"

definition check_turn :: "u64 \<Rightarrow> u64 \<Rightarrow> RSPMessage \<Rightarrow> ('k, 'cb) rm \<Rightarrow> ('k, 'cb) rm result" where
  "check_turn r s m n =
     (case CheckSignature_handle (node_openssl n) (own_env n) (verificationKeyForNodeId n) (\<lambda>c. None) m of
        (cs, None) \<Rightarrow> Inr (fold (check_call_of r s) cs n)
      | (cs, Some e) \<Rightarrow> Inl e)"

definition authz_call_of :: "u64 \<Rightarrow> u64 \<Rightarrow> datetime \<Rightarrow> authz_call \<Rightarrow> ('k, 'cb) rm result \<Rightarrow> ('k, 'cb) rm result" where
  "authz_call_of r s now c res =
     res_bind res (\<lambda>n.
       case c of
         AuthZ_success m \<Rightarrow> res_bind (handleAuthorizedMessage now m n) (\<lambda>(calls, n). Inr n)
       | AuthZ_failure m \<Rightarrow> Inr (handleAuthorizationFailure r s m n))"

definition authz_turn :: "rm_library \<Rightarrow> u64 \<Rightarrow> u64 \<Rightarrow> datetime \<Rightarrow> RSPMessage \<Rightarrow> ('k, 'cb) rm \<Rightarrow> ('k, 'cb) rm result" where
  "authz_turn rlib r s now m n =
     (case MessageQueueAuthZ_handle getAuthorizationEndorsements authorizationTree
             (Some (snapshot_pool rlib (snapshot (schemaRegistry n)))) (\<lambda>c. None) m of
        (cs, None) \<Rightarrow> fold (authz_call_of r s now) cs (Inr n)
      | (cs, Some e) \<Rightarrow> Inl e)"

text \<open>
  The identity queue asks a signer for its identity once for all messages that wait for it; the challenge
  goes through the output queue of the node.
\<close>

definition request_identity :: "u64 \<Rightarrow> u64 \<Rightarrow> nodeid \<Rightarrow> ('k, 'cb) rm \<Rightarrow> ('k, 'cb) rm" where
  "request_identity r s signerId n =
     (if IdentityCache_contains signerId (identityCache n) then n
      else (case sendChallengeRequest (Some (\<lambda>m. fst (pushOutputMessage m n))) r s signerId (identityCache n) of
              (Some m, ok) \<Rightarrow> snd (pushOutputMessage m n)
            | (None, ok) \<Rightarrow> n))"

definition identity_request_turn :: "u64 \<Rightarrow> u64 \<Rightarrow> RSPMessage \<times> nodeid \<Rightarrow> ('k, 'cb) rm \<Rightarrow> ('k, 'cb) rm" where
  "identity_request_turn r s request n =
     (case RequestIdentity_handle (fst request) (snd request) (identityRequests n) of
        (Inl reason, q) \<Rightarrow> sendSignatureFailure r s (fst request) reason (n\<lparr>identityRequests := q\<rparr>)
      | (Inr True, q) \<Rightarrow> request_identity r s (snd request) (n\<lparr>identityRequests := q\<rparr>)
      | (Inr False, q) \<Rightarrow> n\<lparr>identityRequests := q\<rparr>)"

definition resolver_call_of :: "u64 \<Rightarrow> u64 \<Rightarrow> ri_call \<Rightarrow> ('k, 'cb) rm \<Rightarrow> ('k, 'cb) rm" where
  "resolver_call_of r s c n =
     (case c of
        RI_replay m ok \<Rightarrow> (case mq_push m (signatureCheckQueue n) of (pushed, full, q) \<Rightarrow> n\<lparr>signatureCheckQueue := q\<rparr>)
      | RI_fail m reason \<Rightarrow> sendSignatureFailure r s m reason n)"

definition resolver_turn_end :: "u64 \<Rightarrow> u64 \<Rightarrow> nodeid \<Rightarrow> resolver_end \<Rightarrow> ('k, 'cb) rm \<Rightarrow> ('k, 'cb) rm" where
  "resolver_turn_end r s signerId e n =
     (case resolver_finish (\<lambda>m. fst (mq_push m (signatureCheckQueue n))) signerId e (identityRequests n) of
        (cs, q) \<Rightarrow> fold (resolver_call_of r s) cs (n\<lparr>identityRequests := q\<rparr>))"

text \<open>The signing queue of a connection; its success callback pushes to the outgoing queue.\<close>

definition sign_call_of :: "'k ActiveEncodingState \<Rightarrow> sign_call \<Rightarrow> ('k, 'cb) rm \<Rightarrow> ('k, 'cb) rm" where
  "sign_call_of a c n =
     (case c of Sign_success m \<Rightarrow> snd (push_outgoing m a n) | Sign_failure m reason \<Rightarrow> n)"

definition sign_turn :: "nodeid \<Rightarrow> 'k ActiveEncodingState \<Rightarrow> RSPMessage \<Rightarrow> ('k, 'cb) rm \<Rightarrow> ('k, 'cb) rm result" where
  "sign_turn randomId a m n =
     (case MessageQueueSign_handle (node_openssl n) (own_env n) (MessageQueueSign_keyPair (own_keyPair n)) (\<lambda>c. None) randomId m of
        (cs, None) \<Rightarrow> Inr (fold (sign_call_of a) cs n)
      | (cs, Some e) \<Rightarrow> Inl e)"

section \<open>Runs\<close>

text \<open>
  What can happen to a resource manager: a connection is adopted or lost, an encoding receives a message
  or takes one from its outgoing queue, a worker handles the next message of its queue, a resolver thread
  ends, a log event or an identity is recorded, the negotiation of keys takes a step.
\<close>

inductive rm_step :: "rm_library \<Rightarrow> ('k, 'cb) rm \<Rightarrow> ('k, 'cb) rm \<Rightarrow> bool" for rlib where
  adopt: "rm_step rlib n (fst (handleAuthNSuccess h e n))"
  if "h \<notin> encoding_handle ` set (activeEncodings n)" "messages (outgoingMessages e) = []"
| disconnect: "rm_step rlib n n'" if "handleEncodingDisconnect rlib now h peer n = Inr n'"
| receive: "rm_step rlib n (n\<lparr>signatureCheckQueue := q\<rparr>)" if "mq_push m (signatureCheckQueue n) = (ok, full, q)"
| transmit: "rm_step rlib n (update_encoding h (\<lambda>a. a\<lparr>encoding := (encoding a)\<lparr>outgoingMessages := q\<rparr>\<rparr>) n)"
  if "a \<in> set (activeEncodings n)" "encoding_handle a = h" "mq_tryPop (outgoingMessages (encoding a)) = (Some m, q)"
| check: "rm_step rlib n n'"
  if "mq_tryPop (signatureCheckQueue n) = (Some m, q)" "check_turn r s m (n\<lparr>signatureCheckQueue := q\<rparr>) = Inr n'"
| authorise: "rm_step rlib n n'"
  if "authzQueue n = Some p" "mq_tryPop p = (Some m, q)" "authz_turn rlib r s now m (n\<lparr>authzQueue := Some q\<rparr>) = Inr n'"
| input: "rm_step rlib n n'"
  if "mq_tryPop (inputQueue n) = (Some m, q)"
    "NodeInputQueue_handle rm_handleNodeSpecificMessage inp m (n\<lparr>inputQueue := q\<rparr>) = Inr n'"
| deliver: "rm_step rlib n (handleOutputMessage m (n\<lparr>outputQueue := q\<rparr>))"
  if "mq_tryPop (outputQueue n) = (Some m, q)"
| sign: "rm_step rlib n n'"
  if "a \<in> set (activeEncodings n)" "mq_tryPop (signingQueue a) = (Some m, q)"
    "sign_turn randomId (a\<lparr>signingQueue := q\<rparr>) m (update_encoding (encoding_handle a) (\<lambda>a. a\<lparr>signingQueue := q\<rparr>) n) = Inr n'"
| request: "rm_step rlib n (identity_request_turn r s x (n\<lparr>identityRequestQueue := q\<rparr>))"
  if "mq_tryPop (identityRequestQueue n) = (Some x, q)"
| resolve: "rm_step rlib n (resolver_turn_end r s signerId e n)"
| send: "rm_step rlib n (snd (sendToConnection index m n))"
| authenticated: "rm_step rlib n n'" if "cacheAuthenticatedIdentity rlib now peer i n = Inr (calls, n')"
| log: "rm_step rlib n n'" if "rm_event rlib now ev n = Inr n'"
| negotiate: "rm_step rlib n n'" if "aes_step x n = Inr n'"
| rebuild: "rm_step rlib n (rebuildAuthorizationQueue n)"
| stop: "rm_step rlib n (ResourceManager_destroy n)"

inductive rm_reachable :: "rm_library \<Rightarrow> 'k openssl \<Rightarrow> hash_env \<Rightarrow> ('k, 'cb) rm \<Rightarrow> bool" for rlib lib env where
  initial: "rm_reachable rlib lib env n" if "ResourceManager_new lib derive env r s cb kp = Inr n"
| step: "rm_reachable rlib lib env n'" if "rm_reachable rlib lib env n" "rm_step rlib n n'"

end
