(* ===== verification/Resource_Manager_Safety.thy ===== *)
theory Resource_Manager_Safety
  imports Resource_Manager
begin

text \<open>
  What a resource manager guarantees about the messages it hands on: in every run, what reaches its
  input queue, its authorisation queue and the outgoing queue of a connection carries a valid signature of
  the node it names as its signer, and the directory lists for each node what that node has signed.
\<close>

section \<open>Authentic messages\<close>

text \<open>The keys the signature check uses have the node identifier they are looked up by.\<close>

lemma verification_key_owner:
  assumes "node_ok n" "verificationKeyForNodeId n who = Inr (Some key)"
  shows "nodeID (node_openssl n) key = Inr who"
proof (cases "who = keyNodeID n")
  case True
  then show ?thesis
    using assms by (auto simp: verificationKeyForNodeId_def node_ok_def KeyPair_duplicate_def KeyPair_new_def
        res_bind_eq_Inr split: option.splits if_splits)
next
  case False
  then obtain i where i: "smap_find (entries (identityCache n)) who = Some i"
    "fromPublicKey (node_openssl n) (public_key_or_default i) = Inr key"
    using assms(2)
    by (auto simp: verificationKeyForNodeId_def IdentityCache_get_def catch_exception_def res_bind_eq_Inr
        split: option.splits sum.splits if_splits)
  then have "nodeIdFromIdentity (node_openssl n) i = Some who"
    using assms(1) smap_find_in_set [OF i(1)] by (auto simp: node_ok_def cache_ok_def list_all_iff)
  then show ?thesis
    using i(2) by (auto simp: nodeIdFromIdentity_def split: sum.splits)
qed

lemma verified_authentic:
  assumes "node_ok n" "verified (node_openssl n) (own_env n) (verificationKeyForNodeId n) m"
  shows "\<exists>who. authentic (node_openssl n) (own_env n) who m"
  using assms(2) verification_key_owner [OF assms(1)] unfolding verified_def authentic_def by blast

section \<open>The invariant\<close>

definition directory_ok :: "'k openssl \<Rightarrow> hash_env \<Rightarrow> (nodeid, ResourceAdvertisement) std_map \<Rightarrow> bool" where
  "directory_ok lib env ads \<longleftrightarrow> smap_ok ads \<and>
     (\<forall>(who, ad)\<in>set ads. \<exists>m. authentic lib env who m \<and> core m = resource_advertisement ad)"

definition connections_ok :: "'k openssl \<Rightarrow> hash_env \<Rightarrow> 'k ActiveEncodingState list \<Rightarrow> bool" where
  "connections_ok lib env as \<longleftrightarrow> distinct (map encoding_handle as) \<and>
     (\<forall>a\<in>set as. peerNodeId (encoding a) \<noteq> None \<and> all_authentic lib env (outgoingMessages (encoding a)))"

definition rm_ok :: "('k, 'cb) rm \<Rightarrow> bool" where
  "rm_ok n \<longleftrightarrow> node_ok n \<and> signatures_fit (node_openssl n) \<and>
     all_authentic (node_openssl n) (own_env n) (inputQueue n) \<and>
     (\<forall>q. authzQueue n = Some q \<longrightarrow> all_authentic (node_openssl n) (own_env n) q) \<and>
     connections_ok (node_openssl n) (own_env n) (activeEncodings n) \<and>
     directory_ok (node_openssl n) (own_env n) (resourceAdvertisements n)"

text \<open>The queues and fields that the invariant does not look at.\<close>

lemma rm_ok_other_queues [simp]:
  "rm_ok (n\<lparr>signatureCheckQueue := q\<rparr>) = rm_ok n" "rm_ok (n\<lparr>identityRequestQueue := iq\<rparr>) = rm_ok n"
  "rm_ok (n\<lparr>identityRequests := ri\<rparr>) = rm_ok n" "rm_ok (n\<lparr>outputQueue := q\<rparr>) = rm_ok n"
  "rm_ok (n\<lparr>schemaRegistry := sr\<rparr>) = rm_ok n"
  by (simp_all add: rm_ok_def node_ok_def)

section \<open>What the shared parts of a node change\<close>

lemma rm_base_change_keeps:
  assumes "base_change n (n' :: ('k, 'cb) rm)"
  shows "authzQueue n' = authzQueue n" "activeEncodings n' = activeEncodings n"
    "resourceAdvertisements n' = resourceAdvertisements n"
  using assms by (auto simp: base_change_def)

lemma rm_ok_base_change: "base_change n n' \<Longrightarrow> node_ok n' \<Longrightarrow> rm_ok n \<Longrightarrow> rm_ok n'"
  by (simp add: rm_ok_def base_change_keeps rm_base_change_keeps)

lemma rm_ok_push: "rm_ok n \<Longrightarrow> rm_ok (snd (pushOutputMessage m n))"
  by (rule rm_ok_base_change [OF base_change_push]) (simp_all add: rm_ok_def node_ok_push)

lemma rm_ok_event:
  assumes "rm_ok n" "rm_event rlib now ev n = Inr n'"
  shows "rm_ok n'"
proof -
  obtain rec snap b where p: "publishLogRecord rec snap now n = Inr (b, n')"
    using assms(2) by (auto simp: rm_event_def res_bind_eq_Inr)
  have "node_ok n'" using node_ok_publish [OF _ p] assms(1) by (simp add: rm_ok_def)
  then show ?thesis using rm_ok_base_change [OF base_change_publish [OF p]] assms(1) by simp
qed

lemma rm_ok_aes: "rm_ok n \<Longrightarrow> aes_step x n = Inr n' \<Longrightarrow> rm_ok n'"
  using rm_ok_base_change [OF base_change_aes [OF only_aes_step]] node_ok_aes_step by (metis rm_ok_def)

lemma rm_ok_observe:
  assumes "rm_ok n" "node_observeMessage m n = Inr (calls, n')"
  shows "rm_ok n' \<and> activeEncodings n' = activeEncodings n"
proof -
  obtain c where c: "n' = n\<lparr>identityCache := c\<rparr>"
    using assms(2) by (auto simp: node_observeMessage_def res_bind_eq_Inr)
  moreover have "node_ok n'"
    using node_ok_observe [of n m] assms by (auto simp: rm_ok_def)
  ultimately show ?thesis
    using assms(1) by (simp add: rm_ok_def)
qed

lemma rm_ok_input:
  assumes "rm_ok n" "authentic (node_openssl n) (own_env n) who m" "enqueueInput now m n = Inr (ok, calls, n')"
  shows "rm_ok n'"
proof -
  have swept: "rm_ok (processExpiredAesKeys now n)"
    using rm_ok_base_change [OF base_change_aes [OF only_aes_sweep]] node_ok_sweep assms(1) by (metis rm_ok_def)
  obtain n1 full q where n1: "node_observeMessage m (processExpiredAesKeys now n) = Inr (calls, n1)"
    "mq_push m (inputQueue n1) = (ok, full, q)" "n' = n1\<lparr>inputQueue := q\<rparr>"
    using assms(3)
    by (cases "node_observeMessage m (processExpiredAesKeys now n)") (auto simp: enqueueInput_def split: prod.splits)
  have lib: "node_openssl n1 = node_openssl n" "own_env n1 = own_env n"
    using n1(1) base_change_keeps [OF base_change_aes [OF only_aes_sweep]]
    by (auto simp: node_observeMessage_def res_bind_eq_Inr)
  show ?thesis
    using rm_ok_observe [OF swept n1(1)] all_authentic_push [OF _ _ n1(2)] assms(2) lib n1(3)
    by (auto simp: rm_ok_def)
qed

section \<open>Each operation keeps the invariant\<close>

lemma connections_ok_update:
  assumes "connections_ok lib env as"
    and "\<And>a. a \<in> set as \<Longrightarrow> encoding_handle a = h \<Longrightarrow> encoding_handle (f a) = h \<and>
      peerNodeId (encoding (f a)) \<noteq> None \<and> all_authentic lib env (outgoingMessages (encoding (f a)))"
  shows "connections_ok lib env (map (\<lambda>a. if encoding_handle a = h then f a else a) as)"
proof -
  let ?bs = "map (\<lambda>a. if encoding_handle a = h then f a else a) as"
  have "map encoding_handle ?bs = map encoding_handle as"
    using assms(2) by auto
  then have "distinct (map encoding_handle ?bs)"
    using assms(1) by (simp only: connections_ok_def)
  moreover have "peerNodeId (encoding b) \<noteq> None \<and> all_authentic lib env (outgoingMessages (encoding b))"
    if "b \<in> set ?bs" for b
    using that assms by (auto simp: connections_ok_def)
  ultimately show ?thesis
    unfolding connections_ok_def by blast
qed

lemma rm_ok_update:
  assumes "rm_ok n"
    and "\<And>a. a \<in> set (activeEncodings n) \<Longrightarrow> encoding_handle a = h \<Longrightarrow> encoding_handle (f a) = h \<and>
      peerNodeId (encoding (f a)) \<noteq> None \<and>
      all_authentic (node_openssl n) (own_env n) (outgoingMessages (encoding (f a)))"
  shows "rm_ok (update_encoding h f n)"
  using assms connections_ok_update [of "node_openssl n" "own_env n" "activeEncodings n" h f]
  by (simp add: rm_ok_def update_encoding_def node_ok_def)

lemma rm_ok_push_signing: "rm_ok n \<Longrightarrow> rm_ok (snd (push_signing m a n))"
  by (auto simp: push_signing_def split: prod.split intro!: rm_ok_update) (auto simp: rm_ok_def connections_ok_def)

lemma rm_ok_push_outgoing:
  assumes "rm_ok n" "a \<in> set (activeEncodings n)" "authentic (node_openssl n) (own_env n) who m"
  shows "rm_ok (snd (push_outgoing m a n))"
proof -
  obtain ok full q where q: "mq_push m (outgoingMessages (encoding a)) = (ok, full, q)"
    by (metis prod_cases3)
  have "all_authentic (node_openssl n) (own_env n) (outgoingMessages (encoding a))"
    using assms(1,2) by (auto simp: rm_ok_def connections_ok_def)
  then have "all_authentic (node_openssl n) (own_env n) q"
    using all_authentic_push assms(3) q by blast
  then show ?thesis
    using assms(1) q
    by (auto simp: push_outgoing_def intro!: rm_ok_update) (auto simp: rm_ok_def connections_ok_def)
qed

lemma encoding_for_active:
  "encoding_for d as = Some a \<Longrightarrow> a \<in> set as \<and> (\<exists>p. peerNodeId (encoding a) = Some p \<and> toProtoNodeId p = d)"
  by (auto simp: encoding_for_def find_Some_iff split: option.splits)

lemma rm_ok_sendLocal: "rm_ok n \<Longrightarrow> rm_ok (snd (sendLocalMessage m n))"
  by (auto simp: sendLocalMessage_def rm_ok_push_signing split: option.split)

lemma rm_ok_sendTo: "rm_ok n \<Longrightarrow> rm_ok (snd (sendToConnection i m n))"
  by (simp add: sendToConnection_def rm_ok_push_signing)

lemma directory_ok_erase: "directory_ok lib env ads \<Longrightarrow> directory_ok lib env (smap_erase k ads)"
  by (auto simp: directory_ok_def smap_erase_def smap_ok_erase [unfolded smap_erase_def])

lemma directory_ok_set:
  "directory_ok lib env ads \<Longrightarrow> authentic lib env who m \<Longrightarrow> core m = resource_advertisement ad \<Longrightarrow>
   directory_ok lib env (smap_set who ad ads)"
  using set_smap_set_subset [of who ad ads] unfolding directory_ok_def by (fastforce intro: smap_ok_set)

lemma rm_ok_erase: "rm_ok n \<Longrightarrow> rm_ok (eraseResourceAdvertisement k n)"
  by (simp add: eraseResourceAdvertisement_def rm_ok_def node_ok_def directory_ok_erase)

lemma rm_ok_erase_destination: "rm_ok n \<Longrightarrow> rm_ok (erase_destination d n)"
  by (simp add: erase_destination_def rm_ok_erase split: option.split)

lemma rm_ok_route:
  assumes "rm_ok n" "authentic (node_openssl n) (own_env n) who m"
  shows "rm_ok (snd (routeAndSend m n))"
proof -
  have "rm_ok n'" if "encoding_for d (activeEncodings n) = Some a" "push_outgoing m a n = (ok, n')" for d a ok n'
    using rm_ok_push_outgoing [OF assms(1) _ assms(2)] encoding_for_active [OF that(1)] that(2) by (metis snd_conv)
  then show ?thesis
    using assms(1) by (auto simp: routeAndSend_def rm_ok_erase_destination split: option.split prod.split)
qed

lemma rm_ok_specific:
  assumes "rm_ok n" "authentic (node_openssl n) (own_env n) who m" "rm_handleNodeSpecificMessage m n = Inr (h, n')"
  shows "rm_ok n'"
proof -
  have ad: "rm_ok (snd (handle_advertisement m ad n))" if "core m = resource_advertisement ad" for ad
    using assms(1) authentic_sender [OF assms(2)] directory_ok_set [OF _ assms(2) that] rm_ok_erase [OF assms(1)]
    by (auto simp: handle_advertisement_def rm_ok_def node_ok_def)
  have query: "rm_ok n'" if "handle_resource_query m q n = Inr (h, n')" for q
    using that rm_ok_push [OF assms(1)] authentic_sender [OF assms(2)]
    by (auto simp: handle_resource_query_def split: sum.splits if_splits) (metis snd_conv)+
  have schema: "rm_ok (snd (handle_schema_request m request n))" for request
    using rm_ok_push [OF assms(1)] authentic_sender [OF assms(2)] by (simp add: handle_schema_request_def)
  show ?thesis
    using assms(1,3) query
    by (cases "core m") (auto simp: rm_handleNodeSpecificMessage_def, metis ad snd_conv, metis schema snd_conv)
qed

lemma rm_ok_refusals:
  assumes "rm_ok n"
  shows "rm_ok (sendSignatureFailure r s m reason n)" "rm_ok (sendEndorsementNeeded r s m n)"
  using assms by (simp_all add: sendSignatureFailure_def sendEndorsementNeeded_def Let_def rm_ok_sendLocal split: option.split)

lemma rm_ok_verified:
  assumes "rm_ok n" "authentic (node_openssl n) (own_env n) who m"
  shows "rm_ok (handleVerifiedMessage m n)"
  using assms by (auto simp: handleVerifiedMessage_def rm_ok_def node_ok_def split: option.split prod.split
      intro: all_authentic_push)

lemma rm_ok_failure: "rm_ok n \<Longrightarrow> rm_ok (handleSignatureFailure r s m f n)"
  by (auto simp: handleSignatureFailure_def Let_def rm_ok_refusals
      split: FailureKind.split option.split prod.split bool.split)

lemma rm_ok_authorized:
  assumes "rm_ok n" "authentic (node_openssl n) (own_env n) who m" "handleAuthorizedMessage now m n = Inr (calls, n')"
  shows "rm_ok n'"
proof (cases "isForThisNode m n")
  case True
  then show ?thesis
    using assms rm_ok_input [OF assms(1,2)] by (auto simp: handleAuthorizedMessage_def res_bind_eq_Inr)
next
  case False
  then obtain n1 where n1: "node_observeMessage m n = Inr (calls, n1)" "n' = snd (routeAndSend m n1)"
    using assms(3) by (auto simp: handleAuthorizedMessage_def res_bind_eq_Inr)
  have lib: "node_openssl n1 = node_openssl n" "own_env n1 = own_env n"
    using n1(1) by (auto simp: node_observeMessage_def res_bind_eq_Inr)
  have "rm_ok n1" using rm_ok_observe [OF assms(1) n1(1)] by simp
  then show ?thesis
    unfolding n1(2) by (rule rm_ok_route) (use assms(2) lib in simp)
qed

text \<open>With callbacks that do not throw, each handler makes one call.\<close>

lemma check_single:
  assumes "CheckSignature_handle lib env g (\<lambda>c. None) m = (cs, None)"
  shows "cs = [Check_success m] \<and> verified lib env g m \<or> (\<exists>m' f. cs = [Check_failure m' f])"
  using assms
  by (auto simp: CheckSignature_handle_def verified_def call_def throw_def catch_calls_def check_failure_def
      split: option.splits sum.splits if_splits prod.splits bool.splits)

lemma authz_single:
  assumes "MessageQueueAuthZ_handle g tree snap (\<lambda>c. None) m = (cs, None)"
  shows "cs = [AuthZ_success m] \<or> (\<exists>m'. cs = [AuthZ_failure m'])"
  using assms
  by (auto simp: MessageQueueAuthZ_handle_def call_def throw_def catch_calls_def
      split: option.splits sum.splits if_splits AST.splits)

lemma sign_single:
  assumes "MessageQueueSign_handle lib env (MessageQueueSign_keyPair kp) (\<lambda>c. None) rid m = (cs, None)"
  shows "(\<exists>block. cs = [Sign_success (m\<lparr>signature := Some block\<rparr>)] \<and> signMessage lib env kp m = Inr block) \<or>
    (\<exists>m' reason. cs = [Sign_failure m' reason])"
  using assms
  by (auto simp: MessageQueueSign_handle_def MessageQueueSign_keyPair_def call_def throw_def catch_calls_def Let_def
      split: option.splits sum.splits if_splits prod.splits)

lemma rm_ok_check:
  assumes "rm_ok n" "check_turn r s m n = Inr n'"
  shows "rm_ok n'"
proof -
  obtain cs where cs: "CheckSignature_handle (node_openssl n) (own_env n) (verificationKeyForNodeId n) (\<lambda>c. None) m = (cs, None)"
    "n' = fold (check_call_of r s) cs n"
    using assms(2) by (auto simp: check_turn_def split: prod.splits option.splits)
  have node: "node_ok n" using assms(1) by (simp add: rm_ok_def)
  from check_single [OF cs(1)] show ?thesis
    using verified_authentic [OF node, of m] rm_ok_verified [OF assms(1)] rm_ok_failure [OF assms(1)] cs(2)
    by (auto simp: check_call_of_def)
qed

lemma rm_ok_authz:
  assumes "rm_ok n" "authentic (node_openssl n) (own_env n) who m" "authz_turn rlib r s now m n = Inr n'"
  shows "rm_ok n'"
proof -
  obtain cs where cs: "MessageQueueAuthZ_handle getAuthorizationEndorsements authorizationTree
      (Some (snapshot_pool rlib (snapshot (schemaRegistry n)))) (\<lambda>c. None) m = (cs, None)"
    "fold (authz_call_of r s now) cs (Inr n) = Inr n'"
    using assms(3) by (auto simp: authz_turn_def split: prod.splits option.splits)
  from authz_single [OF cs(1)] show ?thesis
    using rm_ok_authorized [OF assms(1,2)] rm_ok_refusals(2) [OF assms(1)] cs(2)
    by (auto simp: authz_call_of_def handleAuthorizationFailure_def res_bind_eq_Inr)
qed

lemma rm_ok_sign:
  assumes "rm_ok n" "a \<in> set (activeEncodings n)" "sign_turn rid a m n = Inr n'"
  shows "rm_ok n'"
proof -
  obtain cs where cs: "MessageQueueSign_handle (node_openssl n) (own_env n) (MessageQueueSign_keyPair (own_keyPair n)) (\<lambda>c. None) rid m = (cs, None)"
    "n' = fold (sign_call_of a) cs n"
    using assms(3) by (auto simp: sign_turn_def split: prod.splits option.splits)
  have own: "authentic (node_openssl n) (own_env n) (keyNodeID n) (m\<lparr>signature := Some block\<rparr>)"
    if "signMessage (node_openssl n) (own_env n) (own_keyPair n) m = Inr block" for block
    using assms(1) sign_authentic [OF _ _ _ that] by (simp add: rm_ok_def node_ok_def)
  from sign_single [OF cs(1)] show ?thesis
    using rm_ok_push_outgoing [OF assms(1,2) own] assms(1) cs(2) by (auto simp: sign_call_of_def)
qed

lemma rm_ok_resolver_calls: "rm_ok n \<Longrightarrow> rm_ok (fold (resolver_call_of r s) cs n)"
proof (induction cs arbitrary: n)
  case (Cons c cs)
  have "rm_ok (resolver_call_of r s c n)"
    using Cons.prems by (auto simp: resolver_call_of_def rm_ok_refusals split: ri_call.split prod.split)
  then show ?case using Cons.IH by simp
qed simp

lemma rm_ok_identity:
  assumes "rm_ok n"
  shows "rm_ok (identity_request_turn r s x n)" "rm_ok (resolver_turn_end r s signerId e n)"
proof -
  have "rm_ok (request_identity r s k n1)" if "rm_ok n1" for k and n1 :: "('a, 'b) rm"
    using that by (auto simp: request_identity_def rm_ok_push split: prod.split option.split)
  then show "rm_ok (identity_request_turn r s x n)"
    using assms by (auto simp: identity_request_turn_def rm_ok_refusals split: sum.split bool.split prod.split)
  show "rm_ok (resolver_turn_end r s signerId e n)"
    using assms by (auto simp: resolver_turn_end_def rm_ok_resolver_calls split: prod.split)
qed

lemma erase_encoding_subset: "set (erase_encoding h as) \<subseteq> set as"
  by (induction as) auto

lemma connections_ok_erase: "connections_ok lib env as \<Longrightarrow> connections_ok lib env (erase_encoding h as)"
proof -
  assume ok: "connections_ok lib env as"
  have "distinct (map encoding_handle as) \<Longrightarrow> distinct (map encoding_handle (erase_encoding h as))"
    by (induction as) (use erase_encoding_subset in \<open>fastforce+\<close>)
  then show ?thesis
    using ok erase_encoding_subset [of h as] by (auto simp: connections_ok_def)
qed

lemma rm_ok_disconnect: "rm_ok n \<Longrightarrow> handleEncodingDisconnect rlib now h peer n = Inr n' \<Longrightarrow> rm_ok n'"
  unfolding handleEncodingDisconnect_def
  by (erule rm_ok_event [rotated]) (simp add: rm_ok_def node_ok_def connections_ok_erase)

lemma rm_ok_adopt:
  assumes "rm_ok n" "h \<notin> encoding_handle ` set (activeEncodings n)" "messages (outgoingMessages e) = []"
  shows "rm_ok (fst (handleAuthNSuccess h e n))"
proof (cases "peerNodeId e")
  case None
  then show ?thesis using assms(1) by (simp add: handleAuthNSuccess_def)
next
  case (Some peer)
  let ?new = "\<lparr>encoding_handle = h, encoding = e, signingQueue = started_queue 1\<rparr>"
  let ?n = "n\<lparr>activeEncodings := activeEncodings n @ [?new]\<rparr>"
  have "rm_ok ?n"
    using assms Some by (auto simp: rm_ok_def node_ok_def connections_ok_def all_authentic_def)
  moreover have "rm_ok (?n\<lparr>activeEncodings := erase_encoding h (activeEncodings ?n)\<rparr>)"
    using calculation connections_ok_erase [of _ _ "activeEncodings ?n" h] by (simp add: rm_ok_def node_ok_def)
  moreover have "messages (outgoingMessages (snd (Encoding_start e))) = []" "peerNodeId (snd (Encoding_start e)) \<noteq> None"
    using assms(3) Some
    by (auto simp: Encoding_start_def mq_start_def Let_def startWorkersLocked_def split: if_splits)
  then have "rm_ok (update_encoding h (\<lambda>a. a\<lparr>encoding := snd (Encoding_start e)\<rparr>) ?n)"
    using calculation(1) by (intro rm_ok_update) (auto simp: all_authentic_def)
  ultimately show ?thesis
    using Some by (auto simp: handleAuthNSuccess_def Let_def split: prod.split bool.split)
qed

lemma rm_ok_cached: "rm_ok n \<Longrightarrow> cacheAuthenticatedIdentity rlib now peer i n = Inr (calls, n') \<Longrightarrow> rm_ok n'"
  by (auto simp: cacheAuthenticatedIdentity_def res_bind_eq_Inr dest: rm_ok_observe rm_ok_event)

lemma rm_ok_handle:
  assumes "rm_ok n" "authentic (node_openssl n) (own_env n) who m"
    and "NodeInputQueue_handle rm_handleNodeSpecificMessage inp m n = Inr n'"
  shows "rm_ok n'"
proof -
  have keeps: "node_ok n1" if "rm_handleNodeSpecificMessage m n = Inr (h, n1)" for h n1
    using rm_ok_specific [OF assms(1,2) that] by (simp add: rm_ok_def)
  have "keeps_node (\<lambda>m1 n1. if m1 = m \<and> n1 = n then rm_handleNodeSpecificMessage m n else Inr (False, n1))"
    using keeps by (auto simp: keeps_node_def split: if_splits)
  moreover have "NodeInputQueue_handle (\<lambda>m1 n1. if m1 = m \<and> n1 = n then rm_handleNodeSpecificMessage m n else Inr (False, n1))
      inp m n = Inr n'"
    using assms(3) by (simp add: NodeInputQueue_handle_def)
  ultimately have "node_ok n'"
    using node_ok_handle assms(1) by (auto simp: rm_ok_def)
  then show ?thesis
    using base_change_handle [OF assms(3)] rm_ok_base_change rm_ok_specific [OF assms(1,2)] assms(1) by blast
qed

lemma rm_ok_stop: "rm_ok n \<Longrightarrow> rm_ok (ResourceManager_destroy n)"
  by (simp add: rm_ok_def ResourceManager_destroy_def stopNodeQueues_def node_ok_def all_authentic_stop
      connections_ok_def removeIdentityObservedCallback_def cache_ok_def order_ok_def)

lemma rm_ok_popped:
  assumes "rm_ok n"
  shows "mq_tryPop (inputQueue n) = (Some m, q) \<Longrightarrow>
      rm_ok (n\<lparr>inputQueue := q\<rparr>) \<and> (\<exists>who. authentic (node_openssl n) (own_env n) who m)"
    and "authzQueue n = Some p \<Longrightarrow> mq_tryPop p = (Some m, q) \<Longrightarrow>
      rm_ok (n\<lparr>authzQueue := Some q\<rparr>) \<and> (\<exists>who. authentic (node_openssl n) (own_env n) who m)"
  using assms all_authentic_pop [of "node_openssl n" "own_env n" _ m q] by (auto simp: rm_ok_def node_ok_def)

lemma rm_step_ok: "rm_step rlib n n' \<Longrightarrow> rm_ok n \<Longrightarrow> rm_ok n'"
proof (induction rule: rm_step.induct)
  case (transmit a n h m q)
  have "all_authentic (node_openssl n) (own_env n) q"
    using transmit all_authentic_pop [OF _ transmit(3)] by (auto simp: rm_ok_def connections_ok_def)
  with transmit show ?case
    by (intro rm_ok_update) (auto simp: rm_ok_def connections_ok_def)
next
  case (authorise n p m q r s now n')
  then show ?case
    using rm_ok_popped(2) rm_ok_authz by fastforce
next
  case (input n m q inp n')
  then show ?case
    using rm_ok_popped(1) rm_ok_handle by fastforce
next
  case (sign a n m q randomId n')
  let ?n = "update_encoding (encoding_handle a) (\<lambda>a. a\<lparr>signingQueue := q\<rparr>) n"
  have "rm_ok ?n"
    using sign.prems by (intro rm_ok_update) (auto simp: rm_ok_def connections_ok_def)
  moreover have "a\<lparr>signingQueue := q\<rparr> \<in> set (activeEncodings ?n)"
    using sign(1) by (force simp: update_encoding_def)
  ultimately show ?case
    using rm_ok_sign sign(3) by blast
next
  case (check n m q r s n')
  then show ?case using rm_ok_check by (metis rm_ok_other_queues(1))
next
  case (rebuild n)
  then show ?case by (simp add: rebuildAuthorizationQueue_def rm_ok_def node_ok_def)
qed (auto simp: rm_ok_sendTo handleOutputMessage_def rm_ok_sendLocal rm_ok_identity rm_ok_stop
    intro: rm_ok_adopt rm_ok_disconnect rm_ok_event rm_ok_aes rm_ok_cached)

lemma cache_ok_callbacks [simp]:
  "cache_ok lib (c\<lparr>nextIdentityObservedCallbackToken := t, identityObservedCallbacks := cbs\<rparr>) = cache_ok lib c"
  by (simp add: cache_ok_def order_ok_def)

lemma rm_ok_new:
  assumes "openssl_ok lib" "signatures_fit lib" "ResourceManager_new lib derive env r s cb kp = Inr n"
  shows "rm_ok n \<and> node_openssl n = lib"
proof -
  obtain b :: "('a, 'b) RSPNode" where b: "RSPNode_new lib derive env r s kp = Inr b"
    using assms(3) by (auto simp: ResourceManager_new_def res_bind_eq_Inr)
  have "node_ok b" by (rule node_ok_new [OF assms(1) b])
  moreover have "node_openssl b = lib" "messages (inputQueue b) = []"
    using b by (auto simp: RSPNode_new_def node_base_new_def res_bind_eq_Inr node_base.defs RSPNode.defs
        mq_start_def setWorkerCount_def MessageQueue_new_def rebuildWorkers_def startWorkersLocked_def)
  ultimately show ?thesis
    using assms(2,3) b
    by (auto simp: ResourceManager_new_def res_bind_eq_Inr RSPNode.defs ResourceManager.defs rm_ok_def node_ok_def
        all_authentic_def [of _ _ "inputQueue _"] connections_ok_def directory_ok_def addIdentityObservedCallback_def
        Let_def)
qed

lemma rm_reachable_ok:
  assumes "rm_reachable rlib lib env n" "openssl_ok lib" "signatures_fit lib"
  shows "rm_ok n"
  using assms(1)
proof induction
  case (initial derive r s cb kp n)
  then show ?case using rm_ok_new [OF assms(2,3) initial] by simp
next
  case (step n n')
  then show ?case using rm_step_ok by blast
qed

section \<open>Properties\<close>


text \<open>The services that match a query, in the order of the directory.\<close>

definition matching_services :: "QueryExpression \<Rightarrow> (nodeid, ResourceAdvertisement) std_map \<Rightarrow> DiscoveredService list" where
  "matching_services e ads =
     concat (map (\<lambda>(who, ad). map (discovered who)
       (filter (\<lambda>s. matchesExpression e \<lparr>candidate_node = who, candidate_schema = s\<rparr>) (schemas ad))) ads)"

definition bounded :: "u32 \<Rightarrow> 'a list \<Rightarrow> 'a list" where
  "bounded k xs = (if k = 0 then xs else take (unat k) xs)"

text \<open>The state of the loops after \<^verbatim>\<open>found\<close>: with a limit, the counter is the number of services found.\<close>

definition counting :: "u32 \<Rightarrow> u32 \<times> DiscoveredService list \<Rightarrow> bool" where
  "counting k st \<longleftrightarrow> k = 0 \<or> (unat (fst st) = length (snd st) \<and> length (snd st) < unat k)"

lemma counting_next:
  assumes "counting k (c, found)" "k \<noteq> 0"
  shows "unat (c + 1) = Suc (length found)" "c + 1 \<ge> k \<longleftrightarrow> length found + 1 = unat k"
proof -
  have "Suc (unat c) \<le> unat k" "unat k < 2 ^ 32"
    using assms unsigned_less [of k, where 'a = nat] by (auto simp: counting_def)
  then show s: "unat (c + 1) = Suc (length found)"
    using assms by (simp add: counting_def unat_word_ariths(1))
  show "c + 1 \<ge> k \<longleftrightarrow> length found + 1 = unat k"
    using s assms by (auto simp: word_le_nat_alt counting_def)
qed

lemma query_schemas_exact:
  assumes "counting k st"
  shows "let xs = snd st @ map (discovered who)
           (filter (\<lambda>s. matchesExpression e \<lparr>candidate_node = who, candidate_schema = s\<rparr>) ss);
         st' = query_schemas e k who ss st
     in snd st' = bounded k xs \<and> (if k \<noteq> 0 \<and> length xs \<ge> unat k then fst st' = k else counting k st' \<and> snd st' = xs)"
  using assms
proof (induction ss arbitrary: st)
  case Nil
  then show ?case by (auto simp: bounded_def counting_def Let_def)
next
  case (Cons s ss)
  obtain c found where st: "st = (c, found)" by (cases st)
  show ?case
  proof (cases "matchesExpression e \<lparr>candidate_node = who, candidate_schema = s\<rparr>")
    case False
    then show ?thesis using Cons.IH [OF Cons.prems] st by simp
  next
    case True
    show ?thesis
    proof (cases "k \<noteq> 0 \<and> length found + 1 = unat k")
      case True': True
      then have "c + 1 = k"
        using counting_next [of k c found] Cons.prems st by (metis Suc_eq_plus1 word_unat_eq_iff)
      moreover have "unat (c + 1) - length found = 1"
        using calculation True' by (metis diff_add_inverse)
      ultimately show ?thesis
        using True True' st by (auto simp: Let_def bounded_def word_gt_0)
    next
      case False
      then have "counting k (c + 1, found @ [discovered who s])"
        using counting_next [of k c found] Cons.prems st by (auto simp: counting_def)
      moreover have "query_schemas e k who (s # ss) st = query_schemas e k who ss (c + 1, found @ [discovered who s])"
        using True False st counting_next [of k c found] Cons.prems by (auto simp: Let_def word_gt_0)
      ultimately show ?thesis
        using Cons.IH [of "(c + 1, found @ [discovered who s])"] True st by simp
    qed
  qed
qed

lemma query_nodes_exact:
  "counting k st \<Longrightarrow> snd (query_nodes e k ads st) = bounded k (snd st @ matching_services e ads)"
proof (induction ads arbitrary: st)
  case Nil
  then show ?case by (auto simp: bounded_def counting_def matching_services_def)
next
  case (Cons ad ads)
  let ?xs = "snd st @ map (discovered (fst ad))
    (filter (\<lambda>s. matchesExpression e \<lparr>candidate_node = fst ad, candidate_schema = s\<rparr>) (schemas (snd ad)))"
  let ?st = "query_schemas e k (fst ad) (schemas (snd ad)) st"
  have split: "snd st @ matching_services e (ad # ads) = ?xs @ matching_services e ads"
    by (simp add: matching_services_def case_prod_beta)
  have q: "snd ?st = bounded k ?xs" "if k \<noteq> 0 \<and> length ?xs \<ge> unat k then fst ?st = k else counting k ?st \<and> snd ?st = ?xs"
    using query_schemas_exact [OF Cons.prems, of "fst ad" e "schemas (snd ad)"] unfolding Let_def by blast+
  show ?case
  proof (cases "k \<noteq> 0 \<and> length ?xs \<ge> unat k")
    case True
    then have "query_nodes e k (ad # ads) st = ?st"
      using q(2) by (simp add: Let_def word_gt_0)
    then show ?thesis
      unfolding split using q(1) True by (simp add: bounded_def)
  next
    case False
    then have c: "counting k ?st" "snd ?st = ?xs" using q(2) by (simp_all only: if_False)
    then have "\<not> (k > 0 \<and> fst ?st \<ge> k)"
      by (auto simp: counting_def word_le_nat_alt word_gt_0)
    then have "query_nodes e k (ad # ads) st = query_nodes e k ads ?st"
      by (auto simp: Let_def)
    then show ?thesis
      unfolding split using Cons.IH [OF c(1)] c(2) by simp
  qed
qed

text \<open>
  C19. A resource query is answered with exactly the advertised services that match it, in the order of
  the directory and no more than the limit of the query where it has one. The answer to a query without a
  match has no content; a query that does not parse is answered with an error that says why.
\<close>

theorem resource_query_exact:
  assumes "core m = resource_query q" "senderNodeIdFromMessage m = Some requester" "queueLimit (outputQueue n) = 0"
  shows "\<exists>reply n'. rm_handleNodeSpecificMessage m n = Inr (True, n') \<and>
    n' = n\<lparr>outputQueue := outputQueue n\<lparr>messages := messages (outputQueue n) @ [reply]\<rparr>\<rparr> \<and>
    destination reply = Some (toProtoNodeId requester) \<and>
    (case parseQueryExpression (query q) of
       Inr e \<Rightarrow>
         (let found = bounded (max_records q) (matching_services e (resourceAdvertisements n))
          in core reply = (if found = [] then core_not_set else resource_query_reply \<lparr>services = found\<rparr>))
     | Inl x \<Rightarrow> core reply = error_msg \<lparr>error_code = UNIMPLEMENTED, error_message = ''invalid resource query: '' @ what x\<rparr>)"
proof -
  have start: "counting k (0, [])" for k :: u32
    by (simp add: counting_def unat_gt_0)
  have "query_reply e k ads =
      (let found = bounded k (matching_services e ads)
       in if found = [] then core_not_set else resource_query_reply \<lparr>services = found\<rparr>)" for e k ads
    using query_nodes_exact [OF start, of e k ads] by (simp add: query_reply_def)
  then show ?thesis
    using assms parseQueryExpression_total [of "query q"]
    by (auto simp: rm_handleNodeSpecificMessage_def handle_resource_query_def push_unbounded reply_to_def split: sum.split)
qed

section \<open>A message on its way through\<close>

lemma check_turn_verified:
  assumes "verified (node_openssl n) (own_env n) (verificationKeyForNodeId n) m" "authzQueue n = Some q"
    and "messages q = []" "queueLimit q = 0"
  shows "check_turn r s m n = Inr (n\<lparr>authzQueue := Some (q\<lparr>messages := [m]\<rparr>)\<rparr>)"
proof -
  have "CheckSignature_handle (node_openssl n) (own_env n) (verificationKeyForNodeId n) (\<lambda>c. None) m = ([Check_success m], None)"
    using assms(1) by (auto simp: verified_def CheckSignature_handle_def call_def catch_calls_def)
  then show ?thesis
    using assms(2-4) by (simp add: check_turn_def check_call_of_def handleVerifiedMessage_def mq_push_def Let_def)
qed

lemma authorised_by_default:
  assumes "senderNodeIdFromMessage m = Some who"
  shows "MessageQueueAuthZ_handle getAuthorizationEndorsements authorizationTree snap (\<lambda>c. None) m = ([AuthZ_success m], None)"
  using assms
  by (simp add: MessageQueueAuthZ_handle_def getAuthorizationEndorsements_def authorizationTree_def reduceRequirementTree_def
      reduceRequirementTreeImpl.simps reduce_shortcuts_def call_def catch_calls_def)

text \<open>A connection after a message has been queued for transmission on it.\<close>

definition with_outgoing :: "RSPMessage \<Rightarrow> 'k ActiveEncodingState \<Rightarrow> 'k ActiveEncodingState" where
  "with_outgoing m a =
     a\<lparr>encoding := (encoding a)\<lparr>outgoingMessages := (outgoingMessages (encoding a))
         \<lparr>messages := messages (outgoingMessages (encoding a)) @ [m]\<rparr>\<rparr>\<rparr>"

lemma push_outgoing_unbounded:
  assumes "distinct (map encoding_handle (activeEncodings n))" "a \<in> set (activeEncodings n)"
    and "queueLimit (outgoingMessages (encoding a)) = 0"
  shows "push_outgoing m a n = (True, n\<lparr>activeEncodings := map (\<lambda>b. if encoding_handle b = encoding_handle a then with_outgoing m b else b)
      (activeEncodings n)\<rparr>)"
proof -
  have "b = a" if "b \<in> set (activeEncodings n)" "encoding_handle b = encoding_handle a" for b
    using assms(1,2) that by (auto simp: distinct_map inj_on_def)
  then have "map (\<lambda>b. if encoding_handle b = encoding_handle a then b\<lparr>encoding := (encoding b)\<lparr>outgoingMessages := (outgoingMessages (encoding a))
          \<lparr>messages := messages (outgoingMessages (encoding a)) @ [m]\<rparr>\<rparr>\<rparr> else b) (activeEncodings n) =
      map (\<lambda>b. if encoding_handle b = encoding_handle a then with_outgoing m b else b) (activeEncodings n)"
    by (auto simp: with_outgoing_def)
  then show ?thesis
    using assms(3) by (simp add: push_outgoing_def update_encoding_def mq_push_def)
qed

lemma authorized_local:
  assumes "rm_ok n" "isForThisNode m n" "queueLimit (inputQueue n) = 0"
  shows "\<exists>calls n'. handleAuthorizedMessage now m n = Inr (calls, n') \<and>
    messages (inputQueue n') = messages (inputQueue n) @ [m] \<and> activeEncodings n' = activeEncodings n"
proof -
  let ?n = "processExpiredAesKeys now n"
  have sweep: "base_change n ?n" by (rule base_change_aes) simp
  have swept: "rm_ok ?n" "inputQueue ?n = inputQueue n" "activeEncodings ?n = activeEncodings n"
    using rm_ok_base_change [OF sweep] node_ok_sweep assms(1) base_change_keeps(6) [OF sweep] rm_base_change_keeps(2) [OF sweep]
    by (auto simp: rm_ok_def)
  obtain calls n1 where n1: "node_observeMessage m ?n = Inr (calls, n1)" "inputQueue n1 = inputQueue n"
    using node_ok_observe [of ?n m] swept by (auto simp: rm_ok_def)
  have "activeEncodings n1 = activeEncodings n"
    using rm_ok_observe [OF swept(1) n1(1)] swept(3) by simp
  then show ?thesis
    using assms(2,3) n1 by (simp add: handleAuthorizedMessage_def enqueueInput_def mq_push_def Let_def)
qed

lemma authorized_relay:
  assumes "rm_ok n" "\<not> isForThisNode m n" "destination m = Some d" "d \<noteq> []"
    and "\<And>a. a \<in> set (activeEncodings n) \<Longrightarrow> queueLimit (outgoingMessages (encoding a)) = 0"
  shows "\<exists>calls n'. handleAuthorizedMessage now m n = Inr (calls, n') \<and> inputQueue n' = inputQueue n \<and>
    (case encoding_for d (activeEncodings n) of
       Some a \<Rightarrow> activeEncodings n' =
         map (\<lambda>b. if encoding_handle b = encoding_handle a then with_outgoing m b else b) (activeEncodings n)
     | None \<Rightarrow> activeEncodings n' = activeEncodings n \<and>
         (\<forall>who. fromProtoNodeId d = Some who \<longrightarrow> \<not> hasResourceAdvertisement who n'))"
proof -
  obtain calls n1 where n1: "node_observeMessage m n = Inr (calls, n1)" "inputQueue n1 = inputQueue n"
    using node_ok_observe [of n m] assms(1) by (auto simp: rm_ok_def)
  have a1: "rm_ok n1" "activeEncodings n1 = activeEncodings n" using rm_ok_observe [OF assms(1) n1(1)] by simp_all
  have run: "handleAuthorizedMessage now m n = Inr (calls, snd (routeAndSend m n1))"
    using assms(2) n1(1) by (simp add: handleAuthorizedMessage_def)
  show ?thesis
  proof (cases "encoding_for d (activeEncodings n)")
    case None
    then show ?thesis
      using run assms(3,4) a1(2) n1(2)
      by (auto simp: routeAndSend_def erase_destination_def eraseResourceAdvertisement_def hasResourceAdvertisement_def
          smap_find_erase split: option.splits)
  next
    case (Some a)
    have "a \<in> set (activeEncodings n)" using encoding_for_active [OF Some] by simp
    moreover have "distinct (map encoding_handle (activeEncodings n1))"
      using a1(1) by (simp add: rm_ok_def connections_ok_def)
    ultimately show ?thesis
      using run assms(3,4) Some a1(2) n1(2) push_outgoing_unbounded [of n1 a m] assms(5)
      by (simp add: routeAndSend_def)
  qed
qed


section \<open>A concrete resource manager\<close>

definition toy_library :: rm_library where
  "toy_library = \<lparr>PackFrom_event = (\<lambda>e. \<lparr>type_url = [], any_value = []\<rparr>),
     loggingSchemaSnapshot = \<lparr>snap_pool = (\<lambda>t. None), snap_parse = (\<lambda>t b. None)\<rparr>,
     snapshot_pool = (\<lambda>s. \<lparr>snap_pool = (\<lambda>t. None), snap_parse = (\<lambda>t b. None)\<rparr>)\<rparr>"

lemma toy_rm_new:
  obtains n :: "(nat, nat) rm" where "ResourceManager_new toy_openssl toy_derive empty_env 1 2 0 (Some 7) = Inr n"
    "own_env n = empty_env" "own_keyPair n = Some 7" "authzQueue n = Some (started_queue 1)"
    "signatureCheckQueue n = started_queue 1" "queueLimit (inputQueue n) = 0" "queueLimit (outputQueue n) = 0"
    "resourceAdvertisements n = []" "activeEncodings n = []"
  by (simp add: ResourceManager_new_def RSPNode_new_def node_base_new_def nodeID_def toy_openssl_def Let_def
      node_base.defs RSPNode.defs ResourceManager.defs KeyPair_duplicate_def KeyPair_new_def verifyP256_def
      addIdentityObservedCallback_def mq_start_def setWorkerCount_def MessageQueue_new_def rebuildWorkers_def startWorkersLocked_def)

definition toy_request :: "nodeid \<Rightarrow> RSPMessage" where
  "toy_request to = sample_message\<lparr>destination := Some (toProtoNodeId to)\<rparr>"

lemma toy_request_verified:
  assumes "rm_ok n" "node_openssl n = toy_openssl" "own_env n = empty_env" "own_keyPair n = Some 7"
  obtains block where "verified (node_openssl n) (own_env n) (verificationKeyForNodeId n) (toy_request to\<lparr>signature := Some block\<rparr>)"
proof -
  have "\<exists>s. hashRSPMessage empty_env (toy_request to) = Inr s"
    by (simp add: hashRSPMessage_def toy_request_def sample_message_def hash_core_23_def)
  then obtain block where b: "signMessage toy_openssl empty_env (Some 7) (toy_request to) = Inr block"
    by (auto simp: signMessage_def messageSignatureInput_def computeMessageHash_def signBlock_def
        KeyPair_sign_def hasPrivateKey_def nodeID_def algorithmForKey_def verifyP256_def toy_openssl_def Let_def)
  have own: "nodeID toy_openssl (Some 7) = Inr (keyNodeID n)"
    using assms by (simp add: rm_ok_def node_ok_def)
  have key: "verificationKeyForNodeId n (keyNodeID n) = Inr (Some (Some 7))"
    using assms(2,4)
    by (simp add: verificationKeyForNodeId_def KeyPair_duplicate_def KeyPair_new_def verifyP256_def toy_openssl_def)
  show thesis
    using that [of block] sign_verifies [OF toy_openssl_ok toy_fits own b] key assms(2,3) by (auto simp: verified_def)
qed

lemma started_queue_state [simp]: "messages (started_queue k) = []" "queueLimit (started_queue k) = 0"
  by (simp_all add: started_queue_def mq_start_def setWorkerCount_def MessageQueue_new_def rebuildWorkers_def
      startWorkersLocked_def Let_def)

definition toy_schema :: ServiceSchema where
  "toy_schema = \<lparr>proto_file_name = ''a.proto'', proto_file_descriptor_set = [], accepted_type_urls = [''u''],
     schema_hash = ''h'', schema_version = 2\<rparr>"

theorem resource_query_exact_witness:
  "\<exists>(n :: (nat, nat) rm) n' reply. rm_handleNodeSpecificMessage
       (RSPMessage_default\<lparr>source := Some (toProtoNodeId (GUID 3 4)), core := resource_query \<lparr>query = [], max_records = 1\<rparr>\<rparr>) n =
       Inr (True, n') \<and> messages (outputQueue n') = messages (outputQueue n) @ [reply] \<and>
     core reply = resource_query_reply \<lparr>services = [discovered (GUID 5 6) toy_schema]\<rparr>"
proof -
  obtain n0 :: "(nat, nat) rm" where n0: "queueLimit (outputQueue n0) = 0"
    by (rule toy_rm_new)
  let ?ad = "\<lparr>records = [], schemas = [toy_schema, toy_schema]\<rparr>"
  let ?n = "n0\<lparr>resourceAdvertisements := [(GUID 5 6, ?ad)]\<rparr>"
  let ?q = "\<lparr>query = [], max_records = 1\<rparr>"
  let ?m = "RSPMessage_default\<lparr>source := Some (toProtoNodeId (GUID 3 4)), core := resource_query ?q\<rparr>"
  have m: "core ?m = resource_query ?q" "senderNodeIdFromMessage ?m = Some (GUID 3 4)" "queueLimit (outputQueue ?n) = 0"
    using n0 by (simp_all add: senderNodeIdFromMessage_def RSPMessage_default_def)
  have "parseQueryExpression (query ?q) = Inr QE_Empty"
    "bounded (max_records ?q) (matching_services QE_Empty (resourceAdvertisements ?n)) = [discovered (GUID 5 6) toy_schema]"
    by (simp_all add: parseQueryExpression_def bounded_def matching_services_def)
  then show ?thesis
    using resource_query_exact [OF m] by force
qed



end
