(* ===== verification/Full_Client.thy ===== *)
theory Full_Client
  imports Node_Frame Ascii_Handshake
begin

text \<open>
  \<^verbatim>\<open>class RSPClient\<close> of \<^verbatim>\<open>src/client/cpp_full/rsp_client.cpp\<close>: the node that connects to resource managers, and
  the base class of every service. It holds its connections, each with an encoding and a signing queue,
  and the pings it waits for. Threads that wait (a ping, a reconnection) are split at the points where
  they wait. A transport is the function that connects it; random bits and the time are arguments.
\<close>

section \<open>State\<close>

record ReconnectContext =
  ctx_transportSpec :: string
  ctx_encodingType :: string
  onReconnected :: bool
  inProgress :: bool
  ctx_stopping :: bool

record 'k ClientConnectionState =
  cc_encoding :: "'k Encoding"
  disconnectCallback :: bool
  cc_signingQueue :: "RSPMessage MessageQueue"
  cc_reconnect :: ReconnectContext

record PendingPingState =
  pending_destination :: nodeid
  pending_sequence :: u32
  completed :: bool

record ('k, 'cb) RSPClient = "('k, 'cb) RSPNode" +
  connections :: "(guid, 'k ClientConnectionState) std_map"
  client_incomingMessages :: "RSPMessage MessageQueue"
  client_stopping :: bool
  pendingPings :: "(string, PendingPingState) std_map"
  nextPingSequence :: u32

definition client_fields :: "'z \<Rightarrow> ('k, 'z) RSPClient_ext" where
  "client_fields z = RSPClient_ext [] (started_queue 1) False [] 1 z"

definition RSPClient_new :: "'k openssl \<Rightarrow> ('k \<Rightarrow> 'k \<Rightarrow> bytes option) \<Rightarrow> hash_env \<Rightarrow> u64 \<Rightarrow> u64 \<Rightarrow> 'z \<Rightarrow> 'k KeyPair \<Rightarrow>
    ('k, 'cb, 'z) RSPClient_scheme result" where
  "RSPClient_new lib derive env r s z kp =
     res_bind (RSPNode_new lib derive env r s kp) (\<lambda>n. Inr (RSPNode.extend n (client_fields z)))"

text \<open>\<^verbatim>\<open>std::map::emplace\<close> keeps the value a key already has.\<close>

definition smap_emplace :: "'a::linorder \<Rightarrow> 'b \<Rightarrow> ('a, 'b) std_map \<Rightarrow> ('a, 'b) std_map" where
  "smap_emplace k v m = (case smap_find m k of None \<Rightarrow> smap_set k v m | Some _ \<Rightarrow> m)"

section \<open>Sending\<close>

definition prepareOutboundMessage :: "u64 \<Rightarrow> u64 \<Rightarrow> RSPMessage \<Rightarrow> RSPMessage" where
  "prepareOutboundMessage r s m = (if nonce m = None then m\<lparr>nonce := Some (randomMessageNonce r s)\<rparr> else m)"

text \<open>The loop of \<^verbatim>\<open>send\<close>: the first connection with an empty signing queue, or else the first shortest.\<close>

fun select_connection :: "(guid \<times> 'k ClientConnectionState) list \<Rightarrow> (guid \<times> 'k ClientConnectionState) option \<Rightarrow>
    (guid \<times> 'k ClientConnectionState) option" where
  "select_connection [] selected = selected"
| "select_connection (kc # cs) selected =
     (let queueSize = mq_size (cc_signingQueue (snd kc))
      in if queueSize = 0 then Some kc
         else select_connection cs
                (case selected of
                   None \<Rightarrow> Some kc
                 | Some kc' \<Rightarrow> if queueSize < mq_size (cc_signingQueue (snd kc')) then Some kc else Some kc'))"

definition push_connection :: "RSPMessage \<Rightarrow> guid \<times> 'k ClientConnectionState \<Rightarrow> ('k, 'cb, 'z) RSPClient_scheme \<Rightarrow>
    bool \<times> ('k, 'cb, 'z) RSPClient_scheme" where
  "push_connection m kc n =
     (case mq_push m (cc_signingQueue (snd kc)) of
        (ok, full, q) \<Rightarrow> (ok, n\<lparr>connections := smap_set (fst kc) ((snd kc)\<lparr>cc_signingQueue := q\<rparr>) (connections n)\<rparr>))"

definition client_send :: "u64 \<Rightarrow> u64 \<Rightarrow> RSPMessage \<Rightarrow> ('k, 'cb, 'z) RSPClient_scheme \<Rightarrow> bool \<times> ('k, 'cb, 'z) RSPClient_scheme" where
  "client_send r s m n =
     (case select_connection (connections n) None of
        None \<Rightarrow> (False, n)
      | Some kc \<Rightarrow> push_connection (prepareOutboundMessage r s m) kc n)"

definition connectionState :: "guid \<Rightarrow> ('k, 'cb, 'z) RSPClient_scheme \<Rightarrow> 'k ClientConnectionState option" where
  "connectionState connectionId n = smap_find (connections n) connectionId"

definition sendOnConnection :: "u64 \<Rightarrow> u64 \<Rightarrow> guid \<Rightarrow> RSPMessage \<Rightarrow> ('k, 'cb, 'z) RSPClient_scheme \<Rightarrow>
    bool \<times> ('k, 'cb, 'z) RSPClient_scheme" where
  "sendOnConnection r s connectionId m n =
     (case connectionState connectionId n of
        None \<Rightarrow> (False, n)
      | Some c \<Rightarrow> push_connection (prepareOutboundMessage r s m) (connectionId, c) n)"

definition client_handleOutputMessage :: "u64 \<Rightarrow> u64 \<Rightarrow> RSPMessage \<Rightarrow> ('k, 'cb, 'z) RSPClient_scheme \<Rightarrow>
    ('k, 'cb, 'z) RSPClient_scheme" where
  "client_handleOutputMessage r s m n = snd (client_send r s m n)"

text \<open>The worker of a signing queue; its success callback pushes to the outgoing queue of its encoding.\<close>

definition client_sign_call :: "sign_call \<Rightarrow> 'k ClientConnectionState \<Rightarrow> 'k ClientConnectionState" where
  "client_sign_call c st =
     (case c of
        Sign_success m \<Rightarrow>
          (case mq_push m (outgoingMessages (cc_encoding st)) of
             (ok, full, q) \<Rightarrow> st\<lparr>cc_encoding := (cc_encoding st)\<lparr>outgoingMessages := q\<rparr>\<rparr>)
      | Sign_failure m reason \<Rightarrow> st)"

definition client_sign_turn :: "nodeid \<Rightarrow> guid \<Rightarrow> 'k ClientConnectionState \<Rightarrow> RSPMessage \<Rightarrow> ('k, 'cb, 'z) RSPClient_scheme \<Rightarrow>
    ('k, 'cb, 'z) RSPClient_scheme result" where
  "client_sign_turn randomId connectionId st m n =
     (case MessageQueueSign_handle (node_openssl n) (own_env n) (MessageQueueSign_keyPair (own_keyPair n)) (\<lambda>c. None) randomId m of
        (cs, None) \<Rightarrow> Inr (n\<lparr>connections := smap_set connectionId (fold client_sign_call cs st) (connections n)\<rparr>)
      | (cs, Some e) \<Rightarrow> Inl e)"

section \<open>Receiving\<close>

definition client_isForThisNode :: "RSPMessage \<Rightarrow> ('k, 'cb, 'z) RSPClient_scheme \<Rightarrow> bool" where
  "client_isForThisNode m n =
     (case destination m of None \<Rightarrow> True | Some d \<Rightarrow> d = toProtoNodeId (keyNodeID n))"

definition dispatchIncomingMessage :: "datetime \<Rightarrow> RSPMessage \<Rightarrow> ('k, 'cb, 'z) RSPClient_scheme \<Rightarrow>
    ('k, 'cb, 'z) RSPClient_scheme result" where
  "dispatchIncomingMessage now m n =
     (if \<not> client_isForThisNode m n then Inr n
      else res_bind (enqueueInput now m n) (\<lambda>(ok, calls, n). Inr n))"

section \<open>Pings\<close>

text \<open>
  \<^verbatim>\<open>ping\<close> up to its wait: the nonce is the text of a fresh identifier. The first component is \<^verbatim>\<open>None\<close> when
  the request could not be sent and \<^verbatim>\<open>ping\<close> returned false.
\<close>

definition ping_message :: "nodeid \<Rightarrow> string \<Rightarrow> u32 \<Rightarrow> datetime \<Rightarrow> RSPMessage" where
  "ping_message nodeId ping_id sequence now =
     RSPMessage_default\<lparr>destination := Some (toProtoNodeId nodeId),
       core := ping_request \<lparr>ping_nonce = Some ping_id, ping_sequence = sequence, ping_time_sent = Some (toProtoDateTime now)\<rparr>\<rparr>"

definition ping_begin :: "u64 \<Rightarrow> u64 \<Rightarrow> guid \<Rightarrow> datetime \<Rightarrow> nodeid \<Rightarrow> ('k, 'cb, 'z) RSPClient_scheme \<Rightarrow>
    string option \<times> ('k, 'cb, 'z) RSPClient_scheme" where
  "ping_begin r s fresh now nodeId n =
     (let ping_id = GUID_toString fresh; sequence = nextPingSequence n;
          n = n\<lparr>nextPingSequence := sequence + 1,
                pendingPings := smap_emplace ping_id
                  \<lparr>pending_destination = nodeId, pending_sequence = sequence, completed = False\<rparr> (pendingPings n)\<rparr>
      in case client_send r s (ping_message nodeId ping_id sequence now) n of
           (True, n) \<Rightarrow> (Some ping_id, n)
         | (False, n) \<Rightarrow> (None, n\<lparr>pendingPings := smap_erase ping_id (pendingPings n)\<rparr>))"

text \<open>The condition of the wait, and what \<^verbatim>\<open>ping\<close> does when the wait ends, by it or by the timeout.\<close>

definition ping_completed :: "string \<Rightarrow> ('k, 'cb, 'z) RSPClient_scheme \<Rightarrow> bool" where
  "ping_completed ping_id n =
     (case smap_find (pendingPings n) ping_id of None \<Rightarrow> False | Some p \<Rightarrow> completed p)"

definition ping_replied :: "string \<Rightarrow> ('k, 'cb, 'z) RSPClient_scheme \<Rightarrow> bool" where
  "ping_replied ping_id n \<longleftrightarrow> client_stopping n \<or> ping_completed ping_id n"

definition ping_end :: "string \<Rightarrow> ('k, 'cb, 'z) RSPClient_scheme \<Rightarrow> bool \<times> ('k, 'cb, 'z) RSPClient_scheme" where
  "ping_end ping_id n =
     (ping_replied ping_id n \<and> \<not> client_stopping n \<and> ping_completed ping_id n,
      n\<lparr>pendingPings := smap_erase ping_id (pendingPings n)\<rparr>)"

definition handlePingReply :: "PingReply \<Rightarrow> ('k, 'cb, 'z) RSPClient_scheme \<Rightarrow> ('k, 'cb, 'z) RSPClient_scheme" where
  "handlePingReply reply n =
     (case pong_nonce reply of
        None \<Rightarrow> n
      | Some ping_id \<Rightarrow>
          (case smap_find (pendingPings n) ping_id of
             None \<Rightarrow> n
           | Some p \<Rightarrow>
               if pong_sequence reply \<noteq> pending_sequence p then n
               else n\<lparr>pendingPings := smap_set ping_id (p\<lparr>completed := True\<rparr>) (pendingPings n)\<rparr>))"

definition client_handleNodeSpecificMessage :: "RSPMessage \<Rightarrow> ('k, 'cb, 'z) RSPClient_scheme \<Rightarrow>
    (bool \<times> ('k, 'cb, 'z) RSPClient_scheme) result" where
  "client_handleNodeSpecificMessage m n =
     (case core m of
        ping_reply reply \<Rightarrow> Inr (True, handlePingReply reply n)
      | _ \<Rightarrow> Inr (False, n))"

section \<open>Connecting\<close>

definition splitTransportSpec :: "string \<Rightarrow> (string \<times> string) option" where
  "splitTransportSpec spec =
     (let name = takeWhile (\<lambda>c. c \<noteq> CHR '':'') spec; params = drop (length name + 1) spec
      in if length name = length spec \<or> name = [] \<or> params = [] then None else Some (name, params))"

definition createTransport :: "(string \<Rightarrow> connection option) \<Rightarrow> (string \<Rightarrow> connection option) \<Rightarrow> string \<Rightarrow>
    (string \<Rightarrow> connection option) option" where
  "createTransport tcp memory transportName =
     (if transportName = ''tcp'' then Some tcp else if transportName = ''memory'' then Some memory else None)"

text \<open>The callback that stores what the exchange has learnt, once for each stored identity.\<close>

primrec observe_stored :: "(nodeid \<times> Identity) list \<Rightarrow> ('k, 'cb, 'z) RSPClient_scheme \<Rightarrow>
    ('k, 'cb, 'z) RSPClient_scheme result" where
  "observe_stored [] n = Inr n"
| "observe_stored (p # ps) n =
     res_bind (node_observeMessage
         (RSPMessage_default\<lparr>source := Some (toProtoNodeId (fst p)), identities := [snd p]\<rparr>) n) (\<lambda>(calls, n).
     observe_stored ps n)"

text \<open>
  What \<^verbatim>\<open>connectToResourceManager\<close> and \<^verbatim>\<open>doReconnect\<close> do with a new connection: the handshake and then the
  identity exchange, each on a queue of its own that has no limit and so refuses nothing.
\<close>

definition establish :: "codecs \<Rightarrow> bytes \<Rightarrow> string \<Rightarrow> connection \<Rightarrow> ('k, 'cb, 'z) RSPClient_scheme \<Rightarrow>
    ((string + 'k Encoding) \<times> ('k, 'cb, 'z) RSPClient_scheme) result" where
  "establish cs localNonce encodingName c n =
     res_bind (KeyPair_duplicate (node_openssl n) (own_keyPair n)) (\<lambda>authnKey.
     res_bind (KeyPair_duplicate (node_openssl n) (own_keyPair n)) (\<lambda>handshakeKey.
     res_bind (HandshakeClient_handle (node_openssl n) cs (Some (client_incomingMessages n)) handshakeKey encodingName (Some (Some c)))
       (\<lambda>h. case h of
          Handshake_success e \<Rightarrow>
            (case performInitialIdentityExchange
                    \<lparr>node_lib = node_openssl n, node_env = own_env n, node_key = authnKey, node_bootId = own_bootId n\<rparr> localNonce e of
               (Inl ex, st) \<Rightarrow> Inl ex
             | (Inr ok, st) \<Rightarrow>
                 res_bind (observe_stored (authn_stored st) n) (\<lambda>n.
                   Inr (if ok then Inr (authn_encoding st) else Inl ''identity handshake failed'', n)))
        | _ \<Rightarrow> Inr (Inl ''client handshake failed'', n))))"

definition set_reconnect :: "guid \<Rightarrow> (ReconnectContext \<Rightarrow> ReconnectContext) \<Rightarrow> ('k, 'cb, 'z) RSPClient_scheme \<Rightarrow>
    ('k, 'cb, 'z) RSPClient_scheme" where
  "set_reconnect connectionId f n =
     (case smap_find (connections n) connectionId of
        None \<Rightarrow> n
      | Some c \<Rightarrow> n\<lparr>connections := smap_set connectionId (c\<lparr>cc_reconnect := f (cc_reconnect c)\<rparr>) (connections n)\<rparr>)"

definition enableReconnect :: "guid \<Rightarrow> bool \<Rightarrow> ('k, 'cb, 'z) RSPClient_scheme \<Rightarrow> ('k, 'cb, 'z) RSPClient_scheme" where
  "enableReconnect connectionId callback n =
     (case smap_find (connections n) connectionId of
        None \<Rightarrow> n
      | Some c \<Rightarrow> n\<lparr>connections := smap_set connectionId
            (c\<lparr>cc_reconnect := (cc_reconnect c)\<lparr>onReconnected := callback, ctx_stopping := False\<rparr>, disconnectCallback := True\<rparr>)
            (connections n)\<rparr>)"

text \<open>
  The end of \<^verbatim>\<open>connectToResourceManager\<close>, with an encoding whose peer is known: the outcome of the call and
  the client after it.
\<close>

definition adopt_encoding :: "guid \<Rightarrow> string \<Rightarrow> string \<Rightarrow> 'k Encoding \<Rightarrow> ('k, 'cb, 'z) RSPClient_scheme \<Rightarrow>
    guid result \<times> ('k, 'cb, 'z) RSPClient_scheme" where
  "adopt_encoding connectionId spec encodingName e n =
     (case Encoding_start e of
        (False, e) \<Rightarrow> (Inl (Runtime_error ''failed to start encoding''), n)
      | (True, e) \<Rightarrow>
          (Inr connectionId,
           enableReconnect connectionId False
             (n\<lparr>connections := smap_emplace connectionId
                  \<lparr>cc_encoding = e, disconnectCallback = False, cc_signingQueue = started_queue 1,
                   cc_reconnect = \<lparr>ctx_transportSpec = spec, ctx_encodingType = encodingName,
                     onReconnected = False, inProgress = False, ctx_stopping = True\<rparr>\<rparr>
                  (connections n)\<rparr>)))"

text \<open>The outer left outcome is an exception in a worker thread, which ends the process.\<close>

definition connectToResourceManager :: "(string \<Rightarrow> (string \<Rightarrow> connection option) option) \<Rightarrow> codecs \<Rightarrow> bytes \<Rightarrow> guid \<Rightarrow>
    string \<Rightarrow> string \<Rightarrow> ('k, 'cb, 'z) RSPClient_scheme \<Rightarrow> (guid result \<times> ('k, 'cb, 'z) RSPClient_scheme) result" where
  "connectToResourceManager transports cs localNonce connectionId spec encodingName n =
     (case splitTransportSpec spec of
        None \<Rightarrow> Inr (Inl (Invalid_argument ''transport must be in the format <name>:<parameters>''), n)
      | Some (transportName, transportParameters) \<Rightarrow>
          (case transports transportName of
             None \<Rightarrow> Inr (Inl (Invalid_argument ''unsupported transport''), n)
           | Some connect \<Rightarrow>
               (case connect transportParameters of
                  None \<Rightarrow> Inr (Inl (Runtime_error ''failed to establish transport connection''), n)
                | Some c \<Rightarrow>
                    res_bind (establish cs localNonce encodingName c n) (\<lambda>(established, n).
                      Inr (case established of
                             Inl err \<Rightarrow> (Inl (Runtime_error err), n)
                           | Inr e \<Rightarrow> adopt_encoding connectionId spec encodingName e n)))))"

definition hasConnections :: "('k, 'cb, 'z) RSPClient_scheme \<Rightarrow> bool" where
  "hasConnections n \<longleftrightarrow> connections n \<noteq> []"

definition hasConnection :: "guid \<Rightarrow> ('k, 'cb, 'z) RSPClient_scheme \<Rightarrow> bool" where
  "hasConnection connectionId n \<longleftrightarrow> smap_find (connections n) connectionId \<noteq> None"

definition connectionCount :: "('k, 'cb, 'z) RSPClient_scheme \<Rightarrow> nat" where
  "connectionCount n = smap_size (connections n)"

definition connectionIds :: "('k, 'cb, 'z) RSPClient_scheme \<Rightarrow> guid list" where
  "connectionIds n = map fst (connections n)"

definition peerNodeID :: "guid \<Rightarrow> ('k, 'cb, 'z) RSPClient_scheme \<Rightarrow> nodeid option" where
  "peerNodeID connectionId n =
     (case connectionState connectionId n of None \<Rightarrow> None | Some c \<Rightarrow> peerNodeId (cc_encoding c))"

definition removeConnection :: "guid \<Rightarrow> ('k, 'cb, 'z) RSPClient_scheme \<Rightarrow> bool \<times> ('k, 'cb, 'z) RSPClient_scheme" where
  "removeConnection connectionId n =
     (case smap_find (connections n) connectionId of
        None \<Rightarrow> (False, n)
      | Some c \<Rightarrow> (True, n\<lparr>connections := smap_erase connectionId (connections n)\<rparr>))"

definition client_stop :: "('k, 'cb, 'z) RSPClient_scheme \<Rightarrow> ('k, 'cb, 'z) RSPClient_scheme" where
  "client_stop n =
     (stopNodeQueues (n\<lparr>client_stopping := True, client_incomingMessages := mq_stop (client_incomingMessages n)\<rparr>))
       \<lparr>connections := []\<rparr>"

section \<open>Reconnecting\<close>

text \<open>The disconnect callback: the first component tells whether it starts a thread for \<^verbatim>\<open>doReconnect\<close>.\<close>

definition triggerReconnect :: "guid \<Rightarrow> ('k, 'cb, 'z) RSPClient_scheme \<Rightarrow> bool \<times> ('k, 'cb, 'z) RSPClient_scheme" where
  "triggerReconnect connectionId n =
     (case smap_find (connections n) connectionId of
        None \<Rightarrow> (False, n)
      | Some c \<Rightarrow>
          if ctx_stopping (cc_reconnect c) \<or> inProgress (cc_reconnect c) then (False, n)
          else (True, set_reconnect connectionId (\<lambda>ctx. ctx\<lparr>inProgress := True\<rparr>) n))"

text \<open>
  \<^verbatim>\<open>doReconnect\<close>. Its loop waits for the transport, which is asked again after each failed handshake;
  \<^verbatim>\<open>reconnect_attempt\<close> is one turn, with the connection that the transport has returned. The result tells
  whether the thread tries again, returns, or has an encoding.
\<close>

datatype 'k reconnect_turn = Reconnect_retry | Reconnect_return | Reconnect_encoding "'k Encoding"

definition reconnect_over :: "guid \<Rightarrow> ('k, 'cb, 'z) RSPClient_scheme \<Rightarrow> ('k, 'cb, 'z) RSPClient_scheme" where
  "reconnect_over connectionId n = set_reconnect connectionId (\<lambda>ctx. ctx\<lparr>inProgress := False\<rparr>) n"

definition reconnect_attempt :: "codecs \<Rightarrow> bytes \<Rightarrow> guid \<Rightarrow> connection option \<Rightarrow> ('k, 'cb, 'z) RSPClient_scheme \<Rightarrow>
    ('k reconnect_turn \<times> ('k, 'cb, 'z) RSPClient_scheme) result" where
  "reconnect_attempt cs localNonce connectionId c n =
     (case (smap_find (connections n) connectionId, c) of
        (Some st, Some c) \<Rightarrow>
          if ctx_stopping (cc_reconnect st) then Inr (Reconnect_return, reconnect_over connectionId n)
          else
            res_bind (establish cs localNonce (ctx_encodingType (cc_reconnect st)) c n) (\<lambda>(established, n).
              Inr (case established of Inl err \<Rightarrow> Reconnect_retry | Inr e \<Rightarrow> Reconnect_encoding e, n))
      | _ \<Rightarrow> Inr (Reconnect_return, reconnect_over connectionId n))"

text \<open>
  The rest of \<^verbatim>\<open>doReconnect\<close> up to the call of \<^verbatim>\<open>onReconnected\<close>: the first component tells whether the new
  encoding has replaced the old one, and then whether the callback is called. After the callback
  \<^verbatim>\<open>reconnect_over\<close> clears the flag.
\<close>

definition reconnect_install :: "guid \<Rightarrow> 'k Encoding \<Rightarrow> ('k, 'cb, 'z) RSPClient_scheme \<Rightarrow>
    bool option \<times> ('k, 'cb, 'z) RSPClient_scheme" where
  "reconnect_install connectionId newEncoding n =
     (case smap_find (connections n) connectionId of
        None \<Rightarrow> (None, n)
      | Some c \<Rightarrow>
          if ctx_stopping (cc_reconnect c) then (None, reconnect_over connectionId n)
          else
            (case Encoding_start newEncoding of
               (False, e) \<Rightarrow> (None, reconnect_over connectionId n)
             | (True, e) \<Rightarrow>
                 (Some (onReconnected (cc_reconnect c)),
                  n\<lparr>connections := smap_set connectionId
                      (c\<lparr>cc_encoding := e, cc_signingQueue := started_queue 1, disconnectCallback := True\<rparr>)
                      (connections n)\<rparr>)))"

end
