(* ===== verification/Full_Client_Safety.thy ===== *)
theory Full_Client_Safety
  imports Full_Client
begin

text \<open>
  Runs of a full client, or of a service built on it, and what holds in them: every message on its way to
  a resource manager carries a valid signature of the client's own key, and every connection belongs to a
  peer that has proved its identity. A ping succeeds exactly when its reply arrives.
\<close>

section \<open>Runs\<close>

text \<open>
  What can happen to a client: a message arrives, is dispatched and handled; a reply is sent, signed and
  taken by the encoding; the public operations are called; a connection is lost and established again.
  The encoding that a reconnection installs comes from an earlier turn of its loop.
\<close>

inductive client_step :: "('k, 'cb, ('k, 'z) RSPClient_ext) specific \<Rightarrow> ('k, 'cb, 'z) RSPClient_scheme \<Rightarrow>
    ('k, 'cb, 'z) RSPClient_scheme \<Rightarrow> bool" for specific where
  receive: "client_step specific n (n\<lparr>client_incomingMessages := q\<rparr>)"
  if "mq_push m (client_incomingMessages n) = (ok, full, q)"
| dispatch: "client_step specific n n'"
  if "mq_tryPop (client_incomingMessages n) = (Some m, q)"
    "dispatchIncomingMessage now m (n\<lparr>client_incomingMessages := q\<rparr>) = Inr n'"
| input: "client_step specific n n'"
  if "mq_tryPop (inputQueue n) = (Some m, q)" "NodeInputQueue_handle specific inp m (n\<lparr>inputQueue := q\<rparr>) = Inr n'"
| reply: "client_step specific n (client_handleOutputMessage r s m (n\<lparr>outputQueue := q\<rparr>))"
  if "mq_tryPop (outputQueue n) = (Some m, q)"
| sign: "client_step specific n n'"
  if "smap_find (connections n) k = Some st" "mq_tryPop (cc_signingQueue st) = (Some m, q)"
    "client_sign_turn randomId k (st\<lparr>cc_signingQueue := q\<rparr>) m n = Inr n'"
| transmit: "client_step specific n (n\<lparr>connections := smap_set k
      (st\<lparr>cc_encoding := (cc_encoding st)\<lparr>outgoingMessages := q\<rparr>\<rparr>) (connections n)\<rparr>)"
  if "smap_find (connections n) k = Some st" "mq_tryPop (outgoingMessages (cc_encoding st)) = (Some m, q)"
| send: "client_step specific n (snd (client_send r s m n))"
| send_on: "client_step specific n (snd (sendOnConnection r s k m n))"
| ping_start: "client_step specific n (snd (ping_begin r s fresh now nodeId n))"
| ping_done: "client_step specific n (snd (ping_end ping_id n))"
| connect: "client_step specific n n'"
  if "connectToResourceManager transports cs localNonce k spec encodingName n = Inr (res, n')"
| enable: "client_step specific n (enableReconnect k callback n)"
| lost: "client_step specific n (snd (triggerReconnect k n))"
| attempt: "client_step specific n n'" if "reconnect_attempt cs localNonce k c n = Inr (t, n')"
| install: "client_step specific n (snd (reconnect_install k e n))"
  if "reconnect_attempt cs localNonce k c (n0 :: ('k, 'cb, 'z) RSPClient_scheme) = Inr (Reconnect_encoding e, n1)"
| over: "client_step specific n (reconnect_over k n)"
| remove: "client_step specific n (snd (removeConnection k n))"
| log: "client_step specific n n'" if "publishLogRecord rec snap now n = Inr (b, n')"
| negotiate: "client_step specific n n'" if "aes_step x n = Inr n'"
| stop: "client_step specific n (client_stop n)"

section \<open>The invariant\<close>

definition own_messages :: "('k, 'cb, 'z) RSPClient_scheme \<Rightarrow> RSPMessage MessageQueue \<Rightarrow> bool" where
  "own_messages n q \<longleftrightarrow> (\<forall>m\<in>set (messages q). authentic (node_openssl n) (own_env n) (keyNodeID n) m)"

definition connection_ok :: "('k, 'cb, 'z) RSPClient_scheme \<Rightarrow> 'k ClientConnectionState \<Rightarrow> bool" where
  "connection_ok n c \<longleftrightarrow> peerNodeId (cc_encoding c) \<noteq> None \<and> own_messages n (outgoingMessages (cc_encoding c))"

definition client_ok :: "('k, 'cb, 'z) RSPClient_scheme \<Rightarrow> bool" where
  "client_ok n \<longleftrightarrow> node_ok n \<and> signatures_fit (node_openssl n) \<and> smap_ok (connections n) \<and>
     (\<forall>k c. smap_find (connections n) k = Some c \<longrightarrow> connection_ok n c)"

text \<open>What the handler of a subclass has to keep.\<close>

definition keeps_client :: "('k, 'cb, ('k, 'z) RSPClient_ext) specific \<Rightarrow> bool" where
  "keeps_client specific \<longleftrightarrow> (\<forall>m n h n'. client_ok n \<longrightarrow> specific m n = Inr (h, n') \<longrightarrow> client_ok n')"

lemma own_messages_cong:
  "node_openssl n' = node_openssl n \<Longrightarrow> own_env n' = own_env n \<Longrightarrow> keyNodeID n' = keyNodeID n \<Longrightarrow>
   own_messages n' q = own_messages n q"
  by (simp add: own_messages_def)

lemma connection_ok_cong:
  "node_openssl n' = node_openssl n \<Longrightarrow> own_env n' = own_env n \<Longrightarrow> keyNodeID n' = keyNodeID n \<Longrightarrow>
   connection_ok n' c = connection_ok n c"
  by (simp add: connection_ok_def own_messages_def)

text \<open>A step that leaves the keys and the connections alone.\<close>

lemma client_ok_frame:
  assumes "client_ok n" "node_ok n'" "node_openssl n' = node_openssl n" "own_env n' = own_env n"
    "keyNodeID n' = keyNodeID n" "connections n' = connections n"
  shows "client_ok n'"
  using assms connection_ok_cong [OF assms(3,4,5)] by (simp add: client_ok_def)

lemma client_ok_simps [simp]:
  "client_ok (n\<lparr>client_incomingMessages := q\<rparr>) = client_ok n" "client_ok (n\<lparr>inputQueue := q\<rparr>) = client_ok n"
  "client_ok (n\<lparr>outputQueue := q\<rparr>) = client_ok n" "client_ok (n\<lparr>pendingPings := ps\<rparr>) = client_ok n"
  "client_ok (n\<lparr>nextPingSequence := i\<rparr>) = client_ok n" "client_ok (n\<lparr>client_stopping := b\<rparr>) = client_ok n"
  by (simp_all add: client_ok_def node_ok_def connection_ok_def own_messages_def)

text \<open>A step that replaces one connection, or removes some.\<close>

lemma client_ok_set:
  assumes "client_ok n" "connection_ok n c"
  shows "client_ok (n\<lparr>connections := smap_set k c (connections n)\<rparr>)"
  using assms
  by (auto simp: client_ok_def node_ok_def connection_ok_def own_messages_def smap_find_set)

lemma client_ok_emplace:
  "client_ok n \<Longrightarrow> connection_ok n c \<Longrightarrow> client_ok (n\<lparr>connections := smap_emplace k c (connections n)\<rparr>)"
  by (auto simp: smap_emplace_def client_ok_set split: option.split)

lemma client_ok_erase: "client_ok n \<Longrightarrow> client_ok (n\<lparr>connections := smap_erase k (connections n)\<rparr>)"
  by (auto simp: client_ok_def node_ok_def connection_ok_def own_messages_def smap_find_erase)

lemma client_ok_find: "client_ok n \<Longrightarrow> smap_find (connections n) k = Some c \<Longrightarrow> connection_ok n c"
  by (simp add: client_ok_def)

lemma client_ok_base_change:
  assumes "base_change n n'" "node_ok n'" "client_ok n"
  shows "client_ok (n' :: ('k, 'cb, 'z) RSPClient_scheme)"
proof -
  have "connections n' = connections n" using assms(1) by (auto simp: base_change_def)
  then show ?thesis
    using client_ok_frame [OF assms(3,2)] base_change_keeps [OF assms(1)] by blast
qed

section \<open>Sending\<close>

lemma select_connection_in:
  "select_connection cs sel = Some kc \<Longrightarrow> kc \<in> set cs \<or> sel = Some kc"
  by (induction cs arbitrary: sel) (auto simp: Let_def split: if_splits option.splits)

lemma push_connection_ok:
  assumes "client_ok n" "connection_ok n (snd kc)"
  shows "client_ok (snd (push_connection m kc n))"
proof -
  have "connection_ok n ((snd kc)\<lparr>cc_signingQueue := q\<rparr>)" for q
    using assms(2) by (simp add: connection_ok_def)
  then show ?thesis
    using client_ok_set [OF assms(1)] by (simp add: push_connection_def split: prod.split)
qed

lemma client_ok_send: "client_ok n \<Longrightarrow> client_ok (snd (client_send r s m n))"
proof (cases "select_connection (connections n) None")
  case (Some kc)
  assume ok: "client_ok n"
  have "(fst kc, snd kc) \<in> set (connections n)"
    using select_connection_in [OF Some] by simp
  then have "smap_find (connections n) (fst kc) = Some (snd kc)"
    using ok by (intro smap_in_set_find) (simp_all add: client_ok_def)
  then have "connection_ok n (snd kc)" by (rule client_ok_find [OF ok])
  then show ?thesis
    using push_connection_ok [OF ok] Some by (simp add: client_send_def)
qed (simp add: client_send_def)

lemma client_ok_send_on: "client_ok n \<Longrightarrow> client_ok (snd (sendOnConnection r s k m n))"
  by (auto simp: sendOnConnection_def connectionState_def client_ok_find intro!: push_connection_ok split: option.split)

lemma client_ok_ping_begin: "client_ok n \<Longrightarrow> client_ok (snd (ping_begin r s fresh now nodeId n))"
proof -
  assume "client_ok n"
  then have "client_ok (snd (client_send r s m (n\<lparr>nextPingSequence := i, pendingPings := ps\<rparr>)))" for m i ps
    by (intro client_ok_send) simp
  then show ?thesis
    unfolding ping_begin_def Let_def by (simp split: prod.split bool.split) (metis snd_conv)
qed

lemma client_ok_ping_end: "client_ok n \<Longrightarrow> client_ok (snd (ping_end ping_id n))"
  by (simp add: ping_end_def)

lemma sign_call_ok:
  assumes "client_ok n" "smap_find (connections n) k = Some st" "client_sign_turn randomId k (st\<lparr>cc_signingQueue := q\<rparr>) m n = Inr n'"
  shows "client_ok n'"
proof -
  let ?st = "st\<lparr>cc_signingQueue := q\<rparr>"
  have ok: "connection_ok n ?st"
    using client_ok_find [OF assms(1,2)] by (simp add: connection_ok_def)
  obtain cs where cs: "MessageQueueSign_handle (node_openssl n) (own_env n) (MessageQueueSign_keyPair (own_keyPair n))
      (\<lambda>c. None) randomId m = (cs, None)" "n' = n\<lparr>connections := smap_set k (fold client_sign_call cs ?st) (connections n)\<rparr>"
    using assms(3) by (auto simp: client_sign_turn_def split: prod.splits option.splits)
  have "(\<exists>block. cs = [Sign_success (m\<lparr>signature := Some block\<rparr>)] \<and>
      signMessage (node_openssl n) (own_env n) (own_keyPair n) m = Inr block) \<or> (\<exists>m' reason. cs = [Sign_failure m' reason])"
    using cs(1)
    by (auto simp: MessageQueueSign_handle_def MessageQueueSign_keyPair_def call_def throw_def catch_calls_def Let_def
        split: if_splits sum.splits option.splits)
  then have "connection_ok n (fold client_sign_call cs ?st)"
  proof (elim disjE exE conjE)
    fix block
    assume success: "cs = [Sign_success (m\<lparr>signature := Some block\<rparr>)]"
      and signed: "signMessage (node_openssl n) (own_env n) (own_keyPair n) m = Inr block"
    have "authentic (node_openssl n) (own_env n) (keyNodeID n) (m\<lparr>signature := Some block\<rparr>)"
      using sign_authentic [OF _ _ _ signed] assms(1) by (simp add: client_ok_def node_ok_def)
    then show ?thesis
      using ok success
      by (auto simp: client_sign_call_def connection_ok_def own_messages_def mq_push_def Let_def split: prod.split)
  next
    fix m' reason
    assume "cs = [Sign_failure m' reason]"
    then show ?thesis using ok by (simp add: client_sign_call_def)
  qed
  then show ?thesis using client_ok_set [OF assms(1)] cs(2) by simp
qed

section \<open>Connecting\<close>

text \<open>The exchange talks over the connection itself: it leaves the outgoing queue of the encoding alone.\<close>

lemma exchange_turn_outgoing:
  assumes "exchange_turn node localNonce st = (t, st')"
  shows "outgoingMessages (authn_encoding st') = outgoingMessages (authn_encoding st)"
proof -
  have read: "outgoingMessages e' = outgoingMessages e" if "enc_read e = (x, e')" for e e' :: "'a Encoding" and x
    using that by (auto simp: enc_read_def split: option.splits prod.splits)
  have answer: "outgoingMessages (authn_encoding s') = outgoingMessages (authn_encoding s)"
    if "answer_challenge node m cr s = (t, s')" for m cr s s'
    using that
    by (auto simp: answer_challenge_def dispatchSend_def split: if_splits sum.splits option.splits prod.splits bool.splits)
  have accept: "outgoingMessages (authn_encoding s') = outgoingMessages (authn_encoding s)"
    if "accept_identity node localNonce m i s = (t, s')" for m i s s'
    using that by (auto simp: accept_identity_def setPeerNodeID_def split: if_splits sum.splits option.splits)
  obtain x e where e: "enc_read (authn_encoding st) = (x, e)" by fastforce
  show ?thesis
  proof (cases x)
    case None
    then show ?thesis using assms e read [OF e] by (auto simp: exchange_turn_def)
  next
    case (Some m)
    then show ?thesis
      using assms e read [OF e] answer accept
      by (cases "core m") (auto simp: exchange_turn_def Let_def)
  qed
qed

lemma exchange_loop_outgoing:
  "exchange_loop node localNonce st = (res, st') \<Longrightarrow>
   outgoingMessages (authn_encoding st') = outgoingMessages (authn_encoding st)"
proof (induction node localNonce st rule: exchange_loop.induct)
  case (1 node localNonce st)
  obtain t st1 where t: "exchange_turn node localNonce st = (t, st1)" by fastforce
  show ?case
    using 1 t exchange_turn_outgoing [OF t]
    by (cases t) (auto simp: exchange_loop.simps [of node localNonce st] split: if_splits)
qed

lemma exchange_established:
  assumes "performInitialIdentityExchange node localNonce e = (Inr True, st)"
  shows "peerNodeId (authn_encoding st) \<noteq> None \<and> outgoingMessages (authn_encoding st) = outgoingMessages e"
proof -
  obtain e1 where loop: "exchange_loop node localNonce (authn_start e1) = (Inr True, st)"
    and e1: "outgoingMessages e1 = outgoingMessages e"
    using assms
    by (auto simp: performInitialIdentityExchange_def dispatchSend_def split: if_splits prod.splits bool.splits option.splits)
  have "authn_ok node localNonce (authn_start e1)"
    by (simp add: authn_ok_def authn_start_def)
  from exchange_loop_ok [OF this loop] have "peerNodeId (authn_encoding st) \<noteq> None"
    by (auto simp: authn_ok_def)
  then show ?thesis
    using exchange_loop_outgoing [OF loop] e1 by (simp add: authn_start_def)
qed

lemma Encoding_new_outgoing [simp]: "messages (outgoingMessages (Encoding_new codec c received kp)) = []"
  by (simp add: Encoding_new_def setWorkerCount_def MessageQueue_new_def rebuildWorkers_def)

lemma create_outgoing:
  "createEncodingForConnection lib cs c received kp = Inr (Some e) \<Longrightarrow> messages (outgoingMessages e) = []"
  by (auto simp: createEncodingForConnection_def res_bind_eq_Inr split: option.splits if_splits)

lemma handshake_outgoing:
  assumes "HandshakeClient_handle lib cs received kp name (Some (Some c)) = Inr (Handshake_success e)"
  shows "messages (outgoingMessages e) = []"
proof -
  obtain sel c1 where c1: "performClientHandshake c name = (sel, c1)" by fastforce
  obtain c2 ne where "createEncodingForConnection lib cs c2 received kp = Inr ne"
    "(case ne of None \<Rightarrow> Inr (Handshake_failure (Some (conn_close c2))) | Some e \<Rightarrow> Inr (Handshake_success e)) =
     (Inr (Handshake_success e) :: 'a handshake_end result)"
    using assms by (simp add: HandshakeClient_handle_def c1 res_bind_eq_Inr split: if_splits) blast
  then show ?thesis by (cases ne) (simp_all add: create_outgoing)
qed

lemma client_ok_observe:
  assumes "client_ok n" "node_observeMessage m n = Inr (calls, n')"
  shows "client_ok n' \<and> node_openssl n' = node_openssl n"
proof -
  obtain c where c: "n' = n\<lparr>identityCache := c\<rparr>"
    using assms(2) by (auto simp: node_observeMessage_def res_bind_eq_Inr)
  moreover have "node_ok n'"
    using node_ok_observe [of n m] assms by (auto simp: client_ok_def)
  ultimately show ?thesis
    using client_ok_frame [OF assms(1), of n'] by simp
qed

lemma client_ok_observe_stored:
  "client_ok n \<Longrightarrow> observe_stored ps n = Inr n' \<Longrightarrow> client_ok n'"
  by (induction ps arbitrary: n) (auto simp: res_bind_eq_Inr dest: client_ok_observe)

definition fresh_encoding :: "'k Encoding \<Rightarrow> bool" where
  "fresh_encoding e \<longleftrightarrow> peerNodeId e \<noteq> None \<and> messages (outgoingMessages e) = []"

lemma establish_ok:
  assumes "establish cs localNonce name c n = Inr (res, n')"
  shows "(client_ok n \<longrightarrow> client_ok n') \<and> (\<forall>e. res = Inr e \<longrightarrow> fresh_encoding e)"
proof -
  obtain kp h where h: "HandshakeClient_handle (node_openssl n) cs (Some (client_incomingMessages n)) kp name (Some (Some c)) = Inr h"
    and run: "(case h of
          Handshake_success e \<Rightarrow>
            (case performInitialIdentityExchange
                    \<lparr>node_lib = node_openssl n, node_env = own_env n, node_key = kp, node_bootId = own_bootId n\<rparr> localNonce e of
               (Inl ex, st) \<Rightarrow> Inl ex
             | (Inr ok, st) \<Rightarrow>
                 res_bind (observe_stored (authn_stored st) n) (\<lambda>n.
                   Inr (if ok then Inr (authn_encoding st) else Inl ''identity handshake failed'', n)))
        | _ \<Rightarrow> Inr (Inl ''client handshake failed'', n)) = Inr (res, n')"
    using assms unfolding establish_def by (auto simp: res_bind_eq_Inr)
  show ?thesis
  proof (cases h)
    case (Handshake_success e)
    let ?node = "\<lparr>node_lib = node_openssl n, node_env = own_env n, node_key = kp, node_bootId = own_bootId n\<rparr>"
    obtain ok st where st: "performInitialIdentityExchange ?node localNonce e = (Inr ok, st)"
      "observe_stored (authn_stored st) n = Inr n'"
      "res = (if ok then Inr (authn_encoding st) else Inl ''identity handshake failed'')"
      using run Handshake_success by (auto simp: res_bind_eq_Inr split: prod.splits sum.splits)
    have "fresh_encoding e'" if "res = Inr e'" for e'
      using that st exchange_established [of ?node localNonce e st] handshake_outgoing [of _ cs _ kp name c e] h Handshake_success
      by (cases ok) (simp_all add: fresh_encoding_def)
    then show ?thesis using client_ok_observe_stored st(2) by blast
  qed (use run in auto)
qed

lemma start_ok:
  "fresh_encoding e \<Longrightarrow> Encoding_start e = (b, e') \<Longrightarrow> c = \<lparr>cc_encoding = e', disconnectCallback = d, cc_signingQueue = q, cc_reconnect = x\<rparr> \<Longrightarrow>
   connection_ok n c"
  by (auto simp: fresh_encoding_def Encoding_start_def connection_ok_def own_messages_def mq_start_def Let_def
      startWorkersLocked_def split: if_splits)

lemma connection_ok_simps [simp]:
  "connection_ok n (c\<lparr>cc_signingQueue := q\<rparr>) = connection_ok n c" "connection_ok n (c\<lparr>cc_reconnect := x\<rparr>) = connection_ok n c"
  "connection_ok n (c\<lparr>disconnectCallback := d\<rparr>) = connection_ok n c"
  by (simp_all add: connection_ok_def)

lemma client_ok_set_reconnect: "client_ok n \<Longrightarrow> client_ok (set_reconnect k f n)"
  by (auto simp: set_reconnect_def client_ok_find intro!: client_ok_set split: option.split)

lemma client_ok_enable: "client_ok n \<Longrightarrow> client_ok (enableReconnect k b n)"
  by (auto simp: enableReconnect_def client_ok_find intro!: client_ok_set split: option.split)

lemma client_ok_adopt:
  assumes "client_ok n" "fresh_encoding e"
  shows "client_ok (snd (adopt_encoding k spec name e n))"
proof -
  obtain b e' where e': "Encoding_start e = (b, e')" by fastforce
  have "connection_ok n \<lparr>cc_encoding = e', disconnectCallback = d, cc_signingQueue = q, cc_reconnect = x\<rparr>" for d q x
    by (rule start_ok [OF assms(2) e' refl])
  then show ?thesis
    using assms(1) e' by (cases b) (simp_all add: adopt_encoding_def client_ok_enable client_ok_emplace)
qed

lemma client_ok_connect:
  assumes "client_ok n" "connectToResourceManager transports cs localNonce k spec name n = Inr (res, n')"
  shows "client_ok n'"
proof -
  have run: "client_ok n'"
    if "establish cs localNonce name c n = Inr (est, n1)"
      "(case est of Inl err \<Rightarrow> (Inl (Runtime_error err), n1) | Inr e \<Rightarrow> adopt_encoding k spec name e n1) = (res, n')" for c est n1
    using establish_ok [OF that(1)] that(2) assms(1) client_ok_adopt [of n1 _ k spec name]
    by (cases est) (auto, metis snd_conv)
  show ?thesis
    using assms
    by (auto simp: connectToResourceManager_def res_bind_eq_Inr split: option.splits prod.splits dest: run)
qed

section \<open>Every step keeps the invariant\<close>

lemma client_ok_dispatch: "client_ok n \<Longrightarrow> dispatchIncomingMessage now m n = Inr n' \<Longrightarrow> client_ok n'"
proof -
  assume ok: "client_ok n" and run: "dispatchIncomingMessage now m n = Inr n'"
  have swept: "client_ok (processExpiredAesKeys now n)"
    using client_ok_base_change [OF base_change_aes [OF only_aes_sweep]] node_ok_sweep ok by (metis client_ok_def)
  have "client_ok n1" if "enqueueInput now m n = Inr (b, calls, n1)" for b calls n1
    using that client_ok_observe [OF swept, of m]
    by (cases "node_observeMessage m (processExpiredAesKeys now n)") (auto simp: enqueueInput_def split: prod.splits)
  then show ?thesis
    using ok run by (auto simp: dispatchIncomingMessage_def res_bind_eq_Inr split: if_splits)
qed

lemma client_ok_input:
  assumes "keeps_client specific" "client_ok n" "NodeInputQueue_handle specific inp m n = Inr n'"
  shows "client_ok n'"
proof -
  define only where "only = (\<lambda>m' n1. if m' = m \<and> n1 = n then specific m n else Inr (False, n1))"
  have here: "client_ok n1" if "specific m n = Inr (h, n1)" for h n1
    using assms(1,2) that unfolding keeps_client_def by blast
  have "keeps_node only"
    using here by (auto simp: keeps_node_def only_def client_ok_def)
  moreover have "NodeInputQueue_handle only inp m n = NodeInputQueue_handle specific inp m n"
    by (simp add: NodeInputQueue_handle_def only_def)
  ultimately have ok: "node_ok n'"
    using node_ok_handle [of only n inp m n'] assms(2,3) by (simp add: client_ok_def)
  from base_change_handle [OF assms(3)] show ?thesis
    using here client_ok_base_change ok assms(2) by blast
qed

lemma attempt_ok:
  assumes "reconnect_attempt cs localNonce k c n = Inr (t, n')"
  shows "(client_ok n \<longrightarrow> client_ok n') \<and> (\<forall>e. t = Reconnect_encoding e \<longrightarrow> fresh_encoding e)"
proof -
  consider (over) "t = Reconnect_return" "n' = reconnect_over k n"
    | (tried) name c' res where "establish cs localNonce name c' n = Inr (res, n')"
        "t = (case res of Inl err \<Rightarrow> Reconnect_retry | Inr e \<Rightarrow> Reconnect_encoding e)"
    using assms by (auto simp: reconnect_attempt_def res_bind_eq_Inr split: option.splits if_splits)
  then show ?thesis
  proof cases
    case over
    then show ?thesis by (simp add: reconnect_over_def client_ok_set_reconnect)
  next
    case (tried name c' res)
    then show ?thesis using establish_ok [OF tried(1)] by (cases res) simp_all
  qed
qed

lemma client_ok_install:
  assumes "client_ok n" "fresh_encoding e"
  shows "client_ok (snd (reconnect_install k e n))"
proof (cases "smap_find (connections n) k")
  case (Some c)
  obtain b e' where e': "Encoding_start e = (b, e')" by fastforce
  have "connection_ok n (c\<lparr>cc_encoding := e', cc_signingQueue := q, disconnectCallback := d\<rparr>)" for q d
    using start_ok [OF assms(2) e' refl] by (simp add: connection_ok_def)
  then show ?thesis
    using assms(1) Some e'
    by (cases b) (simp_all add: reconnect_install_def reconnect_over_def client_ok_set_reconnect client_ok_set)
qed (use assms(1) in \<open>simp add: reconnect_install_def\<close>)

lemma client_ok_stop: "client_ok n \<Longrightarrow> client_ok (client_stop n)"
  by (simp add: client_ok_def client_stop_def stopNodeQueues_def node_ok_def)

lemma client_ok_step:
  assumes "keeps_client specific" "client_step specific n n'" "client_ok n"
  shows "client_ok n'"
  using assms(2,3)
proof cases
  case (dispatch m q now)
  then show ?thesis using client_ok_dispatch assms(3) by (metis client_ok_simps(1))
next
  case (input m q inp)
  then show ?thesis using client_ok_input [OF assms(1)] assms(3) by (metis client_ok_simps(2))
next
  case (reply m q r s)
  then show ?thesis using assms(3) by (simp add: client_handleOutputMessage_def client_ok_send)
next
  case (sign k st m q randomId)
  then show ?thesis using sign_call_ok [OF assms(3)] by blast
next
  case (transmit k st m q)
  have "connection_ok n (st\<lparr>cc_encoding := (cc_encoding st)\<lparr>outgoingMessages := q\<rparr>\<rparr>)"
    using client_ok_find [OF assms(3) transmit(2)] transmit(3)
    by (auto simp: connection_ok_def own_messages_def mq_tryPop_def split: list.splits)
  then show ?thesis using transmit(1) client_ok_set [OF assms(3)] by simp
next
  case (install cs localNonce k c n0 e n1)
  then show ?thesis using client_ok_install [OF assms(3)] attempt_ok [OF install(2)] by blast
next
  case (attempt cs localNonce k c t)
  then show ?thesis using attempt_ok assms(3) by blast
next
  case (connect transports cs localNonce k spec name res)
  then show ?thesis using client_ok_connect assms(3) by blast
next
  case (lost k)
  then show ?thesis
    using assms(3) by (simp add: triggerReconnect_def client_ok_set_reconnect split: option.split)
next
  case (log rec snap now b)
  then show ?thesis
    using client_ok_base_change [OF base_change_publish] node_ok_publish assms(3) by (metis client_ok_def)
next
  case (negotiate x)
  then show ?thesis
    using client_ok_base_change [OF base_change_aes [OF only_aes_step]] node_ok_aes_step assms(3) by (metis client_ok_def)
qed (use assms(3) in \<open>auto simp: client_ok_send client_ok_send_on client_ok_ping_begin client_ok_ping_end
  client_ok_enable reconnect_over_def client_ok_set_reconnect removeConnection_def client_ok_erase
  client_ok_stop split: option.split\<close>)

lemma client_ok_new:
  assumes "openssl_ok lib" "signatures_fit lib" "RSPClient_new lib derive env r s z kp = Inr n"
  shows "client_ok n"
proof -
  obtain n0 where n0: "RSPNode_new lib derive env r s kp = Inr n0" "n = RSPNode.extend n0 (client_fields z)"
    using assms(3) by (auto simp: RSPClient_new_def res_bind_eq_Inr)
  have lib: "node_openssl n0 = lib"
    using n0(1) by (auto simp: RSPNode_new_def node_base_new_def res_bind_eq_Inr node_base.defs RSPNode.defs)
  have "node_ok n0" by (rule node_ok_new [OF assms(1) n0(1)])
  then show ?thesis
    using n0(2) lib assms(2) by (simp add: client_ok_def node_ok_def RSPNode.defs client_fields_def)
qed

lemma keeps_client_own: "keeps_client client_handleNodeSpecificMessage"
proof -
  have "client_ok (handlePingReply reply n)" if "client_ok n" for reply and n :: "('k, 'cb, 'z) RSPClient_scheme"
    using that by (simp add: handlePingReply_def split: option.split)
  then show ?thesis
    by (auto simp: keeps_client_def client_handleNodeSpecificMessage_def split: core_message.splits)
qed

text \<open>
  C5. A client sends nothing that it has not signed, and sends only to peers that it knows. A new client
  satisfies the invariant; every run of a client or of a service whose handler keeps it keeps it, and
  then each connection belongs to an identified peer and every message waiting to be transmitted on it
  names the client as its signer and verifies under a key with the client's node identifier.
\<close>

theorem client_signs_what_it_sends:
  assumes "openssl_ok lib" "signatures_fit lib" "keeps_client specific"
  shows "(RSPClient_new lib derive env r s z kp = Inr n \<longrightarrow> client_ok n) \<and>
    (client_ok n \<longrightarrow> (client_step specific)\<^sup>*\<^sup>* n n' \<longrightarrow> client_ok n' \<and>
      (\<forall>k c. smap_find (connections n') k = Some c \<longrightarrow>
        (\<exists>peer. peerNodeId (cc_encoding c) = Some peer) \<and>
        (\<forall>m\<in>set (messages (outgoingMessages (cc_encoding c))). senderNodeIdFromMessage m = Some (keyNodeID n') \<and>
          (\<exists>sig key. signature m = Some sig \<and> nodeID (node_openssl n') key = Inr (keyNodeID n') \<and>
             verifyMessageSignature (node_openssl n') (own_env n') key m sig = Inr True))))"
proof (intro conjI impI)
  show "client_ok n" if "RSPClient_new lib derive env r s z kp = Inr n"
    using client_ok_new [OF assms(1,2) that] .
  assume n: "client_ok n" and run: "(client_step specific)\<^sup>*\<^sup>* n n'"
  show ok: "client_ok n'"
    using run by (induction rule: rtranclp_induct) (use n client_ok_step [OF assms(3)] in blast)+
  show "\<forall>k c. smap_find (connections n') k = Some c \<longrightarrow>
      (\<exists>peer. peerNodeId (cc_encoding c) = Some peer) \<and>
      (\<forall>m\<in>set (messages (outgoingMessages (cc_encoding c))). senderNodeIdFromMessage m = Some (keyNodeID n') \<and>
        (\<exists>sig key. signature m = Some sig \<and> nodeID (node_openssl n') key = Inr (keyNodeID n') \<and>
           verifyMessageSignature (node_openssl n') (own_env n') key m sig = Inr True))"
  proof (intro allI impI conjI ballI)
    fix k c
    assume c: "smap_find (connections n') k = Some c"
    then show "\<exists>peer. peerNodeId (cc_encoding c) = Some peer"
      using client_ok_find [OF ok] by (auto simp: connection_ok_def)
    fix m
    assume "m \<in> set (messages (outgoingMessages (cc_encoding c)))"
    then have a: "authentic (node_openssl n') (own_env n') (keyNodeID n') m"
      using client_ok_find [OF ok c] by (simp add: connection_ok_def own_messages_def)
    show "senderNodeIdFromMessage m = Some (keyNodeID n')" by (rule authentic_sender [OF a])
    show "\<exists>sig key. signature m = Some sig \<and> nodeID (node_openssl n') key = Inr (keyNodeID n') \<and>
        verifyMessageSignature (node_openssl n') (own_env n') key m sig = Inr True"
      using a by (auto simp: authentic_def)
  qed
qed

section \<open>Pings\<close>

primrec handle_all :: "('k, 'cb, 'z) specific \<Rightarrow> RSPMessage list \<Rightarrow> ('k, 'cb, 'z) RSPNode_scheme \<Rightarrow>
    ('k, 'cb, 'z) RSPNode_scheme result" where
  "handle_all specific [] n = Inr n"
| "handle_all specific (m # ms) n = res_bind (specific m n) (\<lambda>(handled, n). handle_all specific ms n)"

definition answers :: "string \<Rightarrow> u32 \<Rightarrow> RSPMessage \<Rightarrow> bool" where
  "answers ping_id sequence m \<longleftrightarrow>
     (\<exists>reply. core m = ping_reply reply \<and> pong_nonce reply = Some ping_id \<and> pong_sequence reply = sequence)"

lemma client_send_keeps [simp]:
  "pendingPings (snd (client_send r s m n)) = pendingPings n" "client_stopping (snd (client_send r s m n)) = client_stopping n"
  "nextPingSequence (snd (client_send r s m n)) = nextPingSequence n"
  by (simp_all add: client_send_def push_connection_def split: option.split prod.split)

lemma ping_handled:
  assumes "client_handleNodeSpecificMessage m n = Inr (h, n')" "smap_find (pendingPings n) ping_id = Some p"
  shows "smap_find (pendingPings n') ping_id =
      Some (if answers ping_id (pending_sequence p) m then p\<lparr>completed := True\<rparr> else p) \<and>
    client_stopping n' = client_stopping n"
  using assms
  by (auto simp: client_handleNodeSpecificMessage_def handlePingReply_def answers_def smap_find_set
      split: core_message.splits option.splits if_splits)

lemma pings_handled:
  "handle_all client_handleNodeSpecificMessage ms n = Inr n' \<Longrightarrow> smap_find (pendingPings n) ping_id = Some p \<Longrightarrow>
   (\<exists>p'. smap_find (pendingPings n') ping_id = Some p' \<and>
      completed p' = (completed p \<or> (\<exists>m\<in>set ms. answers ping_id (pending_sequence p) m))) \<and>
   client_stopping n' = client_stopping n"
proof (induction ms arbitrary: n p)
  case (Cons m ms)
  obtain h n1 where n1: "client_handleNodeSpecificMessage m n = Inr (h, n1)"
    "handle_all client_handleNodeSpecificMessage ms n1 = Inr n'"
    using Cons.prems(1) by (auto simp: res_bind_eq_Inr)
  show ?case
    using Cons.IH [OF n1(2)] ping_handled [OF n1(1) Cons.prems(2)]
    by (cases "answers ping_id (pending_sequence p) m") auto
qed simp

text \<open>
  C23. A ping succeeds exactly when its answer arrives: after \<^verbatim>\<open>ping\<close> has sent its request under a fresh nonce,
  whatever messages the client handles before the wait ends, it returns true if and only if one of them
  is a reply with that nonce and the sequence number of the request, and it leaves no entry behind. The
  reply that every node gives to the request as it was sent is such an answer.
\<close>

theorem ping_exact:
  assumes "ping_begin r s fresh now peer n = (Some ping_id, n1)"
    and "smap_find (pendingPings n) (GUID_toString fresh) = None" "\<not> client_stopping n"
    and "handle_all client_handleNodeSpecificMessage ms n1 = Inr n2"
  shows "(fst (ping_end ping_id n2) \<longleftrightarrow> (\<exists>m\<in>set ms. answers ping_id (nextPingSequence n) m)) \<and>
    smap_find (pendingPings (snd (ping_end ping_id n2))) ping_id = None \<and>
    answers ping_id (nextPingSequence n) (base_reply later
      (ping_message peer ping_id (nextPingSequence n) now\<lparr>nonce := x, signature := y, source := z\<rparr>))"
proof -
  let ?p = "\<lparr>pending_destination = peer, pending_sequence = nextPingSequence n, completed = False\<rparr>"
  let ?n = "n\<lparr>nextPingSequence := nextPingSequence n + 1,
    pendingPings := smap_emplace (GUID_toString fresh) ?p (pendingPings n)\<rparr>"
  have id: "ping_id = GUID_toString fresh"
    and n1: "n1 = snd (client_send r s (ping_message peer (GUID_toString fresh) (nextPingSequence n) now) ?n)"
    using assms(1) by (auto simp: ping_begin_def Let_def split: prod.splits bool.splits)
  have "smap_find (pendingPings n1) ping_id = Some ?p" "client_stopping n1 = client_stopping n"
    using assms(2) by (simp_all add: n1 id smap_emplace_def)
  with pings_handled [OF assms(4) this(1)]
  obtain p' where p': "smap_find (pendingPings n2) ping_id = Some p'" "\<not> client_stopping n2"
    "completed p' = (\<exists>m\<in>set ms. answers ping_id (nextPingSequence n) m)"
    using assms(3) by auto
  have "fst (ping_end ping_id n2) = completed p'"
    using p'(1,2) by (simp add: ping_end_def ping_replied_def ping_completed_def)
  moreover have "smap_find (pendingPings (snd (ping_end ping_id n2))) ping_id = None"
    by (simp add: ping_end_def smap_find_erase)
  ultimately show ?thesis
    using p'(3) by (simp add: answers_def base_reply_def ping_message_def Let_def)
qed

section \<open>A concrete client\<close>

definition toy_connection :: "RSPMessage list \<Rightarrow> nat ClientConnectionState" where
  "toy_connection ms =
     \<lparr>cc_encoding = (toy_encoding sample_codec [])\<lparr>peerNodeId := Some (GUID 3 4)\<rparr>, disconnectCallback = True,
      cc_signingQueue = (started_queue 1)\<lparr>messages := ms\<rparr>,
      cc_reconnect = \<lparr>ctx_transportSpec = [], ctx_encodingType = [], onReconnected = False, inProgress = False, ctx_stopping = False\<rparr>\<rparr>"

lemma toy_client:
  obtains n :: "(nat, nat, 'z) RSPClient_scheme" where "RSPClient_new toy_openssl toy_derive empty_env 1 2 z (Some 7) = Inr n"
    "client_ok (n\<lparr>connections := [(GUID 1 1, toy_connection ms)]\<rparr>)"
    "node_openssl n = toy_openssl" "own_env n = empty_env" "own_keyPair n = Some 7" "pendingPings n = []" "\<not> client_stopping n"
    "nextPingSequence n = 1" "RSPClient.more n = z"
proof -
  obtain n0 :: "(nat, nat) RSPNode" where n0: "RSPNode_new toy_openssl toy_derive empty_env 1 2 (Some 7) = Inr n0"
    "node_openssl n0 = toy_openssl" "own_env n0 = empty_env" "own_keyPair n0 = Some 7"
    by (rule toy_node_new)
  let ?n = "RSPNode.extend n0 (client_fields z) :: (nat, nat, 'z) RSPClient_scheme"
  have new: "RSPClient_new toy_openssl toy_derive empty_env 1 2 z (Some 7) = Inr ?n"
    using n0(1) by (simp add: RSPClient_new_def)
  have "connection_ok ?n (toy_connection ms)"
    by (simp add: connection_ok_def own_messages_def toy_connection_def toy_encoding_def)
  then have "client_ok (?n\<lparr>connections := smap_set (GUID 1 1) (toy_connection ms) (connections ?n)\<rparr>)"
    by (rule client_ok_set [OF client_ok_new [OF toy_openssl_ok toy_fits new]])
  then show thesis
    using n0 by (intro that [OF new]) (simp_all add: RSPNode.defs client_fields_def)
qed

lemma toy_signs: "\<exists>block. signMessage toy_openssl empty_env (Some 7) sample_message = Inr block"
proof -
  have "\<exists>s. hashRSPMessage empty_env sample_message = Inr s"
    by (simp add: hashRSPMessage_def sample_message_def hash_core_23_def)
  then show ?thesis
    by (auto simp: signMessage_def messageSignatureInput_def computeMessageHash_def signBlock_def
        KeyPair_sign_def hasPrivateKey_def nodeID_def algorithmForKey_def verifyP256_def toy_openssl_def Let_def)
qed

theorem client_signs_what_it_sends_witness:
  "\<exists>(n :: (nat, nat) RSPClient) n' c m. client_ok n \<and> (client_step client_handleNodeSpecificMessage)\<^sup>*\<^sup>* n n' \<and>
     smap_find (connections n') (GUID 1 1) = Some c \<and> m \<in> set (messages (outgoingMessages (cc_encoding c))) \<and>
     senderNodeIdFromMessage m = Some (keyNodeID n')"
proof -
  obtain n0 :: "(nat, nat) RSPClient" where n0: "client_ok (n0\<lparr>connections := [(GUID 1 1, toy_connection [sample_message])]\<rparr>)"
    "node_openssl n0 = toy_openssl" "own_env n0 = empty_env" "own_keyPair n0 = Some 7"
    by (rule toy_client)
  let ?st = "toy_connection [sample_message]"
  let ?n = "n0\<lparr>connections := [(GUID 1 1, ?st)]\<rparr>"
  obtain block where b: "signMessage toy_openssl empty_env (Some 7) sample_message = Inr block"
    using toy_signs by blast
  let ?m = "sample_message\<lparr>signature := Some block\<rparr>"
  let ?st' = "client_sign_call (Sign_success ?m) (?st\<lparr>cc_signingQueue := started_queue 1\<rparr>)"
  let ?n' = "?n\<lparr>connections := smap_set (GUID 1 1) ?st' (connections ?n)\<rparr>"
  have "client_sign_turn (GUID 0 0) (GUID 1 1) (?st\<lparr>cc_signingQueue := started_queue 1\<rparr>) sample_message ?n = Inr ?n'"
    using n0(2-4) b
    by (simp add: client_sign_turn_def MessageQueueSign_handle_def MessageQueueSign_keyPair_def call_def Let_def
        hasPrivateKey_def toy_openssl_def)
  moreover have "mq_tryPop (cc_signingQueue ?st) = (Some sample_message, started_queue 1)"
    by (simp add: toy_connection_def mq_tryPop_def started_queue_def mq_start_def setWorkerCount_def MessageQueue_new_def
        rebuildWorkers_def startWorkersLocked_def)
  ultimately have "client_step client_handleNodeSpecificMessage ?n ?n'"
    by (intro client_step.sign [where k = "GUID 1 1"]) (simp_all add: smap_find_def)
  then have run: "(client_step client_handleNodeSpecificMessage)\<^sup>*\<^sup>* ?n ?n'" by (rule r_into_rtranclp)
  have "?m \<in> set (messages (outgoingMessages (cc_encoding ?st')))"
    by (simp add: client_sign_call_def toy_connection_def toy_encoding_def mq_push_def Let_def
        Encoding_new_def setWorkerCount_def MessageQueue_new_def rebuildWorkers_def)
  moreover have "smap_find (connections ?n') (GUID 1 1) = Some ?st'" by (simp add: smap_find_def)
  ultimately show ?thesis
    using client_signs_what_it_sends [OF toy_openssl_ok toy_fits keeps_client_own, where n = ?n and n' = ?n'] n0(1) run by blast
qed

theorem ping_exact_witness:
  "\<exists>(n :: (nat, nat) RSPClient) ping_id n1 m n2. ping_begin 1 2 (GUID 8 9) 0 (GUID 3 4) n = (Some ping_id, n1) \<and>
     handle_all client_handleNodeSpecificMessage [m] n1 = Inr n2 \<and> fst (ping_end ping_id n2)"
proof -
  obtain n0 :: "(nat, nat) RSPClient" where n0: "pendingPings n0 = []" "\<not> client_stopping n0"
    by (rule toy_client)
  let ?n = "n0\<lparr>connections := [(GUID 1 1, toy_connection [])]\<rparr>"
  obtain ping_id n1 where n1: "ping_begin 1 2 (GUID 8 9) 0 (GUID 3 4) ?n = (Some ping_id, n1)"
    by (simp add: ping_begin_def Let_def client_send_def push_connection_def mq_push_def toy_connection_def mq_size_def
        started_queue_def mq_start_def setWorkerCount_def MessageQueue_new_def rebuildWorkers_def startWorkersLocked_def)
  let ?m = "base_reply 0 (ping_message (GUID 3 4) ping_id (nextPingSequence ?n) 0)"
  obtain n2 where n2: "handle_all client_handleNodeSpecificMessage [?m] n1 = Inr n2"
    by (simp add: client_handleNodeSpecificMessage_def base_reply_def ping_message_def Let_def)
  have fresh: "smap_find (pendingPings ?n) (GUID_toString (GUID 8 9)) = None" "\<not> client_stopping ?n"
    using n0 by simp_all
  have same: "ping_message (GUID 3 4) ping_id (nextPingSequence ?n) 0\<lparr>nonce := None, signature := None, source := None\<rparr> =
      ping_message (GUID 3 4) ping_id (nextPingSequence ?n) 0"
    by (simp add: ping_message_def RSPMessage_default_def)
  have "fst (ping_end ping_id n2)"
    using ping_exact [OF n1 fresh n2, where later = 0 and x = None and y = None and z = None] same by simp
  then show ?thesis using n1 n2 by blast
qed

end
