(* ===== verification/Service_Message.thy ===== *)
theory Service_Message
  imports Field_Resolver
begin

text \<open>
  \<^verbatim>\<open>src/common/service_message.hpp\<close>: the messages of a service travel in the \<^verbatim>\<open>service_message\<close> field of an
  envelope as a \<^verbatim>\<open>google.protobuf.Any\<close>. How protobuf writes and reads a message of a generated type is a
  parameter of the model; what the services rely on is \<^verbatim>\<open>codec_ok\<close>.
\<close>

section \<open>Packing\<close>

record 'm message_type =
  SerializeAsString :: "'m \<Rightarrow> bytes"
  ParseFromString :: "bytes \<Rightarrow> 'm option"

definition codec_ok :: "'m message_type \<Rightarrow> bool" where
  "codec_ok T \<longleftrightarrow> (\<forall>x. ParseFromString T (SerializeAsString T x) = Some x)"

definition kTypeUrlPrefix :: string where
  "kTypeUrlPrefix = ''type.rsp/''"

text \<open>\<^verbatim>\<open>Any::PackFrom\<close> and \<^verbatim>\<open>Any::UnpackTo\<close>, which compares the name after the last slash.\<close>

definition PackFrom :: "string \<Rightarrow> 'm message_type \<Rightarrow> 'm \<Rightarrow> AnyMsg" where
  "PackFrom full_name T x = \<lparr>type_url = kTypeUrlPrefix @ full_name, any_value = SerializeAsString T x\<rparr>"

definition UnpackTo :: "string \<Rightarrow> 'm message_type \<Rightarrow> AnyMsg \<Rightarrow> 'm option" where
  "UnpackTo full_name T a =
     (if typeNameFromUrl (type_url a) = full_name then ParseFromString T (any_value a) else None)"

definition packServiceMessage :: "string \<Rightarrow> 'm message_type \<Rightarrow> 'm \<Rightarrow> RSPMessage \<Rightarrow> RSPMessage" where
  "packServiceMessage full_name T x envelope = envelope\<lparr>service_message := Some (PackFrom full_name T x)\<rparr>"

definition unpackServiceMessage :: "string \<Rightarrow> 'm message_type \<Rightarrow> RSPMessage \<Rightarrow> 'm option" where
  "unpackServiceMessage full_name T envelope =
     (case service_message envelope of
        None \<Rightarrow> None
      | Some a \<Rightarrow> if type_url a \<noteq> kTypeUrlPrefix @ full_name then None else UnpackTo full_name T a)"

definition hasServiceMessage :: "string \<Rightarrow> RSPMessage \<Rightarrow> bool" where
  "hasServiceMessage full_name envelope =
     (case service_message envelope of None \<Rightarrow> False | Some a \<Rightarrow> type_url a = kTypeUrlPrefix @ full_name)"

section \<open>Lemmas\<close>

lemma typeName_prefix: "CHR ''/'' \<notin> set full_name \<Longrightarrow> typeNameFromUrl (kTypeUrlPrefix @ full_name) = full_name"
  using typeNameFromUrl_slash [of full_name "''type.rsp''"] by (simp add: kTypeUrlPrefix_def)

lemma unpack_pack:
  assumes "codec_ok T" "CHR ''/'' \<notin> set full_name"
  shows "unpackServiceMessage full_name T (packServiceMessage full_name T x m) = Some x"
  using assms typeName_prefix [OF assms(2)]
  by (simp add: unpackServiceMessage_def packServiceMessage_def PackFrom_def UnpackTo_def codec_ok_def)

lemma has_pack [simp]: "hasServiceMessage full_name' (packServiceMessage full_name T x m) \<longleftrightarrow> full_name' = full_name"
  by (auto simp: hasServiceMessage_def packServiceMessage_def PackFrom_def)

lemma unpack_has: "unpackServiceMessage full_name T m = Some x \<Longrightarrow> hasServiceMessage full_name m"
  by (auto simp: unpackServiceMessage_def hasServiceMessage_def split: option.splits if_splits)

lemma has_only: "hasServiceMessage a m \<Longrightarrow> hasServiceMessage b m \<longleftrightarrow> b = a"
  by (auto simp: hasServiceMessage_def split: option.splits)

lemma pack_fields [simp]:
  "destination (packServiceMessage full_name T x m) = destination m"
  "source (packServiceMessage full_name T x m) = source m"
  "signature (packServiceMessage full_name T x m) = signature m"
  "core (packServiceMessage full_name T x m) = core m"
  "nonce (packServiceMessage full_name T x m) = nonce m"
  "trace (packServiceMessage full_name T x m) = trace m"
  by (simp_all add: packServiceMessage_def)

end
