(* ===== verification/Resource_Service.thy ===== *)
theory Resource_Service
  imports Full_Client_Safety Service_Message
begin

text \<open>
  \<^verbatim>\<open>src/resource_service/resource_service.cpp\<close> and \<^verbatim>\<open>schema_helpers.hpp\<close>: the base class of the resource services, a
  full client that advertises itself on every connection it makes. \<^verbatim>\<open>buildResourceAdvertisement\<close> is virtual and
  is an argument here.
\<close>

section \<open>Schemas and addresses\<close>

definition buildServiceSchema :: "'k openssl \<Rightarrow> string \<Rightarrow> bytes \<Rightarrow> u32 \<Rightarrow> string list \<Rightarrow> ServiceSchema" where
  "buildServiceSchema lib protoFileName descriptorData schemaVersion acceptedTypeUrls =
     \<lparr>proto_file_name = protoFileName, proto_file_descriptor_set = descriptorData, accepted_type_urls = acceptedTypeUrls,
      schema_hash = SHA256 lib descriptorData, schema_version = schemaVersion\<rparr>"

datatype IPAddressFamily = IPv4 | IPv6

record IPAddress =
  family :: IPAddressFamily
  ip_ipv4 :: u32
  ip_ipv6 :: bytes

definition fillProtoAddress :: "IPAddress \<Rightarrow> Address \<Rightarrow> Address" where
  "fillProtoAddress a protoAddress =
     (if family a = IPv4 then protoAddress\<lparr>ipv4 := ip_ipv4 a, ipv6 := []\<rparr>
      else protoAddress\<lparr>ipv4 := 0, ipv6 := ip_ipv6 a\<rparr>)"

section \<open>Advertising\<close>

type_synonym ('k, 'cb, 'z) build = "('k, 'cb, 'z) RSPClient_scheme \<Rightarrow> ResourceAdvertisement"

definition sendResourceAdvertisement :: "('k, 'cb, 'z) build \<Rightarrow> u64 \<Rightarrow> u64 \<Rightarrow> guid \<Rightarrow> ('k, 'cb, 'z) RSPClient_scheme \<Rightarrow>
    bool \<times> ('k, 'cb, 'z) RSPClient_scheme" where
  "sendResourceAdvertisement buildResourceAdvertisement r s connectionId n =
     (case peerNodeID connectionId n of
        None \<Rightarrow> (False, n)
      | Some peer \<Rightarrow>
          sendOnConnection r s connectionId
            (RSPMessage_default\<lparr>destination := Some (toProtoNodeId peer),
               core := resource_advertisement (buildResourceAdvertisement n)\<rparr>) n)"

definition service_connect :: "('k, 'cb, 'z) build \<Rightarrow> u64 \<Rightarrow> u64 \<Rightarrow> (string \<Rightarrow> (string \<Rightarrow> connection option) option) \<Rightarrow> codecs \<Rightarrow>
    bytes \<Rightarrow> guid \<Rightarrow> string \<Rightarrow> string \<Rightarrow> ('k, 'cb, 'z) RSPClient_scheme \<Rightarrow>
    (guid result \<times> ('k, 'cb, 'z) RSPClient_scheme) result" where
  "service_connect buildResourceAdvertisement r s transports cs localNonce fresh spec encodingName n =
     res_bind (connectToResourceManager transports cs localNonce fresh spec encodingName n) (\<lambda>(res, n).
       Inr (case res of
              Inl e \<Rightarrow> (Inl e, n)
            | Inr connectionId \<Rightarrow>
                (case sendResourceAdvertisement buildResourceAdvertisement r s connectionId n of
                   (False, n) \<Rightarrow> (Inl (Runtime_error ''failed to send resource advertisement''), snd (removeConnection connectionId n))
                 | (True, n) \<Rightarrow> (Inr connectionId, enableReconnect connectionId True n))))"

text \<open>The end of a reconnection of a service: the callback advertises on the new encoding.\<close>

definition service_reconnected :: "('k, 'cb, 'z) build \<Rightarrow> u64 \<Rightarrow> u64 \<Rightarrow> guid \<Rightarrow> 'k Encoding \<Rightarrow> ('k, 'cb, 'z) RSPClient_scheme \<Rightarrow>
    ('k, 'cb, 'z) RSPClient_scheme" where
  "service_reconnected buildResourceAdvertisement r s connectionId e n =
     (case reconnect_install connectionId e n of
        (None, n) \<Rightarrow> n
      | (Some callback, n) \<Rightarrow>
          reconnect_over connectionId
            (if callback then snd (sendResourceAdvertisement buildResourceAdvertisement r s connectionId n) else n))"

section \<open>Log events\<close>

record service_event =
  event_node_id :: NodeId
  event_service_type :: string

definition publishNodeStarted :: "service_event message_type \<Rightarrow> snapshot_view \<Rightarrow> datetime \<Rightarrow> string \<Rightarrow>
    ('k, 'cb, 'z) RSPClient_scheme \<Rightarrow> ('k, 'cb, 'z) RSPClient_scheme result" where
  "publishNodeStarted T generalLoggingSchema now serviceType n =
     res_bind (publishLogRecord
         \<lparr>rec_subscription_id = None, producer_node_id = None, time_created = None,
          payload = Some (PackFrom ''rsp.proto.NodeStartedEvent'' T
            \<lparr>event_node_id = toProtoNodeId (keyNodeID n), event_service_type = serviceType\<rparr>)\<rparr>
         (Some generalLoggingSchema) now n) (\<lambda>(b, n). Inr n)"

definition publishNodeStopping :: "service_event message_type \<Rightarrow> snapshot_view \<Rightarrow> datetime \<Rightarrow> string \<Rightarrow>
    ('k, 'cb, 'z) RSPClient_scheme \<Rightarrow> ('k, 'cb, 'z) RSPClient_scheme result" where
  "publishNodeStopping T generalLoggingSchema now serviceType n =
     res_bind (publishLogRecord
         \<lparr>rec_subscription_id = None, producer_node_id = None, time_created = None,
          payload = Some (PackFrom ''rsp.proto.NodeStoppingEvent'' T
            \<lparr>event_node_id = toProtoNodeId (keyNodeID n), event_service_type = serviceType\<rparr>)\<rparr>
         (Some generalLoggingSchema) now n) (\<lambda>(b, n). Inr n)"

section \<open>Lemmas\<close>

lemma client_ok_advertise: "client_ok n \<Longrightarrow> client_ok (snd (sendResourceAdvertisement b r s k n))"
  by (simp add: sendResourceAdvertisement_def client_ok_send_on split: option.split)

lemma client_ok_service_connect:
  assumes "client_ok n" "service_connect b r s ts cs l g spec name n = Inr (res, n')"
  shows "client_ok n'"
proof -
  obtain res1 n1 where c: "connectToResourceManager ts cs l g spec name n = Inr (res1, n1)"
    using assms(2) by (auto simp: service_connect_def res_bind_eq_Inr)
  have n1: "client_ok n1" by (rule client_ok_connect [OF assms(1) c])
  show ?thesis
  proof (cases res1)
    case (Inl e)
    then show ?thesis using assms(2) c n1 by (simp add: service_connect_def)
  next
    case (Inr k)
    obtain sent' n2 where n2: "sendResourceAdvertisement b r s k n1 = (sent', n2)" by fastforce
    have "client_ok n2" using client_ok_advertise [OF n1, of b r s k] n2 by simp
    then have "client_ok (snd (removeConnection k n2))" "client_ok (enableReconnect k True n2)"
      by (simp_all add: removeConnection_def client_ok_erase client_ok_enable split: option.split)
    then show ?thesis using assms(2) c Inr n2 by (cases sent') (auto simp: service_connect_def)
  qed
qed

lemma client_ok_service_reconnected:
  assumes "client_ok n" "fresh_encoding e"
  shows "client_ok (service_reconnected b r s k e n)"
proof -
  obtain o' n1 where n1: "reconnect_install k e n = (o', n1)" by fastforce
  have "client_ok n1" using client_ok_install [OF assms, of k] n1 by simp
  then show ?thesis
    using n1 client_ok_advertise [of n1 b r s k]
    by (cases o') (simp_all add: service_reconnected_def reconnect_over_def client_ok_set_reconnect)
qed

text \<open>
  A service that has connected has its advertisement, addressed to the peer, as the first message of the
  connection; a service that has reconnected has it as the first message of the new encoding.
\<close>

definition first_message :: "guid \<Rightarrow> ('k, 'cb, 'z) RSPClient_scheme \<Rightarrow> RSPMessage option" where
  "first_message k n =
     (case smap_find (connections n) k of
        None \<Rightarrow> None
      | Some c \<Rightarrow> (case messages (cc_signingQueue c) of [] \<Rightarrow> None | m # ms \<Rightarrow> Some m))"

lemma started_queue_push:
  "mq_push m (started_queue 1) = (True, None, (started_queue 1)\<lparr>messages := [m]\<rparr>)"
  by (simp add: mq_push_def started_queue_def mq_start_def setWorkerCount_def MessageQueue_new_def
      rebuildWorkers_def startWorkersLocked_def Let_def)

lemma advertise_first:
  assumes "smap_find (connections n) k = Some c" "peerNodeId (cc_encoding c) = Some peer" "cc_signingQueue c = started_queue 1"
  shows "fst (sendResourceAdvertisement b r s k n)"
    "first_message k (snd (sendResourceAdvertisement b r s k n)) =
       Some (prepareOutboundMessage r s (RSPMessage_default\<lparr>destination := Some (toProtoNodeId peer),
         core := resource_advertisement (b n)\<rparr>))"
  using assms
  by (simp_all add: sendResourceAdvertisement_def peerNodeID_def connectionState_def sendOnConnection_def
      push_connection_def started_queue_push [simplified] first_message_def)

lemma first_message_reconnect [simp]:
  "first_message k (set_reconnect k' f n) = first_message k n" "first_message k (enableReconnect k' d n) = first_message k n"
  by (auto simp: set_reconnect_def enableReconnect_def first_message_def smap_find_set split: option.split)

lemma reconnected_advertises:
  assumes "reconnect_install k e n = (Some True, n1)" "peerNodeId e = Some peer"
  shows "first_message k (service_reconnected b r s k e n) =
    Some (prepareOutboundMessage r s (RSPMessage_default\<lparr>destination := Some (toProtoNodeId peer),
      core := resource_advertisement (b n1)\<rparr>))"
proof -
  obtain c e' where "smap_find (connections n) k = Some c" "Encoding_start e = (True, e')"
    and n1: "n1 = n\<lparr>connections := smap_set k
      (c\<lparr>cc_encoding := e', cc_signingQueue := started_queue 1, disconnectCallback := True\<rparr>) (connections n)\<rparr>"
    using assms(1) by (auto simp: reconnect_install_def split: option.splits if_splits prod.splits bool.splits)
  moreover from this have "peerNodeId e' = Some peer"
    using assms(2) by (auto simp: Encoding_start_def split: if_splits)
  ultimately show ?thesis
    using advertise_first(2) [of n1 k _ peer b r s] assms(1)
    by (simp add: service_reconnected_def reconnect_over_def)
qed

text \<open>
  A connection that is lost while the callback runs does not start a second reconnection, and nothing
  looks at it again once the flag is cleared.
\<close>

lemma reconnect_lost:
  assumes "reconnect_install k e n = (Some callback, n1)" "smap_find (connections n) k = Some c" "inProgress (cc_reconnect c)"
  shows "triggerReconnect k n1 = (False, n1) \<and>
    (\<exists>c'. smap_find (connections (reconnect_over k n1)) k = Some c' \<and> \<not> inProgress (cc_reconnect c'))"
  using assms
  by (auto simp: reconnect_install_def triggerReconnect_def reconnect_over_def set_reconnect_def
      split: option.splits if_splits prod.splits bool.splits)

end
