(* ===== verification/Name_Service.thy ===== *)
theory Name_Service
  imports Resource_Service "HOL-Library.Product_Lexorder"
begin

text \<open>
  \<^verbatim>\<open>src/resource_service/name\<close>: the name service, a table of records under the key (name, owner, type) with a time
  to live of five minutes. Its requests are handled on the node's worker; a sweep thread removes
  expired records, and a second thread pings the owner of a record whose name and type another owner has
  registered. The codecs of the messages and \<^verbatim>\<open>std::sort\<close>, which leaves the order of equal elements open,
  are arguments.
\<close>

section \<open>Messages\<close>

record NameRecord =
  nr_name :: string
  nr_owner :: "NodeId option"
  nr_type :: "Uuid option"
  nr_value :: "Uuid option"
  nr_expires_at :: "DateTimeMsg option"

definition NameRecord_default :: NameRecord where
  "NameRecord_default = \<lparr>nr_name = [], nr_owner = None, nr_type = None, nr_value = None, nr_expires_at = None\<rparr>"

datatype NAME_STATUS = NAME_SUCCESS | NAME_NOT_FOUND | NAME_DUPLICATE | NAME_ERROR

record NameCreateRequest =
  create_record :: "NameRecord option"

text \<open>The replies to create, update, delete and refresh have the same fields.\<close>

record NameStatusReply =
  reply_status :: NAME_STATUS
  reply_message :: "string option"

record NameReadRequest =
  read_name :: string
  read_owner :: "NodeId option"
  read_type :: "Uuid option"

record NameReadReply =
  read_status :: NAME_STATUS
  read_records :: "NameRecord list"

record NameKeyRequest =
  key_name :: string
  key_owner :: "NodeId option"
  key_type :: "Uuid option"

record NameUpdateRequest = NameKeyRequest +
  new_value :: "Uuid option"

record NameQueryRequest =
  name_prefix :: "string option"
  query_owner :: "NodeId option"
  query_type :: "Uuid option"
  query_max_records :: u32

record NameQueryReply =
  query_records :: "NameRecord list"

record name_library =
  createRequest_type :: "NameCreateRequest message_type"
  readRequest_type :: "NameReadRequest message_type"
  updateRequest_type :: "NameUpdateRequest message_type"
  deleteRequest_type :: "NameKeyRequest message_type"
  refreshRequest_type :: "NameKeyRequest message_type"
  queryRequest_type :: "NameQueryRequest message_type"
  statusReply_type :: "NameStatusReply message_type"
  readReply_type :: "NameReadReply message_type"
  queryReply_type :: "NameQueryReply message_type"
  nameServiceDescriptor :: bytes
  std_sort :: "NameRecord list \<Rightarrow> NameRecord list"

section \<open>State\<close>

definition kRecordTtlSeconds :: real where
  "kRecordTtlSeconds = 300"

type_synonym RecordKey = "string \<times> string \<times> string"

record StoredRecord =
  stored_name :: string
  ownerBytes :: bytes
  typeBytes :: bytes
  valueBytes :: bytes
  expiresAt :: datetime

record PingCheckItem =
  oldRecordKey :: RecordKey
  oldOwnerBytes :: bytes

record ('k, 'cb) NameService = "('k, 'cb) RSPClient" +
  name_records :: "(RecordKey, StoredRecord) std_map"
  sweepStopping :: bool
  pingCheckQueue :: "PingCheckItem list"
  pingCheckStopping :: bool

type_synonym ('k, 'cb) name_node = "('k, 'cb) NameService"

definition NameService_new :: "'k openssl \<Rightarrow> ('k \<Rightarrow> 'k \<Rightarrow> bytes option) \<Rightarrow> hash_env \<Rightarrow> u64 \<Rightarrow> u64 \<Rightarrow> 'k KeyPair \<Rightarrow>
    ('k, 'cb) name_node result" where
  "NameService_new lib derive env r s kp = RSPClient_new lib derive env r s (NameService.fields [] False [] False) kp"

definition NameService_destroy :: "('k, 'cb) name_node \<Rightarrow> ('k, 'cb) name_node" where
  "NameService_destroy n = client_stop (n\<lparr>sweepStopping := True, pingCheckStopping := True\<rparr>)"

definition makeKey :: "string \<Rightarrow> NodeId option \<Rightarrow> Uuid option \<Rightarrow> RecordKey" where
  "makeKey name owner type = (name, bytes_or_default owner, bytes_or_default type)"

definition makeKey_record :: "NameRecord \<Rightarrow> RecordKey" where
  "makeKey_record rec = makeKey (nr_name rec) (nr_owner rec) (nr_type rec)"

definition toProtoRecord :: "StoredRecord \<Rightarrow> NameRecord" where
  "toProtoRecord st =
     \<lparr>nr_name = stored_name st, nr_owner = Some (ownerBytes st), nr_type = Some (typeBytes st),
      nr_value = Some (valueBytes st), nr_expires_at = Some (millisecondsSinceEpoch (expiresAt st))\<rparr>"

definition name_advertisement :: "name_library \<Rightarrow> ('k, 'cb) name_node \<Rightarrow> ResourceAdvertisement" where
  "name_advertisement nlib n =
     \<lparr>records = [], schemas = [buildServiceSchema (node_openssl n) ''name_service.proto'' (nameServiceDescriptor nlib) 1
        [''type.rsp/rsp.proto.NameCreateRequest'', ''type.rsp/rsp.proto.NameReadRequest'',
         ''type.rsp/rsp.proto.NameUpdateRequest'', ''type.rsp/rsp.proto.NameDeleteRequest'',
         ''type.rsp/rsp.proto.NameQueryRequest'', ''type.rsp/rsp.proto.NameRefreshRequest'']]\<rparr>"

section \<open>Requests\<close>

text \<open>The end of every handler: a reply to the sender of the request, if it is known.\<close>

definition respond :: "string \<Rightarrow> 'm message_type \<Rightarrow> 'm \<Rightarrow> u64 \<Rightarrow> u64 \<Rightarrow> RSPMessage \<Rightarrow> ('k, 'cb) name_node \<Rightarrow>
    bool \<times> ('k, 'cb) name_node" where
  "respond full_name T reply r s m n =
     (case senderNodeIdFromMessage m of
        None \<Rightarrow> (False, n)
      | Some requester \<Rightarrow>
          client_send r s
            (packServiceMessage full_name T reply (RSPMessage_default\<lparr>destination := Some (toProtoNodeId requester)\<rparr>)) n)"

definition not_found :: NameStatusReply where
  "not_found = \<lparr>reply_status = NAME_NOT_FOUND, reply_message = Some ''no matching record''\<rparr>"

definition success :: NameStatusReply where
  "success = \<lparr>reply_status = NAME_SUCCESS, reply_message = None\<rparr>"

text \<open>The records under the same name and type with another owner; exactly one is checked later.\<close>

definition competitors :: "NameRecord \<Rightarrow> (RecordKey, StoredRecord) std_map \<Rightarrow> (RecordKey \<times> StoredRecord) list" where
  "competitors rec recs =
     filter (\<lambda>(k, st). stored_name st = nr_name rec \<and> typeBytes st = bytes_or_default (nr_type rec) \<and>
       ownerBytes st \<noteq> bytes_or_default (nr_owner rec)) recs"

definition ping_checks :: "NameRecord \<Rightarrow> (RecordKey, StoredRecord) std_map \<Rightarrow> PingCheckItem list" where
  "ping_checks rec recs =
     (case competitors rec recs of
        [(k, st)] \<Rightarrow> [\<lparr>oldRecordKey = k, oldOwnerBytes = ownerBytes st\<rparr>]
      | _ \<Rightarrow> [])"

definition stored_of :: "datetime \<Rightarrow> NameRecord \<Rightarrow> StoredRecord" where
  "stored_of now rec =
     \<lparr>stored_name = nr_name rec, ownerBytes = bytes_or_default (nr_owner rec), typeBytes = bytes_or_default (nr_type rec),
      valueBytes = bytes_or_default (nr_value rec), expiresAt = addSeconds now kRecordTtlSeconds\<rparr>"

definition handleCreateRequest :: "name_library \<Rightarrow> datetime \<Rightarrow> u64 \<Rightarrow> u64 \<Rightarrow> RSPMessage \<Rightarrow> ('k, 'cb) name_node \<Rightarrow>
    bool \<times> ('k, 'cb) name_node" where
  "handleCreateRequest nlib now r s m n =
     (case unpackServiceMessage ''rsp.proto.NameCreateRequest'' (createRequest_type nlib) m of
        None \<Rightarrow> (False, n)
      | Some request \<Rightarrow>
          let rec = (case create_record request of None \<Rightarrow> NameRecord_default | Some rec \<Rightarrow> rec);
              reply = respond ''rsp.proto.NameCreateReply'' (statusReply_type nlib)
          in if smap_find (name_records n) (makeKey_record rec) \<noteq> None
             then reply \<lparr>reply_status = NAME_DUPLICATE,
                          reply_message = Some ''record with (name, owner, type) already exists''\<rparr> r s m n
             else
               let checks = ping_checks rec (name_records n)
               in (case reply success r s m
                          (n\<lparr>name_records := smap_set (makeKey_record rec) (stored_of now rec) (name_records n)\<rparr>) of
                     (was_sent, n) \<Rightarrow>
                       (was_sent, if senderNodeIdFromMessage m = None then n
                                  else n\<lparr>pingCheckQueue := pingCheckQueue n @ checks\<rparr>)))"

definition read_matches :: "NameReadRequest \<Rightarrow> datetime \<Rightarrow> StoredRecord \<Rightarrow> bool" where
  "read_matches request now st \<longleftrightarrow> stored_name st = read_name request \<and>
     (case read_owner request of None \<Rightarrow> True | Some owner \<Rightarrow> ownerBytes st = owner) \<and>
     (case read_type request of None \<Rightarrow> True | Some type \<Rightarrow> typeBytes st = type) \<and>
     \<not> expiresAt st \<le> now"

definition read_reply :: "name_library \<Rightarrow> NameReadRequest \<Rightarrow> datetime \<Rightarrow> ('k, 'cb) name_node \<Rightarrow> NameReadReply" where
  "read_reply nlib request now n =
     (let found = map (toProtoRecord \<circ> snd) (filter (\<lambda>(k, st). read_matches request now st) (name_records n))
      in \<lparr>read_status = if found \<noteq> [] then NAME_SUCCESS else NAME_NOT_FOUND, read_records = std_sort nlib found\<rparr>)"

definition handleReadRequest :: "name_library \<Rightarrow> datetime \<Rightarrow> u64 \<Rightarrow> u64 \<Rightarrow> RSPMessage \<Rightarrow> ('k, 'cb) name_node \<Rightarrow>
    bool \<times> ('k, 'cb) name_node" where
  "handleReadRequest nlib now r s m n =
     (case unpackServiceMessage ''rsp.proto.NameReadRequest'' (readRequest_type nlib) m of
        None \<Rightarrow> (False, n)
      | Some request \<Rightarrow> respond ''rsp.proto.NameReadReply'' (readReply_type nlib) (read_reply nlib request now n) r s m n)"

definition request_key :: "'a NameKeyRequest_scheme \<Rightarrow> RecordKey" where
  "request_key request = makeKey (key_name request) (key_owner request) (key_type request)"

definition handleUpdateRequest :: "name_library \<Rightarrow> u64 \<Rightarrow> u64 \<Rightarrow> RSPMessage \<Rightarrow> ('k, 'cb) name_node \<Rightarrow>
    bool \<times> ('k, 'cb) name_node" where
  "handleUpdateRequest nlib r s m n =
     (case unpackServiceMessage ''rsp.proto.NameUpdateRequest'' (updateRequest_type nlib) m of
        None \<Rightarrow> (False, n)
      | Some request \<Rightarrow>
          let key = request_key request; reply = respond ''rsp.proto.NameUpdateReply'' (statusReply_type nlib)
          in (case smap_find (name_records n) key of
                None \<Rightarrow> reply not_found r s m n
              | Some st \<Rightarrow>
                  reply success r s m
                    (n\<lparr>name_records := smap_set key (st\<lparr>valueBytes := bytes_or_default (new_value request)\<rparr>) (name_records n)\<rparr>)))"

definition handleDeleteRequest :: "name_library \<Rightarrow> u64 \<Rightarrow> u64 \<Rightarrow> RSPMessage \<Rightarrow> ('k, 'cb) name_node \<Rightarrow>
    bool \<times> ('k, 'cb) name_node" where
  "handleDeleteRequest nlib r s m n =
     (case unpackServiceMessage ''rsp.proto.NameDeleteRequest'' (deleteRequest_type nlib) m of
        None \<Rightarrow> (False, n)
      | Some request \<Rightarrow>
          let key = request_key request; reply = respond ''rsp.proto.NameDeleteReply'' (statusReply_type nlib)
          in (case smap_find (name_records n) key of
                None \<Rightarrow> reply not_found r s m n
              | Some st \<Rightarrow> reply success r s m (n\<lparr>name_records := smap_erase key (name_records n)\<rparr>)))"

definition query_matches :: "NameQueryRequest \<Rightarrow> datetime \<Rightarrow> StoredRecord \<Rightarrow> bool" where
  "query_matches request now st \<longleftrightarrow>
     (case name_prefix request of None \<Rightarrow> True | Some p \<Rightarrow> p = [] \<or> take (length p) (stored_name st) = p) \<and>
     (case query_owner request of None \<Rightarrow> True | Some owner \<Rightarrow> ownerBytes st = owner) \<and>
     (case query_type request of None \<Rightarrow> True | Some type \<Rightarrow> typeBytes st = type) \<and>
     \<not> expiresAt st \<le> now"

text \<open>The loop of a query with its 32-bit counter and its \<^verbatim>\<open>break\<close>.\<close>

primrec query_loop :: "NameQueryRequest \<Rightarrow> datetime \<Rightarrow> u32 \<Rightarrow> (RecordKey \<times> StoredRecord) list \<Rightarrow> NameRecord list" where
  "query_loop request now counted [] = []"
| "query_loop request now counted (kst # rest) =
     (if \<not> query_matches request now (snd kst) then query_loop request now counted rest
      else toProtoRecord (snd kst) #
        (if query_max_records request > 0 \<and> counted + 1 \<ge> query_max_records request then []
         else query_loop request now (counted + 1) rest))"

definition handleQueryRequest :: "name_library \<Rightarrow> datetime \<Rightarrow> u64 \<Rightarrow> u64 \<Rightarrow> RSPMessage \<Rightarrow> ('k, 'cb) name_node \<Rightarrow>
    bool \<times> ('k, 'cb) name_node" where
  "handleQueryRequest nlib now r s m n =
     (case unpackServiceMessage ''rsp.proto.NameQueryRequest'' (queryRequest_type nlib) m of
        None \<Rightarrow> (False, n)
      | Some request \<Rightarrow>
          respond ''rsp.proto.NameQueryReply'' (queryReply_type nlib)
            \<lparr>query_records = std_sort nlib (query_loop request now 0 (name_records n))\<rparr> r s m n)"

definition handleRefreshRequest :: "name_library \<Rightarrow> datetime \<Rightarrow> u64 \<Rightarrow> u64 \<Rightarrow> RSPMessage \<Rightarrow> ('k, 'cb) name_node \<Rightarrow>
    bool \<times> ('k, 'cb) name_node" where
  "handleRefreshRequest nlib now r s m n =
     (case unpackServiceMessage ''rsp.proto.NameRefreshRequest'' (refreshRequest_type nlib) m of
        None \<Rightarrow> (False, n)
      | Some request \<Rightarrow>
          let key = request_key request; reply = respond ''rsp.proto.NameRefreshReply'' (statusReply_type nlib)
          in (case smap_find (name_records n) key of
                None \<Rightarrow> reply not_found r s m n
              | Some st \<Rightarrow>
                  reply success r s m
                    (n\<lparr>name_records := smap_set key (st\<lparr>expiresAt := addSeconds now kRecordTtlSeconds\<rparr>) (name_records n)\<rparr>)))"

definition name_handleNodeSpecificMessage :: "name_library \<Rightarrow> datetime \<Rightarrow> u64 \<Rightarrow> u64 \<Rightarrow> RSPMessage \<Rightarrow> ('k, 'cb) name_node \<Rightarrow>
    (bool \<times> ('k, 'cb) name_node) result" where
  "name_handleNodeSpecificMessage nlib now r s m n =
     Inr (if hasServiceMessage ''rsp.proto.NameCreateRequest'' m then handleCreateRequest nlib now r s m n
          else if hasServiceMessage ''rsp.proto.NameReadRequest'' m then handleReadRequest nlib now r s m n
          else if hasServiceMessage ''rsp.proto.NameUpdateRequest'' m then handleUpdateRequest nlib r s m n
          else if hasServiceMessage ''rsp.proto.NameDeleteRequest'' m then handleDeleteRequest nlib r s m n
          else if hasServiceMessage ''rsp.proto.NameQueryRequest'' m then handleQueryRequest nlib now r s m n
          else if hasServiceMessage ''rsp.proto.NameRefreshRequest'' m then handleRefreshRequest nlib now r s m n
          else (False, n))"

section \<open>The threads\<close>

definition sweep_turn :: "datetime \<Rightarrow> ('k, 'cb) name_node \<Rightarrow> ('k, 'cb) name_node" where
  "sweep_turn now n =
     (if sweepStopping n then n
      else n\<lparr>name_records := smap_erase_if (\<lambda>k st. expiresAt st < now) (name_records n)\<rparr>)"

text \<open>
  One turn of the ping thread, split at the wait of \<^verbatim>\<open>ping\<close>. The two default-constructed identifiers
  \<^verbatim>\<open>oldOwner\<close> and \<^verbatim>\<open>NodeID{}\<close> are random. The result is the key under check with the nonce that is waited for.
\<close>

definition pingcheck_begin :: "nodeid \<Rightarrow> nodeid \<Rightarrow> u64 \<Rightarrow> u64 \<Rightarrow> guid \<Rightarrow> datetime \<Rightarrow> ('k, 'cb) name_node \<Rightarrow>
    (RecordKey \<times> string option) option \<times> ('k, 'cb) name_node" where
  "pingcheck_begin random1 random2 r s fresh now n =
     (case pingCheckQueue n of
        [] \<Rightarrow> (None, n)
      | item # rest \<Rightarrow>
          if pingCheckStopping n then (None, n)
          else
            let n = n\<lparr>pingCheckQueue := rest\<rparr>;
                oldOwner = (case fromProtoNodeId (oldOwnerBytes item) of Some owner \<Rightarrow> owner | None \<Rightarrow> random1)
            in if oldOwner = random2 then (Some (oldRecordKey item, None), n)
               else (case ping_begin r s fresh now oldOwner n of
                       (waiting, n) \<Rightarrow> (Some (oldRecordKey item, waiting), n)))"

definition expire_record :: "RecordKey \<Rightarrow> ('k, 'cb) name_node \<Rightarrow> ('k, 'cb) name_node" where
  "expire_record key n =
     (case smap_find (name_records n) key of
        None \<Rightarrow> n
      | Some st \<Rightarrow> n\<lparr>name_records := smap_set key (st\<lparr>expiresAt := 0\<rparr>) (name_records n)\<rparr>)"

definition pingcheck_end :: "RecordKey \<Rightarrow> string option \<Rightarrow> ('k, 'cb) name_node \<Rightarrow> ('k, 'cb) name_node" where
  "pingcheck_end key waiting n =
     (case waiting of
        None \<Rightarrow> expire_record key n
      | Some ping_id \<Rightarrow> (case ping_end ping_id n of (alive, n) \<Rightarrow> if alive then n else expire_record key n))"

end
