(* ===== verification/Name_Service_Table.thy ===== *)
theory Name_Service_Table
  imports Name_Service
begin

text \<open>
  What the clients of a name service can rely on, over every sequence of requests and turns of its two
  threads: a name that has been registered resolves for its time to live, and nothing else resolves. The
  last section shows that the check of a competing owner never sees an answer.
\<close>

section \<open>Sequences of events\<close>

datatype name_event =
    Handle datetime u64 u64 RSPMessage
  | Sweep datetime
  | Check_begin nodeid nodeid u64 u64 guid datetime
  | Check_end RecordKey "string option"

fun name_apply :: "name_library \<Rightarrow> name_event \<Rightarrow> ('k, 'cb) name_node \<Rightarrow> ('k, 'cb) name_node" where
  "name_apply nlib (Handle now r s m) n =
     (case name_handleNodeSpecificMessage nlib now r s m n of Inl e \<Rightarrow> n | Inr (h, n) \<Rightarrow> n)"
| "name_apply nlib (Sweep now) n = sweep_turn now n"
| "name_apply nlib (Check_begin random1 random2 r s fresh now) n = snd (pingcheck_begin random1 random2 r s fresh now n)"
| "name_apply nlib (Check_end key waiting) n = pingcheck_end key waiting n"

definition name_run :: "name_library \<Rightarrow> name_event list \<Rightarrow> ('k, 'cb) name_node \<Rightarrow> ('k, 'cb) name_node" where
  "name_run nlib es n = fold (name_apply nlib) es n"

text \<open>What a request asks for.\<close>

definition creates :: "name_library \<Rightarrow> RSPMessage \<Rightarrow> NameRecord option" where
  "creates nlib m =
     map_option (\<lambda>request. case create_record request of None \<Rightarrow> NameRecord_default | Some rec \<Rightarrow> rec)
       (unpackServiceMessage ''rsp.proto.NameCreateRequest'' (createRequest_type nlib) m)"

definition updates :: "name_library \<Rightarrow> RSPMessage \<Rightarrow> (RecordKey \<times> bytes) option" where
  "updates nlib m =
     map_option (\<lambda>request. (request_key request, bytes_or_default (new_value request)))
       (unpackServiceMessage ''rsp.proto.NameUpdateRequest'' (updateRequest_type nlib) m)"

definition deletes :: "name_library \<Rightarrow> RSPMessage \<Rightarrow> RecordKey option" where
  "deletes nlib m =
     map_option request_key (unpackServiceMessage ''rsp.proto.NameDeleteRequest'' (deleteRequest_type nlib) m)"

definition refreshes :: "name_library \<Rightarrow> RSPMessage \<Rightarrow> RecordKey option" where
  "refreshes nlib m =
     map_option request_key (unpackServiceMessage ''rsp.proto.NameRefreshRequest'' (refreshRequest_type nlib) m)"

text \<open>The table that a request leaves.\<close>

definition table_after :: "name_library \<Rightarrow> datetime \<Rightarrow> RSPMessage \<Rightarrow> (RecordKey, StoredRecord) std_map \<Rightarrow>
    (RecordKey, StoredRecord) std_map" where
  "table_after nlib now m recs =
     (case (creates nlib m, updates nlib m, deletes nlib m, refreshes nlib m) of
        (Some rec, _) \<Rightarrow> (case smap_find recs (makeKey_record rec) of
                           None \<Rightarrow> smap_set (makeKey_record rec) (stored_of now rec) recs | Some st \<Rightarrow> recs)
      | (_, Some (k, v), _) \<Rightarrow> (case smap_find recs k of None \<Rightarrow> recs | Some st \<Rightarrow> smap_set k (st\<lparr>valueBytes := v\<rparr>) recs)
      | (_, _, Some k, _) \<Rightarrow> smap_erase k recs
      | (_, _, _, Some k) \<Rightarrow> (case smap_find recs k of None \<Rightarrow> recs
                               | Some st \<Rightarrow> smap_set k (st\<lparr>expiresAt := addSeconds now kRecordTtlSeconds\<rparr>) recs)
      | _ \<Rightarrow> recs)"

lemma send_records [simp]: "name_records (snd (client_send r s m n)) = name_records n"
  by (simp add: client_send_def push_connection_def split: option.split prod.split)

lemma send_keeps: "client_send r s m n = (b, n') \<Longrightarrow> name_records n' = name_records n"
  using send_records [of r s m n] by simp

lemma ping_begin_keeps: "ping_begin r s fresh now owner n = (w, n') \<Longrightarrow> name_records n' = name_records n"
  by (auto simp: ping_begin_def Let_def dest!: send_keeps split: prod.splits bool.splits)

lemma respond_records [simp]: "name_records (snd (respond full_name T reply r s m n)) = name_records n"
  by (simp add: respond_def split: option.split)

lemma respond_keeps: "respond full_name T reply r s m n = (b, n') \<Longrightarrow> name_records n' = name_records n"
  using respond_records [of full_name T reply r s m n] by simp

lemmas request_defs = creates_def updates_def deletes_def refreshes_def

lemma other_request: "hasServiceMessage a m \<Longrightarrow> b \<noteq> a \<Longrightarrow> unpackServiceMessage b T m = None"
  by (metis has_only not_Some_eq unpack_has)

lemma smap_erase_None: "smap_find recs k = None \<Longrightarrow> smap_erase k recs = recs"
  by (simp add: smap_erase_absent smap_find_None_iff)

lemma create_records:
  "name_records (snd (handleCreateRequest nlib now r s m n)) =
     (case creates nlib m of None \<Rightarrow> name_records n
      | Some rec \<Rightarrow> (case smap_find (name_records n) (makeKey_record rec) of
           None \<Rightarrow> smap_set (makeKey_record rec) (stored_of now rec) (name_records n) | Some st \<Rightarrow> name_records n))"
proof (cases "unpackServiceMessage ''rsp.proto.NameCreateRequest'' (createRequest_type nlib) m")
  case (Some request)
  then show ?thesis
    by (auto simp: handleCreateRequest_def creates_def Let_def dest!: respond_keeps split: option.split prod.split)
qed (simp add: handleCreateRequest_def creates_def)

lemma update_records:
  "name_records (snd (handleUpdateRequest nlib r s m n)) =
     (case updates nlib m of None \<Rightarrow> name_records n
      | Some (k, v) \<Rightarrow> (case smap_find (name_records n) k of None \<Rightarrow> name_records n
           | Some st \<Rightarrow> smap_set k (st\<lparr>valueBytes := v\<rparr>) (name_records n)))"
  by (simp add: handleUpdateRequest_def updates_def Let_def split: option.split)

lemma delete_records:
  "name_records (snd (handleDeleteRequest nlib r s m n)) =
     (case deletes nlib m of None \<Rightarrow> name_records n | Some k \<Rightarrow> smap_erase k (name_records n))"
  by (auto simp: handleDeleteRequest_def deletes_def Let_def smap_erase_None split: option.split)

lemma refresh_records:
  "name_records (snd (handleRefreshRequest nlib now r s m n)) =
     (case refreshes nlib m of None \<Rightarrow> name_records n
      | Some k \<Rightarrow> (case smap_find (name_records n) k of None \<Rightarrow> name_records n
           | Some st \<Rightarrow> smap_set k (st\<lparr>expiresAt := addSeconds now kRecordTtlSeconds\<rparr>) (name_records n)))"
  by (simp add: handleRefreshRequest_def refreshes_def Let_def split: option.split)

lemma other_records:
  "name_records (snd (handleReadRequest nlib now r s m n)) = name_records n"
  "name_records (snd (handleQueryRequest nlib now r s m n)) = name_records n"
  by (simp_all add: handleReadRequest_def handleQueryRequest_def split: option.split)

lemma handled_records:
  assumes "name_handleNodeSpecificMessage nlib now r s m n = Inr (h, n')"
  shows "name_records n' = table_after nlib now m (name_records n)"
proof -
  have none: "unpackServiceMessage a T m = None" if "\<not> hasServiceMessage a m" for a and T :: "'m message_type"
    using that unpack_has by (metis not_Some_eq)
  note simps = create_records update_records delete_records refresh_records other_records table_after_def request_defs
  consider (create) "hasServiceMessage ''rsp.proto.NameCreateRequest'' m" | (read) "hasServiceMessage ''rsp.proto.NameReadRequest'' m"
    | (update) "hasServiceMessage ''rsp.proto.NameUpdateRequest'' m" | (delete) "hasServiceMessage ''rsp.proto.NameDeleteRequest'' m"
    | (query) "hasServiceMessage ''rsp.proto.NameQueryRequest'' m" | (refresh) "hasServiceMessage ''rsp.proto.NameRefreshRequest'' m"
    | (rest) "\<not> hasServiceMessage ''rsp.proto.NameCreateRequest'' m" "\<not> hasServiceMessage ''rsp.proto.NameReadRequest'' m"
        "\<not> hasServiceMessage ''rsp.proto.NameUpdateRequest'' m" "\<not> hasServiceMessage ''rsp.proto.NameDeleteRequest'' m"
        "\<not> hasServiceMessage ''rsp.proto.NameQueryRequest'' m" "\<not> hasServiceMessage ''rsp.proto.NameRefreshRequest'' m"
    by blast
  then show ?thesis
  proof cases
    case create
    have "n' = snd (handleCreateRequest nlib now r s m n)"
      using assms create by (simp add: name_handleNodeSpecificMessage_def)
    then show ?thesis by (simp add: simps other_request [OF create] split: option.split)
  next
    case read
    have "n' = snd (handleReadRequest nlib now r s m n)"
      using assms has_only [OF read] by (simp add: name_handleNodeSpecificMessage_def)
    then show ?thesis by (simp add: simps other_request [OF read])
  next
    case update
    have "n' = snd (handleUpdateRequest nlib r s m n)"
      using assms has_only [OF update] by (simp add: name_handleNodeSpecificMessage_def)
    then show ?thesis by (simp add: simps other_request [OF update] split: option.split)
  next
    case delete
    have "n' = snd (handleDeleteRequest nlib r s m n)"
      using assms has_only [OF delete] by (simp add: name_handleNodeSpecificMessage_def)
    then show ?thesis by (simp add: simps other_request [OF delete] split: option.split)
  next
    case query
    have "n' = snd (handleQueryRequest nlib now r s m n)"
      using assms has_only [OF query] by (simp add: name_handleNodeSpecificMessage_def)
    then show ?thesis by (simp add: simps other_request [OF query])
  next
    case refresh
    have "n' = snd (handleRefreshRequest nlib now r s m n)"
      using assms has_only [OF refresh] by (simp add: name_handleNodeSpecificMessage_def)
    then show ?thesis by (simp add: simps other_request [OF refresh] split: option.split)
  next
    case rest
    have "n' = n" using assms rest by (simp add: name_handleNodeSpecificMessage_def)
    then show ?thesis by (simp add: simps none [OF rest(1)] none [OF rest(3)] none [OF rest(4)] none [OF rest(6)])
  qed
qed

section \<open>The table over a sequence of events\<close>

text \<open>Every event as a change of the table.\<close>

lemma apply_records:
  "name_records (name_apply nlib e n) =
     (case e of
        Handle now r s m \<Rightarrow> table_after nlib now m (name_records n)
      | Sweep now \<Rightarrow> if sweepStopping n then name_records n else smap_erase_if (\<lambda>k st. expiresAt st < now) (name_records n)
      | Check_begin random1 random2 r s fresh now \<Rightarrow> name_records n
      | Check_end key waiting \<Rightarrow>
          if case waiting of None \<Rightarrow> False | Some ping_id \<Rightarrow> fst (ping_end ping_id n) then name_records n
          else (case smap_find (name_records n) key of None \<Rightarrow> name_records n
                | Some st \<Rightarrow> smap_set key (st\<lparr>expiresAt := 0\<rparr>) (name_records n)))"
proof (cases e)
  case (Handle now r s m)
  obtain h n' where "name_handleNodeSpecificMessage nlib now r s m n = Inr (h, n')"
    by (fastforce simp: name_handleNodeSpecificMessage_def)
  then show ?thesis using Handle handled_records by simp
next
  case (Check_begin random1 random2 r s fresh now)
  then show ?thesis
    by (auto simp: pingcheck_begin_def Let_def dest!: ping_begin_keeps split: list.split prod.split)
qed (auto simp: sweep_turn_def pingcheck_end_def expire_record_def ping_end_def split: option.split)

declare name_apply.simps [simp del]

definition table_ok :: "(RecordKey, StoredRecord) std_map \<Rightarrow> bool" where
  "table_ok recs \<longleftrightarrow> smap_ok recs \<and>
     (\<forall>k st. smap_find recs k = Some st \<longrightarrow> k = (stored_name st, ownerBytes st, typeBytes st))"

lemma table_ok_set:
  "table_ok recs \<Longrightarrow> k = (stored_name st, ownerBytes st, typeBytes st) \<Longrightarrow> table_ok (smap_set k st recs)"
  by (auto simp: table_ok_def smap_find_set)

lemma table_ok_erase: "table_ok recs \<Longrightarrow> table_ok (smap_erase k recs)"
  by (auto simp: table_ok_def smap_find_erase)

lemma table_ok_erase_if: "table_ok recs \<Longrightarrow> table_ok (smap_erase_if P recs)"
  by (auto simp: table_ok_def smap_find_erase_if split: option.splits if_splits)

lemma table_ok_modify:
  "table_ok recs \<Longrightarrow> smap_find recs k = Some st0 \<Longrightarrow> stored_name st = stored_name st0 \<Longrightarrow> ownerBytes st = ownerBytes st0 \<Longrightarrow>
   typeBytes st = typeBytes st0 \<Longrightarrow> table_ok (smap_set k st recs)"
  by (cases k) (rule table_ok_set, auto simp: table_ok_def)

lemma table_ok_after: "table_ok recs \<Longrightarrow> table_ok (table_after nlib now m recs)"
proof -
  assume ok: "table_ok recs"
  have new: "table_ok (smap_set (makeKey_record rec) (stored_of now rec) recs)" for rec
    by (rule table_ok_set [OF ok]) (simp add: makeKey_record_def makeKey_def stored_of_def)
  show ?thesis
    using ok by (auto simp: table_after_def new table_ok_erase intro: table_ok_modify [OF ok] split: option.split)
qed

lemma table_ok_apply: "table_ok (name_records n) \<Longrightarrow> table_ok (name_records (name_apply nlib e n))"
  by (cases e) (auto simp: apply_records table_ok_after table_ok_erase_if intro: table_ok_modify split: option.split)

lemma table_ok_run: "table_ok (name_records n) \<Longrightarrow> table_ok (name_records (name_run nlib es n))"
  unfolding name_run_def by (induction es arbitrary: n) (simp_all add: table_ok_apply)

section \<open>A registered name resolves\<close>

text \<open>
  An event within the time to live of a record that neither changes nor removes it: any request but one
  that updates or deletes the record, any sweep, any check but one of the record.
\<close>

definition spares :: "name_library \<Rightarrow> RecordKey \<Rightarrow> datetime \<Rightarrow> datetime \<Rightarrow> name_event \<Rightarrow> bool" where
  "spares nlib k t0 t e =
     (case e of
        Handle now r s m \<Rightarrow> t0 \<le> now \<and> (\<forall>v. updates nlib m \<noteq> Some (k, v)) \<and> deletes nlib m \<noteq> Some k
      | Sweep now \<Rightarrow> now \<le> t
      | Check_begin random1 random2 r s fresh now \<Rightarrow> True
      | Check_end key waiting \<Rightarrow> key \<noteq> k)"

definition lives :: "RecordKey \<Rightarrow> bytes \<Rightarrow> datetime \<Rightarrow> (RecordKey, StoredRecord) std_map \<Rightarrow> bool" where
  "lives k v t recs \<longleftrightarrow> (\<exists>st. smap_find recs k = Some st \<and> valueBytes st = v \<and> t \<le> expiresAt st)"

lemma lives_apply:
  assumes "lives k v (t0 + kRecordTtlSeconds) (name_records n)" "spares nlib k t0 t e" "t < t0 + kRecordTtlSeconds"
    "table_ok (name_records n)"
  shows "lives k v (t0 + kRecordTtlSeconds) (name_records (name_apply nlib e n))"
proof (cases e)
  case (Handle now r s m)
  then show ?thesis
    using assms(1,2)
    by (auto simp: apply_records spares_def lives_def table_after_def smap_find_set smap_find_erase addSeconds_def
        split: option.split)
next
  case (Sweep now)
  then show ?thesis
    using assms by (auto simp: apply_records spares_def lives_def smap_find_erase_if table_ok_def)
qed (use assms in \<open>auto simp: apply_records spares_def lives_def smap_find_set split: option.split\<close>)

lemma lives_run:
  "lives k v (t0 + kRecordTtlSeconds) (name_records n) \<Longrightarrow> list_all (spares nlib k t0 t) es \<Longrightarrow> t < t0 + kRecordTtlSeconds \<Longrightarrow>
   table_ok (name_records n) \<Longrightarrow> lives k v (t0 + kRecordTtlSeconds) (name_records (name_run nlib es n))"
  unfolding name_run_def by (induction es arbitrary: n) (auto intro: lives_apply table_ok_apply)

definition sort_ok :: "name_library \<Rightarrow> bool" where
  "sort_ok nlib \<longleftrightarrow> (\<forall>xs. mset (std_sort nlib xs) = mset xs \<and>
     sorted_wrt (\<lambda>a b. nr_expires_at a = None \<or> nr_expires_at b = None \<or> the (nr_expires_at b) \<le> the (nr_expires_at a)) (std_sort nlib xs))"

lemma set_read_reply:
  assumes "sort_ok nlib"
  shows "set (read_records (read_reply nlib q t n)) =
    set (map (toProtoRecord \<circ> snd) (filter (\<lambda>(k, st). read_matches q t st) (name_records n)))"
  using assms by (simp add: read_reply_def sort_ok_def Let_def flip: set_mset_mset)

lemma new_records: "NameService_new lib derive env r s kp = Inr n \<Longrightarrow> name_records n = []"
  by (auto simp: NameService_new_def RSPClient_new_def client_fields_def res_bind_eq_Inr RSPNode.defs NameService.defs)

lemma table_ok_new: "NameService_new lib derive env r s kp = Inr n \<Longrightarrow> table_ok (name_records n)"
  by (simp add: new_records table_ok_def)

text \<open>
  C20. A registered name resolves for its time to live. After any history of a name service, let it handle
  at time \<^verbatim>\<open>t0\<close> a request to create a record whose key is free. Whatever requests, sweeps and checks follow, as
  long as none updates or deletes that record or finds its owner gone, every request to read that name
  before \<^verbatim>\<open>t0\<close> + 300 s, for any owner and type or for those of the record, is answered with success and
  with that record and its value among the results.
\<close>

theorem name_resolves:
  assumes "NameService_new lib derive env r0 s0 kp = Inr (n0 :: ('k, 'cb) name_node)" "sort_ok nlib"
    and "creates nlib m = Some rec" "smap_find (name_records (name_run nlib before n0)) (makeKey_record rec) = None"
    and "list_all (spares nlib (makeKey_record rec) t0 t) after" "t < t0 + 300"
    and "read_name q = nr_name rec" "read_owner q \<in> {None, Some (bytes_or_default (nr_owner rec))}"
      "read_type q \<in> {None, Some (bytes_or_default (nr_type rec))}"
    and reply_def: "reply = read_reply nlib q t (name_run nlib (before @ Handle t0 r s m # after) n0)"
  shows "read_status reply = NAME_SUCCESS \<and>
    (\<exists>found\<in>set (read_records reply). nr_name found = nr_name rec \<and>
       nr_owner found = Some (bytes_or_default (nr_owner rec)) \<and> nr_type found = Some (bytes_or_default (nr_type rec)) \<and>
       nr_value found = Some (bytes_or_default (nr_value rec)))"
proof -
  let ?n = "name_apply nlib (Handle t0 r s m) (name_run nlib before n0)"
  let ?n' = "name_run nlib (before @ Handle t0 r s m # after) n0"
  let ?v = "bytes_or_default (nr_value rec)"
  have ok: "table_ok (name_records (name_run nlib before n0))" by (rule table_ok_run [OF table_ok_new [OF assms(1)]])
  have "lives (makeKey_record rec) ?v (t0 + kRecordTtlSeconds) (name_records ?n)"
    using assms(3,4) by (simp add: apply_records table_after_def lives_def stored_of_def addSeconds_def)
  from lives_run [OF this assms(5) _ table_ok_apply [OF ok]]
  have "lives (makeKey_record rec) ?v (t0 + kRecordTtlSeconds) (name_records (name_run nlib after ?n))"
    using assms(6) by (simp add: kRecordTtlSeconds_def)
  then obtain st where st: "smap_find (name_records ?n') (makeKey_record rec) = Some st" "valueBytes st = ?v" "t < expiresAt st"
    using assms(6) by (auto simp: lives_def name_run_def kRecordTtlSeconds_def)
  have key: "(stored_name st, ownerBytes st, typeBytes st) = makeKey_record rec"
    using table_ok_run [OF table_ok_new [OF assms(1)], of nlib "before @ Handle t0 r s m # after"] st(1)
    by (cases "makeKey_record rec") (auto simp: table_ok_def)
  let ?found = "map (toProtoRecord \<circ> snd) (filter (\<lambda>(k, st). read_matches q t st) (name_records ?n'))"
  have "(makeKey_record rec, st) \<in> set (filter (\<lambda>(k, st). read_matches q t st) (name_records ?n'))"
    using smap_find_in_set [OF st(1)] key st(3) assms(7-9)
    by (auto simp: read_matches_def makeKey_record_def makeKey_def)
  then have mem: "toProtoRecord st \<in> set ?found" by force
  then have "?found \<noteq> []" by (metis empty_iff empty_set)
  moreover have "toProtoRecord st \<in> set (read_records reply)"
    using mem by (simp only: reply_def set_read_reply [OF assms(2)])
  moreover have "nr_name (toProtoRecord st) = nr_name rec \<and> nr_owner (toProtoRecord st) = Some (bytes_or_default (nr_owner rec)) \<and>
      nr_type (toProtoRecord st) = Some (bytes_or_default (nr_type rec)) \<and> nr_value (toProtoRecord st) = Some ?v"
    using key st(2) by (simp add: toProtoRecord_def makeKey_record_def makeKey_def)
  ultimately show ?thesis
    by (intro conjI bexI [of _ "toProtoRecord st"]) (simp_all add: reply_def read_reply_def Let_def)
qed

section \<open>Nothing else resolves\<close>

definition renews :: "name_library \<Rightarrow> RecordKey \<Rightarrow> RSPMessage \<Rightarrow> bool" where
  "renews nlib k m \<longleftrightarrow> (\<exists>rec. creates nlib m = Some rec \<and> makeKey_record rec = k) \<or> refreshes nlib m = Some k"

definition gives_value :: "name_library \<Rightarrow> RecordKey \<Rightarrow> bytes \<Rightarrow> RSPMessage \<Rightarrow> bool" where
  "gives_value nlib k v m \<longleftrightarrow>
     (\<exists>rec. creates nlib m = Some rec \<and> makeKey_record rec = k \<and> bytes_or_default (nr_value rec) = v) \<or> updates nlib m = Some (k, v)"

definition accounted :: "name_library \<Rightarrow> name_event list \<Rightarrow> RecordKey \<Rightarrow> StoredRecord \<Rightarrow> bool" where
  "accounted nlib es k st \<longleftrightarrow>
     (expiresAt st \<le> 0 \<or> (\<exists>now r s m. Handle now r s m \<in> set es \<and> renews nlib k m \<and> expiresAt st \<le> now + 300)) \<and>
     (\<exists>now r s m. Handle now r s m \<in> set es \<and> gives_value nlib k (valueBytes st) m)"

lemma accounted_more: "accounted nlib es k st \<Longrightarrow> set es \<subseteq> set es' \<Longrightarrow> accounted nlib es' k st"
  unfolding accounted_def by blast

lemma accounted_apply:
  assumes "\<And>k st. smap_find (name_records n) k = Some st \<Longrightarrow> accounted nlib es k st" "table_ok (name_records n)"
    and "smap_find (name_records (name_apply nlib e n)) k = Some st"
  shows "accounted nlib (es @ [e]) k st"
proof -
  have old: "accounted nlib (es @ [e]) k st" if "smap_find (name_records n) k = Some st" for k st
    by (rule accounted_more [OF assms(1) [OF that]]) auto
  show ?thesis
  proof (cases e)
    case (Handle now r s m)
    consider (same) "smap_find (name_records n) k = Some st"
      | (new) rec where "creates nlib m = Some rec" "k = makeKey_record rec" "st = stored_of now rec"
      | (update) v st0 where "updates nlib m = Some (k, v)" "smap_find (name_records n) k = Some st0" "st = st0\<lparr>valueBytes := v\<rparr>"
      | (refresh) st0 where "refreshes nlib m = Some k" "smap_find (name_records n) k = Some st0"
          "st = st0\<lparr>expiresAt := addSeconds now kRecordTtlSeconds\<rparr>"
      using assms(3) Handle
      by (auto simp: apply_records table_after_def smap_find_set smap_find_erase split: option.splits if_splits)
    then show ?thesis
    proof cases
      case same
      then show ?thesis by (rule old)
    next
      case new
      have "renews nlib k m" "gives_value nlib k (valueBytes st) m"
        using new by (auto simp: renews_def gives_value_def stored_of_def)
      then show ?thesis
        using new Handle by (auto simp: accounted_def stored_of_def addSeconds_def kRecordTtlSeconds_def)
    next
      case update
      have "gives_value nlib k (valueBytes st) m" using update by (simp add: gives_value_def)
      then show ?thesis using old [OF update(2)] update(3) Handle by (auto simp: accounted_def)
    next
      case refresh
      have "renews nlib k m" using refresh by (simp add: renews_def)
      then show ?thesis
        using old [OF refresh(2)] refresh(3) Handle by (auto simp: accounted_def addSeconds_def kRecordTtlSeconds_def)
    qed
  next
    case (Sweep now)
    then have "smap_find (name_records n) k = Some st"
      using assms(2,3) by (auto simp: apply_records smap_find_erase_if table_ok_def split: if_splits option.splits)
    then show ?thesis by (rule old)
  next
    case (Check_begin random1 random2 r s fresh now)
    then show ?thesis using assms(3) by (intro old) (simp add: apply_records)
  next
    case (Check_end key waiting)
    then consider "smap_find (name_records n) k = Some st"
      | st0 where "smap_find (name_records n) k = Some st0" "st = st0\<lparr>expiresAt := 0\<rparr>"
      using assms(3) by (auto simp: apply_records smap_find_set split: if_splits option.splits)
    then show ?thesis using old by cases (auto simp: accounted_def)
  qed
qed

lemma accounted_run:
  "table_ok (name_records n) \<Longrightarrow> name_records n = [] \<Longrightarrow> smap_find (name_records (name_run nlib es n)) k = Some st \<Longrightarrow> accounted nlib es k st"
proof (induction es arbitrary: k st rule: rev_induct)
  case (snoc e es)
  show ?case
    using accounted_apply [OF snoc.IH [OF snoc.prems(1,2)] table_ok_run [OF snoc.prems(1)]] snoc.prems(3)
    by (simp add: name_run_def)
qed (simp add: name_run_def)


section \<open>The check of a competing owner\<close>

text \<open>
  \<^verbatim>\<open>NameService\<close> overrides \<^verbatim>\<open>handleNodeSpecificMessage\<close> and does not call that of the client, which is the only
  place where a ping is completed. So the check of the owner of a record never succeeds, whatever the
  service receives while it waits, and expires the record.
\<close>

lemma name_handled:
  assumes "name_handleNodeSpecificMessage nlib now r s m n = Inr (h, n')"
  shows "n' = n \<or> n' = snd (handleCreateRequest nlib now r s m n) \<or> n' = snd (handleReadRequest nlib now r s m n) \<or>
    n' = snd (handleUpdateRequest nlib r s m n) \<or> n' = snd (handleDeleteRequest nlib r s m n) \<or>
    n' = snd (handleQueryRequest nlib now r s m n) \<or> n' = snd (handleRefreshRequest nlib now r s m n)"
  using assms by (auto simp: name_handleNodeSpecificMessage_def split: if_splits)

lemma name_handler_pings:
  "name_handleNodeSpecificMessage nlib now r s m n = Inr (h, n') \<Longrightarrow> pendingPings n' = pendingPings n"
proof -
  have respond: "pendingPings (snd (respond f T reply r s m y)) = pendingPings y" for f T reply and y :: "('k, 'cb) name_node"
    by (simp add: respond_def split: option.split)
  then have pair: "respond f T reply r s m y = (c, z) \<Longrightarrow> pendingPings z = pendingPings y" for f T reply c and y z :: "('k, 'cb) name_node"
    by (metis snd_conv)
  have "pendingPings (snd (handleCreateRequest nlib now r s m n)) = pendingPings n"
    by (auto simp: handleCreateRequest_def Let_def respond dest!: pair split: option.split prod.split)
  moreover have "pendingPings (snd (handleReadRequest nlib now r s m n)) = pendingPings n"
    "pendingPings (snd (handleQueryRequest nlib now r s m n)) = pendingPings n"
    "pendingPings (snd (handleUpdateRequest nlib r s m n)) = pendingPings n"
    "pendingPings (snd (handleDeleteRequest nlib r s m n)) = pendingPings n"
    "pendingPings (snd (handleRefreshRequest nlib now r s m n)) = pendingPings n"
    by (simp_all add: handleReadRequest_def handleQueryRequest_def handleUpdateRequest_def handleDeleteRequest_def
        handleRefreshRequest_def Let_def respond split: option.split)
  note steps = calculation this
  assume "name_handleNodeSpecificMessage nlib now r s m n = Inr (h, n')"
  from name_handled [OF this] show ?thesis
    by (elim disjE) (simp_all add: steps)
qed

lemma name_handlers_pings:
  "handle_all (name_handleNodeSpecificMessage nlib now r s) ms n = Inr n' \<Longrightarrow> pendingPings n' = pendingPings n"
  by (induction ms arbitrary: n) (auto simp: res_bind_eq_Inr dest: name_handler_pings)

lemma name_ping_unanswered:
  assumes "ping_begin r s fresh now owner n = (Some ping_id, n1)" "smap_find (pendingPings n) (GUID_toString fresh) = None"
    and "handle_all (name_handleNodeSpecificMessage nlib later r' s') ms n1 = Inr n2"
  shows "\<not> fst (ping_end ping_id n2) \<and> pingcheck_end key (Some ping_id) n2 = expire_record key (snd (ping_end ping_id n2))"
proof -
  have "ping_id = GUID_toString fresh" "pendingPings n1 = smap_emplace (GUID_toString fresh)
      \<lparr>pending_destination = owner, pending_sequence = nextPingSequence n, completed = False\<rparr> (pendingPings n)"
  proof -
    have send: "client_send a b x y = (c, z) \<Longrightarrow> pendingPings z = pendingPings y" for a b x c and y z :: "('a, 'b) name_node"
      using client_send_keeps(1) [of a b x y] by simp
    show "ping_id = GUID_toString fresh" "pendingPings n1 = smap_emplace (GUID_toString fresh)
        \<lparr>pending_destination = owner, pending_sequence = nextPingSequence n, completed = False\<rparr> (pendingPings n)"
      using assms(1) by (auto simp: ping_begin_def Let_def dest!: send split: prod.splits bool.splits)
  qed
  then have "\<not> ping_completed ping_id n2"
    using name_handlers_pings [OF assms(3)] assms(2) by (simp add: ping_completed_def smap_emplace_def)
  then have "\<not> fst (ping_end ping_id n2)" by (simp add: ping_end_def)
  then show ?thesis by (cases "ping_end ping_id n2") (simp add: pingcheck_end_def)
qed

text \<open>Nor does the service look at who asks: the table that a request leaves does not depend on its sender.\<close>

lemma name_requests_unowned:
  "table_after nlib now (m\<lparr>source := x, signature := y\<rparr>) recs = table_after nlib now m recs"
  by (simp add: table_after_def request_defs unpackServiceMessage_def)

text \<open>The handlers keep the invariant of the client, so what holds of every client holds of the service.\<close>

lemma client_ok_names [simp]:
  "client_ok (n\<lparr>name_records := recs\<rparr>) = client_ok n" "client_ok (n\<lparr>pingCheckQueue := items\<rparr>) = client_ok n"
  by (simp_all add: client_ok_def node_ok_def connection_ok_def own_messages_def)

lemma name_keeps_client: "keeps_client (name_handleNodeSpecificMessage nlib now r s)"
proof -
  have respond: "client_ok (snd (respond f T reply r s m n))" if "client_ok n" for f T reply m and n :: "('k, 'cb) name_node"
    using that by (simp add: respond_def client_ok_send split: option.split)
  then have pair: "respond f T reply r s m n = (b, n') \<Longrightarrow> client_ok n \<Longrightarrow> client_ok n'" for f T reply m b and n n' :: "('k, 'cb) name_node"
    by (metis snd_conv)
  have "client_ok (snd (handleCreateRequest nlib now r s m n))" if "client_ok n" for m and n :: "('k, 'cb) name_node"
    using that by (auto simp: handleCreateRequest_def Let_def respond dest: pair split: option.split prod.split)
  moreover have "client_ok (snd (handleReadRequest nlib now r s m n))" "client_ok (snd (handleQueryRequest nlib now r s m n))"
    "client_ok (snd (handleUpdateRequest nlib r s m n))" "client_ok (snd (handleDeleteRequest nlib r s m n))"
    "client_ok (snd (handleRefreshRequest nlib now r s m n))" if "client_ok n" for m and n :: "('k, 'cb) name_node"
    using that
    by (simp_all add: handleReadRequest_def handleQueryRequest_def handleUpdateRequest_def handleDeleteRequest_def
        handleRefreshRequest_def Let_def respond split: option.split)
  note steps = calculation this
  show ?thesis
    unfolding keeps_client_def
  proof (intro allI impI)
    fix m n h and n' :: "('k, 'cb) name_node"
    assume ok: "client_ok n" and run: "name_handleNodeSpecificMessage nlib now r s m n = Inr (h, n')"
    from name_handled [OF run] show "client_ok n'"
      by (elim disjE) (simp_all add: steps [OF ok] ok)
  qed
qed

section \<open>A concrete service\<close>

definition toy_type :: "('m \<Rightarrow> bytes) \<Rightarrow> (bytes \<Rightarrow> 'm) \<Rightarrow> 'm message_type" where
  "toy_type enc dec = \<lparr>SerializeAsString = enc, ParseFromString = (\<lambda>b. Some (dec b))\<rparr>"

definition toy_record :: "NameRecord" where
  "toy_record = \<lparr>nr_name = ''printer'', nr_owner = Some ''owner'', nr_type = Some ''type'', nr_value = Some ''value'', nr_expires_at = None\<rparr>"

definition toy_names :: name_library where
  "toy_names =
     \<lparr>createRequest_type = toy_type (\<lambda>_. []) (\<lambda>b. \<lparr>create_record = Some toy_record\<rparr>),
      readRequest_type = toy_type read_name (\<lambda>b. \<lparr>read_name = b, read_owner = None, read_type = None\<rparr>),
      updateRequest_type = toy_type key_name (\<lambda>b. \<lparr>key_name = b, key_owner = None, key_type = None, new_value = None\<rparr>),
      deleteRequest_type = toy_type key_name (\<lambda>b. \<lparr>key_name = b, key_owner = None, key_type = None\<rparr>),
      refreshRequest_type = toy_type key_name (\<lambda>b. \<lparr>key_name = b, key_owner = None, key_type = None\<rparr>),
      queryRequest_type = toy_type (\<lambda>_. []) (\<lambda>b. \<lparr>name_prefix = None, query_owner = None, query_type = None, query_max_records = 0\<rparr>),
      statusReply_type = toy_type (\<lambda>_. []) (\<lambda>b. success), readReply_type = toy_type (\<lambda>_. []) (\<lambda>b. \<lparr>read_status = NAME_SUCCESS, read_records = []\<rparr>),
      queryReply_type = toy_type (\<lambda>_. []) (\<lambda>b. \<lparr>query_records = []\<rparr>), nameServiceDescriptor = [],
      std_sort = rev \<circ> sort_key (\<lambda>a. case nr_expires_at a of None \<Rightarrow> 0 | Some t \<Rightarrow> t)\<rparr>"

lemma toy_names_sort: "sort_ok toy_names"
proof -
  have "sorted_wrt (\<lambda>a b. nr_expires_at a = None \<or> nr_expires_at b = None \<or> the (nr_expires_at b) \<le> the (nr_expires_at a))
      (rev (sort_key (\<lambda>a. case nr_expires_at a of None \<Rightarrow> 0 | Some t \<Rightarrow> t) xs))" for xs :: "NameRecord list"
  proof -
    have "sorted (map (\<lambda>a. case nr_expires_at a of None \<Rightarrow> 0 | Some t \<Rightarrow> t) (sort_key (\<lambda>a. case nr_expires_at a of None \<Rightarrow> 0 | Some t \<Rightarrow> t) xs))"
      by (rule sorted_sort_key)
    then show ?thesis
      unfolding sorted_wrt_rev sorted_map
      by (rule sorted_wrt_mono_rel [rotated]) (auto split: option.splits)
  qed
  then show ?thesis by (simp add: sort_ok_def toy_names_def)
qed

definition toy_create :: RSPMessage where
  "toy_create = packServiceMessage ''rsp.proto.NameCreateRequest'' (createRequest_type toy_names) \<lparr>create_record = None\<rparr> RSPMessage_default"

lemma toy_creates: "creates toy_names toy_create = Some toy_record"
proof -
  have "typeNameFromUrl (kTypeUrlPrefix @ ''rsp.proto.NameCreateRequest'') = ''rsp.proto.NameCreateRequest''"
    by (rule typeName_prefix) simp
  then show ?thesis
    by (simp add: creates_def toy_create_def unpackServiceMessage_def packServiceMessage_def PackFrom_def UnpackTo_def
        toy_names_def toy_type_def)
qed

lemma toy_name_new: obtains n :: "(nat, nat) name_node" where "NameService_new toy_openssl toy_derive empty_env 1 2 (Some 7) = Inr n"
proof -
  obtain n0 :: "(nat, nat) RSPNode" where "RSPNode_new toy_openssl toy_derive empty_env 1 2 (Some 7) = Inr n0"
    by (rule toy_node_new)
  then show thesis by (intro that) (simp add: NameService_new_def RSPClient_new_def)
qed

abbreviation toy_read :: NameReadRequest where
  "toy_read \<equiv> \<lparr>read_name = ''printer'', read_owner = None, read_type = None\<rparr>"

theorem name_resolves_witness:
  "\<exists>n0 :: (nat, nat) name_node. NameService_new toy_openssl toy_derive empty_env 1 2 (Some 7) = Inr n0 \<and>
     read_status (read_reply toy_names toy_read 100 (name_run toy_names ([] @ Handle 10 1 2 toy_create # [Sweep 70]) n0)) = NAME_SUCCESS"
proof -
  obtain n0 :: "(nat, nat) name_node" where n0: "NameService_new toy_openssl toy_derive empty_env 1 2 (Some 7) = Inr n0"
    by (rule toy_name_new)
  have free: "smap_find (name_records (name_run toy_names [] n0)) (makeKey_record toy_record) = None"
    by (simp add: name_run_def new_records [OF n0])
  have "list_all (spares toy_names (makeKey_record toy_record) 10 100) [Sweep 70]" by (simp add: spares_def)
  from name_resolves [OF n0 toy_names_sort toy_creates free this, of toy_read _ 1 2] show ?thesis
    using n0 by (auto simp: toy_record_def)
qed


end
