(* ===== verification/Endorsement_Service.thy ===== *)
theory Endorsement_Service
  imports Resource_Service
begin

text \<open>
  \<^verbatim>\<open>src/resource_service/endorsement\<close>: the service that issues endorsements. A requester signs the endorsement that it
  wants, with itself as subject and as issuer; the service checks the request against its configuration
  and answers with an endorsement under its own key. The codecs of the two messages and the
  deterministic serialisation of endorsements are protobuf's and are arguments.
\<close>

section \<open>State\<close>

datatype ENDORSEMENT_STATUS =
    ENDORSEMENT_SUCCESS
  | ENDORSEMENT_FAILED
  | ENDORSEMENT_CHALLENGE
  | ENDORSEMENT_INVALID_SIGNATURE
  | ENDORSEMENT_UNKNOWN_IDENTITY

record BeginEndorsementRequest =
  requested_values :: "EndorsementMsg option"
  auth_data :: "bytes option"

record EndorsementDone =
  done_status :: ENDORSEMENT_STATUS
  new_endorsement :: "EndorsementMsg option"

record endorsement_library =
  beginRequest_type :: "BeginEndorsementRequest message_type"
  endorsementDone_type :: "EndorsementDone message_type"
  serializeEndorsement :: "EndorsementMsg \<Rightarrow> bytes option"

definition DAYS :: "real \<Rightarrow> real" where
  "DAYS n = n * 86400"

record ConfiguredEndorsement =
  requestor :: "nodeid option"
  conf_type :: guid
  conf_value :: Buffer
  validForSeconds :: real

record ('k, 'cb) EndorsementService = "('k, 'cb) RSPClient" +
  configuredEndorsements :: "ConfiguredEndorsement list"

type_synonym ('k, 'cb) es_node = "('k, 'cb) EndorsementService"

definition EndorsementService_new :: "'k openssl \<Rightarrow> ('k \<Rightarrow> 'k \<Rightarrow> bytes option) \<Rightarrow> hash_env \<Rightarrow> u64 \<Rightarrow> u64 \<Rightarrow> 'k KeyPair \<Rightarrow>
    ('k, 'cb) es_node result" where
  "EndorsementService_new lib derive env r s kp = RSPClient_new lib derive env r s (EndorsementService.fields []) kp"

definition setConfiguredEndorsements :: "ConfiguredEndorsement list \<Rightarrow> ('k, 'cb) es_node \<Rightarrow> ('k, 'cb) es_node" where
  "setConfiguredEndorsements cs n = n\<lparr>configuredEndorsements := cs\<rparr>"

definition configuredEndorsementCount :: "('k, 'cb) es_node \<Rightarrow> nat" where
  "configuredEndorsementCount n = length (configuredEndorsements n)"

section \<open>Requests\<close>

definition buffersEqual :: "Buffer \<Rightarrow> Buffer \<Rightarrow> bool" where
  "buffersEqual lhs rhs \<longleftrightarrow>
     Buffer_size lhs = Buffer_size rhs \<and> (Buffer_empty lhs \<or> Buffer_contents lhs = Buffer_contents rhs)"

text \<open>The loop over the configuration; the accessors of the requested values may throw.\<close>

primrec findMatchingConfiguredEndorsement :: "nodeid \<Rightarrow> EndorsementMsg \<Rightarrow> ConfiguredEndorsement list \<Rightarrow>
    ConfiguredEndorsement option result" where
  "findMatchingConfiguredEndorsement who e [] = Inr None"
| "findMatchingConfiguredEndorsement who e (c # cs) =
     (if requestor c \<noteq> None \<and> requestor c \<noteq> Some who then findMatchingConfiguredEndorsement who e cs
      else
        res_bind (endorsementType e) (\<lambda>ty.
        if conf_type c \<noteq> ty then findMatchingConfiguredEndorsement who e cs
        else
          res_bind (endorsementValue e) (\<lambda>val.
          if \<not> buffersEqual (conf_value c) val then findMatchingConfiguredEndorsement who e cs
          else Inr (Some c))))"

definition done_with :: "ENDORSEMENT_STATUS \<Rightarrow> EndorsementDone result" where
  "done_with st = Inr \<lparr>done_status = st, new_endorsement = None\<rparr>"

text \<open>The end of the request: the endorsement that is issued, when the configuration has been consulted.\<close>

definition issue :: "endorsement_library \<Rightarrow> datetime \<Rightarrow> EndorsementMsg \<Rightarrow> ConfiguredEndorsement option \<Rightarrow> ('k, 'cb) es_node \<Rightarrow>
    EndorsementDone result" where
  "issue elib now e matched n =
     res_bind (endorsementType e) (\<lambda>requestedType.
     res_bind (endorsementValue e) (\<lambda>requestedValue.
     res_bind (Endorsement_subject e) (\<lambda>sub.
     let ty = (case matched of None \<Rightarrow> requestedType | Some c \<Rightarrow> conf_type c);
         val = (case matched of None \<Rightarrow> requestedValue | Some c \<Rightarrow> conf_value c);
         validFor = (case matched of None \<Rightarrow> DAYS 1 | Some c \<Rightarrow> if validForSeconds c > 0 then validForSeconds c else DAYS 1)
     in res_bind (createSigned (node_openssl n) (serializeEndorsement elib) (own_keyPair n) sub ty val (addSeconds now validFor)) (\<lambda>issued.
        res_bind (toProto issued) (\<lambda>p. Inr \<lparr>done_status = ENDORSEMENT_SUCCESS, new_endorsement = Some p\<rparr>)))))"

text \<open>The checks on the requested values, in the order of the code.\<close>

definition examine :: "endorsement_library \<Rightarrow> datetime \<Rightarrow> nodeid \<Rightarrow> 'k KeyPair \<Rightarrow> EndorsementMsg \<Rightarrow> ('k, 'cb) es_node \<Rightarrow>
    EndorsementDone result" where
  "examine elib now who key e n =
     res_bind (Endorsement_subject e) (\<lambda>sub.
     if sub \<noteq> who then done_with ENDORSEMENT_INVALID_SIGNATURE
     else
       res_bind (endorsementService e) (\<lambda>svc.
       if svc \<noteq> who then done_with ENDORSEMENT_INVALID_SIGNATURE
       else
         res_bind (verifySignature (node_openssl n) (serializeEndorsement elib) e key) (\<lambda>verified.
         if \<not> verified then done_with ENDORSEMENT_INVALID_SIGNATURE
         else
           res_bind (findMatchingConfiguredEndorsement who e (configuredEndorsements n)) (\<lambda>matched.
           if configuredEndorsements n \<noteq> [] \<and> matched = None then done_with ENDORSEMENT_FAILED
           else issue elib now e matched n))))"

definition decide :: "endorsement_library \<Rightarrow> datetime \<Rightarrow> RSPMessage \<Rightarrow> ('k, 'cb) es_node \<Rightarrow> EndorsementDone result" where
  "decide elib now m n =
     (case senderNodeIdFromMessage m of
        None \<Rightarrow> done_with ENDORSEMENT_FAILED
      | Some who \<Rightarrow>
          (case IdentityCache_get who (identityCache n) of
             None \<Rightarrow> done_with ENDORSEMENT_UNKNOWN_IDENTITY
           | Some cachedIdentity \<Rightarrow>
               (case unpackServiceMessage ''rsp.proto.BeginEndorsementRequest'' (beginRequest_type elib) m of
                  None \<Rightarrow> done_with ENDORSEMENT_FAILED
                | Some request \<Rightarrow>
                    (case requested_values request of
                       None \<Rightarrow> done_with ENDORSEMENT_INVALID_SIGNATURE
                     | Some values \<Rightarrow>
                         res_bind (fromPublicKey (node_openssl n) (public_key_or_default cachedIdentity)) (\<lambda>key.
                         res_bind (nodeID (node_openssl n) key) (\<lambda>keyId.
                         if keyId \<noteq> who then done_with ENDORSEMENT_INVALID_SIGNATURE
                         else res_bind (fromProto values) (\<lambda>e. examine elib now who key e n)))))))"

definition endorsement_answer :: "endorsement_library \<Rightarrow> datetime \<Rightarrow> RSPMessage \<Rightarrow> ('k, 'cb) es_node \<Rightarrow> EndorsementDone result" where
  "endorsement_answer elib now m n = catch_exception (decide elib now m n) (done_with ENDORSEMENT_FAILED)"

text \<open>The reply goes to the sender, and has no destination when there is none.\<close>

definition handleBeginEndorsementRequest :: "endorsement_library \<Rightarrow> datetime \<Rightarrow> u64 \<Rightarrow> u64 \<Rightarrow> RSPMessage \<Rightarrow> ('k, 'cb) es_node \<Rightarrow>
    (bool \<times> ('k, 'cb) es_node) result" where
  "handleBeginEndorsementRequest elib now r s m n =
     res_bind (endorsement_answer elib now m n) (\<lambda>d.
       Inr (client_send r s
         (packServiceMessage ''rsp.proto.EndorsementDone'' (endorsementDone_type elib) d
            (RSPMessage_default\<lparr>destination := map_option toProtoNodeId (senderNodeIdFromMessage m)\<rparr>)) n))"

definition es_handleNodeSpecificMessage :: "endorsement_library \<Rightarrow> datetime \<Rightarrow> u64 \<Rightarrow> u64 \<Rightarrow> RSPMessage \<Rightarrow> ('k, 'cb) es_node \<Rightarrow>
    (bool \<times> ('k, 'cb) es_node) result" where
  "es_handleNodeSpecificMessage elib now r s m n =
     (if (case core m of identity i \<Rightarrow> True | _ \<Rightarrow> False) \<or> identities m \<noteq> [] then Inr (True, n)
      else if hasServiceMessage ''rsp.proto.BeginEndorsementRequest'' m then handleBeginEndorsementRequest elib now r s m n
      else Inr (False, n))"

section \<open>Lemmas\<close>

lemma es_keeps_client: "keeps_client (es_handleNodeSpecificMessage elib now r s)"
  unfolding keeps_client_def
proof (intro allI impI)
  fix m n h and n' :: "('k, 'cb) es_node"
  assume ok: "client_ok n" and run: "es_handleNodeSpecificMessage elib now r s m n = Inr (h, n')"
  have "n' = n \<or> (\<exists>x. n' = snd (client_send r s x n))"
    using run by (auto simp: es_handleNodeSpecificMessage_def handleBeginEndorsementRequest_def res_bind_eq_Inr
        split: if_splits) (metis snd_conv)
  then show "client_ok n'" using ok client_ok_send by blast
qed

lemma find_match_Some:
  "findMatchingConfiguredEndorsement who e cs = Inr (Some c) \<Longrightarrow>
   c \<in> set cs \<and> (requestor c = None \<or> requestor c = Some who) \<and> endorsementType e = Inr (conf_type c) \<and>
   (\<exists>val. endorsementValue e = Inr val \<and> buffersEqual (conf_value c) val)"
  by (induction cs) (auto simp: res_bind_eq_Inr split: if_splits)

text \<open>Whether the configuration lets a node have an endorsement.\<close>

definition permitted :: "nodeid \<Rightarrow> guid \<Rightarrow> Buffer \<Rightarrow> real \<Rightarrow> ConfiguredEndorsement list \<Rightarrow> bool" where
  "permitted who ty val validFor cs \<longleftrightarrow>
     (if cs = [] then validFor = DAYS 1
      else \<exists>c\<in>set cs. (requestor c = None \<or> requestor c = Some who) \<and> conf_type c = ty \<and> buffersEqual (conf_value c) val \<and>
        validFor = (if validForSeconds c > 0 then validForSeconds c else DAYS 1))"

lemma buffersEqual_wf: "Buffer_wf a \<Longrightarrow> Buffer_wf b \<Longrightarrow> buffersEqual a b \<Longrightarrow> a = b"
proof -
  assume wf: "Buffer_wf a" "Buffer_wf b" and eq: "buffersEqual a b"
  have "Buffer_contents a = Buffer_contents b"
  proof (cases "Buffer_empty a")
    case True
    then have "Buffer_contents a = []" "Buffer_contents b = []"
      using wf eq Buffer_wf_length [of a] Buffer_wf_length [of b]
      by (auto simp: buffersEqual_def Buffer_empty_def Buffer_size_def)
    then show ?thesis by simp
  next
    case False
    then show ?thesis using eq by (simp add: buffersEqual_def)
  qed
  then show "a = b" using wf stringToBuffer_contents_id by metis
qed

lemma endorsementValue_wf:
  "endorsementValue e = Inr val \<Longrightarrow> length (endorsement_value e) < 2 ^ 32 \<Longrightarrow> Buffer_wf val"
  by (auto simp: endorsementValue_def res_bind_eq_Inr stringToBuffer_wf)

lemma createSigned_until:
  "createSigned lib ser kp sub ty val until = Inr e \<Longrightarrow> valid_until e = Some (millisecondsSinceEpoch until)"
  by (auto simp: createSigned_def setMessageFields_def res_bind_eq_Inr Let_def)

lemma issue_issues:
  assumes "openssl_ok (node_openssl n)" "signatures_fit (node_openssl n)" "issue elib now e matched n = Inr d"
    and "\<And>c. matched = Some c \<Longrightarrow> Buffer_wf (conf_value c)" "length (endorsement_value e) < 2 ^ 32"
  shows "\<exists>p sub ty val. d = \<lparr>done_status = ENDORSEMENT_SUCCESS, new_endorsement = Some p\<rparr> \<and> Endorsement_subject e = Inr sub \<and>
    endorsementType e = Inr ty \<and> endorsementValue e = Inr val \<and>
    verifySignature (node_openssl n) (serializeEndorsement elib) p (own_keyPair n) = Inr True \<and>
    Endorsement_subject p = Inr sub \<and>
    endorsementType p = Inr (case matched of None \<Rightarrow> ty | Some c \<Rightarrow> conf_type c) \<and>
    endorsementValue p = Inr (case matched of None \<Rightarrow> val | Some c \<Rightarrow> conf_value c) \<and>
    valid_until p = Some (millisecondsSinceEpoch (addSeconds now
      (case matched of None \<Rightarrow> DAYS 1 | Some c \<Rightarrow> if validForSeconds c > 0 then validForSeconds c else DAYS 1)))"
proof -
  let ?until = "addSeconds now (case matched of None \<Rightarrow> DAYS 1 | Some c \<Rightarrow> if validForSeconds c > 0 then validForSeconds c else DAYS 1)"
  obtain ty val sub p where e: "endorsementType e = Inr ty" "endorsementValue e = Inr val" "Endorsement_subject e = Inr sub"
    and p: "createSigned (node_openssl n) (serializeEndorsement elib) (own_keyPair n) sub
        (case matched of None \<Rightarrow> ty | Some c \<Rightarrow> conf_type c) (case matched of None \<Rightarrow> val | Some c \<Rightarrow> conf_value c) ?until = Inr p"
    and d: "d = \<lparr>done_status = ENDORSEMENT_SUCCESS, new_endorsement = Some p\<rparr>"
    using assms(3) by (auto simp: issue_def toProto_def res_bind_eq_Inr Let_def)
  have wf: "Buffer_wf (case matched of None \<Rightarrow> val | Some c \<Rightarrow> conf_value c)"
    using assms(4,5) endorsementValue_wf [OF e(2)] by (cases matched) simp_all
  show ?thesis
    using createSigned_facts [OF assms(1) p wf] createSigned_until [OF p] assms(2) e d
    by (fastforce simp: signatures_fit_def)
qed

lemma examine_issues:
  assumes "client_ok n" "examine elib now who key e n = Inr d" "new_endorsement d = Some p"
    and "\<forall>c\<in>set (configuredEndorsements n). Buffer_wf (conf_value c)" "length (endorsement_value e) < 2 ^ 32"
  shows "Endorsement_subject e = Inr who \<and> endorsementService e = Inr who \<and>
    verifySignature (node_openssl n) (serializeEndorsement elib) e key = Inr True \<and>
    verifySignature (node_openssl n) (serializeEndorsement elib) p (own_keyPair n) = Inr True \<and> Endorsement_subject p = Inr who \<and>
    (\<exists>ty val validFor. endorsementType e = Inr ty \<and> endorsementValue e = Inr val \<and>
       permitted who ty val validFor (configuredEndorsements n) \<and> endorsementType p = Inr ty \<and> endorsementValue p = Inr val \<and>
       valid_until p = Some (millisecondsSinceEpoch (addSeconds now validFor)))"
proof -
  have lib: "openssl_ok (node_openssl n)" "signatures_fit (node_openssl n)"
    using assms(1) by (simp_all add: client_ok_def node_ok_def)
  obtain matched where e: "Endorsement_subject e = Inr who" "endorsementService e = Inr who"
    "verifySignature (node_openssl n) (serializeEndorsement elib) e key = Inr True"
    and matched: "findMatchingConfiguredEndorsement who e (configuredEndorsements n) = Inr matched"
      "configuredEndorsements n \<noteq> [] \<Longrightarrow> matched \<noteq> None" and issued: "issue elib now e matched n = Inr d"
    using assms(2,3) by (auto simp: examine_def done_with_def res_bind_eq_Inr split: if_splits)
  have wf: "Buffer_wf (conf_value c)" if "matched = Some c" for c
    using assms(4) find_match_Some [of who e "configuredEndorsements n" c] matched(1) that by simp
  obtain ty val where facts: "endorsementType e = Inr ty" "endorsementValue e = Inr val"
    "verifySignature (node_openssl n) (serializeEndorsement elib) p (own_keyPair n) = Inr True" "Endorsement_subject p = Inr who"
    "endorsementType p = Inr (case matched of None \<Rightarrow> ty | Some c \<Rightarrow> conf_type c)"
    "endorsementValue p = Inr (case matched of None \<Rightarrow> val | Some c \<Rightarrow> conf_value c)"
    "valid_until p = Some (millisecondsSinceEpoch (addSeconds now
      (case matched of None \<Rightarrow> DAYS 1 | Some c \<Rightarrow> if validForSeconds c > 0 then validForSeconds c else DAYS 1)))"
    using issue_issues [OF lib issued wf assms(5)] assms(3) e(1) by auto
  show ?thesis
  proof (cases matched)
    case None
    then have "permitted who ty val (DAYS 1) (configuredEndorsements n)"
      using matched(2) by (auto simp: permitted_def)
    then show ?thesis using e facts None by auto
  next
    case (Some c)
    have c: "c \<in> set (configuredEndorsements n)" "requestor c = None \<or> requestor c = Some who" "conf_type c = ty"
      "buffersEqual (conf_value c) val"
      using find_match_Some [of who e "configuredEndorsements n" c] matched(1) Some facts(1,2) by auto
    have "conf_value c = val"
      using buffersEqual_wf [OF wf [OF Some] endorsementValue_wf [OF facts(2) assms(5)] c(4)] .
    moreover have "permitted who ty val (if validForSeconds c > 0 then validForSeconds c else DAYS 1) (configuredEndorsements n)"
      using c by (auto simp: permitted_def)
    ultimately show ?thesis using e facts c(3) Some by auto
  qed
qed

text \<open>
  C22. The endorsement service issues nothing that was not asked for and allowed. It sends the answer to a
  request to the sender of the request; when the answer carries an endorsement, the sender's cached public
  key has its node identifier and has signed requested values that name the sender as subject and as
  issuer, the configuration, if there is one, lists the requested type and value for that sender, and the
  endorsement is for the sender, has that type and value and the configured time to live, and verifies
  under the key of the service.
\<close>

theorem endorsement_issued_as_configured:
  assumes "client_ok n" "endorsement_answer elib now m n = Inr d" "new_endorsement d = Some p"
    and "\<forall>c\<in>set (configuredEndorsements n). Buffer_wf (conf_value c)"
    and "\<forall>request e. unpackServiceMessage ''rsp.proto.BeginEndorsementRequest'' (beginRequest_type elib) m = Some request \<longrightarrow>
      requested_values request = Some e \<longrightarrow> length (endorsement_value e) < 2 ^ 32"
  shows "\<exists>who i key request e. senderNodeIdFromMessage m = Some who \<and>
    handleBeginEndorsementRequest elib now r s m n = Inr (client_send r s
      (packServiceMessage ''rsp.proto.EndorsementDone'' (endorsementDone_type elib) d
         (RSPMessage_default\<lparr>destination := Some (toProtoNodeId who)\<rparr>)) n) \<and>
    IdentityCache_get who (identityCache n) = Some i \<and> fromPublicKey (node_openssl n) (public_key_or_default i) = Inr key \<and>
    nodeID (node_openssl n) key = Inr who \<and>
    unpackServiceMessage ''rsp.proto.BeginEndorsementRequest'' (beginRequest_type elib) m = Some request \<and>
    requested_values request = Some e \<and> Endorsement_subject e = Inr who \<and> endorsementService e = Inr who \<and>
    verifySignature (node_openssl n) (serializeEndorsement elib) e key = Inr True \<and>
    verifySignature (node_openssl n) (serializeEndorsement elib) p (own_keyPair n) = Inr True \<and> Endorsement_subject p = Inr who \<and>
    (\<exists>ty val validFor. endorsementType e = Inr ty \<and> endorsementValue e = Inr val \<and>
       permitted who ty val validFor (configuredEndorsements n) \<and> endorsementType p = Inr ty \<and> endorsementValue p = Inr val \<and>
       valid_until p = Some (millisecondsSinceEpoch (addSeconds now validFor)))"
proof -
  have "decide elib now m n = Inr d"
    using assms(2,3) by (auto simp: endorsement_answer_def catch_exception_def done_with_def split: sum.splits if_splits)
  then obtain who i request e key where who: "senderNodeIdFromMessage m = Some who"
    "IdentityCache_get who (identityCache n) = Some i"
    "unpackServiceMessage ''rsp.proto.BeginEndorsementRequest'' (beginRequest_type elib) m = Some request"
    "requested_values request = Some e" "fromPublicKey (node_openssl n) (public_key_or_default i) = Inr key"
    "nodeID (node_openssl n) key = Inr who" and run: "examine elib now who key e n = Inr d"
    using assms(3) by (auto simp: decide_def done_with_def fromProto_def res_bind_eq_Inr split: option.splits if_splits)
  show ?thesis
    using examine_issues [OF assms(1) run assms(3,4) assms(5) [rule_format, OF who(3,4)]] who assms(2)
    by (simp add: handleBeginEndorsementRequest_def)
qed

section \<open>A concrete service\<close>

definition toy_values :: "EndorsementMsg \<Rightarrow> endorsement_library" where
  "toy_values e =
     \<lparr>beginRequest_type = \<lparr>SerializeAsString = (\<lambda>x. []), ParseFromString = (\<lambda>b. Some \<lparr>requested_values = Some e, auth_data = None\<rparr>)\<rparr>,
      endorsementDone_type = \<lparr>SerializeAsString = (\<lambda>x. []), ParseFromString = (\<lambda>b. None)\<rparr>,
      serializeEndorsement = (\<lambda>m. Some ''data'')\<rparr>"

lemma toy_createSigned:
  "\<exists>e. createSigned toy_openssl (\<lambda>m. Some ''data'') (Some 7) sub ty (stringToBuffer ''value'') now = Inr e"
  by (simp add: createSigned_def nodeID_def toy_openssl_def Let_def serializeUnsigned_def
      validateMessage_def validateUuidLike_def setMessageFields_def serializeDeterministic_def
      KeyPair_sign_def hasPrivateKey_def)

theorem endorsement_issued_as_configured_witness:
  "\<exists>(n :: (nat, nat) es_node) e m d p. endorsement_answer (toy_values e) 0 m n = Inr d \<and> new_endorsement d = Some p \<and>
     verifySignature toy_openssl (\<lambda>m. Some ''data'') p (own_keyPair n) = Inr True"
proof -
  obtain n0 :: "(nat, nat) es_node" where n0: "client_ok (n0\<lparr>connections := [(GUID 1 1, toy_connection [])]\<rparr>)"
    "node_openssl n0 = toy_openssl" "own_keyPair n0 = Some 7" "RSPClient.more n0 = EndorsementService.fields []"
    by (rule toy_client)
  obtain who where who: "nodeID toy_openssl (Some 7) = Inr who"
    by (simp add: nodeID_def toy_openssl_def Let_def)
  obtain e where e: "createSigned toy_openssl (\<lambda>m. Some ''data'') (Some 7) who (GUID 3 4) (stringToBuffer ''value'') 0 = Inr e"
    using toy_createSigned by blast
  let ?i = "\<lparr>id_nonce = None, public_key = Some \<lparr>key_algorithm = 100, public_key_bytes = [CHR 0x07]\<rparr>, boot_id = None\<rparr>"
  have pk: "fromPublicKey toy_openssl (public_key_or_default ?i) = Inr (Some 7)"
    by (simp add: fromPublicKey_def public_key_or_default_def readPublicKeyBuffer_def KeyPair_new_def verifyP256_def
        toy_openssl_def)
  let ?n = "n0\<lparr>connections := [(GUID 1 1, toy_connection [])],
    identityCache := (IdentityCache_new (GUID 0 0) 4)\<lparr>usageOrder := [who], entries := [(who, ?i)]\<rparr>\<rparr>"
  have "cache_ok toy_openssl (identityCache ?n)"
    using pk who by (simp add: cache_ok_def order_ok_def IdentityCache_new_def smap_ok_def smap_size_def nodeIdFromIdentity_def)
  then have "node_ok ?n" using n0(1,2) by (simp add: client_ok_def node_ok_def)
  then have ok: "client_ok ?n" by (rule client_ok_frame [OF n0(1)]) simp_all
  have none: "configuredEndorsements ?n = []"
    using n0(4) by (cases n0) (simp add: EndorsementService.defs)
  let ?m = "packServiceMessage ''rsp.proto.BeginEndorsementRequest'' (beginRequest_type (toy_values e)) \<lparr>requested_values = None, auth_data = None\<rparr>
    (RSPMessage_default\<lparr>source := Some (toProtoNodeId who)\<rparr>)"
  have m: "senderNodeIdFromMessage ?m = Some who"
    by (simp add: senderNodeIdFromMessage_def RSPMessage_default_def)
  have unpack: "unpackServiceMessage ''rsp.proto.BeginEndorsementRequest'' (beginRequest_type (toy_values e)) ?m =
      Some \<lparr>requested_values = Some e, auth_data = None\<rparr>"
    using typeName_prefix [of "''rsp.proto.BeginEndorsementRequest''"]
    by (simp add: unpackServiceMessage_def packServiceMessage_def PackFrom_def UnpackTo_def toy_values_def)
  note facts = createSigned_facts [OF toy_openssl_ok e stringToBuffer_wf toy_sign, simplified]
  have valid: "validateMessage e True = Inr ()"
    using facts by (auto simp: Endorsement_subject_def res_bind_eq_Inr)
  obtain p where p: "createSigned toy_openssl (\<lambda>m. Some ''data'') (Some 7) who (GUID 3 4) (stringToBuffer ''value'') (addSeconds 0 (DAYS 1)) = Inr p"
    using toy_createSigned by blast
  have "validateMessage p True = Inr ()"
    using createSigned_facts [OF toy_openssl_ok p stringToBuffer_wf toy_sign, simplified] by (auto simp: Endorsement_subject_def res_bind_eq_Inr)
  then have d: "endorsement_answer (toy_values e) 0 ?m ?n = Inr \<lparr>done_status = ENDORSEMENT_SUCCESS, new_endorsement = Some p\<rparr>"
    using m unpack pk who n0(2,3) facts valid p none
    by (simp add: endorsement_answer_def decide_def examine_def issue_def fromProto_def toProto_def IdentityCache_get_def smap_find_def
        toy_values_def)
  have "endorsement_value e = ''value''"
    using e by (auto simp: createSigned_def setMessageFields_def res_bind_eq_Inr Let_def stringToBuffer_wf)
  then have len: "\<forall>request e'. unpackServiceMessage ''rsp.proto.BeginEndorsementRequest'' (beginRequest_type (toy_values e)) ?m = Some request \<longrightarrow>
      requested_values request = Some e' \<longrightarrow> length (endorsement_value e') < 2 ^ 32"
    using unpack by auto
  have "verifySignature (node_openssl ?n) (serializeEndorsement (toy_values e)) p (own_keyPair ?n) = Inr True"
    using endorsement_issued_as_configured [OF ok d _ _ len, where p = p and r = 1 and s = 2] none by auto
  then have "verifySignature toy_openssl (\<lambda>m. Some ''data'') p (own_keyPair ?n) = Inr True"
    using n0(2) by (simp add: toy_values_def)
  then show ?thesis
    using d by (intro exI conjI) (assumption, simp, assumption)
qed

end
