(* ===== verification/Key_Files.thy ===== *)
theory Key_Files
  imports Key_Pair
begin

text \<open>
  The part of \<^verbatim>\<open>src/common/keypair.cpp\<close> that keeps key pairs in files. The disk is a map from paths to
  contents and is threaded through; a path names a file or nothing. What the file system allows, and the
  PEM functions of the cryptography library for private keys, are the fields of a record: writing to an
  open file leaves some bytes in it and tells whether all of them were written.
\<close>

section \<open>Files\<close>

type_synonym disk = "string \<Rightarrow> bytes option"

record 'k key_store =
  may_read :: "string \<Rightarrow> bool"
  may_write :: "string \<Rightarrow> bool"
  write_out :: "string \<Rightarrow> bytes \<Rightarrow> bool \<times> bytes"
  create_parents :: "string \<Rightarrow> unit result"
  PEM_read_PrivateKey :: "bytes \<Rightarrow> 'k option"
  PEM_write_PrivateKey :: "'k \<Rightarrow> bytes option"

text \<open>
  What is relied on: a write that succeeds writes what it was given, a private key is read back from what
  was written of it, and the text of a public key is determined by its encoding.
\<close>

definition key_store_ok :: "'k openssl \<Rightarrow> 'k key_store \<Rightarrow> bool" where
  "key_store_ok lib st \<longleftrightarrow>
     (\<forall>path b. fst (write_out st path b) \<longrightarrow> snd (write_out st path b) = b) \<and>
     (\<forall>k b. PEM_write_PrivateKey st k = Some b \<longrightarrow>
        (\<exists>k'. PEM_read_PrivateKey st b = Some k' \<and> i2d_PUBKEY lib k' = i2d_PUBKEY lib k \<and>
              EVP_PKEY_is_EC lib k' = EVP_PKEY_is_EC lib k \<and>
              curve_is_prime256v1 lib k' = curve_is_prime256v1 lib k \<and>
              private_key_present lib k' = private_key_present lib k \<and>
              DigestVerify lib k' = DigestVerify lib k)) \<and>
     (\<forall>k k'. i2d_PUBKEY lib k = i2d_PUBKEY lib k' \<longrightarrow> PEM_write_PUBKEY lib k = PEM_write_PUBKEY lib k')"

definition openFile_rb :: "'k key_store \<Rightarrow> string \<Rightarrow> disk \<Rightarrow> bytes option" where
  "openFile_rb st path d = (if may_read st path then d path else None)"

definition readPrivateKeyFile :: "'k key_store \<Rightarrow> string \<Rightarrow> disk \<Rightarrow> 'k result" where
  "readPrivateKeyFile st path d =
     (case openFile_rb st path d of
        None \<Rightarrow> Inl (Runtime_error (''failed to open private key file: '' @ path))
      | Some b \<Rightarrow>
          (case PEM_read_PrivateKey st b of
             None \<Rightarrow> Inl (Runtime_error (''failed to parse private key file: '' @ path))
           | Some k \<Rightarrow> Inr k))"

definition readPublicKeyFile :: "'k openssl \<Rightarrow> 'k key_store \<Rightarrow> string \<Rightarrow> disk \<Rightarrow> 'k result" where
  "readPublicKeyFile lib st path d =
     (case openFile_rb st path d of
        None \<Rightarrow> Inl (Runtime_error (''failed to open public key file: '' @ path))
      | Some b \<Rightarrow>
          (case PEM_read_PUBKEY lib b of
             None \<Rightarrow> Inl (Runtime_error (''failed to parse public key file: '' @ path))
           | Some k \<Rightarrow> Inr k))"

text \<open>Opening a file for writing empties it; nothing is written when the key has no text.\<close>

definition write_text :: "'k key_store \<Rightarrow> string \<Rightarrow> bytes option \<Rightarrow> disk \<Rightarrow> bool \<times> disk" where
  "write_text st path text d =
     (case text of
        None \<Rightarrow> (False, d(path \<mapsto> []))
      | Some b \<Rightarrow> (fst (write_out st path b), d(path \<mapsto> snd (write_out st path b))))"

definition writePrivateKeyFile :: "'k key_store \<Rightarrow> string \<Rightarrow> 'k \<Rightarrow> disk \<Rightarrow> unit result \<times> disk" where
  "writePrivateKeyFile st path k d =
     (if \<not> may_write st path then (Inl (Runtime_error (''failed to open private key file for writing: '' @ path)), d)
      else
        (case write_text st path (PEM_write_PrivateKey st k) d of
           (False, d) \<Rightarrow> (Inl (Runtime_error (''failed to write private key file: '' @ path)), d)
         | (True, d) \<Rightarrow> (Inr (), d)))"

definition writePublicKeyFile :: "'k openssl \<Rightarrow> 'k key_store \<Rightarrow> string \<Rightarrow> 'k \<Rightarrow> disk \<Rightarrow> unit result \<times> disk" where
  "writePublicKeyFile lib st path k d =
     (if \<not> may_write st path then (Inl (Runtime_error (''failed to open public key file for writing: '' @ path)), d)
      else
        (case write_text st path (PEM_write_PUBKEY lib k) d of
           (False, d) \<Rightarrow> (Inl (Runtime_error (''failed to write public key file: '' @ path)), d)
         | (True, d) \<Rightarrow> (Inr (), d)))"

section \<open>Key pairs on disk\<close>

definition verifyMatchingPair :: "'k openssl \<Rightarrow> 'k \<Rightarrow> 'k \<Rightarrow> unit result" where
  "verifyMatchingPair lib privateKey publicKey =
     (case (PEM_write_PUBKEY lib privateKey, PEM_write_PUBKEY lib publicKey) of
        (Some privateBuffer, Some publicBuffer) \<Rightarrow>
          if privateBuffer \<noteq> publicBuffer then Inl (Runtime_error ''public key does not match private key'') else Inr ()
      | _ \<Rightarrow> Inl (Runtime_error ''failed to serialize public keys for comparison''))"

definition readFromDisk :: "'k openssl \<Rightarrow> 'k key_store \<Rightarrow> string \<Rightarrow> string \<Rightarrow> disk \<Rightarrow> 'k KeyPair result" where
  "readFromDisk lib st privateKeyPath publicKeyPath d =
     res_bind (readPrivateKeyFile st privateKeyPath d) (\<lambda>privateKey.
     res_bind (readPublicKeyFile lib st publicKeyPath d) (\<lambda>publicKey.
     res_bind (verifyP256 lib (Some privateKey)) (\<lambda>_.
     res_bind (verifyP256 lib (Some publicKey)) (\<lambda>_.
     res_bind (verifyMatchingPair lib privateKey publicKey) (\<lambda>_.
       KeyPair_new lib privateKey)))))"

definition loadOrGenerate :: "'k openssl \<Rightarrow> 'k key_store \<Rightarrow> 'k option \<Rightarrow> string \<Rightarrow> disk \<Rightarrow> 'k KeyPair result \<times> disk" where
  "loadOrGenerate lib st generated privateKeyPath d =
     (if d privateKeyPath \<noteq> None then
        (res_bind (readPrivateKeyFile st privateKeyPath d) (\<lambda>k.
         res_bind (verifyP256 lib (Some k)) (\<lambda>_. KeyPair_new lib k)), d)
      else
        (case generateP256 lib generated of
           Inr (Some k) \<Rightarrow>
             (case create_parents st privateKeyPath of
                Inl e \<Rightarrow> (Inl e, d)
              | Inr _ \<Rightarrow>
                  (case writePrivateKeyFile st privateKeyPath k d of
                     (Inl e, d) \<Rightarrow> (Inl e, d)
                   | (Inr _, d) \<Rightarrow> (Inr (Some k), d)))
         | Inr None \<Rightarrow> (Inl (Undefined ''null key''), d)
         | Inl e \<Rightarrow> (Inl e, d)))"

definition nodeIDFromPublicKeyFile :: "'k openssl \<Rightarrow> 'k key_store \<Rightarrow> disk \<Rightarrow> string \<Rightarrow> nodeid result" where
  "nodeIDFromPublicKeyFile lib st d publicKeyPath =
     res_bind (readPublicKeyFile lib st publicKeyPath d) (\<lambda>k.
     res_bind (verifyP256 lib (Some k)) (\<lambda>_.
     res_bind (KeyPair_new lib k) (\<lambda>kp. nodeID lib kp)))"

definition writeToDisk :: "'k openssl \<Rightarrow> 'k key_store \<Rightarrow> string \<Rightarrow> string \<Rightarrow> 'k KeyPair \<Rightarrow> disk \<Rightarrow> unit result \<times> disk" where
  "writeToDisk lib st privateKeyPath publicKeyPath kp d =
     (case kp of
        None \<Rightarrow> (Inl (Runtime_error ''cannot write an empty keypair''), d)
      | Some k \<Rightarrow>
          if \<not> hasPrivateKey lib kp then (Inl (Runtime_error ''cannot write a private key for a public-only keypair''), d)
          else
            (case create_parents st privateKeyPath of
               Inl e \<Rightarrow> (Inl e, d)
             | Inr _ \<Rightarrow>
                 (case create_parents st publicKeyPath of
                    Inl e \<Rightarrow> (Inl e, d)
                  | Inr _ \<Rightarrow>
                      (case writePrivateKeyFile st privateKeyPath k d of
                         (Inl e, d) \<Rightarrow> (Inl e, d)
                       | (Inr _, d) \<Rightarrow> writePublicKeyFile lib st publicKeyPath k d))))"

section \<open>Lemmas\<close>

text \<open>Keys that agree in what the node identifier, the checks and verification look at.\<close>

definition same_key :: "'k openssl \<Rightarrow> 'k \<Rightarrow> 'k \<Rightarrow> bool" where
  "same_key lib k k' \<longleftrightarrow> nodeID lib (Some k') = nodeID lib (Some k) \<and> verifyP256 lib (Some k') = verifyP256 lib (Some k) \<and>
     hasPrivateKey lib (Some k') = hasPrivateKey lib (Some k) \<and>
     (\<forall>m s. KeyPair_verify lib (Some k') m s = KeyPair_verify lib (Some k) m s) \<and> PEM_write_PUBKEY lib k' = PEM_write_PUBKEY lib k"

lemma written_all: "key_store_ok lib st \<Longrightarrow> fst (write_out st path b) \<Longrightarrow> snd (write_out st path b) = b"
  by (simp add: key_store_ok_def)

lemma written_private:
  assumes "key_store_ok lib st" "writePrivateKeyFile st path k d = (Inr (), d')"
  obtains b k' where "PEM_write_PrivateKey st k = Some b" "d' = d(path \<mapsto> b)" "PEM_read_PrivateKey st b = Some k'" "same_key lib k k'"
proof -
  obtain b where b: "PEM_write_PrivateKey st k = Some b" "d' = d(path \<mapsto> b)"
    using assms(2) written_all [OF assms(1)]
    by (auto simp: writePrivateKeyFile_def write_text_def split: if_splits option.splits bool.splits)
  then obtain k' where k': "PEM_read_PrivateKey st b = Some k'" "i2d_PUBKEY lib k' = i2d_PUBKEY lib k"
    "EVP_PKEY_is_EC lib k' = EVP_PKEY_is_EC lib k" "curve_is_prime256v1 lib k' = curve_is_prime256v1 lib k"
    "private_key_present lib k' = private_key_present lib k" "DigestVerify lib k' = DigestVerify lib k"
    using assms(1) unfolding key_store_ok_def by blast
  then have "PEM_write_PUBKEY lib k' = PEM_write_PUBKEY lib k"
    using assms(1) unfolding key_store_ok_def by blast
  then have "same_key lib k k'"
    using k' by (simp add: same_key_def nodeID_def verifyP256_def hasPrivateKey_def KeyPair_verify_def)
  then show ?thesis using that b k'(1) by blast
qed

lemma written_public:
  assumes "openssl_ok lib" "key_store_ok lib st" "writePublicKeyFile lib st path k d = (Inr (), d')"
  obtains b k' where "PEM_write_PUBKEY lib k = Some b" "d' = d(path \<mapsto> b)" "PEM_read_PUBKEY lib b = Some k'"
    "nodeID lib (Some k') = nodeID lib (Some k)" "verifyP256 lib (Some k') = verifyP256 lib (Some k)" "PEM_write_PUBKEY lib k' = Some b"
proof -
  obtain b where b: "PEM_write_PUBKEY lib k = Some b" "d' = d(path \<mapsto> b)"
    using assms(3) written_all [OF assms(2)]
    by (auto simp: writePublicKeyFile_def write_text_def split: if_splits option.splits bool.splits)
  then obtain k' where k': "PEM_read_PUBKEY lib b = Some k'" "i2d_PUBKEY lib k' = i2d_PUBKEY lib k"
    "EVP_PKEY_is_EC lib k' = EVP_PKEY_is_EC lib k" "curve_is_prime256v1 lib k' = curve_is_prime256v1 lib k"
    using assms(1) unfolding openssl_ok_def by blast
  then have "PEM_write_PUBKEY lib k' = Some b"
    using assms(2) b(1) unfolding key_store_ok_def by metis
  then show ?thesis using that b k' by (simp add: nodeID_def verifyP256_def)
qed

lemma matching_nodeID:
  assumes "openssl_ok lib" "verifyMatchingPair lib k k' = Inr ()"
  shows "nodeID lib (Some k') = nodeID lib (Some k)"
proof -
  obtain b where "PEM_write_PUBKEY lib k = Some b" "PEM_write_PUBKEY lib k' = Some b"
    using assms(2) by (auto simp: verifyMatchingPair_def split: option.splits if_splits)
  then have "i2d_PUBKEY lib k' = i2d_PUBKEY lib k"
    using assms(1) unfolding openssl_ok_def by (metis option.inject)
  then show ?thesis by (simp add: nodeID_def)
qed

lemma load_written:
  assumes "key_store_ok lib st" "writePrivateKeyFile st path k d = (Inr (), d')" "may_read st path" "verifyP256 lib (Some k) = Inr ()"
  obtains k' where "loadOrGenerate lib st g path d' = (Inr (Some k'), d')" "same_key lib k k'"
proof -
  obtain b k' where b: "d' = d(path \<mapsto> b)" "PEM_read_PrivateKey st b = Some k'" "same_key lib k k'"
    by (rule written_private [OF assms(1,2)])
  then have "loadOrGenerate lib st g path d' = (Inr (Some k'), d')"
    using assms(3,4) by (simp add: loadOrGenerate_def readPrivateKeyFile_def openFile_rb_def KeyPair_new_def same_key_def)
  then show ?thesis using that b by blast
qed

section \<open>Properties\<close>


definition toy_store :: "nat key_store" where
  "toy_store =
     \<lparr>may_read = (\<lambda>p. True), may_write = (\<lambda>p. True), write_out = (\<lambda>p b. (True, b)), create_parents = (\<lambda>p. Inr ()),
      PEM_read_PrivateKey = (\<lambda>b. case b of [c] \<Rightarrow> Some (of_char c) | _ \<Rightarrow> None), PEM_write_PrivateKey = (\<lambda>k. Some [char_of k])\<rparr>"


end
