(* ===== verification/Message_Rules.thy ===== *)
theory Message_Rules
  imports Endorsement_Text Key_Files Std_Map
begin

text \<open>
  \<^verbatim>\<open>src/common/config/message_rules.cpp\<close>: the rules of a configuration file, an array of lines with comments,
  declarations of variables and one rule, which become the requirement that a resource manager enforces.
  The JSON library is not modelled: a value is an array, a string or something else.
\<close>

section \<open>Lines\<close>

definition trimmed :: "string \<Rightarrow> string" where
  "trimmed s = rev (dropWhile isspace (rev (dropWhile isspace s)))"

definition isCommentOrBlank :: "string \<Rightarrow> bool" where
  "isCommentOrBlank line =
     (case line of
        [] \<Rightarrow> True
      | c # cs \<Rightarrow> c = CHR ''#'' \<or> (c = CHR ''/'' \<and> (case cs of c' # _ \<Rightarrow> c' = CHR ''/'' | [] \<Rightarrow> False)))"

definition isIdentifier :: "string \<Rightarrow> bool" where
  "isIdentifier s =
     (case s of [] \<Rightarrow> False | c # cs \<Rightarrow> isIdChar c True \<and> list_all (\<lambda>c. isIdChar c False) cs)"

definition quoted :: "string \<Rightarrow> string" where
  "quoted s = [CHR 0x27] @ s @ [CHR 0x27]"

text \<open>A line is not a declaration, a declaration with an error, or one of a name with a text.\<close>

definition tryParseLet :: "string \<Rightarrow> (string + string \<times> string) option" where
  "tryParseLet line =
     (if length line < 4 then None
      else if \<not> (startsWith ''let '' line \<or> (startsWith ''let'' line \<and> isspace (line ! 3))) then None
      else
        let s = dropWhile isspace (drop 3 line);
            name = takeWhile (\<lambda>c. \<not> isspace c \<and> c \<noteq> CHR ''='') s;
            s = dropWhile isspace (drop (length name) s)
        in if s = [] \<or> hd s \<noteq> CHR ''='' then Some (Inl (''let declaration is missing '' @ quoted ''=''))
           else if \<not> isIdentifier name then Some (Inl (''invalid variable name '' @ quoted name))
           else
             let expr = dropWhile isspace (tl s)
             in if expr = [] then Some (Inl (''let declaration for '' @ quoted name @ '' has empty expression''))
                else Some (Inr (name, expr)))"

section \<open>Macros\<close>

text \<open>
  The two loops of \<^verbatim>\<open>expandMacros\<close>, which search on from the end of each replacement. The first
  argument of \<^verbatim>\<open>expand_files\<close> is \<^const>\<open>nodeIDFromPublicKeyFile\<close> on the disk.
\<close>

function replace_all :: "string \<Rightarrow> string \<Rightarrow> string \<Rightarrow> string" where
  "replace_all pat rep [] = []"
| "replace_all pat rep (c # cs) =
     (if startsWith pat (c # cs) then rep @ replace_all pat rep (drop (length pat - 1) cs)
      else c # replace_all pat rep cs)"
  by pat_completeness auto

termination
  by (relation "measure (\<lambda>(pat, rep, s). length s)") auto

definition fromFilePrefix :: string where
  "fromFilePrefix = ''NODEID_FROM_FILE(''"

function expand_files :: "(string \<Rightarrow> nodeid result) \<Rightarrow> string \<Rightarrow> string result" where
  "expand_files node_of [] = Inr []"
| "expand_files node_of (c # cs) =
     (if startsWith fromFilePrefix (c # cs) then
        let rest = drop (length fromFilePrefix) (c # cs); path = takeWhile (\<lambda>c. c \<noteq> CHR '')'') rest
        in if length path = length rest then Inl (Runtime_error (fromFilePrefix @ '' missing closing '' @ quoted '')''))
           else
             res_bind (node_of path) (\<lambda>nodeId.
             res_bind (expand_files node_of (drop (length path + 1) rest)) (\<lambda>tail.
               Inr (GUID_toString nodeId @ tail)))
      else res_bind (expand_files node_of cs) (\<lambda>tail. Inr (c # tail)))"
  by pat_completeness auto

termination
  by (relation "measure (\<lambda>(node_of, s). length s)") (auto simp: fromFilePrefix_def)

definition expandMacros :: "(string \<Rightarrow> nodeid result) \<Rightarrow> string \<Rightarrow> string \<Rightarrow> string result" where
  "expandMacros node_of nodeId text = expand_files node_of (replace_all ''MY_NODEID()'' nodeId text)"

section \<open>Rules\<close>

datatype json = Json_array "json list" | Json_string string | Json_other

definition at_entry :: "nat \<Rightarrow> string" where
  "at_entry idx = ''message_rules['' @ dec_of_nat (idx + 1) @ '']: ''"

text \<open>A \<^verbatim>\<open>catch\<close> clause for \<^verbatim>\<open>std::exception\<close> that throws again with a prefix.\<close>

definition rethrow :: "string \<Rightarrow> 'a result \<Rightarrow> 'a result" where
  "rethrow where_at m = (case m of Inl e \<Rightarrow> Inl (if uncatchable e then e else Runtime_error (where_at @ what e)) | Inr x \<Rightarrow> Inr x)"

definition read_tree :: "(string \<Rightarrow> nodeid result) \<Rightarrow> string \<Rightarrow> nat \<Rightarrow> string \<Rightarrow> (string, AST) std_map \<Rightarrow> string \<Rightarrow> AST result" where
  "read_tree node_of nodeId idx failure variables text =
     res_bind (rethrow (at_entry idx @ ''macro expansion failed: '') (expandMacros node_of nodeId text)) (\<lambda>expanded.
       rethrow (at_entry idx @ failure) (erd_fromString_vars expanded (smap_find variables)))"

text \<open>The loop over the entries: the variables so far, and the tree of the rule when it has been seen.\<close>

fun rules_loop :: "(string \<Rightarrow> nodeid result) \<Rightarrow> string \<Rightarrow> nat \<Rightarrow> (string, AST) std_map \<Rightarrow> AST option \<Rightarrow> json list \<Rightarrow> AST option result" where
  "rules_loop node_of nodeId idx variables ruleTree [] = Inr ruleTree"
| "rules_loop node_of nodeId idx variables ruleTree (Json_string raw # es) =
     (let line = trimmed raw
      in if isCommentOrBlank line then rules_loop node_of nodeId (idx + 1) variables ruleTree es
         else if ruleTree \<noteq> None
           then Inl (Runtime_error (at_entry idx @ ''content appears after the rule line; the rule line must be last''))
         else
           (case tryParseLet line of
              Some (Inl letError) \<Rightarrow> Inl (Runtime_error (at_entry idx @ letError))
            | Some (Inr (letName, letExpr)) \<Rightarrow>
                if smap_find variables letName \<noteq> None
                then Inl (Runtime_error (at_entry idx @ ''duplicate variable '' @ quoted letName))
                else
                  res_bind (read_tree node_of nodeId idx (''failed to parse let '' @ quoted letName @ '': '') variables letExpr) (\<lambda>tree.
                    rules_loop node_of nodeId (idx + 1) (smap_set letName tree variables) None es)
            | None \<Rightarrow>
                res_bind (read_tree node_of nodeId idx ''failed to parse rule: '' variables line) (\<lambda>tree.
                  rules_loop node_of nodeId (idx + 1) variables (Some tree) es)))"
| "rules_loop node_of nodeId idx variables ruleTree (_ # es) = Inl (Runtime_error (at_entry idx @ ''entry must be a string''))"

definition buildMessageRulesTree :: "(string \<Rightarrow> nodeid result) \<Rightarrow> json \<Rightarrow> string \<Rightarrow> AST result" where
  "buildMessageRulesTree node_of rules nodeId =
     (case rules of
        Json_array es \<Rightarrow>
          res_bind (rules_loop node_of nodeId 0 [] None es) (\<lambda>ruleTree.
            (case ruleTree of
               None \<Rightarrow> Inl (Runtime_error ([CHR 0x22] @ ''message_rules'' @ [CHR 0x22] @ '' must contain exactly one rule line''))
             | Some tree \<Rightarrow> Inr tree))
      | _ \<Rightarrow> Inl (Runtime_error ([CHR 0x22] @ ''message_rules'' @ [CHR 0x22] @ '' must be a JSON array'')))"

section \<open>What a list of rules means\<close>

text \<open>The lines that count, and the meaning of a text where some variables are known.\<close>

definition significant :: "string list \<Rightarrow> string list" where
  "significant lines = filter (\<lambda>l. \<not> isCommentOrBlank l) (map trimmed lines)"

definition text_means :: "(string \<Rightarrow> nodeid result) \<Rightarrow> string \<Rightarrow> (string \<rightharpoonup> AST) \<Rightarrow> string \<Rightarrow> AST \<Rightarrow> bool" where
  "text_means node_of nodeId env text tree \<longleftrightarrow>
     (\<exists>expanded. expandMacros node_of nodeId text = Inr expanded \<and> erd_fromString_vars expanded env = Inr tree)"

fun declared :: "(string \<Rightarrow> nodeid result) \<Rightarrow> string \<Rightarrow> (string \<rightharpoonup> AST) \<Rightarrow> string list \<Rightarrow> (string \<times> AST) list \<Rightarrow> bool" where
  "declared node_of nodeId env [] [] = True"
| "declared node_of nodeId env (l # ls) (d # ds) =
     (\<exists>expr. tryParseLet l = Some (Inr (fst d, expr)) \<and> env (fst d) = None \<and> text_means node_of nodeId env expr (snd d) \<and>
        declared node_of nodeId (env(fst d \<mapsto> snd d)) ls ds)"
| "declared node_of nodeId env _ _ = False"

lemma upd_clash:
  assumes "fst d \<in> fst ` set ds"
  shows "\<not> (\<forall>d'\<in>set ds. (env(fst d \<mapsto> snd d)) (fst d') = None)"
proof -
  obtain d' where "d' \<in> set ds" "fst d' = fst d" using assms by force
  then show ?thesis by (intro notI) (drule (1) bspec, simp)
qed

lemma upd_free:
  "fst d \<notin> fst ` set ds \<Longrightarrow> (\<forall>d'\<in>set ds. (env(fst d \<mapsto> snd d)) (fst d') = None) \<longleftrightarrow> (\<forall>d'\<in>set ds. env (fst d') = None)"
  by (intro ball_cong) (auto simp: image_iff)

lemma upd_take:
  assumes "fst d \<notin> fst ` set ds"
  shows "env(fst d \<mapsto> snd d) ++ map_of (take i ds) = env ++ map_of (take (Suc i) (d # ds))"
proof -
  have "fst d \<notin> dom (map_of (take i ds))"
    using assms set_take_subset [of i ds] unfolding dom_map_of_conv_image_fst by blast
  then show ?thesis by (simp add: map_add_upd_left)
qed

lemma declared_iff:
  "declared node_of nodeId env ls ds \<longleftrightarrow> length ls = length ds \<and> distinct (map fst ds) \<and> (\<forall>d\<in>set ds. env (fst d) = None) \<and>
     (\<forall>i<length ds. \<exists>expr. tryParseLet (ls ! i) = Some (Inr (fst (ds ! i), expr)) \<and>
        text_means node_of nodeId (env ++ map_of (take i ds)) expr (snd (ds ! i)))"
proof (induction node_of nodeId env ls ds rule: declared.induct)
  case (2 node_of nodeId env l ls d ds)
  show ?case
  proof (cases "fst d \<in> fst ` set ds")
    case True
    then have "\<not> declared node_of nodeId (env(fst d \<mapsto> snd d)) ls ds"
      by (simp only: 2 upd_clash simp_thms)
    then show ?thesis using True by (simp only: declared.simps(2) list.map distinct.simps list.set_map simp_thms)
  next
    case False
    have step: "(\<forall>i<length (d # ds). \<exists>expr. tryParseLet ((l # ls) ! i) = Some (Inr (fst ((d # ds) ! i), expr)) \<and>
          text_means node_of nodeId (env ++ map_of (take i (d # ds))) expr (snd ((d # ds) ! i))) \<longleftrightarrow>
        (\<exists>expr. tryParseLet l = Some (Inr (fst d, expr)) \<and> text_means node_of nodeId env expr (snd d)) \<and>
        (\<forall>i<length ds. \<exists>expr. tryParseLet (ls ! i) = Some (Inr (fst (ds ! i), expr)) \<and>
          text_means node_of nodeId (env(fst d \<mapsto> snd d) ++ map_of (take i ds)) expr (snd (ds ! i)))"
      by (simp only: length_Cons All_less_Suc2 nth_Cons_0 nth_Cons_Suc take_0 map_of.simps map_add_empty upd_take [OF False, symmetric])
    have IH: "declared node_of nodeId (env(fst d \<mapsto> snd d)) ls ds \<longleftrightarrow> length ls = length ds \<and> distinct (map fst ds) \<and>
        (\<forall>d'\<in>set ds. env (fst d') = None) \<and>
        (\<forall>i<length ds. \<exists>expr. tryParseLet (ls ! i) = Some (Inr (fst (ds ! i), expr)) \<and>
          text_means node_of nodeId (env(fst d \<mapsto> snd d) ++ map_of (take i ds)) expr (snd (ds ! i)))"
      by (simp only: 2 upd_free [OF False])
    have "distinct (map fst (d # ds)) \<longleftrightarrow> distinct (map fst ds)" using False by simp
    then show ?thesis
      unfolding declared.simps(2) step IH by (simp only: length_Cons list.set ball_simps nat.inject) fast
  qed
qed auto

section \<open>The loop\<close>

lemma read_tree_iff: "read_tree node_of nodeId idx failure variables text = Inr tree \<longleftrightarrow> text_means node_of nodeId (smap_find variables) text tree"
  by (auto simp: read_tree_def text_means_def rethrow_def res_bind_eq_Inr split: sum.splits)

lemma significant_simps [simp]:
  "significant [] = []"
  "significant (l # ls) = (if isCommentOrBlank (trimmed l) then significant ls else trimmed l # significant ls)"
  by (simp_all add: significant_def)

lemma loop_after_rule:
  "rules_loop node_of nodeId idx variables (Some tree) es = Inr result \<longleftrightarrow>
     result = Some tree \<and> (\<exists>lines. es = map Json_string lines \<and> significant lines = [])"
proof (induction es arbitrary: idx)
  case (Cons e es)
  show ?case
    by (cases e) (auto simp: Cons Let_def Cons_eq_map_conv)
qed auto

lemma declared_add:
  assumes "declared node_of nodeId (env(k \<mapsto> t)) ls ds"
  shows "env(k \<mapsto> t) ++ map_of ds = env ++ map_of ((k, t) # ds)"
proof -
  have "k \<notin> dom (map_of ds)"
    using assms by (auto simp: declared_iff dom_map_of_conv_image_fst)
  then show ?thesis by (simp add: map_add_upd_left)
qed

text \<open>The entries that make up a tree, where some variables are known.\<close>

definition entries_mean :: "(string \<Rightarrow> nodeid result) \<Rightarrow> string \<Rightarrow> (string \<rightharpoonup> AST) \<Rightarrow> json list \<Rightarrow> AST \<Rightarrow> bool" where
  "entries_mean node_of nodeId env es tree \<longleftrightarrow>
     (\<exists>lines lets rule ds. es = map Json_string lines \<and> significant lines = lets @ [rule] \<and> tryParseLet rule = None \<and>
        declared node_of nodeId env lets ds \<and> text_means node_of nodeId (env ++ map_of ds) rule tree)"

lemma entries_meanI:
  "es = map Json_string lines \<Longrightarrow> significant lines = lets @ [rule] \<Longrightarrow> tryParseLet rule = None \<Longrightarrow>
     declared node_of nodeId env lets ds \<Longrightarrow> text_means node_of nodeId (env ++ map_of ds) rule tree \<Longrightarrow>
     entries_mean node_of nodeId env es tree"
  unfolding entries_mean_def by blast

lemma entries_comment:
  "isCommentOrBlank (trimmed raw) \<Longrightarrow>
     entries_mean node_of nodeId env (Json_string raw # es) tree \<longleftrightarrow> entries_mean node_of nodeId env es tree"
  by (auto simp: entries_mean_def Cons_eq_map_conv) (metis significant_simps(2))+

lemma declared_Cons_iff:
  "declared node_of nodeId env (l # ls) ds \<longleftrightarrow>
     (\<exists>name expr t ds'. ds = (name, t) # ds' \<and> tryParseLet l = Some (Inr (name, expr)) \<and> env name = None \<and>
        text_means node_of nodeId env expr t \<and> declared node_of nodeId (env(name \<mapsto> t)) ls ds')"
  by (cases ds) auto

lemma entries_decl:
  assumes "\<not> isCommentOrBlank (trimmed raw)" "tryParseLet (trimmed raw) = Some (Inr (name, expr))"
  shows "entries_mean node_of nodeId env (Json_string raw # es) tree \<longleftrightarrow>
     env name = None \<and> (\<exists>t. text_means node_of nodeId env expr t \<and> entries_mean node_of nodeId (env(name \<mapsto> t)) es tree)"
    (is "?l \<longleftrightarrow> ?r")
proof
  assume ?l
  then obtain lines lets rule ds where x: "es = map Json_string lines" "significant lines = lets @ [rule]" "tryParseLet rule = None"
    "declared node_of nodeId env (trimmed raw # lets) ds" "text_means node_of nodeId (env ++ map_of ds) rule tree"
    using assms by (auto simp: entries_mean_def Cons_eq_map_conv Cons_eq_append_conv)
  then obtain t ds' where "ds = (name, t) # ds'" "env name = None" "text_means node_of nodeId env expr t"
    "declared node_of nodeId (env(name \<mapsto> t)) lets ds'"
    using assms(2) by (auto simp: declared_Cons_iff)
  note ds = this
  have "entries_mean node_of nodeId (env(name \<mapsto> t)) es tree"
    using x(5) declared_add [OF ds(4)] ds(1) by (intro entries_meanI [OF x(1,2,3) ds(4)]) simp
  then show ?r using ds by blast
next
  assume ?r
  then obtain t lines lets rule ds where x: "env name = None" "text_means node_of nodeId env expr t" "es = map Json_string lines"
    "significant lines = lets @ [rule]" "tryParseLet rule = None"
    "declared node_of nodeId (env(name \<mapsto> t)) lets ds" "text_means node_of nodeId (env(name \<mapsto> t) ++ map_of ds) rule tree"
    by (auto simp: entries_mean_def)
  show ?l
  proof (rule entries_meanI)
    show "Json_string raw # es = map Json_string (raw # lines)" "significant (raw # lines) = (trimmed raw # lets) @ [rule]"
      "tryParseLet rule = None"
      using x(3,4,5) assms(1) by simp_all
    show "declared node_of nodeId env (trimmed raw # lets) ((name, t) # ds)"
      using x assms(2) by simp
    show "text_means node_of nodeId (env ++ map_of ((name, t) # ds)) rule tree"
      using x(7) declared_add [OF x(6)] by simp
  qed
qed

lemma entries_rule:
  assumes "\<not> isCommentOrBlank (trimmed raw)" "tryParseLet (trimmed raw) = None"
  shows "entries_mean node_of nodeId env (Json_string raw # es) tree \<longleftrightarrow>
     text_means node_of nodeId env (trimmed raw) tree \<and> (\<exists>lines. es = map Json_string lines \<and> significant lines = [])"
    (is "?l \<longleftrightarrow> ?r")
proof
  assume ?l
  then obtain lines lets rule ds where x: "es = map Json_string lines" "trimmed raw # significant lines = lets @ [rule]" "tryParseLet rule = None"
    "declared node_of nodeId env lets ds" "text_means node_of nodeId (env ++ map_of ds) rule tree"
    using assms(1) by (auto simp: entries_mean_def Cons_eq_map_conv)
  then have "lets = []"
    using assms(2) by (cases lets) (auto simp: declared_Cons_iff)
  then show ?r using x by (cases ds) auto
next
  assume ?r
  then obtain lines where "text_means node_of nodeId env (trimmed raw) tree" "es = map Json_string lines" "significant lines = []"
    by blast
  then show ?l
    using assms by (intro entries_meanI [of _ "raw # lines" "[]" "trimmed raw" _ _ _ "[]"]) simp_all
qed

lemma entries_bad:
  "\<not> isCommentOrBlank (trimmed raw) \<Longrightarrow> tryParseLet (trimmed raw) = Some (Inl err) \<Longrightarrow>
     \<not> entries_mean node_of nodeId env (Json_string raw # es) tree"
  by (auto simp: entries_mean_def Cons_eq_map_conv Cons_eq_append_conv declared_Cons_iff)

lemma loop_exact:
  "rules_loop node_of nodeId idx variables None es = Inr (Some tree) \<longleftrightarrow> entries_mean node_of nodeId (smap_find variables) es tree"
proof (induction es arbitrary: idx variables)
  case Nil
  then show ?case by (simp add: entries_mean_def)
next
  case (Cons e es)
  show ?case
  proof (cases e)
    case (Json_string raw)
    consider (comment) "isCommentOrBlank (trimmed raw)"
      | (rule) "\<not> isCommentOrBlank (trimmed raw)" "tryParseLet (trimmed raw) = None"
      | (bad) err where "\<not> isCommentOrBlank (trimmed raw)" "tryParseLet (trimmed raw) = Some (Inl err)"
      | (decl) name expr where "\<not> isCommentOrBlank (trimmed raw)" "tryParseLet (trimmed raw) = Some (Inr (name, expr))"
      by (metis old.sum.exhaust option.exhaust prod.exhaust)
    then show ?thesis
    proof cases
      case comment
      then show ?thesis using Json_string by (simp add: Cons Let_def entries_comment)
    next
      case rule
      then show ?thesis
        using Json_string by (simp add: Let_def entries_rule res_bind_eq_Inr read_tree_iff loop_after_rule)
    next
      case bad
      then show ?thesis using Json_string by (simp add: Let_def entries_bad)
    next
      case decl
      then show ?thesis
        using Json_string by (simp add: Cons Let_def entries_decl res_bind_eq_Inr read_tree_iff smap_find_set fun_upd_def)
    qed
  qed (auto simp: entries_mean_def Cons_eq_map_conv)
qed

lemma rethrow_error: "rethrow c m = Inl e \<Longrightarrow> uncatchable e \<or> (\<exists>t. e = Runtime_error (c @ t))"
  by (auto simp: rethrow_def split: sum.splits if_splits)

lemma read_tree_error:
  assumes "read_tree node_of nodeId idx failure variables text = Inl e"
  shows "uncatchable e \<or> (\<exists>t. e = Runtime_error (at_entry idx @ t))"
proof -
  consider "rethrow (at_entry idx @ ''macro expansion failed: '') (expandMacros node_of nodeId text) = Inl e"
    | x where "rethrow (at_entry idx @ failure) (erd_fromString_vars x (smap_find variables)) = Inl e"
    using assms unfolding read_tree_def res_bind_def by (auto split: sum.splits)
  then show ?thesis
    by cases (drule rethrow_error, auto)+
qed

text \<open>An exception that is no \<^verbatim>\<open>std::exception\<close> or names one of the entries from \<^verbatim>\<open>lo\<close> up to \<^verbatim>\<open>hi\<close>.\<close>

definition blames :: "nat \<Rightarrow> nat \<Rightarrow> exn \<Rightarrow> bool" where
  "blames lo hi e \<longleftrightarrow> uncatchable e \<or> (\<exists>i t. lo \<le> i \<and> i < hi \<and> e = Runtime_error (at_entry i @ t))"

lemma blames_here: "lo < hi \<Longrightarrow> blames lo hi (Runtime_error (at_entry lo @ t))"
  by (auto simp: blames_def)

lemma blames_read: "read_tree node_of nodeId lo failure variables text = Inl e \<Longrightarrow> lo < hi \<Longrightarrow> blames lo hi e"
  by (drule read_tree_error) (auto simp: blames_def)

lemma blames_bind:
  "res_bind (read_tree node_of nodeId lo failure variables text) f = Inl e \<Longrightarrow> lo < hi \<Longrightarrow>
     (\<And>t. f t = Inl e \<Longrightarrow> blames lo hi e) \<Longrightarrow> blames lo hi e"
  by (auto simp: res_bind_def intro: blames_read split: sum.splits)

lemma blames_later: "blames (Suc lo) hi e \<Longrightarrow> blames lo hi e"
  by (auto simp: blames_def intro: Suc_leD)

lemma loop_error:
  "rules_loop node_of nodeId idx variables ruleTree es = Inl e \<Longrightarrow> blames idx (idx + length es) e"
proof (induction es arbitrary: idx variables ruleTree)
  case (Cons x es)
  have later: "rules_loop node_of nodeId (Suc idx) vs rt es = Inl e \<Longrightarrow> blames idx (Suc (idx + length es)) e" for vs rt
    using Cons.IH [of "Suc idx" vs rt] by (simp add: blames_later)
  show ?case
  proof (cases x)
    case (Json_string raw)
    then show ?thesis
      using Cons.prems
      by (auto simp: Let_def blames_here intro: later elim!: blames_bind
          split: if_splits option.splits sum.splits)
  qed (use Cons.prems in \<open>auto simp: blames_here\<close>)
qed simp

text \<open>The documented meaning, declaration by declaration.\<close>

definition rules_mean :: "(string \<Rightarrow> nodeid result) \<Rightarrow> string \<Rightarrow> json list \<Rightarrow> AST \<Rightarrow> bool" where
  "rules_mean node_of nodeId es tree \<longleftrightarrow>
     (\<exists>lines lets rule ds. es = map Json_string lines \<and> significant lines = lets @ [rule] \<and> tryParseLet rule = None \<and>
        length lets = length ds \<and> distinct (map fst ds) \<and>
        (\<forall>i<length ds. \<exists>expr. tryParseLet (lets ! i) = Some (Inr (fst (ds ! i), expr)) \<and>
           text_means node_of nodeId (map_of (take i ds)) expr (snd (ds ! i))) \<and>
        text_means node_of nodeId (map_of ds) rule tree)"

lemma rules_mean_iff: "entries_mean node_of nodeId (\<lambda>x. None) es tree \<longleftrightarrow> rules_mean node_of nodeId es tree"
  unfolding entries_mean_def rules_mean_def declared_iff by (simp only: empty_map_add simp_thms ball_triv conj_assoc)

section \<open>Properties\<close>


definition sample_rules :: json where
  "sample_rules = Json_array [Json_string ''# who may pass'', Json_string ''let anyone = TRUE'', Json_string ''  AND(${anyone}, FALSE) '']"


end
