(* ===== verification/Spec2Isabelle.thy ===== *)
theory Spec2Isabelle
  imports Requirement_Soundness Endorsement_Text_Fuel Ascii_Handshake Resource_Manager_Safety
    Name_Service_Table Endorsement_Service Message_Rules
begin

text \<open>
  Verification of the Remote Socket Protocol.

  The program is a network of nodes that exchange signed protobuf messages. Every process is an
  \<^verbatim>\<open>RSPNode\<close> with a P-256 key; the hash of its public key is its node identifier. Clients and services
  connect to a resource manager, agree with it on an encoding in a short text exchange and prove
  their identities to each other. From then on each side signs what it sends. The resource manager
  checks the signature of each message it receives, asks for identities it does not know, evaluates the
  requirement that guards it against endorsements, and then handles the message itself or passes it
  to the connection of its destination. It also keeps a directory of the services that have advertised
  themselves and answers queries on it. Services are clients with a handler of their own.

  \<^bold>\<open>Vocabulary.\<close> \<^verbatim>\<open>RSP_Prelude\<close> has the result type with the C++ exceptions, callbacks, byte codecs (locale
  \<^verbatim>\<open>fixed_codec\<close>) and decimal numerals. \<^verbatim>\<open>Std_Map\<close> models \<^verbatim>\<open>std::map\<close> as an ordered association list that
  interprets the locale \<^verbatim>\<open>map_interface\<close>. \<^verbatim>\<open>Proto_Messages\<close> has the messages of \<^verbatim>\<open>src/messages.proto\<close> as records, and
  \<^verbatim>\<open>Reflection\<close> their view through descriptors.

  \<^bold>\<open>Common code.\<close>
  \<^item> \<^verbatim>\<open>Base_Types\<close>: \<^verbatim>\<open>src/common/base_types.cpp\<close>, buffers, identifiers with their text form, times.
  \<^item> \<^verbatim>\<open>Key_Pair\<close> and \<^verbatim>\<open>Key_Files\<close>: \<^verbatim>\<open>src/common/keypair.cpp\<close>, node identifiers, signature blocks, key files on a disk
    that is passed along. The files of a key keep the identity of its node.
  \<^item> \<^verbatim>\<open>Endorsement\<close>, \<^verbatim>\<open>Requirement\<close>, \<^verbatim>\<open>Requirement_Soundness\<close>: \<^verbatim>\<open>src/common/endorsement/endorsement.cpp\<close>. The binary
    form is read back exactly, a created endorsement verifies, and the reduction of a requirement is
    empty exactly when the requirement is satisfied (locale \<^verbatim>\<open>tree_meaning\<close>).
  \<^item> \<^verbatim>\<open>Field_Resolver\<close>: \<^verbatim>\<open>field_resolver.cpp\<close>, paths through messages and packed payloads.
  \<^item> \<^verbatim>\<open>Endorsement_Text\<close>, \<^verbatim>\<open>Endorsement_Text_Roundtrip\<close>, \<^verbatim>\<open>Endorsement_Text_Fuel\<close>: \<^verbatim>\<open>endorsement_text.cpp\<close>, the printer and
    the parser of requirements; they are inverse (locale \<^verbatim>\<open>operand_text\<close>), and the parser always ends.
  \<^item> \<^verbatim>\<open>Message_Rules\<close>: \<^verbatim>\<open>src/common/config/message_rules.cpp\<close>, the rules of a configuration and what they mean.
  \<^item> \<^verbatim>\<open>Message_Hash\<close> and \<^verbatim>\<open>Signing_Queues\<close>: \<^verbatim>\<open>mq_signing.cpp\<close>, the bytes that a signature covers, the signing and the
    checking queue, which are inverse to each other, and the queue of messages from unknown signers,
    which loses none of them in any interleaving with its resolver threads.
  \<^item> \<^verbatim>\<open>Message_Queue\<close>: \<^verbatim>\<open>mq.hpp\<close>, the queue and its workers (locale \<^verbatim>\<open>bounded_fifo\<close>).
  \<^item> \<^verbatim>\<open>Connection\<close>, \<^verbatim>\<open>Encoding\<close>, \<^verbatim>\<open>Ascii_Handshake\<close>: \<^verbatim>\<open>transport.cpp\<close>, \<^verbatim>\<open>encoding.cpp\<close> with the two framings, and
    \<^verbatim>\<open>mq_ascii_handshake.cpp\<close>. A connection is a schedule of partial transfers; frames and handshakes are
    read back in every segmentation.
  \<^item> \<^verbatim>\<open>Authentication\<close>: \<^verbatim>\<open>mq_authn.cpp\<close> and \<^verbatim>\<open>mq_authz.cpp\<close>, the identity exchange and the authorisation.
  \<^item> \<^verbatim>\<open>Identity_Cache\<close>, \<^verbatim>\<open>Aes_Negotiation\<close>, \<^verbatim>\<open>Node\<close>, \<^verbatim>\<open>Node_Frame\<close>: \<^verbatim>\<open>node.cpp\<close>, the cache of public keys, the agreement on
    AES keys, the input handler of every node and what it leaves unchanged of a subclass.
  \<^item> \<^verbatim>\<open>Logging\<close>: \<^verbatim>\<open>logging.cpp\<close>, subscriptions, their filters and the publication of records.
  \<^item> \<^verbatim>\<open>Service_Message\<close>: \<^verbatim>\<open>service_message.hpp\<close>, packed messages of services.

  \<^bold>\<open>Resource manager.\<close> \<^verbatim>\<open>Schema_Registry\<close> (\<^verbatim>\<open>schema_registry.hpp\<close>) refines a list of schemas. \<^verbatim>\<open>Resource_Query\<close> is the
  query language of \<^verbatim>\<open>resource_manager.cpp\<close>, \<^verbatim>\<open>Resource_Manager\<close> the class itself: a record that extends the
  node, one definition for each handler and callback, and a turn for each worker. \<^verbatim>\<open>Resource_Manager_Safety\<close>
  has its runs as a step relation, the invariant \<^verbatim>\<open>rm_ok\<close>, and what the manager hands on, relays and answers.

  \<^bold>\<open>Client and services.\<close> \<^verbatim>\<open>Full_Client\<close> is \<^verbatim>\<open>src/client/cpp_full/rsp_client.cpp\<close>, a record that extends the node, with
  connections, pings and reconnection; \<^verbatim>\<open>Full_Client_Safety\<close> has its runs, the invariant \<^verbatim>\<open>client_ok\<close> and the
  condition \<^verbatim>\<open>keeps_client\<close> that the handler of a service has to meet. \<^verbatim>\<open>Resource_Service\<close>, \<^verbatim>\<open>Name_Service\<close> with
  \<^verbatim>\<open>Name_Service_Table\<close>, and \<^verbatim>\<open>Endorsement_Service\<close> are the services under \<^verbatim>\<open>src/resource_service\<close>, each an extension
  of the client's record. This theory composes client, manager and client.

  \<^bold>\<open>State, time and threads.\<close> A C++ object is a record that its methods take and return. A method that runs under
  a mutex is one function. A thread is split at the points where it waits, and a run is a sequence of
  such steps in any order. Random bits, generated keys and the time are arguments.

  \<^bold>\<open>Parameters.\<close> OpenSSL, protobuf codecs, descriptor pools, the file system and \<^verbatim>\<open>std::sort\<close> are arguments; what is
  relied on is stated in \<^verbatim>\<open>openssl_ok\<close>, \<^verbatim>\<open>signatures_fit\<close>, \<^verbatim>\<open>codec_ok\<close>, \<^verbatim>\<open>key_store_ok\<close> and \<^verbatim>\<open>sort_ok\<close>, each met by a
  concrete instance in the witnesses. Unforgeability of signatures and collision resistance are not
  assumed: the theorems speak of messages that verify.

  \<^bold>\<open>Bounds.\<close> The requirement parser may nest one step more than its text is long, the query parser four steps
  for each character and four more; both are shown never to run out. Loops over a connection end with its
  schedule. All other recursion is structural or has a termination proof. Fixed-width integers are
  words; a \<^verbatim>\<open>double\<close> of a time is a real number.

  \<^bold>\<open>Not modelled.\<close> The operating system layer (\<^verbatim>\<open>src/os\<close>) and the TCP and memory transports, which are system
  calls, sockets and threads around them: their effect is the schedule of a connection. The BSD sockets,
  sshd and httpd services, whose work is on sockets, processes and threads of the operating system. The
  second C++ client with its C interface and the clients in JavaScript, Python and Rust, which implement
  the same protocol again in other languages or for other programs. The programs' \<^verbatim>\<open>main\<close> functions, the tools
  and the scripts (command lines, configuration files, code generation), the integrations (patches to
  other programs), and ping tracing and lines on \<^verbatim>\<open>std::cerr\<close>, which influence nothing else. Of the JSON
  encoding the conversion between protobuf and JSON is a parameter. The locking order between mutexes
  is not modelled, so deadlocks are outside these theorems.
\<close>

section \<open>From client to client\<close>

lemma sign_turn_queues:
  assumes "signMessage (node_openssl c) (own_env c) (own_keyPair c) m = Inr block" "hasPrivateKey (node_openssl c) (own_keyPair c)"
    and "queueLimit (outgoingMessages (cc_encoding st)) = 0"
  shows "\<exists>c' st'. client_sign_turn randomId k st m c = Inr c' \<and> smap_find (connections c') k = Some st' \<and>
    messages (outgoingMessages (cc_encoding st')) = messages (outgoingMessages (cc_encoding st)) @ [m\<lparr>signature := Some block\<rparr>]"
  using assms
  by (simp add: client_sign_turn_def MessageQueueSign_handle_def MessageQueueSign_keyPair_def call_def Let_def
      client_sign_call_def mq_push_def)

lemma cached_key_verifies:
  assumes "openssl_ok lib" "signatures_fit lib" "signMessage lib (own_env rm) kp m = Inr block" "KeyPair_publicKey lib kp = Inr pk"
    and "nodeID lib kp = Inr who" "node_openssl rm = lib" "who \<noteq> keyNodeID rm"
    and "IdentityCache_get who (identityCache rm) = Some i" "public_key i = Some pk"
  shows "verified lib (own_env rm) (verificationKeyForNodeId rm) (m\<lparr>signature := Some block\<rparr>)"
proof -
  obtain vk where "fromPublicKey lib pk = Inr vk" "verifyMessageSignature lib (own_env rm) vk (m\<lparr>signature := Some block\<rparr>) block = Inr True"
    "nodeIdFromSignerField (bytes_or_default (signer block)) = Some who"
    using sign_then_verify [OF assms(1) _ assms(3,4)] assms(2,5) by (auto simp: signatures_fit_def)
  then show ?thesis
    using assms(6-9) by (simp add: verified_def verificationKeyForNodeId_def public_key_or_default_def)
qed

lemma toProtoNodeId_eq_iff: "toProtoNodeId a = toProtoNodeId b \<longleftrightarrow> a = b"
proof
  assume "toProtoNodeId a = toProtoNodeId b"
  then have "nodeIdFromSourceField (toProtoNodeId a) = nodeIdFromSourceField (toProtoNodeId b)" by simp
  then show "a = b" by simp
qed simp

lemma relay_turns:
  assumes "rm_ok rm" "verified (node_openssl rm) (own_env rm) (verificationKeyForNodeId rm) out" "destination out = Some d"
    and "d \<noteq> []" "d \<noteq> toProtoNodeId (keyNodeID rm)" "encoding_for d (activeEncodings rm) = Some a"
    and "authzQueue rm = Some q" "messages q = []" "queueLimit q = 0"
    and "\<And>b. b \<in> set (activeEncodings rm) \<Longrightarrow> queueLimit (outgoingMessages (encoding b)) = 0"
  shows "\<exists>r1 p p' r2. check_turn r s out rm = Inr r1 \<and> authzQueue r1 = Some p \<and> mq_tryPop p = (Some out, p') \<and>
    authz_turn rlib r s now out (r1\<lparr>authzQueue := Some p'\<rparr>) = Inr r2 \<and> with_outgoing out a \<in> set (activeEncodings r2)"
proof -
  let ?p = "q\<lparr>messages := [out]\<rparr>"
  let ?p' = "q\<lparr>messages := []\<rparr>"
  let ?r = "rm\<lparr>authzQueue := Some ?p'\<rparr>"
  have q: "check_turn r s out rm = Inr (rm\<lparr>authzQueue := Some ?p\<rparr>)" "mq_tryPop ?p = (Some out, ?p')"
    using check_turn_verified [OF assms(2,7,8,9)] by (simp_all add: mq_tryPop_def)
  have ok: "rm_ok ?r" using assms(1) by (simp add: rm_ok_def node_ok_def all_authentic_def)
  obtain who where who: "authentic (node_openssl rm) (own_env rm) who out"
    using verified_authentic [OF _ assms(2)] assms(1) by (auto simp: rm_ok_def)
  have "\<not> isForThisNode out ?r" using assms(3,5) by (simp add: isForThisNode_def)
  then obtain calls r2 where r2: "handleAuthorizedMessage now out ?r = Inr (calls, r2)"
    "activeEncodings r2 = map (\<lambda>b. if encoding_handle b = encoding_handle a then with_outgoing out b else b) (activeEncodings rm)"
    using authorized_relay [OF ok _ assms(3,4), of now] assms(6,10) by auto
  have "with_outgoing out a \<in> set (activeEncodings r2)"
    using encoding_for_active [OF assms(6)] r2(2) by (auto simp: image_iff intro!: bexI [of _ a])
  moreover have "authz_turn rlib r s now out ?r = Inr r2"
    using authorised_by_default [OF authentic_sender [OF who]] r2(1) by (simp add: authz_turn_def authz_call_of_def)
  ultimately show ?thesis using q by fastforce
qed

lemma dispatch_delivers:
  assumes "client_ok e" "destination m = Some (toProtoNodeId (keyNodeID e))" "queueLimit (inputQueue e) = 0"
  shows "\<exists>e'. dispatchIncomingMessage now m e = Inr e' \<and> messages (inputQueue e') = messages (inputQueue e) @ [m]"
proof -
  let ?e = "processExpiredAesKeys now e"
  have sweep: "base_change e ?e" by (rule base_change_aes) simp
  have "node_ok ?e" "inputQueue ?e = inputQueue e"
    using node_ok_sweep assms(1) base_change_keeps(6) [OF sweep] by (auto simp: client_ok_def)
  then obtain calls e1 where "node_observeMessage m ?e = Inr (calls, e1)" "inputQueue e1 = inputQueue e"
    using node_ok_observe [of ?e m] by auto
  then show ?thesis
    using assms(2,3) by (simp add: dispatchIncomingMessage_def client_isForThisNode_def enqueueInput_def mq_push_def Let_def)
qed


section \<open>A concrete network\<close>

lemma other_rm:
  obtains n :: "(nat, nat) rm" where "ResourceManager_new toy_openssl toy_derive empty_env 1 2 0 (Some 8) = Inr n"
    "own_env n = empty_env" "own_keyPair n = Some 8" "authzQueue n = Some (started_queue 1)"
  by (simp add: ResourceManager_new_def RSPNode_new_def node_base_new_def nodeID_def toy_openssl_def Let_def
      node_base.defs RSPNode.defs ResourceManager.defs KeyPair_duplicate_def KeyPair_new_def verifyP256_def
      addIdentityObservedCallback_def mq_start_def setWorkerCount_def MessageQueue_new_def rebuildWorkers_def startWorkersLocked_def)

lemma toy_input_unbounded:
  "RSPClient_new toy_openssl toy_derive empty_env 1 2 z (Some 7) = Inr n \<Longrightarrow> queueLimit (inputQueue n) = 0"
  by (auto simp: RSPClient_new_def RSPNode_new_def node_base_new_def nodeID_def toy_openssl_def Let_def client_fields_def
      node_base.defs RSPNode.defs KeyPair_duplicate_def KeyPair_new_def verifyP256_def res_bind_eq_Inr
      addIdentityObservedCallback_def mq_start_def setWorkerCount_def MessageQueue_new_def rebuildWorkers_def startWorkersLocked_def)

lemma toy_request_signs: "\<exists>block. signMessage toy_openssl empty_env (Some 7) (toy_request to) = Inr block"
proof -
  have "\<exists>s. hashRSPMessage empty_env (toy_request to) = Inr s"
    by (simp add: hashRSPMessage_def toy_request_def sample_message_def hash_core_23_def)
  then show ?thesis
    by (auto simp: signMessage_def messageSignatureInput_def computeMessageHash_def signBlock_def
        KeyPair_sign_def hasPrivateKey_def nodeID_def algorithmForKey_def verifyP256_def toy_openssl_def Let_def)
qed


end
